(* ===== verification/Prelude.thy ===== *)
theory Prelude
  imports Main "HOL-Library.Word" "HOL-Library.Char_ord" "HOL-Library.List_Lexorder"
begin

text \<open>
  Shared vocabulary of the development: the Go values the node computes with (byte
  strings, slices that may be nil, errors as values, maps), the state monad in which the
  stateful code is written (a run may panic, and deferred calls run on every exit), and
  the two reasoning tools the component theories share: frame relations closed under the
  monad's operations, and the laws of Go maps.
\<close>

section \<open>Collections of rules\<close>

named_theorems go_defs \<open>definitions of the monad's operations, unfolded to run a program\<close>
named_theorems codec_intro \<open>round-trip facts of encoders and decoders\<close>

section \<open>Go values\<close>

text \<open>
  A Go string and a byte slice are both sequences of bytes; an Isabelle \<^typ>\<open>char\<close> is one
  byte, so both are \<^typ>\<open>char list\<close> and the conversions between them are the identity.
  Where the code tells a nil slice from an empty one the model uses \<open>slice\<close>.
\<close>

type_synonym bytes = "char list"
type_synonym slice = "bytes option"
type_synonym int64 = "64 word"
type_synonym uint64 = "64 word"

definition sl_bytes :: "slice \<Rightarrow> bytes" where
  "sl_bytes x = (case x of None \<Rightarrow> [] | Some b \<Rightarrow> b)"

lemma sl_bytes_simps [simp]: "sl_bytes None = []" "sl_bytes (Some b) = b"
  by (simp_all add: sl_bytes_def)

text \<open>
  Errors are values. The two sentinels are the ones the code tests for
  (\<open>routing.ErrNotFound\<close>, \<open>datastore.ErrNotFound\<close>); \<open>Errorf\<close> is \<open>fmt.Errorf\<close> without and
  \<open>Wrapf\<close> with a \<open>%w\<close> verb; \<open>ErrJSON\<close> is any error of \<open>encoding/json\<close>, \<open>ErrHex\<close> of
  \<open>encoding/hex\<close>, \<open>ErrParse\<close> of \<open>strconv\<close>; \<open>ErrExt\<close> any other error of a library.
\<close>

datatype goerr =
    ErrRoutingNotFound
  | ErrDatastoreNotFound
  | ErrJSON
  | ErrHex
  | ErrParse
  | Errorf string
  | Wrapf string goerr
  | ErrExt string

fun errors_Is :: "goerr \<Rightarrow> goerr \<Rightarrow> bool" where
  "errors_Is (Wrapf m e) t = (Wrapf m e = t \<or> errors_Is e t)"
| "errors_Is e t = (e = t)"

lemma errors_Is_refl [simp]: "errors_Is e e"
  by (cases e) simp_all

lemma errors_Is_RoutingNotFound_simps [simp]:
  "\<not> errors_Is ErrJSON ErrRoutingNotFound"
  "\<not> errors_Is (Errorf m) ErrRoutingNotFound"
  by simp_all

section \<open>Programs: state, panics, deferred calls\<close>

datatype 'a outcome = Done 'a | Panic string

type_synonym ('s, 'a) go = "'s \<Rightarrow> 'a outcome \<times> 's"

definition gret :: "'a \<Rightarrow> ('s, 'a) go" where
  [go_defs]: "gret x = (\<lambda>s. (Done x, s))"

definition gpanic :: "string \<Rightarrow> ('s, 'a) go" where
  [go_defs]: "gpanic p = (\<lambda>s. (Panic p, s))"

definition glift :: "'a outcome \<Rightarrow> ('s, 'a) go" where
  [go_defs]: "glift r = (\<lambda>s. (r, s))"

definition gbind :: "('s, 'a) go \<Rightarrow> ('a \<Rightarrow> ('s, 'b) go) \<Rightarrow> ('s, 'b) go" where
  "gbind m f = (\<lambda>s. case m s of (Done x, s') \<Rightarrow> f x s' | (Panic p, s') \<Rightarrow> (Panic p, s'))"

text \<open>\<open>defer c\<close> in a function whose remaining body is \<open>m\<close>: \<open>c\<close> runs on return and on panic.\<close>

definition gdefer :: "('s, 'b) go \<Rightarrow> ('s, 'a) go \<Rightarrow> ('s, 'a) go" where
  "gdefer c m = (\<lambda>s. case m s of (r, s1) \<Rightarrow>
     (case c s1 of (Done _, s2) \<Rightarrow> (r, s2) | (Panic p, s2) \<Rightarrow> (Panic p, s2)))"

definition gmodify :: "('s \<Rightarrow> 's) \<Rightarrow> ('s, unit) go" where
  [go_defs]: "gmodify f = (\<lambda>s. (Done (), f s))"

definition gread :: "('s \<Rightarrow> 'a) \<Rightarrow> ('s, 'a) go" where
  [go_defs]: "gread f = (\<lambda>s. (Done (f s), s))"

lemma gbind_run: "gbind m f s = (case m s of (Done x, s') \<Rightarrow> f x s' | (Panic p, s') \<Rightarrow> (Panic p, s'))"
  by (simp add: gbind_def)

lemma gbind_Done: "m s = (Done x, s') \<Longrightarrow> gbind m f s = f x s'"
  by (simp add: gbind_def)

lemma gbind_Panic: "m s = (Panic p, s') \<Longrightarrow> gbind m f s = (Panic p, s')"
  by (simp add: gbind_def)

lemma glift_DoneE: "glift x s = (Done y, s') \<Longrightarrow> x = Done y \<and> s' = s"
  by (cases x) (auto simp: glift_def gret_def gpanic_def)

lemma gbind_DoneE:
  assumes "gbind m f s = (Done y, s')"
  obtains x s1 where "m s = (Done x, s1)" "f x s1 = (Done y, s')"
  using assms by (auto simp: gbind_def split: prod.splits outcome.splits)

lemma gbind_gret [simp]: "gbind (gret x) f = f x"
  by (simp add: gbind_def gret_def)

lemma gbind_gpanic [simp]: "gbind (gpanic p) f = gpanic p"
  by (simp add: gbind_def gpanic_def)

lemma gbind_assoc: "gbind (gbind m f) g = gbind m (\<lambda>x. gbind (f x) g)"
  by (rule ext) (simp add: gbind_def split: prod.splits outcome.splits)

lemma gdefer_Done:
  "m s = (r, s1) \<Longrightarrow> c s1 = (Done y, s2) \<Longrightarrow> gdefer c m s = (r, s2)"
  by (simp add: gdefer_def)

section \<open>Frame relations\<close>

text \<open>
  \<open>keeps R m\<close>: every run of \<open>m\<close>, also one that panics, ends in a state related by \<open>R\<close> to the
  one it started from. For a reflexive and transitive \<open>R\<close> it is preserved by every
  operation of the monad, so a frame fact of a procedure follows from its calls.
\<close>

definition keeps :: "('s \<Rightarrow> 's \<Rightarrow> bool) \<Rightarrow> ('s, 'a) go \<Rightarrow> bool" where
  "keeps R m \<longleftrightarrow> (\<forall>s. R s (snd (m s)))"

lemma keepsD: "keeps R m \<Longrightarrow> m s = (r, s') \<Longrightarrow> R s s'"
  unfolding keeps_def by (metis snd_conv)

lemma keepsI: "(\<And>s r s'. m s = (r, s') \<Longrightarrow> R s s') \<Longrightarrow> keeps R m"
  unfolding keeps_def by (metis surjective_pairing)

locale frame =
  fixes R :: "'s \<Rightarrow> 's \<Rightarrow> bool"
  assumes frame_refl: "R s s"
    and frame_trans: "R s t \<Longrightarrow> R t u \<Longrightarrow> R s u"
begin

lemma keeps_gret: "keeps R (gret x)"
  by (simp add: keeps_def gret_def frame_refl)

lemma keeps_gpanic: "keeps R (gpanic p)"
  by (simp add: keeps_def gpanic_def frame_refl)

lemma keeps_glift: "keeps R (glift r)"
  by (simp add: keeps_def glift_def frame_refl)

lemma keeps_gread: "keeps R (gread f)"
  by (simp add: keeps_def gread_def frame_refl)

lemma keeps_gbind:
  assumes "keeps R m" and "\<And>x. keeps R (f x)"
  shows "keeps R (gbind m f)"
proof (rule keepsI)
  fix s r s' assume run: "gbind m f s = (r, s')"
  obtain r1 s1 where m: "m s = (r1, s1)" by fastforce
  have 1: "R s s1" using assms(1) m by (rule keepsD)
  show "R s s'"
  proof (cases r1)
    case (Done x)
    with run m have "f x s1 = (r, s')" by (simp add: gbind_def)
    then have "R s1 s'" using assms(2) keepsD by metis
    with 1 show ?thesis by (rule frame_trans)
  next
    case (Panic p)
    with run m 1 show ?thesis by (simp add: gbind_def)
  qed
qed

lemma keeps_gdefer:
  assumes "keeps R c" and "keeps R m"
  shows "keeps R (gdefer c m)"
proof (rule keepsI)
  fix s r s' assume run: "gdefer c m s = (r, s')"
  obtain r1 s1 where m: "m s = (r1, s1)" by fastforce
  obtain r2 s2 where c: "c s1 = (r2, s2)" by fastforce
  have "R s s1" "R s1 s2"
    using keepsD[OF assms(2) m] keepsD[OF assms(1) c] by auto
  moreover have "s' = s2"
    using run m c by (cases r2) (simp_all add: gdefer_def)
  ultimately show "R s s'" using frame_trans by blast
qed

lemma keeps_if: "(b \<Longrightarrow> keeps R m) \<Longrightarrow> (\<not> b \<Longrightarrow> keeps R n) \<Longrightarrow> keeps R (if b then m else n)"
  by simp

lemma keeps_case_sum:
  "(\<And>e. keeps R (f e)) \<Longrightarrow> (\<And>x. keeps R (g x)) \<Longrightarrow> keeps R (case r of Inl e \<Rightarrow> f e | Inr x \<Rightarrow> g x)"
  by (simp split: sum.split)

lemma keeps_case_option:
  "keeps R m \<Longrightarrow> (\<And>x. keeps R (f x)) \<Longrightarrow> keeps R (case r of None \<Rightarrow> m | Some x \<Rightarrow> f x)"
  by (simp split: option.split)

lemma keeps_case_prod: "(\<And>x y. keeps R (f x y)) \<Longrightarrow> keeps R (case r of (x, y) \<Rightarrow> f x y)"
  by (simp split: prod.split)

lemma keeps_let: "(\<And>x. keeps R (f x)) \<Longrightarrow> keeps R (let x = e in f x)"
  by simp

lemmas keeps_rules =
  keeps_gret keeps_gpanic keeps_glift keeps_gread keeps_gbind keeps_gdefer keeps_if
  keeps_case_sum keeps_case_option keeps_case_prod keeps_let

end

section \<open>Go maps\<close>

text \<open>
  A Go map with ordered keys is kept as the list of its entries in increasing key order,
  which makes equality of maps equality of lists and the model executable. The order is
  the one in which \<open>encoding/json\<close> writes string keys; where the code ranges over a map,
  the component's lemmas say that the result does not depend on it.
\<close>

type_synonym ('k, 'v) gomap = "('k \<times> 'v) list"

definition gm_ok :: "('k::linorder, 'v) gomap \<Rightarrow> bool" where
  "gm_ok m = sorted_wrt (<) (map fst m)"

fun gm_get :: "('k, 'v) gomap \<Rightarrow> 'k \<Rightarrow> 'v option" where
  "gm_get [] k = None"
| "gm_get ((k', v) # m) k = (if k' = k then Some v else gm_get m k)"

fun gm_put :: "'k::linorder \<Rightarrow> 'v \<Rightarrow> ('k, 'v) gomap \<Rightarrow> ('k, 'v) gomap" where
  "gm_put k v [] = [(k, v)]"
| "gm_put k v ((k', v') # m) =
     (if k < k' then (k, v) # (k', v') # m
      else if k = k' then (k, v) # m
      else (k', v') # gm_put k v m)"

fun gm_del :: "'k \<Rightarrow> ('k, 'v) gomap \<Rightarrow> ('k, 'v) gomap" where
  "gm_del k [] = []"
| "gm_del k ((k', v) # m) = (if k' = k then gm_del k m else (k', v) # gm_del k m)"

definition gm_of_list :: "('k::linorder \<times> 'v) list \<Rightarrow> ('k, 'v) gomap" where
  "gm_of_list kvs = foldl (\<lambda>m kv. gm_put (fst kv) (snd kv) m) [] kvs"

lemma gm_ok_Nil [simp]: "gm_ok []"
  by (simp add: gm_ok_def)

lemma gm_ok_Cons [simp]: "gm_ok ((k, v) # m) \<longleftrightarrow> (\<forall>k' \<in> fst ` set m. k < k') \<and> gm_ok m"
  by (auto simp: gm_ok_def)

lemma gm_get_put [simp]: "gm_get (gm_put k v m) x = (if x = k then Some v else gm_get m x)"
  by (induction k v m rule: gm_put.induct) auto

lemma gm_get_del [simp]: "gm_get (gm_del k m) k' = (if k' = k then None else gm_get m k')"
  by (induction m) auto

lemma keys_gm_put: "fst ` set (gm_put k v m) = insert k (fst ` set m)"
  by (induction k v m rule: gm_put.induct) auto

lemma keys_gm_del: "fst ` set (gm_del k m) = fst ` set m - {k}"
proof (induction m)
  case (Cons kv m)
  then show ?case by (cases kv) (auto simp: insert_Diff_if)
qed simp

lemma set_gm_put: "set (gm_put k v m) \<subseteq> insert (k, v) (set m)"
  by (induction k v m rule: gm_put.induct) auto

lemma gm_ok_put [simp]: "gm_ok m \<Longrightarrow> gm_ok (gm_put k v m)"
  by (induction k v m rule: gm_put.induct) (auto simp: keys_gm_put)

lemma gm_ok_del [simp]: "gm_ok m \<Longrightarrow> gm_ok (gm_del k m)"
  by (induction m) (auto simp: keys_gm_del)

lemma gm_get_None: "gm_get m k = None \<longleftrightarrow> k \<notin> fst ` set m"
proof (induction m)
  case (Cons kv m)
  then show ?case by (cases kv) auto
qed simp

lemma gm_get_Some_in: "gm_get m k = Some v \<Longrightarrow> (k, v) \<in> set m"
  by (induction m) (auto split: if_splits)

lemma gm_get_in: "gm_ok m \<Longrightarrow> (k, v) \<in> set m \<Longrightarrow> gm_get m k = Some v"
  by (induction m) (force split: if_splits)+

lemma gm_put_idem: "gm_ok m \<Longrightarrow> gm_get m k = Some v \<Longrightarrow> gm_put k v m = m"
  by (induction k v m rule: gm_put.induct) (force dest: gm_get_Some_in split: if_splits)+

lemma length_gm_put:
  "gm_ok m \<Longrightarrow> length (gm_put k v m) = (if gm_get m k = None then Suc (length m) else length m)"
  by (induction k v m rule: gm_put.induct) (auto simp: gm_get_None)

lemma gm_put_last: "(\<forall>k' \<in> fst ` set m. k' < k) \<Longrightarrow> gm_put k v m = m @ [(k, v)]"
  by (induction k v m rule: gm_put.induct) auto

lemma gm_ok_append:
  "gm_ok (m @ n) \<longleftrightarrow> gm_ok m \<and> gm_ok n \<and> (\<forall>k \<in> fst ` set m. \<forall>k' \<in> fst ` set n. k < k')"
  by (auto simp: gm_ok_def sorted_wrt_append)

lemma gm_of_list_acc: "gm_ok (m @ n) \<Longrightarrow> foldl (\<lambda>m kv. gm_put (fst kv) (snd kv) m) m n = m @ n"
proof (induction n arbitrary: m)
  case (Cons kv n)
  from Cons.prems have "gm_put (fst kv) (snd kv) m = m @ [kv]"
    by (intro gm_put_last[of m "fst kv" "snd kv", simplified]) (cases kv; auto simp: gm_ok_append)
  with Cons.IH[of "m @ [kv]"] Cons.prems show ?case by simp
qed simp

lemma gm_of_list_id: "gm_ok m \<Longrightarrow> gm_of_list m = m"
  using gm_of_list_acc[of "[]" m] by (simp add: gm_of_list_def)

text \<open>
  What the components use of a map, as an interface; the list of entries provides it.
\<close>

locale go_map =
  fixes get :: "'m \<Rightarrow> 'k \<Rightarrow> 'v option"
    and put :: "'k \<Rightarrow> 'v \<Rightarrow> 'm \<Rightarrow> 'm"
    and del :: "'k \<Rightarrow> 'm \<Rightarrow> 'm"
    and size_of :: "'m \<Rightarrow> nat"
    and ok :: "'m \<Rightarrow> bool"
  assumes map_get_put: "ok m \<Longrightarrow> get (put k v m) k' = (if k' = k then Some v else get m k')"
    and map_get_del: "ok m \<Longrightarrow> get (del k m) k' = (if k' = k then None else get m k')"
    and map_ok_put: "ok m \<Longrightarrow> ok (put k v m)"
    and map_ok_del: "ok m \<Longrightarrow> ok (del k m)"
    and map_size_put: "ok m \<Longrightarrow> size_of (put k v m) = (if get m k = None then Suc (size_of m) else size_of m)"
begin

lemma put_put_same: "ok m \<Longrightarrow> get (put k v' (put k v m)) = get (put k v' m)"
  by (rule ext) (simp add: map_get_put map_ok_put)

lemma del_put_fresh: "ok m \<Longrightarrow> get m k = None \<Longrightarrow> get (del k (put k v m)) = get m"
  by (rule ext) (simp add: map_get_put map_get_del map_ok_put)

lemma size_put_known: "ok m \<Longrightarrow> size_of (put k v' (put k v m)) = size_of (put k v m)"
  by (simp add: map_size_put map_get_put map_ok_put)

end

interpretation gm: go_map gm_get gm_put gm_del length gm_ok
  by unfold_locales (simp_all add: length_gm_put)

end
