(* ===== verification/GoStd.thy ===== *)
theory GoStd
  imports Prelude
begin

text \<open>
  The parts of the Go standard library the node's own code calls: \<open>encoding/hex\<close>,
  \<open>strconv\<close> on integers, \<open>encoding/binary\<close> in big-endian order and the functions of
  \<open>strings\<close>, with the round trips the rest of the development uses. \<open>strings.ToLower\<close> and
  \<open>strings.EqualFold\<close> act on the ASCII letters; other bytes are left as they are.
\<close>

section \<open>Hexadecimal (encoding/hex)\<close>

definition hex_digit :: "nat \<Rightarrow> char" where
  "hex_digit n = (if n < 10 then char_of (48 + n) else char_of (87 + n))"

definition hex_val :: "char \<Rightarrow> nat option" where
  "hex_val c = (let n = of_char c in
     if 48 \<le> n \<and> n \<le> 57 then Some (n - 48)
     else if 97 \<le> n \<and> n \<le> 102 then Some (n - 87)
     else if 65 \<le> n \<and> n \<le> 70 then Some (n - 55)
     else None)"

fun hex_EncodeToString :: "bytes \<Rightarrow> string" where
  "hex_EncodeToString [] = []"
| "hex_EncodeToString (c # cs) =
     hex_digit (of_char c div 16) # hex_digit (of_char c mod 16) # hex_EncodeToString cs"

fun hex_DecodeString :: "string \<Rightarrow> goerr + bytes" where
  "hex_DecodeString [] = Inr []"
| "hex_DecodeString [c] = Inl ErrHex"
| "hex_DecodeString (a # b # cs) =
     (case (hex_val a, hex_val b) of
        (Some x, Some y) \<Rightarrow>
          (case hex_DecodeString cs of
             Inl e \<Rightarrow> Inl e
           | Inr bs \<Rightarrow> Inr (char_of (16 * x + y) # bs))
      | _ \<Rightarrow> Inl ErrHex)"

lemma hex_val_digit: "n < 16 \<Longrightarrow> hex_val (hex_digit n) = Some n"
  by (simp add: hex_val_def hex_digit_def Let_def)

lemma of_char_bound: "of_char (c::char) < (256::nat)"
  by (rule nat_of_char_less_256)

lemma hex_pair: "char_of (16 * (of_char c div 16) + of_char c mod 16 :: nat) = (c::char)"
  by (simp add: mult_div_mod_eq)

lemma hex_roundtrip [simp]: "hex_DecodeString (hex_EncodeToString bs) = Inr bs"
proof (induction bs)
  case (Cons c cs)
  have "(of_char c :: nat) div 16 < 16" using of_char_bound[of c] by linarith
  then show ?case using Cons by (simp add: hex_val_digit hex_pair)
qed simp

lemma hex_inj [simp]: "hex_EncodeToString a = hex_EncodeToString b \<longleftrightarrow> a = b"
  by (metis Inr_inject hex_roundtrip)

lemma hex_length [simp]: "length (hex_EncodeToString bs) = 2 * length bs"
  by (induction bs) simp_all

lemma hex_Nil_iff [simp]: "hex_EncodeToString bs = [] \<longleftrightarrow> bs = []" "[] = hex_EncodeToString bs \<longleftrightarrow> bs = []"
  by (cases bs; simp)+

lemma hex_DecodeString_length:
  "hex_DecodeString s = Inr bs \<Longrightarrow> length s = 2 * length bs"
  by (induction s arbitrary: bs rule: hex_DecodeString.induct)
     (auto split: option.splits sum.splits)

section \<open>Decimal numbers (strconv, fmt)\<close>

definition digit_char :: "nat \<Rightarrow> char" where
  "digit_char d = char_of (48 + d)"

definition is_digit :: "char \<Rightarrow> bool" where
  "is_digit c = (48 \<le> (of_char c :: nat) \<and> (of_char c :: nat) \<le> 57)"

definition digit_val :: "char \<Rightarrow> nat" where
  "digit_val c = of_char c - 48"

fun nat_str :: "nat \<Rightarrow> string" where
  "nat_str n = (if n < 10 then [digit_char n] else nat_str (n div 10) @ [digit_char (n mod 10)])"

declare nat_str.simps [simp del]

fun digits_val :: "nat \<Rightarrow> string \<Rightarrow> nat option" where
  "digits_val acc [] = Some acc"
| "digits_val acc (c # cs) = (if is_digit c then digits_val (10 * acc + digit_val c) cs else None)"

definition int_str :: "int \<Rightarrow> string" where
  "int_str i = (if i < 0 then CHR ''-'' # nat_str (nat (- i)) else nat_str (nat i))"

definition ParseUint :: "string \<Rightarrow> goerr + uint64" where
  "ParseUint s = (if s = [] then Inl ErrParse else
     (case digits_val 0 s of
        None \<Rightarrow> Inl ErrParse
      | Some n \<Rightarrow> if n < 2 ^ 64 then Inr (of_nat n) else Inl ErrParse))"

definition ParseInt :: "string \<Rightarrow> goerr + int64" where
  "ParseInt s =
     (let neg = (s \<noteq> [] \<and> hd s = CHR ''-'');
          ds = (if s \<noteq> [] \<and> (hd s = CHR ''-'' \<or> hd s = CHR ''+'') then tl s else s)
      in if ds = [] then Inl ErrParse else
         (case digits_val 0 ds of
            None \<Rightarrow> Inl ErrParse
          | Some n \<Rightarrow>
              if neg then (if n \<le> 2 ^ 63 then Inr (- of_nat n) else Inl ErrParse)
              else (if n < 2 ^ 63 then Inr (of_nat n) else Inl ErrParse)))"

lemma digit_char_simps [simp]:
  "d < 10 \<Longrightarrow> is_digit (digit_char d)"
  "d < 10 \<Longrightarrow> digit_val (digit_char d) = d"
  by (simp_all add: is_digit_def digit_char_def digit_val_def)

lemma digits_val_append:
  "digits_val acc (xs @ ys) = (case digits_val acc xs of None \<Rightarrow> None | Some a \<Rightarrow> digits_val a ys)"
  by (induction acc xs rule: digits_val.induct) auto

lemma digits_val_nat_str: "digits_val 0 (nat_str n) = Some n"
proof (induction n rule: nat_str.induct)
  case (1 n)
  show ?case
  proof (cases "n < 10")
    case True
    then show ?thesis by (subst nat_str.simps) simp
  next
    case False
    with 1 show ?thesis by (subst nat_str.simps) (simp add: digits_val_append)
  qed
qed

lemma nat_str_digits: "c \<in> set (nat_str n) \<Longrightarrow> is_digit c"
proof (induction n rule: nat_str.induct)
  case (1 n)
  then show ?case by (subst (asm) (2) nat_str.simps) (auto split: if_splits)
qed

lemma nat_str_Nil [simp]: "nat_str n \<noteq> []"
  by (subst nat_str.simps) simp

lemma nat_str_inj [simp]: "nat_str a = nat_str b \<longleftrightarrow> a = b"
  by (metis digits_val_nat_str option.inject)

lemma ParseUint_roundtrip [simp]: "ParseUint (nat_str (unat w)) = Inr (w :: uint64)"
proof -
  have "unat w < 2 ^ 64" using unsigned_less[of w] by simp
  then show ?thesis by (simp add: ParseUint_def digits_val_nat_str)
qed

lemma not_digit_sign: "is_digit c \<Longrightarrow> c \<noteq> CHR ''-'' \<and> c \<noteq> CHR ''+''"
  by (auto simp: is_digit_def)

lemma hd_nat_str: "hd (nat_str n) \<noteq> CHR ''-'' \<and> hd (nat_str n) \<noteq> CHR ''+''"
  by (rule not_digit_sign, rule nat_str_digits[of _ n], simp)

lemma sint64_bounds: "- (2 ^ 63) \<le> sint (w :: int64) \<and> sint w < 2 ^ 63"
  using sint_greater_eq[of w] sint_less[of w] by simp

lemma ParseInt_roundtrip [simp]: "ParseInt (int_str (sint w)) = Inr (w :: int64)"
proof (cases "sint w < 0")
  case True
  have le: "nat (- sint w) \<le> 2 ^ 63" using sint64_bounds[of w] by (simp add: nat_le_iff)
  have "- of_nat (nat (- sint w)) = (of_int (sint w) :: int64)"
    using True by (metis minus_minus neg_0_le_iff_le of_int_minus of_int_of_nat_eq int_nat_eq less_imp_le)
  then have "- of_nat (nat (- sint w)) = w" by simp
  with True le show ?thesis
    by (simp add: ParseInt_def int_str_def digits_val_nat_str)
next
  case False
  have lt: "nat (sint w) < 2 ^ 63" using sint64_bounds[of w] False by (simp add: nat_less_iff)
  have "of_nat (nat (sint w)) = (of_int (sint w) :: int64)"
    using False by simp
  then have "of_nat (nat (sint w)) = w" by simp
  with False lt show ?thesis
    by (simp add: ParseInt_def int_str_def digits_val_nat_str hd_nat_str)
qed

section \<open>Big-endian words (encoding/binary)\<close>

definition be_PutUint64 :: "uint64 \<Rightarrow> bytes" where
  "be_PutUint64 w = map (\<lambda>i. char_of (uint w div 256 ^ (7 - i))) [0..<8]"

definition be_value :: "bytes \<Rightarrow> int" where
  "be_value bs = foldl (\<lambda>a c. 256 * a + of_char c) 0 bs"

definition be_Uint64 :: "bytes \<Rightarrow> uint64 outcome" where
  "be_Uint64 bs = (if length bs < 8 then Panic ''index out of range''
     else Done (of_int (be_value (take 8 bs))))"

lemma be_PutUint64_length [simp]: "length (be_PutUint64 w) = 8"
  by (simp add: be_PutUint64_def)

lemma be_fold_digits:
  fixes n :: int
  shows "foldl (\<lambda>a c. 256 * a + of_char c) 0 (map (\<lambda>i. char_of (n div 256 ^ (k - 1 - i))) [0..<k]) = n mod 256 ^ k"
proof (induction k arbitrary: n)
  case (Suc k)
  have eq: "map (\<lambda>i. char_of (n div 256 ^ (Suc k - 1 - i)) :: char) [0..<k] =
        map (\<lambda>i. char_of (n div 256 div 256 ^ (k - 1 - i))) [0..<k]"
  proof (rule map_cong[OF refl])
    fix i assume "i \<in> set [0..<k]"
    then have "Suc k - 1 - i = Suc (k - 1 - i)" by auto
    then show "(char_of (n div 256 ^ (Suc k - 1 - i)) :: char) = char_of (n div 256 div 256 ^ (k - 1 - i))"
      by (simp add: zdiv_zmult2_eq)
  qed
  have "foldl (\<lambda>a c. 256 * a + of_char c) 0 (map (\<lambda>i. char_of (n div 256 ^ (Suc k - 1 - i))) [0..<Suc k])
        = 256 * (n div 256 mod 256 ^ k) + n mod 256"
    using Suc.IH[of "n div 256"] by (simp only: upt_Suc le0 if_True map_append foldl_append eq) simp
  also have "\<dots> = n mod 256 ^ Suc k"
    by (simp add: zmod_zmult2_eq)
  finally show ?case .
qed simp

lemma be_roundtrip [simp]: "be_Uint64 (be_PutUint64 w) = Done w"
proof -
  have b: "0 \<le> uint w" "uint w < 256 ^ 8" using uint_bounded[of w] by simp_all
  have "be_value (be_PutUint64 w) = uint w"
    using be_fold_digits[of "uint w" 8] b by (simp add: be_PutUint64_def be_value_def)
  then show ?thesis by (simp add: be_Uint64_def)
qed

section \<open>Strings\<close>

definition lower_char :: "char \<Rightarrow> char" where
  "lower_char c = (let n = of_char c :: nat in if 65 \<le> n \<and> n \<le> 90 then char_of (n + 32) else c)"

definition ToLower :: "string \<Rightarrow> string" where
  "ToLower s = map lower_char s"

definition EqualFold :: "string \<Rightarrow> string \<Rightarrow> bool" where
  "EqualFold s t = (ToLower s = ToLower t)"

fun HasPrefix :: "string \<Rightarrow> string \<Rightarrow> bool" where
  "HasPrefix s [] = True"
| "HasPrefix [] (p # ps) = False"
| "HasPrefix (c # cs) (p # ps) = (c = p \<and> HasPrefix cs ps)"

definition TrimPrefix :: "string \<Rightarrow> string \<Rightarrow> string" where
  "TrimPrefix s p = (if HasPrefix s p then drop (length p) s else s)"

text \<open>\<open>strings.TrimSpace\<close> on ASCII text.\<close>

definition is_space :: "char \<Rightarrow> bool" where
  "is_space c = (of_char c \<in> {9, 10, 11, 12, 13, 32 :: nat})"

definition TrimSpace :: "string \<Rightarrow> string" where
  "TrimSpace s = rev (dropWhile is_space (rev (dropWhile is_space s)))"

fun Contains :: "string \<Rightarrow> string \<Rightarrow> bool" where
  "Contains [] p = (p = [])"
| "Contains (c # cs) p = (HasPrefix (c # cs) p \<or> Contains cs p)"

text \<open>\<open>strings.Split(s, sep)\<close> for a one-byte separator.\<close>

fun Split :: "string \<Rightarrow> char \<Rightarrow> string list" where
  "Split [] sep = [[]]"
| "Split (c # cs) sep =
     (if c = sep then [] # Split cs sep
      else (case Split cs sep of [] \<Rightarrow> [[c]] | l # ls \<Rightarrow> (c # l) # ls))"

text \<open>\<open>strings.SplitN(s, sep, 2)\<close> for a one-byte separator: at most one cut, at the first.\<close>

fun SplitN2 :: "string \<Rightarrow> char \<Rightarrow> string list" where
  "SplitN2 [] sep = [[]]"
| "SplitN2 (c # cs) sep =
     (if c = sep then [[], cs]
      else (case SplitN2 cs sep of [] \<Rightarrow> [[c]] | l # ls \<Rightarrow> (c # l) # ls))"

lemma lower_lower [simp]: "lower_char (lower_char c) = lower_char c"
  by (simp add: lower_char_def Let_def)

lemma ToLower_idem [simp]: "ToLower (ToLower s) = ToLower s"
  by (simp add: ToLower_def)

lemma ToLower_append [simp]: "ToLower (a @ b) = ToLower a @ ToLower b"
  by (simp add: ToLower_def)

lemma HasPrefix_append [simp]: "HasPrefix (p @ s) p"
  by (induction p) simp_all

lemma HasPrefix_iff: "HasPrefix s p \<longleftrightarrow> (\<exists>r. s = p @ r)"
  by (induction s p rule: HasPrefix.induct) auto

lemma Split_nonempty [simp]: "Split s sep \<noteq> []"
  by (induction s sep rule: Split.induct) (auto split: list.splits)

lemma Split_no_sep: "sep \<notin> set s \<Longrightarrow> Split s sep = [s]"
  by (induction s sep rule: Split.induct) auto

lemma Split_join:
  "sep \<notin> set l \<Longrightarrow> Split (l @ sep # rest) sep = l # Split rest sep"
  by (induction l) auto

lemma Split_parts: "l \<in> set (Split s sep) \<Longrightarrow> sep \<notin> set l"
  by (induction s sep arbitrary: l rule: Split.induct) (auto split: list.splits if_splits)

end
