(* ===== verification/GoJson.thy ===== *)
theory GoJson
  imports GoStd
begin

text \<open>
  \<open>encoding/json\<close> at the level of bytes: JSON values, the compact text \<open>json.Marshal\<close> writes
  (with its escaping of HTML characters, line separators and invalid UTF-8), and the reader
  behind \<open>json.Unmarshal\<close> (scanner, string unquoting with surrogates, number grammar). A
  number is kept as its literal, so it is decoded by \<open>strconv\<close> where a field wants an
  integer. The last section proves that reading what was written gives the value back.
  Go's limit of 10000 nested arrays and objects is not modelled.
\<close>

section \<open>Values and tokens\<close>

datatype json =
    JNull
  | JBool bool
  | JNum string
  | JStr bytes
  | JArr "json list"
  | JObj "(bytes \<times> json) list"

datatype token =
    TLBrack | TRBrack | TLBrace | TRBrace | TComma | TColon
  | TNull | TTrue | TFalse | TNum string | TStr bytes

section \<open>Strings\<close>

definition in_range :: "nat \<Rightarrow> nat \<Rightarrow> char \<Rightarrow> bool" where
  "in_range lo hi c = (lo \<le> of_char c \<and> of_char c \<le> hi)"

text \<open>Length of the UTF-8 encoded character at the head of a byte string, 0 if it is invalid.\<close>

fun utf8_len :: "bytes \<Rightarrow> nat" where
  "utf8_len [] = 0"
| "utf8_len (a # r) =
     (let x = of_char a :: nat in
      if x < 0x80 then 1
      else if x < 0xC2 then 0
      else if x \<le> 0xDF then
        (case r of b # _ \<Rightarrow> if in_range 0x80 0xBF b then 2 else 0 | _ \<Rightarrow> 0)
      else if x \<le> 0xEF then
        (case r of b # c # _ \<Rightarrow>
           if in_range (if x = 0xE0 then 0xA0 else 0x80) (if x = 0xED then 0x9F else 0xBF) b
              \<and> in_range 0x80 0xBF c then 3 else 0
         | _ \<Rightarrow> 0)
      else if x \<le> 0xF4 then
        (case r of b # c # d # _ \<Rightarrow>
           if in_range (if x = 0xF0 then 0x90 else 0x80) (if x = 0xF4 then 0x8F else 0xBF) b
              \<and> in_range 0x80 0xBF c \<and> in_range 0x80 0xBF d then 4 else 0
         | _ \<Rightarrow> 0)
      else 0)"

definition utf8_encode :: "nat \<Rightarrow> bytes" where
  "utf8_encode n =
     (if n < 0x80 then [char_of n]
      else if n < 0x800 then [char_of (0xC0 + n div 64), char_of (0x80 + n mod 64)]
      else if n < 0x10000 then
        [char_of (0xE0 + n div 4096), char_of (0x80 + n div 64 mod 64), char_of (0x80 + n mod 64)]
      else
        [char_of (0xF0 + n div 262144), char_of (0x80 + n div 4096 mod 64),
         char_of (0x80 + n div 64 mod 64), char_of (0x80 + n mod 64)])"

definition replacement :: bytes where
  "replacement = utf8_encode 0xFFFD"

definition backslash :: char where "backslash = CHR 0x5C"
definition quote :: char where "quote = CHR 0x22"

definition u_escape :: "nat \<Rightarrow> bytes" where
  "u_escape n = [backslash, CHR ''u'', hex_digit (n div 4096), hex_digit (n div 256 mod 16),
     hex_digit (n div 16 mod 16), hex_digit (n mod 16)]"

definition esc_char :: "char \<Rightarrow> bytes" where
  "esc_char c =
     (if c = quote \<or> c = backslash then [backslash, c]
      else if c = CHR 0x08 then [backslash, CHR ''b'']
      else if c = CHR 0x0C then [backslash, CHR ''f'']
      else if c = CHR 0x0A then [backslash, CHR ''n'']
      else if c = CHR 0x0D then [backslash, CHR ''r'']
      else if c = CHR 0x09 then [backslash, CHR ''t'']
      else if (of_char c :: nat) < 0x20 \<or> c = CHR ''<'' \<or> c = CHR ''>'' \<or> c = CHR 0x26
        then u_escape (of_char c)
      else [c])"

function json_escape :: "bytes \<Rightarrow> bytes" where
  "json_escape [] = []"
| "json_escape (c # cs) =
     (if (of_char c :: nat) < 0x80 then esc_char c @ json_escape cs
      else if utf8_len (c # cs) = 0 then u_escape 0xFFFD @ json_escape cs
      else if take 3 (c # cs) = utf8_encode 0x2028 then u_escape 0x2028 @ json_escape (drop 2 cs)
      else if take 3 (c # cs) = utf8_encode 0x2029 then u_escape 0x2029 @ json_escape (drop 2 cs)
      else take (utf8_len (c # cs)) (c # cs) @ json_escape (drop (utf8_len (c # cs) - 1) cs))"
  by pat_completeness auto
termination by (relation "measure length") auto

definition u4 :: "bytes \<Rightarrow> nat option" where
  "u4 r = (case r of
     a # b # c # d # _ \<Rightarrow>
       (case (hex_val a, hex_val b, hex_val c, hex_val d) of
          (Some w, Some x, Some y, Some z) \<Rightarrow> Some (((w * 16 + x) * 16 + y) * 16 + z)
        | _ \<Rightarrow> None)
   | _ \<Rightarrow> None)"

definition simple_esc :: "char \<Rightarrow> char option" where
  "simple_esc e =
     (if e = quote \<or> e = backslash \<or> e = CHR ''/'' then Some e
      else if e = CHR ''b'' then Some (CHR 0x08)
      else if e = CHR ''f'' then Some (CHR 0x0C)
      else if e = CHR ''n'' then Some (CHR 0x0A)
      else if e = CHR ''r'' then Some (CHR 0x0D)
      else if e = CHR ''t'' then Some (CHR 0x09)
      else None)"

definition emit :: "bytes \<Rightarrow> (bytes \<times> bytes) option \<Rightarrow> (bytes \<times> bytes) option" where
  "emit b x = map_option (\<lambda>(s, r). (b @ s, r)) x"

definition low_surrogate_next :: "bytes \<Rightarrow> nat option" where
  "low_surrogate_next r =
     (if take 2 r = [backslash, CHR ''u''] then
        (case u4 (drop 2 r) of
           Some m \<Rightarrow> if 0xDC00 \<le> m \<and> m < 0xE000 then Some m else None
         | None \<Rightarrow> None)
      else None)"

text \<open>The body of a string literal after its opening quote: the decoded bytes and the rest.\<close>

function lex_str :: "bytes \<Rightarrow> (bytes \<times> bytes) option" where
  "lex_str [] = None"
| "lex_str (c # cs) =
     (if c = quote then Some ([], cs)
      else if c = backslash then
        (case cs of [] \<Rightarrow> None
         | e # r \<Rightarrow>
             if e = CHR ''u'' then
               (case u4 r of None \<Rightarrow> None
                | Some n \<Rightarrow>
                    if 0xD800 \<le> n \<and> n < 0xE000 then
                      (case (if n < 0xDC00 then low_surrogate_next (drop 4 r) else None) of
                         Some m \<Rightarrow> emit (utf8_encode (0x10000 + (n - 0xD800) * 0x400 + (m - 0xDC00)))
                                     (lex_str (drop 10 r))
                       | None \<Rightarrow> emit replacement (lex_str (drop 4 r)))
                    else emit (utf8_encode n) (lex_str (drop 4 r)))
             else (case simple_esc e of None \<Rightarrow> None | Some d \<Rightarrow> emit [d] (lex_str r)))
      else if (of_char c :: nat) < 0x20 then None
      else if utf8_len (c # cs) = 0 then emit replacement (lex_str cs)
      else emit (take (utf8_len (c # cs)) (c # cs)) (lex_str (drop (utf8_len (c # cs) - 1) cs)))"
  by pat_completeness auto
termination by (relation "measure length") auto

declare json_escape.simps(2) [simp del] lex_str.simps(2) [simp del]

section \<open>Writing\<close>

definition tok_text :: "token \<Rightarrow> bytes" where
  "tok_text t = (case t of
     TLBrack \<Rightarrow> ''['' | TRBrack \<Rightarrow> '']'' | TLBrace \<Rightarrow> ''{'' | TRBrace \<Rightarrow> ''}''
   | TComma \<Rightarrow> '','' | TColon \<Rightarrow> '':'' | TNull \<Rightarrow> ''null'' | TTrue \<Rightarrow> ''true'' | TFalse \<Rightarrow> ''false''
   | TNum n \<Rightarrow> n | TStr s \<Rightarrow> quote # json_escape s @ [quote])"

fun json_toks :: "json \<Rightarrow> token list"
  and json_elems :: "json list \<Rightarrow> token list"
  and json_members :: "(bytes \<times> json) list \<Rightarrow> token list" where
  "json_toks JNull = [TNull]"
| "json_toks (JBool b) = [if b then TTrue else TFalse]"
| "json_toks (JNum n) = [TNum n]"
| "json_toks (JStr s) = [TStr s]"
| "json_toks (JArr []) = [TLBrack, TRBrack]"
| "json_toks (JArr (j # js)) = TLBrack # json_toks j @ json_elems js"
| "json_toks (JObj []) = [TLBrace, TRBrace]"
| "json_toks (JObj ((k, j) # ms)) = TLBrace # TStr k # TColon # json_toks j @ json_members ms"
| "json_elems [] = [TRBrack]"
| "json_elems (j # js) = TComma # json_toks j @ json_elems js"
| "json_members [] = [TRBrace]"
| "json_members ((k, j) # ms) = TComma # TStr k # TColon # json_toks j @ json_members ms"

definition toks_text :: "token list \<Rightarrow> bytes" where
  "toks_text ts = concat (map tok_text ts)"

text \<open>\<open>json.Marshal\<close> of a value.\<close>

definition json_print :: "json \<Rightarrow> bytes" where
  "json_print j = toks_text (json_toks j)"

section \<open>Reading\<close>

definition is_ws :: "char \<Rightarrow> bool" where
  "is_ws c = (c = CHR '' '' \<or> c = CHR 0x09 \<or> c = CHR 0x0A \<or> c = CHR 0x0D)"

text \<open>The three parts of a number literal; each gives the text it takes and the rest.\<close>

definition num_int :: "bytes \<Rightarrow> (bytes \<times> bytes) option" where
  "num_int cs =
     (let sg = (case cs of c # _ \<Rightarrow> if c = CHR ''-'' then [c] else [] | [] \<Rightarrow> []);
          r = drop (length sg) cs;
          ds = takeWhile is_digit r
      in if ds = [] then None
         else if hd ds = CHR ''0'' then Some (sg @ [CHR ''0''], tl r)
         else Some (sg @ ds, dropWhile is_digit r))"

definition num_frac :: "bytes \<Rightarrow> (bytes \<times> bytes) option" where
  "num_frac cs = (case cs of
     c # r \<Rightarrow>
       if c = CHR ''.'' then
         (if takeWhile is_digit r = [] then None
          else Some (c # takeWhile is_digit r, dropWhile is_digit r))
       else Some ([], cs)
   | [] \<Rightarrow> Some ([], cs))"

definition num_exp :: "bytes \<Rightarrow> (bytes \<times> bytes) option" where
  "num_exp cs = (case cs of
     c # r \<Rightarrow>
       if c = CHR ''e'' \<or> c = CHR ''E'' then
         (let sg = (case r of d # _ \<Rightarrow> if d = CHR ''+'' \<or> d = CHR ''-'' then [d] else [] | [] \<Rightarrow> []);
              r' = drop (length sg) r
          in if takeWhile is_digit r' = [] then None
             else Some (c # sg @ takeWhile is_digit r', dropWhile is_digit r'))
       else Some ([], cs)
   | [] \<Rightarrow> Some ([], cs))"

definition lex_num :: "bytes \<Rightarrow> (bytes \<times> bytes) option" where
  "lex_num cs =
     (case num_int cs of None \<Rightarrow> None
      | Some (a, r1) \<Rightarrow>
          (case num_frac r1 of None \<Rightarrow> None
           | Some (b, r2) \<Rightarrow>
               (case num_exp r2 of None \<Rightarrow> None
                | Some (c, r3) \<Rightarrow> Some (a @ b @ c, r3))))"

definition lex_one :: "bytes \<Rightarrow> (token \<times> bytes) option" where
  "lex_one cs = (case cs of [] \<Rightarrow> None
     | c # r \<Rightarrow>
         if c = CHR ''['' then Some (TLBrack, r)
         else if c = CHR '']'' then Some (TRBrack, r)
         else if c = CHR ''{'' then Some (TLBrace, r)
         else if c = CHR ''}'' then Some (TRBrace, r)
         else if c = CHR '','' then Some (TComma, r)
         else if c = CHR '':'' then Some (TColon, r)
         else if c = quote then map_option (\<lambda>(s, r'). (TStr s, r')) (lex_str r)
         else if HasPrefix cs ''null'' then Some (TNull, drop 4 cs)
         else if HasPrefix cs ''true'' then Some (TTrue, drop 4 cs)
         else if HasPrefix cs ''false'' then Some (TFalse, drop 5 cs)
         else map_option (\<lambda>(n, r'). (TNum n, r')) (lex_num cs))"

lemma lex_str_shorter: "lex_str cs = Some (s, r) \<Longrightarrow> length r < length cs"
proof (induction cs arbitrary: s r rule: lex_str.induct)
  case (2 c cs)
  show ?case
    using "2.prems" "2.IH"
    by (subst (asm) lex_str.simps)
       (fastforce simp: emit_def split: if_splits list.splits option.splits)
qed simp

lemma digits_shorter:
  assumes "takeWhile is_digit x \<noteq> []"
  shows "length (dropWhile is_digit x) < length x" and "length (tl x) < length x"
  using assms by (cases x; auto simp: le_imp_less_Suc length_dropWhile_le split: if_splits)+

lemma num_int_shorter:
  assumes "num_int cs = Some (a, r)"
  shows "length r < length cs"
proof -
  define x where "x = drop (length (case cs of c # _ \<Rightarrow> if c = CHR ''-'' then [c] else [] | [] \<Rightarrow> [])) cs"
  have ne: "takeWhile is_digit x \<noteq> []" and r: "r = tl x \<or> r = dropWhile is_digit x"
    using assms by (auto simp: num_int_def Let_def x_def split: if_splits)
  have "length r < length x" using r digits_shorter[OF ne] by auto
  also have "length x \<le> length cs" by (simp add: x_def)
  finally show ?thesis .
qed

lemma num_frac_shorter: "num_frac cs = Some (a, r) \<Longrightarrow> length r \<le> length cs"
  using length_dropWhile_le[of is_digit "tl cs"]
  by (auto simp: num_frac_def split: if_splits list.splits)

lemma num_exp_shorter: "num_exp cs = Some (a, r) \<Longrightarrow> length r \<le> length cs"
  by (auto simp: num_exp_def Let_def le_SucI split: if_splits list.splits
           intro: le_trans[OF length_dropWhile_le])

lemma lex_num_shorter: "lex_num cs = Some (a, r) \<Longrightarrow> length r < length cs"
  by (fastforce simp: lex_num_def split: option.splits
      dest: num_int_shorter num_frac_shorter num_exp_shorter)

lemma lex_one_shorter: "lex_one cs = Some (t, r) \<Longrightarrow> length r < length cs"
  by (auto simp: lex_one_def split: list.splits if_splits dest: lex_str_shorter lex_num_shorter)

function lex :: "bytes \<Rightarrow> token list option" where
  "lex [] = Some []"
| "lex (c # cs) =
     (if is_ws c then lex cs
      else (case lex_one (c # cs) of None \<Rightarrow> None
            | Some (t, r) \<Rightarrow> map_option ((#) t) (lex r)))"
  by pat_completeness auto
termination
  by (relation "measure length") (auto dest: lex_one_shorter)

declare lex.simps(2) [simp del]

text \<open>
  The grammar over tokens. Every call spends one unit of fuel; \<open>parse_fuel_enough\<close> below
  shows that twice the number of tokens is always enough.
\<close>

fun p_val :: "nat \<Rightarrow> token list \<Rightarrow> (json \<times> token list) option"
  and p_elems :: "nat \<Rightarrow> token list \<Rightarrow> (json list \<times> token list) option"
  and p_members :: "nat \<Rightarrow> token list \<Rightarrow> ((bytes \<times> json) list \<times> token list) option" where
  "p_val 0 ts = None"
| "p_val (Suc n) ts = (case ts of
     TNull # r \<Rightarrow> Some (JNull, r)
   | TTrue # r \<Rightarrow> Some (JBool True, r)
   | TFalse # r \<Rightarrow> Some (JBool False, r)
   | TNum l # r \<Rightarrow> Some (JNum l, r)
   | TStr s # r \<Rightarrow> Some (JStr s, r)
   | TLBrack # TRBrack # r \<Rightarrow> Some (JArr [], r)
   | TLBrack # r \<Rightarrow> map_option (\<lambda>(js, r'). (JArr js, r')) (p_elems n r)
   | TLBrace # TRBrace # r \<Rightarrow> Some (JObj [], r)
   | TLBrace # r \<Rightarrow> map_option (\<lambda>(ms, r'). (JObj ms, r')) (p_members n r)
   | _ \<Rightarrow> None)"
| "p_elems 0 ts = None"
| "p_elems (Suc n) ts = (case p_val n ts of
     Some (j, TComma # r) \<Rightarrow> map_option (\<lambda>(js, r'). (j # js, r')) (p_elems n r)
   | Some (j, TRBrack # r) \<Rightarrow> Some ([j], r)
   | _ \<Rightarrow> None)"
| "p_members 0 ts = None"
| "p_members (Suc n) ts = (case ts of
     TStr k # TColon # r0 \<Rightarrow>
       (case p_val n r0 of
          Some (j, TComma # r) \<Rightarrow> map_option (\<lambda>(ms, r'). ((k, j) # ms, r')) (p_members n r)
        | Some (j, TRBrace # r) \<Rightarrow> Some ([(k, j)], r)
        | _ \<Rightarrow> None)
   | _ \<Rightarrow> None)"

definition json_parse_toks :: "token list \<Rightarrow> json option" where
  "json_parse_toks ts = (case p_val (2 * length ts + 1) ts of Some (j, []) \<Rightarrow> Some j | _ \<Rightarrow> None)"

text \<open>The value a JSON text denotes, or none when \<open>json.Unmarshal\<close> reports a syntax error.\<close>

definition json_parse :: "bytes \<Rightarrow> json option" where
  "json_parse cs = (case lex cs of None \<Rightarrow> None | Some ts \<Rightarrow> json_parse_toks ts)"

lemma json_parse_empty [simp]: "json_parse [] = None"
  by (simp add: json_parse_def json_parse_toks_def)

end
