(* ===== verification/JsonRoundtrip.thy ===== *)
theory JsonRoundtrip
  imports GoJson
begin

text \<open>
  Reading back a written JSON value: for every value whose strings are ASCII and whose
  numbers are integer literals (which are all the values the node writes for ASCII names)
  \<open>json_parse (json_print j) = Some j\<close>; and the parser's fuel is always enough.
\<close>

section \<open>String literals\<close>

definition ascii :: "bytes \<Rightarrow> bool" where
  "ascii s = (\<forall>c \<in> set s. (of_char c :: nat) < 0x80)"

lemma ascii_simps [simp]:
  "ascii []"
  "ascii (c # s) \<longleftrightarrow> (of_char c :: nat) < 0x80 \<and> ascii s"
  "ascii (s @ t) \<longleftrightarrow> ascii s \<and> ascii t"
  by (auto simp: ascii_def)

lemma u4_hex:
  "a < 16 \<Longrightarrow> b < 16 \<Longrightarrow> c < 16 \<Longrightarrow> d < 16 \<Longrightarrow>
   u4 (hex_digit a # hex_digit b # hex_digit c # hex_digit d # xs) = Some (((a * 16 + b) * 16 + c) * 16 + d)"
  by (simp add: u4_def hex_val_digit)

lemma lex_str_u_escape:
  assumes "n < 0x80"
  shows "lex_str (u_escape n @ xs) = emit [char_of n] (lex_str xs)"
proof -
  have u: "u4 (hex_digit 0 # hex_digit 0 # hex_digit (n div 16) # hex_digit (n mod 16) # xs) = Some n"
    using assms by (subst u4_hex) auto
  have z: "n div 4096 = 0" "n div 256 mod 16 = 0" "n div 16 mod 16 = n div 16" using assms by auto
  have e: "utf8_encode n = [char_of n]" using assms by (simp add: utf8_encode_def)
  have s: "n < 0xD800" using assms by simp
  have "u_escape n @ xs = backslash # CHR ''u'' # hex_digit 0 # hex_digit 0 # hex_digit (n div 16) # hex_digit (n mod 16) # xs"
    by (simp only: u_escape_def z append.simps)
  moreover have "backslash \<noteq> quote" by (simp add: backslash_def quote_def)
  ultimately show ?thesis
    using u s by (simp add: lex_str.simps(2)[of backslash] e)
qed

lemma lex_str_simple_esc:
  "simple_esc e = Some d \<Longrightarrow> lex_str (backslash # e # xs) = emit [d] (lex_str xs)"
  by (subst lex_str.simps) (auto simp: quote_def backslash_def simple_esc_def split: if_splits)

lemma simple_esc_table:
  "simple_esc quote = Some quote" "simple_esc backslash = Some backslash"
  "simple_esc (CHR ''b'') = Some (CHR 0x08)" "simple_esc (CHR ''f'') = Some (CHR 0x0C)"
  "simple_esc (CHR ''n'') = Some (CHR 0x0A)" "simple_esc (CHR ''r'') = Some (CHR 0x0D)"
  "simple_esc (CHR ''t'') = Some (CHR 0x09)"
  by (simp_all add: simple_esc_def quote_def backslash_def)

lemma lex_str_esc_char:
  assumes "(of_char c :: nat) < 0x80"
  shows "lex_str (esc_char c @ xs) = emit [c] (lex_str xs)"
proof (cases "c \<noteq> quote \<and> c \<noteq> backslash \<and> \<not> (of_char c :: nat) < 0x20 \<and> c \<noteq> CHR ''<'' \<and> c \<noteq> CHR ''>'' \<and> c \<noteq> CHR 0x26")
  case True
  then have "c \<noteq> CHR 0x08" "c \<noteq> CHR 0x0C" "c \<noteq> CHR 0x0A" "c \<noteq> CHR 0x0D" "c \<noteq> CHR 0x09"
    by auto
  with True have e: "esc_char c = [c]" by (simp add: esc_char_def)
  from True assms show ?thesis unfolding e
    by (simp add: lex_str.simps(2)[of c xs])
next
  case False
  then show ?thesis
    using assms
    by (auto simp: esc_char_def lex_str_simple_esc simple_esc_table lex_str_u_escape)
qed

lemma lex_str_escape:
  "ascii s \<Longrightarrow> lex_str (json_escape s @ quote # r) = Some (s, r)"
proof (induction s)
  case Nil
  then show ?case by (simp add: lex_str.simps(2)[of quote])
next
  case (Cons c s)
  then have "json_escape (c # s) = esc_char c @ json_escape s"
    by (simp add: json_escape.simps(2))
  with Cons show ?case by (simp add: lex_str_esc_char emit_def)
qed

section \<open>Numbers\<close>

text \<open>What may follow a value in compact text.\<close>

definition delim :: "bytes \<Rightarrow> bool" where
  "delim r = (r = [] \<or> hd r \<in> set '',]}'')"

lemma delim_simps [simp]:
  "delim []" "delim (CHR '','' # r)" "delim (CHR '']'' # r)" "delim (CHR ''}'' # r)"
  by (simp_all add: delim_def)

lemma delim_not_digit: "delim r \<Longrightarrow> r \<noteq> [] \<Longrightarrow> \<not> is_digit (hd r)"
  by (auto simp: delim_def is_digit_def)

lemma takeWhile_digits:
  assumes "\<And>c. c \<in> set ds \<Longrightarrow> is_digit c" "delim r"
  shows "takeWhile is_digit (ds @ r) = ds" and "dropWhile is_digit (ds @ r) = r"
  using assms delim_not_digit[OF assms(2)]
  by (cases r; simp add: takeWhile_append2 dropWhile_append2)+

lemma nat_str_leading: "hd (nat_str n) = CHR ''0'' \<Longrightarrow> nat_str n = ''0''"
proof (induction n rule: nat_str.induct)
  case (1 n)
  show ?case
  proof (cases "n < 10")
    case True
    have "digit_val (digit_char n) = digit_val (CHR ''0'') \<Longrightarrow> n = 0"
      using True by (simp only: digit_char_simps) (simp add: digit_val_def)
    then have "digit_char n = CHR ''0'' \<Longrightarrow> n = 0" by simp
    with True 1 show ?thesis by (auto simp: nat_str.simps[of n] nat_str.simps[of 0])
  next
    case False
    then have "nat_str n = nat_str (n div 10) @ [digit_char (n mod 10)]"
      by (simp add: nat_str.simps[of n])
    with 1 False have "nat_str (n div 10) = ''0''" by simp
    then have "digits_val 0 (nat_str (n div 10)) = Some 0"
      by (simp add: is_digit_def digit_val_def)
    then have "n div 10 = 0" by (simp add: digits_val_nat_str)
    with False show ?thesis by simp
  qed
qed

lemma num_int_nat_str:
  "delim r \<Longrightarrow> num_int (nat_str n @ r) = Some (nat_str n, r)"
  "delim r \<Longrightarrow> num_int (CHR ''-'' # nat_str n @ r) = Some (CHR ''-'' # nat_str n, r)"
proof -
  assume d: "delim r"
  note tw = takeWhile_digits[OF nat_str_digits[of _ n] d]
  obtain c cs where cs: "nat_str n = c # cs" by (cases "nat_str n") auto
  have cm: "c \<noteq> CHR ''-''" "is_digit c" using hd_nat_str[of n] nat_str_digits[of c n] cs by simp_all
  show "num_int (nat_str n @ r) = Some (nat_str n, r)"
    using tw nat_str_leading[of n] cm by (auto simp: num_int_def Let_def cs)
  show "num_int (CHR ''-'' # nat_str n @ r) = Some (CHR ''-'' # nat_str n, r)"
    using tw nat_str_leading[of n] cm by (auto simp: num_int_def Let_def cs)
qed

lemma lex_num_int_str: "delim r \<Longrightarrow> lex_num (int_str i @ r) = Some (int_str i, r)"
proof -
  assume d: "delim r"
  have "num_frac r = Some ([], r)" "num_exp r = Some ([], r)"
    using d by (auto simp: num_frac_def num_exp_def delim_def split: list.splits)
  with d show ?thesis
    by (simp add: lex_num_def int_str_def num_int_nat_str)
qed

section \<open>Tokens\<close>

fun tok_ok :: "token \<Rightarrow> bool" where
  "tok_ok (TNum n) = (\<exists>i. n = int_str i)"
| "tok_ok (TStr s) = ascii s"
| "tok_ok _ = True"

fun is_tnum :: "token \<Rightarrow> bool" where
  "is_tnum (TNum n) = True"
| "is_tnum _ = False"

lemma int_str_head:
  obtains c cs where "int_str i = c # cs" "c = CHR ''-'' \<or> is_digit c"
proof -
  have "\<exists>c cs. int_str i = c # cs \<and> (c = CHR ''-'' \<or> is_digit c)"
    using nat_str_digits[of "hd (nat_str (nat i))" "nat i"]
    by (cases "nat_str (nat i)") (auto simp: int_str_def)
  then show ?thesis using that by blast
qed

lemma lex_one_tok:
  assumes "tok_ok t" and "is_tnum t \<Longrightarrow> delim r"
  shows "lex_one (tok_text t @ r) = Some (t, r)"
proof (cases t)
  case (TNum n)
  then obtain i where n: "n = int_str i" using assms by auto
  obtain c cs where c: "int_str i = c # cs" "c = CHR ''-'' \<or> is_digit c" by (rule int_str_head)
  have ne: "c \<notin> set ''[]{},:ntf''" "c \<noteq> quote"
    using c(2) by (auto simp: is_digit_def quote_def)
  have "lex_num (c # cs @ r) = Some (c # cs, r)"
    using lex_num_int_str[of r i] assms TNum c by simp
  with ne show ?thesis
    by (simp add: TNum n lex_one_def tok_text_def c(1))
next
  case (TStr s)
  then show ?thesis
    using assms lex_str_escape[of s r] by (simp add: lex_one_def tok_text_def quote_def)
qed (simp_all add: lex_one_def tok_text_def quote_def)

lemma tok_text_head:
  assumes "tok_ok t" shows "\<exists>c cs. tok_text t = c # cs \<and> \<not> is_ws c"
proof (cases t)
  case (TNum n)
  then obtain i where n: "n = int_str i" using assms by auto
  obtain c cs where "int_str i = c # cs" "c = CHR ''-'' \<or> is_digit c" by (rule int_str_head)
  then show ?thesis by (auto simp: TNum n tok_text_def is_ws_def is_digit_def)
qed (auto simp: tok_text_def is_ws_def quote_def)

lemma lex_tok:
  assumes "tok_ok t" and "is_tnum t \<Longrightarrow> delim r"
  shows "lex (tok_text t @ r) = map_option ((#) t) (lex r)"
proof -
  obtain c cs where c: "tok_text t = c # cs" "\<not> is_ws c" using tok_text_head[OF assms(1)] by blast
  with lex_one_tok[of t r] assms show ?thesis
    by (simp add: lex.simps(2))
qed

text \<open>A token sequence in which a number is followed by a separator.\<close>

fun spaced :: "token list \<Rightarrow> bool" where
  "spaced [] = True"
| "spaced [t] = True"
| "spaced (t # u # ts) = ((is_tnum t \<longrightarrow> u \<in> {TComma, TRBrack, TRBrace}) \<and> spaced (u # ts))"

lemma lex_toks:
  "list_all tok_ok ts \<Longrightarrow> spaced ts \<Longrightarrow> lex (toks_text ts) = Some ts"
proof (induction ts rule: spaced.induct)
  case (2 t)
  then show ?case using lex_tok[of t "[]"] by (simp add: toks_text_def)
next
  case (3 t u ts)
  have "is_tnum t \<Longrightarrow> delim (toks_text (u # ts))"
    using "3.prems" by (auto simp: toks_text_def tok_text_def delim_def)
  with lex_tok[of t "toks_text (u # ts)"] 3 show ?case
    by (simp add: toks_text_def)
qed (simp add: toks_text_def)

section \<open>Values\<close>

fun json_ok :: "json \<Rightarrow> bool"
  and jsons_ok :: "json list \<Rightarrow> bool"
  and members_ok :: "(bytes \<times> json) list \<Rightarrow> bool" where
  "json_ok JNull = True"
| "json_ok (JBool b) = True"
| "json_ok (JNum n) = (\<exists>i. n = int_str i)"
| "json_ok (JStr s) = ascii s"
| "json_ok (JArr js) = jsons_ok js"
| "json_ok (JObj ms) = members_ok ms"
| "jsons_ok [] = True"
| "jsons_ok (j # js) = (json_ok j \<and> jsons_ok js)"
| "members_ok [] = True"
| "members_ok ((k, j) # ms) = (ascii k \<and> json_ok j \<and> members_ok ms)"

lemma jsons_ok_list_all: "jsons_ok js \<longleftrightarrow> list_all json_ok js"
  by (induction js) simp_all

lemma members_ok_list_all: "members_ok ms \<longleftrightarrow> list_all (\<lambda>(k, j). ascii k \<and> json_ok j) ms"
  by (induction ms) auto

lemma toks_ok:
  "json_ok j \<Longrightarrow> list_all tok_ok (json_toks j)"
  "jsons_ok js \<Longrightarrow> list_all tok_ok (json_elems js)"
  "members_ok ms \<Longrightarrow> list_all tok_ok (json_members ms)"
  by (induction j and js and ms rule: json_toks_json_elems_json_members.induct) auto

lemma spaced_append:
  "spaced ts \<Longrightarrow> spaced us \<Longrightarrow> us \<noteq> [] \<Longrightarrow> hd us \<in> {TComma, TRBrack, TRBrace} \<Longrightarrow> spaced (ts @ us)"
proof (induction ts rule: spaced.induct)
  case (2 t)
  then show ?case by (cases us) auto
qed auto

lemma toks_nonempty [simp]: "json_toks j \<noteq> []" "json_elems js \<noteq> []" "json_members ms \<noteq> []"
  by (induction j and js and ms rule: json_toks_json_elems_json_members.induct) auto

lemma toks_heads:
  "hd (json_elems js) \<in> {TComma, TRBrack}" "hd (json_members ms) \<in> {TComma, TRBrace}"
  by (induction js; simp) (induction ms; auto)

lemma spaced_Cons: "\<not> is_tnum t \<Longrightarrow> spaced ts \<Longrightarrow> spaced (t # ts)"
  by (cases ts) auto

lemma toks_spaced:
  "spaced (json_toks j)" "spaced (json_elems js)" "spaced (json_members ms)"
proof (induction j and js and ms rule: json_toks_json_elems_json_members.induct)
  case (6 j js)
  then show ?case using toks_heads(1)[of js] by (auto intro!: spaced_Cons spaced_append)
next
  case (8 k j ms)
  then show ?case using toks_heads(2)[of ms] by (auto intro!: spaced_Cons spaced_append)
next
  case (10 j js)
  then show ?case using toks_heads(1)[of js] by (auto intro!: spaced_Cons spaced_append)
next
  case (12 k j ms)
  then show ?case using toks_heads(2)[of ms] by (auto intro!: spaced_Cons spaced_append)
qed auto

text \<open>A value never starts with a closing bracket or brace.\<close>

lemma toks_cons:
  obtains t ts where "json_toks j = t # ts" "t \<notin> {TRBrack, TRBrace, TComma, TColon}"
  by (cases j rule: json_toks.cases) auto

lemma p_val_toks:
  "2 * length (json_toks j) + 1 \<le> n \<Longrightarrow> p_val n (json_toks j @ r) = Some (j, r)"
  "2 * length (json_elems js) \<le> n \<Longrightarrow> p_val n ts = Some (x, json_elems js @ r) \<Longrightarrow>
     p_elems (Suc n) ts = Some (x # js, r)"
  "2 * length (json_members ms) \<le> n \<Longrightarrow> p_val n ts = Some (x, json_members ms @ r) \<Longrightarrow>
     p_members (Suc n) (TStr k # TColon # ts) = Some ((k, x) # ms, r)"
proof (induction j and js and ms arbitrary: n r and n r ts x and n r ts x k
    rule: json_toks_json_elems_json_members.induct)
  case (6 j js)
  obtain t u where tu: "json_toks j = t # u" "t \<notin> {TRBrack, TRBrace, TComma, TColon}" by (rule toks_cons)
  from "6.prems" obtain m where m: "n = Suc (Suc m)" "2 * length (json_toks j) + 1 \<le> m" "2 * length (json_elems js) \<le> m"
    by (cases n; cases "n - 1") auto
  have "p_elems (Suc m) (json_toks j @ json_elems js @ r) = Some (j # js, r)"
    using "6.IH" m by blast
  then show ?case using tu m by (auto split: token.splits)
next
  case (8 k' j ms)
  from "8.prems" obtain m where m: "n = Suc (Suc m)" "2 * length (json_toks j) + 1 \<le> m" "2 * length (json_members ms) \<le> m"
    by (cases n; cases "n - 1") auto
  have "p_members (Suc m) (TStr k' # TColon # json_toks j @ json_members ms @ r) = Some ((k', j) # ms, r)"
    using "8.IH" m by blast
  then show ?case using m by simp
next
  case (10 j js)
  from "10.prems" obtain m where m: "n = Suc m" "2 * length (json_toks j) + 1 \<le> m" "2 * length (json_elems js) \<le> m"
    by (cases n) auto
  have "p_elems (Suc m) (json_toks j @ json_elems js @ r) = Some (j # js, r)"
    using "10.IH" m by blast
  then show ?case using "10.prems" m by simp
next
  case (12 k' j ms)
  from "12.prems" obtain m where m: "n = Suc m" "2 * length (json_toks j) + 1 \<le> m" "2 * length (json_members ms) \<le> m"
    by (cases n) auto
  have "p_members (Suc m) (TStr k' # TColon # json_toks j @ json_members ms @ r) = Some ((k', j) # ms, r)"
    using "12.IH" m by blast
  then show ?case using "12.prems" m by simp
next
  case (2 b)
  then show ?case by (cases n; cases b) simp_all
next
  case (3 l)
  then show ?case by (cases n) simp_all
next
  case (4 s)
  then show ?case by (cases n) simp_all
next
  case 5
  then show ?case by (cases n) simp_all
next
  case 7
  then show ?case by (cases n) simp_all
next
  case (9 n r ts x)
  then show ?case by simp
next
  case (11 n r ts x k)
  then show ?case by simp
qed (case_tac n; simp)

lemma json_parse_print: "json_ok j \<Longrightarrow> json_parse (json_print j) = Some j"
proof -
  assume ok: "json_ok j"
  have "lex (json_print j) = Some (json_toks j)"
    unfolding json_print_def using toks_ok(1)[OF ok] toks_spaced(1) by (rule lex_toks)
  then show ?thesis
    using p_val_toks(1)[of j "2 * length (json_toks j) + 1" "[]"]
    by (simp add: json_parse_def json_parse_toks_def)
qed

section \<open>The fuel of the parser\<close>

lemma p_shorter:
  shows p_val_shorter: "\<And>ts j r. p_val n ts = Some (j, r) \<Longrightarrow> length r < length ts"
    and p_elems_shorter: "\<And>ts js r. p_elems n ts = Some (js, r) \<Longrightarrow> length r < length ts"
    and p_members_shorter: "\<And>ts ms r. p_members n ts = Some (ms, r) \<Longrightarrow> length r < length ts"
proof (induction n)
  case (Suc n)
  have v: "length r < length ts" if "p_val (Suc n) ts = Some (j, r)" for ts j r
    using that by (auto split: list.splits token.splits dest!: Suc.IH(2,3))
  have e: "length r < length ts" if "p_elems (Suc n) ts = Some (js, r)" for ts js r
    using that by (auto split: option.splits list.splits token.splits dest!: Suc.IH(1,2))
  have m: "length r < length ts" if "p_members (Suc n) ts = Some (ms, r)" for ts ms r
    using that by (auto split: option.splits list.splits token.splits dest!: Suc.IH(1,3))
  { case 1 then show ?case by (rule v)
  next
    case 2 then show ?case by (rule e)
  next
    case 3 then show ?case by (rule m) }
qed simp_all

lemma p_stable:
  shows p_val_stable: "\<And>ts. 2 * length ts + 1 \<le> n \<Longrightarrow> p_val (Suc n) ts = p_val n ts"
    and p_elems_stable: "\<And>ts. 2 * length ts + 2 \<le> n \<Longrightarrow> p_elems (Suc n) ts = p_elems n ts"
    and p_members_stable: "\<And>ts. 2 * length ts + 1 \<le> n \<Longrightarrow> p_members (Suc n) ts = p_members n ts"
proof (induction n)
  case (Suc n)
  have v: "p_val (Suc (Suc n)) ts = p_val (Suc n) ts" if le: "2 * length ts + 1 \<le> Suc n" for ts
  proof -
    have e: "p_elems (Suc n) r = p_elems n r" "p_members (Suc n) r = p_members n r" if "ts = t # r" for t r
      using Suc.IH(2,3) le that by auto
    show ?thesis
      by (subst (1 2) p_val.simps)
         (auto split: list.splits token.splits simp: e simp del: p_elems.simps p_members.simps)
  qed
  have e: "p_elems (Suc (Suc n)) ts = p_elems (Suc n) ts" if le: "2 * length ts + 2 \<le> Suc n" for ts
  proof -
    have v: "p_val (Suc n) ts = p_val n ts" using Suc.IH(1) le by simp
    have e: "p_elems (Suc n) r = p_elems n r" if "p_val n ts = Some (j, t # r)" for j t r
      using p_val_shorter[OF that] le by (intro Suc.IH(2)) simp
    show ?thesis
      by (subst (1 2) p_elems.simps)
         (auto simp: v e simp del: p_val.simps p_elems.simps split: option.splits list.splits token.splits)
  qed
  have m: "p_members (Suc (Suc n)) ts = p_members (Suc n) ts" if le: "2 * length ts + 1 \<le> Suc n" for ts
  proof -
    have v: "p_val (Suc n) r0 = p_val n r0" if "ts = k # c # r0" for k c r0
      using le that by (intro Suc.IH(1)) simp
    have e: "p_members (Suc n) r = p_members n r" if "ts = k # c # r0" "p_val n r0 = Some (j, t # r)" for k c r0 j t r
      using p_val_shorter[OF that(2)] that(1) le by (intro Suc.IH(3)) simp
    show ?thesis
      by (subst (1 2) p_members.simps)
         (auto simp: v e simp del: p_val.simps p_members.simps split: option.splits list.splits token.splits)
  qed
  { case 1 then show ?case by (rule v)
  next
    case 2 then show ?case by (rule e)
  next
    case 3 then show ?case by (rule m) }
qed simp_all

lemma parse_fuel_enough:
  "2 * length ts + 1 \<le> n \<Longrightarrow> json_parse_toks ts = (case p_val n ts of Some (j, []) \<Rightarrow> Some j | _ \<Rightarrow> None)"
proof -
  assume "2 * length ts + 1 \<le> n"
  then have "p_val n ts = p_val (2 * length ts + 1) ts"
    by (induction n rule: nat_induct_at_least) (simp_all only: p_val_stable refl)
  then show ?thesis by (simp only: json_parse_toks_def)
qed

end
