(* ===== verification/GoCodec.thy ===== *)
theory GoCodec
  imports JsonRoundtrip "HOL-Library.Multiset"
begin

text \<open>
  How \<open>encoding/json\<close> maps Go values to JSON values: byte slices as standard base64,
  integers, maps with their keys as strings in increasing order, structs decoded member by
  member with case-insensitive names, and JSON null leaving the destination as it is. Also
  \<open>time.RFC3339\<close>. The interface \<open>codec\<close> states what a client of an encoder and its decoder
  relies on.
\<close>

section \<open>Base64 (StdEncoding)\<close>

definition b64_char :: "nat \<Rightarrow> char" where
  "b64_char n =
     (if n < 26 then char_of (65 + n)
      else if n < 52 then char_of (71 + n)
      else if n < 62 then char_of (n - 4)
      else if n = 62 then CHR ''+'' else CHR ''/'')"

definition b64_val :: "char \<Rightarrow> nat option" where
  "b64_val c = (let n = of_char c in
     if 65 \<le> n \<and> n \<le> 90 then Some (n - 65)
     else if 97 \<le> n \<and> n \<le> 122 then Some (n - 71)
     else if 48 \<le> n \<and> n \<le> 57 then Some (n + 4)
     else if n = 43 then Some 62
     else if n = 47 then Some 63
     else None)"

fun b64_encode :: "bytes \<Rightarrow> string" where
  "b64_encode [] = []"
| "b64_encode [a] =
     (let x = of_char a in [b64_char (x div 4), b64_char (x mod 4 * 16), CHR ''='', CHR ''=''])"
| "b64_encode [a, b] =
     (let x = of_char a; y = of_char b in
      [b64_char (x div 4), b64_char (x mod 4 * 16 + y div 16), b64_char (y mod 16 * 4), CHR ''=''])"
| "b64_encode (a # b # c # cs) =
     (let x = of_char a; y = of_char b; z = of_char c in
      [b64_char (x div 4), b64_char (x mod 4 * 16 + y div 16), b64_char (y mod 16 * 4 + z div 64), b64_char (z mod 64)]
      @ b64_encode cs)"

text \<open>Decoding skips line ends, as \<open>StdEncoding.Decode\<close> does; padding must end the text.\<close>

fun b64_quads :: "string \<Rightarrow> bytes option" where
  "b64_quads [] = Some []"
| "b64_quads (a # b # c # d # cs) =
     (if cs = [] \<and> d = CHR ''='' then
        (if c = CHR ''='' then
           (case (b64_val a, b64_val b) of
              (Some w, Some x) \<Rightarrow> Some [char_of (w * 4 + x div 16)] | _ \<Rightarrow> None)
         else
           (case (b64_val a, b64_val b, b64_val c) of
              (Some w, Some x, Some y) \<Rightarrow>
                Some [char_of (w * 4 + x div 16), char_of (x mod 16 * 16 + y div 4)]
            | _ \<Rightarrow> None))
      else
        (case (b64_val a, b64_val b, b64_val c, b64_val d) of
           (Some w, Some x, Some y, Some z) \<Rightarrow>
             map_option (\<lambda>r. char_of (w * 4 + x div 16) # char_of (x mod 16 * 16 + y div 4) # char_of (y mod 4 * 64 + z) # r)
               (b64_quads cs)
         | _ \<Rightarrow> None))"
| "b64_quads _ = None"

definition b64_decode :: "string \<Rightarrow> bytes option" where
  "b64_decode s = b64_quads (filter (\<lambda>c. c \<noteq> CHR 0x0A \<and> c \<noteq> CHR 0x0D) s)"

lemma b64_val_char [simp]: "n < 64 \<Longrightarrow> b64_val (b64_char n) = Some n"
  by (auto simp: b64_val_def b64_char_def Let_def)

lemma b64_char_neq:
  assumes "n < 64"
  shows "b64_char n \<noteq> CHR ''=''" "b64_char n \<noteq> CHR 0x0A" "b64_char n \<noteq> CHR 0x0D"
  using b64_val_char[OF assms] by (auto simp: b64_val_def Let_def)

lemma b64_char_ascii: "n < 64 \<Longrightarrow> (of_char (b64_char n) :: nat) < 128"
  by (auto simp: b64_char_def)

lemma byte_parts:
  fixes c :: char
  shows "(of_char c :: nat) div 4 < 64" "(of_char c :: nat) div 16 < 16" "(of_char c :: nat) div 64 < 4"
  using nat_of_char_less_256[of c] by linarith+

lemma b64_quads_encode [simp]: "b64_quads (b64_encode bs) = Some bs"
proof (induction bs rule: b64_encode.induct)
  case (2 a)
  have "(of_char a :: nat) div 4 * 4 + of_char a mod 4 * 16 div 16 = of_char a" by simp
  with byte_parts[of a] show ?case by (simp add: Let_def b64_char_neq)
next
  case (3 a b)
  have "(of_char a mod 4 * 16 + of_char b div 16 :: nat) < 64" "(of_char b mod 16 * 4 :: nat) < 64"
    using byte_parts[of b] by linarith+
  moreover have "(of_char a :: nat) div 4 * 4 + (of_char a mod 4 * 16 + of_char b div 16) div 16 = of_char a"
    "(of_char a mod 4 * 16 + of_char b div 16 :: nat) mod 16 * 16 + of_char b mod 16 * 4 div 4 = of_char b"
    using byte_parts[of b] by simp_all
  ultimately show ?case using byte_parts[of a] by (simp add: Let_def b64_char_neq)
next
  case (4 a b c cs)
  have "(of_char a mod 4 * 16 + of_char b div 16 :: nat) < 64" "(of_char b mod 16 * 4 + of_char c div 64 :: nat) < 64"
    using byte_parts[of b] byte_parts[of c] by linarith+
  moreover have "(of_char a :: nat) div 4 * 4 + (of_char a mod 4 * 16 + of_char b div 16) div 16 = of_char a"
    "(of_char a mod 4 * 16 + of_char b div 16 :: nat) mod 16 * 16 + (of_char b mod 16 * 4 + of_char c div 64) div 4 = of_char b"
    "(of_char b mod 16 * 4 + of_char c div 64 :: nat) mod 4 * 64 + of_char c mod 64 = of_char c"
    using byte_parts[of b] byte_parts[of c] by simp_all
  ultimately show ?case using byte_parts[of a] 4 by (simp add: Let_def b64_char_neq)
qed simp

lemma sextet_bounds [simp]:
  fixes a b :: char
  shows "(of_char a mod 4 * 16 + of_char b div 16 :: nat) < 64"
    "(of_char a mod 16 * 4 + of_char b div 64 :: nat) < 64"
    "(of_char a :: nat) div 4 < 64"
  using byte_parts[of a] byte_parts[of b] by linarith+

definition b64_plain :: "char \<Rightarrow> bool" where
  "b64_plain c = (c \<noteq> CHR 0x0A \<and> c \<noteq> CHR 0x0D \<and> (of_char c :: nat) < 128)"

lemma b64_plain_char [simp]: "n < 64 \<Longrightarrow> b64_plain (b64_char n)"
  by (simp add: b64_plain_def b64_char_neq b64_char_ascii)

lemma b64_plain_pad [simp]: "b64_plain (CHR ''='')"
  by (simp add: b64_plain_def)

lemma b64_encode_plain: "\<forall>c \<in> set (b64_encode bs). b64_plain c"
  by (induction bs rule: b64_encode.induct) (simp_all add: Let_def)

lemma b64_roundtrip [simp]: "b64_decode (b64_encode bs) = Some bs"
proof -
  have "filter (\<lambda>c. c \<noteq> CHR 0x0A \<and> c \<noteq> CHR 0x0D) (b64_encode bs) = b64_encode bs"
    using b64_encode_plain by (simp add: filter_id_conv b64_plain_def)
  then show ?thesis by (simp add: b64_decode_def)
qed

lemma ascii_b64 [simp]: "ascii (b64_encode bs)"
  using b64_encode_plain by (simp add: ascii_def b64_plain_def)

lemma ascii_hex [simp]: "ascii (hex_EncodeToString bs)"
proof (induction bs)
  case (Cons c cs)
  have "n < 16 \<Longrightarrow> (of_char (hex_digit n) :: nat) < 128" for n by (auto simp: hex_digit_def)
  moreover have "(of_char c :: nat) div 16 < 16" "(of_char c :: nat) mod 16 < 16"
    using byte_parts[of c] by simp_all
  ultimately show ?case using Cons by simp
qed simp

lemma ascii_nat_str [simp]: "ascii (nat_str n)"
  using nat_str_digits unfolding ascii_def is_digit_def by fastforce

section \<open>Fields\<close>

type_synonym 'a decoder = "json \<Rightarrow> 'a \<Rightarrow> goerr + 'a"

definition dec_string :: "string decoder" where
  "dec_string j old = (case j of JStr s \<Rightarrow> Inr s | JNull \<Rightarrow> Inr old | _ \<Rightarrow> Inl ErrJSON)"

definition dec_bool :: "bool decoder" where
  "dec_bool j old = (case j of JBool b \<Rightarrow> Inr b | JNull \<Rightarrow> Inr old | _ \<Rightarrow> Inl ErrJSON)"

definition dec_int64 :: "int64 decoder" where
  "dec_int64 j old = (case j of
     JNum l \<Rightarrow> (case ParseInt l of Inl e \<Rightarrow> Inl ErrJSON | Inr w \<Rightarrow> Inr w)
   | JNull \<Rightarrow> Inr old | _ \<Rightarrow> Inl ErrJSON)"

definition dec_uint64 :: "uint64 decoder" where
  "dec_uint64 j old = (case j of
     JNum l \<Rightarrow> (case ParseUint l of Inl e \<Rightarrow> Inl ErrJSON | Inr w \<Rightarrow> Inr w)
   | JNull \<Rightarrow> Inr old | _ \<Rightarrow> Inl ErrJSON)"

definition dec_bytes :: "slice decoder" where
  "dec_bytes j old = (case j of
     JStr s \<Rightarrow> (case b64_decode s of None \<Rightarrow> Inl ErrJSON | Some b \<Rightarrow> Inr (Some b))
   | JNull \<Rightarrow> Inr None | _ \<Rightarrow> Inl ErrJSON)"

definition enc_int64 :: "int64 \<Rightarrow> json" where
  "enc_int64 w = JNum (int_str (sint w))"

definition enc_uint64 :: "uint64 \<Rightarrow> json" where
  "enc_uint64 w = JNum (nat_str (unat w))"

definition enc_bytes :: "slice \<Rightarrow> json" where
  "enc_bytes b = (case b of None \<Rightarrow> JNull | Some x \<Rightarrow> JStr (b64_encode x))"

fun dec_members :: "(bytes \<Rightarrow> json \<Rightarrow> 'r \<Rightarrow> goerr + 'r) \<Rightarrow> (bytes \<times> json) list \<Rightarrow> 'r \<Rightarrow> goerr + 'r" where
  "dec_members step [] r = Inr r"
| "dec_members step ((k, j) # ms) r =
     (case step k j r of Inl e \<Rightarrow> Inl e | Inr r' \<Rightarrow> dec_members step ms r')"

definition dec_struct :: "(bytes \<Rightarrow> json \<Rightarrow> 'r \<Rightarrow> goerr + 'r) \<Rightarrow> 'r decoder" where
  "dec_struct step j old = (case j of
     JObj ms \<Rightarrow> dec_members step ms old | JNull \<Rightarrow> Inr old | _ \<Rightarrow> Inl ErrJSON)"

text \<open>A struct field: decode \<open>j\<close> over the old field value and store the result.\<close>

definition field :: "'a decoder \<Rightarrow> ('r \<Rightarrow> 'a) \<Rightarrow> ('a \<Rightarrow> 'r \<Rightarrow> 'r) \<Rightarrow> json \<Rightarrow> 'r \<Rightarrow> goerr + 'r" where
  "field dec get upd j r = (case dec j (get r) of Inl e \<Rightarrow> Inl e | Inr v \<Rightarrow> Inr (upd v r))"

text \<open>
  Maps: nil is null; entries are written in the order of the key strings, and an entry read
  replaces the one with the same key. The element is decoded into a zero value.
\<close>

definition enc_map :: "('k \<Rightarrow> string) \<Rightarrow> ('v \<Rightarrow> json) \<Rightarrow> ('k, 'v) gomap option \<Rightarrow> json" where
  "enc_map key enc m = (case m of None \<Rightarrow> JNull
     | Some kvs \<Rightarrow> JObj (sort_key fst (map (\<lambda>(k, v). (key k, enc v)) kvs)))"

fun dec_entries :: "(string \<Rightarrow> goerr + 'k::linorder) \<Rightarrow> (json \<Rightarrow> goerr + 'v) \<Rightarrow> (bytes \<times> json) list \<Rightarrow> ('k, 'v) gomap \<Rightarrow> goerr + ('k, 'v) gomap" where
  "dec_entries key dec [] m = Inr m"
| "dec_entries key dec ((k, j) # ms) m =
     (case key k of Inl e \<Rightarrow> Inl ErrJSON
      | Inr k' \<Rightarrow> (case dec j of Inl e \<Rightarrow> Inl e | Inr v \<Rightarrow> dec_entries key dec ms (gm_put k' v m)))"

definition dec_map :: "(string \<Rightarrow> goerr + 'k::linorder) \<Rightarrow> (json \<Rightarrow> goerr + 'v) \<Rightarrow> ('k, 'v) gomap option decoder" where
  "dec_map key dec j old = (case j of
     JObj ms \<Rightarrow> map_sum id Some (dec_entries key dec ms (case old of None \<Rightarrow> [] | Some m \<Rightarrow> m))
   | JNull \<Rightarrow> Inr None
   | _ \<Rightarrow> Inl ErrJSON)"

definition dec_string_list :: "json \<Rightarrow> goerr + string list" where
  "dec_string_list j = (case j of
     JArr js \<Rightarrow> foldr (\<lambda>x acc. case (dec_string x [], acc) of
                   (Inr s, Inr ss) \<Rightarrow> Inr (s # ss) | (Inl e, _) \<Rightarrow> Inl e | (_, Inl e) \<Rightarrow> Inl e) js (Inr [])
   | JNull \<Rightarrow> Inr []
   | _ \<Rightarrow> Inl ErrJSON)"

lemma dec_enc_int64 [simp]: "dec_int64 (enc_int64 w) old = Inr w"
  by (simp add: dec_int64_def enc_int64_def)

lemma dec_enc_uint64 [simp]: "dec_uint64 (enc_uint64 w) old = Inr w"
  by (simp add: dec_uint64_def enc_uint64_def)

lemma dec_enc_bytes [simp]: "dec_bytes (enc_bytes b) old = Inr b"
  by (cases b) (simp_all add: dec_bytes_def enc_bytes_def)

lemma dec_string_JStr [simp]: "dec_string (JStr s) old = Inr s"
  by (simp add: dec_string_def)

lemma dec_bool_JBool [simp]: "dec_bool (JBool b) old = Inr b"
  by (simp add: dec_bool_def)

lemma nat_str_is_int_str: "nat_str n = int_str (int n)"
  by (simp add: int_str_def)

lemma json_ok_enc [simp]:
  "json_ok (enc_int64 w)" "json_ok (enc_uint64 w)" "json_ok (enc_bytes b)"
  by (auto simp: enc_int64_def enc_uint64_def enc_bytes_def nat_str_is_int_str split: option.split)

lemma dec_string_list_JStr [simp]: "dec_string_list (JArr (map JStr ss)) = Inr ss"
proof -
  have "foldr (\<lambda>x acc. case (dec_string x [], acc) of
          (Inr s, Inr ss) \<Rightarrow> Inr (s # ss) | (Inl e, _) \<Rightarrow> Inl e | (_, Inl e) \<Rightarrow> Inl e) (map JStr ss) (Inr []) = Inr ss"
    by (induction ss) simp_all
  then show ?thesis by (simp add: dec_string_list_def)
qed

lemma dec_entries_map:
  assumes "\<And>k v. (k, v) \<in> set kvs \<Longrightarrow> rk (key k) = Inr k" "\<And>k v. (k, v) \<in> set kvs \<Longrightarrow> dec (enc v) = Inr v"
  shows "dec_entries rk dec (map (\<lambda>(k, v). (key k, enc v)) kvs) m =
         Inr (foldl (\<lambda>m kv. gm_put (fst kv) (snd kv) m) m kvs)"
  using assms
proof (induction kvs arbitrary: m)
  case (Cons kv kvs)
  obtain a b where kv: "kv = (a, b)" by fastforce
  have "rk (key a) = Inr a" "dec (enc b) = Inr b" using Cons.prems kv by auto
  moreover have "dec_entries rk dec (map (\<lambda>(k, v). (key k, enc v)) kvs) m' =
      Inr (foldl (\<lambda>m kv. gm_put (fst kv) (snd kv) m) m' kvs)" for m'
    using Cons.prems by (intro Cons.IH) auto
  ultimately show ?case by (simp add: kv)
qed simp

lemma foldl_gm_put_get:
  assumes "distinct (map fst kvs)"
  shows "gm_get (foldl (\<lambda>m kv. gm_put (fst kv) (snd kv) m) m kvs) k =
         (case map_of kvs k of None \<Rightarrow> gm_get m k | Some v \<Rightarrow> Some v)"
  using assms
proof (induction kvs arbitrary: m)
  case (Cons kv kvs)
  obtain a b where kv: "kv = (a, b)" by fastforce
  have "map_of kvs a = None" using Cons.prems kv by (simp add: map_of_eq_None_iff)
  then show ?case using Cons kv by (auto split: option.splits)
qed simp

lemma foldl_gm_put_ok:
  "gm_ok m \<Longrightarrow> gm_ok (foldl (\<lambda>m kv. gm_put (fst kv) (snd kv) m) m kvs)"
  by (induction kvs arbitrary: m) simp_all

lemma gm_ok_sorted: "gm_ok m \<Longrightarrow> sorted (map fst m) \<and> distinct (map fst m)"
  by (simp add: gm_ok_def strict_sorted_iff)

lemma gm_ok_eqI:
  assumes "gm_ok m" "gm_ok n" "\<And>k. gm_get m k = gm_get n k"
  shows "m = n"
proof (rule map_sorted_distinct_set_unique[of fst])
  show s: "set m = set n"
    using assms gm_get_in gm_get_Some_in by (metis subset_antisym subrelI)
  show "inj_on fst (set m \<union> set n)"
    using gm_ok_sorted[OF assms(1)] s by (simp add: distinct_map)
qed (use gm_ok_sorted assms in auto)

lemma insort_key_map: "insort_key f (g x) (map g xs) = map g (insort_key (\<lambda>y. f (g y)) x xs)"
  by (induction xs) simp_all

lemma sort_key_map: "sort_key f (map g xs) = map g (sort_key (\<lambda>y. f (g y)) xs)"
  by (induction xs) (simp_all add: insort_key_map)

lemma gm_get_map_of: "gm_get m k = map_of m k"
  by (induction m) auto

lemma foldl_gm_put_perm:
  assumes ok: "gm_ok kvs" and s: "mset kvs' = mset kvs"
  shows "foldl (\<lambda>m kv. gm_put (fst kv) (snd kv) m) [] kvs' = kvs"
proof (rule gm_ok_eqI)
  have set: "set kvs' = set kvs" using s by (metis set_mset_mset)
  have d: "distinct (map fst kvs')"
    using gm_ok_sorted[OF ok] s by (metis mset_map mset_eq_imp_distinct_iff)
  fix k
  have "map_of kvs' k = map_of kvs k"
    using d gm_ok_sorted[OF ok] set by (metis map_of_inject_set)
  then show "gm_get (foldl (\<lambda>m kv. gm_put (fst kv) (snd kv) m) [] kvs') k = gm_get kvs k"
    using foldl_gm_put_get[OF d, of "[]" k] by (simp add: gm_get_map_of split: option.splits)
qed (use ok foldl_gm_put_ok[of "[]"] in simp_all)

lemma dec_enc_map:
  assumes "\<And>kvs. m = Some kvs \<Longrightarrow> gm_ok kvs"
    and "\<And>kvs k v. m = Some kvs \<Longrightarrow> (k, v) \<in> set kvs \<Longrightarrow> rk (key k) = Inr k \<and> dec (enc v) = Inr v"
  shows "dec_map rk dec (enc_map key enc m) None = Inr m"
proof (cases m)
  case None
  then show ?thesis by (simp add: dec_map_def enc_map_def)
next
  case (Some kvs)
  define kvs' where "kvs' = sort_key (\<lambda>y. fst (case y of (k, v) \<Rightarrow> (key k, enc v))) kvs"
  have ms: "mset kvs' = mset kvs" by (simp add: kvs'_def)
  have s: "set kvs' = set kvs" by (simp add: kvs'_def)
  have "dec_entries rk dec (map (\<lambda>(k, v). (key k, enc v)) kvs') [] =
        Inr (foldl (\<lambda>m kv. gm_put (fst kv) (snd kv) m) [] kvs')"
    using assms(2)[OF Some] s by (intro dec_entries_map) auto
  also have "\<dots> = Inr kvs" using foldl_gm_put_perm[OF assms(1)[OF Some] ms] by simp
  finally show ?thesis
    by (simp add: dec_map_def enc_map_def Some sort_key_map kvs'_def)
qed

lemma json_ok_enc_map:
  assumes "\<And>kvs k v. m = Some kvs \<Longrightarrow> (k, v) \<in> set kvs \<Longrightarrow> ascii (key k) \<and> json_ok (enc v)"
  shows "json_ok (enc_map key enc m)"
  using assms
  by (cases m) (auto simp: enc_map_def members_ok_list_all list_all_iff)

lemma ParseUint_key [simp]: "ParseUint (nat_str (unat (w :: uint64))) = Inr w"
  by simp

section \<open>Encoders and decoders as an interface\<close>

text \<open>
  What the record store relies on for every kind of value it keeps in the network: decoding
  an encoded value gives its normal form (the value itself, but for empty slices that come
  back nil), and no encoding is the empty string, which the code uses as a tombstone.
\<close>

locale codec =
  fixes enc :: "'v \<Rightarrow> bytes"
    and dec :: "bytes \<Rightarrow> (goerr + 'v) outcome"
    and norm :: "'v \<Rightarrow> 'v"
    and wf :: "'v \<Rightarrow> bool"
  assumes dec_enc: "wf v \<Longrightarrow> dec (enc v) = Done (Inr (norm v))"
    and enc_nonempty: "wf v \<Longrightarrow> enc v \<noteq> []"
    and dec_empty: "\<exists>e. dec [] = Done (Inl e) \<or> dec [] = Panic ''index out of range''"
begin

lemma enc_inj_norm: "wf v \<Longrightarrow> wf w \<Longrightarrow> enc v = enc w \<Longrightarrow> norm v = norm w"
  using dec_enc by (metis Inr_inject outcome.inject(1))

end

lemma json_print_nonempty [simp]: "json_ok j \<Longrightarrow> json_print j \<noteq> []"
  by (metis json_parse_empty json_parse_print option.distinct(1))

text \<open>The big-endian version number is one such value.\<close>

interpretation be64: codec be_PutUint64 "\<lambda>b. case be_Uint64 b of Done w \<Rightarrow> Done (Inr w) | Panic p \<Rightarrow> Panic p" "\<lambda>w. w" "\<lambda>_. True"
proof unfold_locales
  show "be_PutUint64 v \<noteq> []" for v using be_PutUint64_length[of v] by force
  show "\<exists>e. (case be_Uint64 [] of Done w \<Rightarrow> Done (Inr w) | Panic p \<Rightarrow> Panic p) = Done (Inl e) \<or>
    (case be_Uint64 [] of Done w \<Rightarrow> Done (Inr w) | Panic p \<Rightarrow> Panic p) = Panic ''index out of range''"
    by (simp add: be_Uint64_def)
qed simp

end
