(* ===== verification/GoTime.thy ===== *)
theory GoTime
  imports GoStd
begin

text \<open>
  \<open>time.Time\<close> as nanoseconds since the Unix epoch, its RFC 3339 text in UTC
  (\<open>Format(time.RFC3339)\<close>), \<open>time.Parse(time.RFC3339, s)\<close> in its strict form, and the
  saturating difference \<open>time.Since\<close> computes.
\<close>

definition civil_from_days :: "int \<Rightarrow> int \<times> int \<times> int" where
  "civil_from_days z0 =
     (let z = z0 + 719468; era = z div 146097; doe = z mod 146097;
          yoe = (doe - doe div 1460 + doe div 36524 - doe div 146096) div 365;
          doy = doe - (365 * yoe + yoe div 4 - yoe div 100);
          mp = (5 * doy + 2) div 153;
          d = doy - (153 * mp + 2) div 5 + 1;
          m = (if mp < 10 then mp + 3 else mp - 9);
          y = yoe + era * 400
      in (if m \<le> 2 then y + 1 else y, m, d))"

definition days_from_civil :: "int \<Rightarrow> int \<Rightarrow> int \<Rightarrow> int" where
  "days_from_civil y m d =
     (let y' = (if m \<le> 2 then y - 1 else y); era = y' div 400; yoe = y' mod 400;
          mp = (if m > 2 then m - 3 else m + 9);
          doy = (153 * mp + 2) div 5 + d - 1;
          doe = yoe * 365 + yoe div 4 - yoe div 100 + doy
      in era * 146097 + doe - 719468)"

definition pad :: "nat \<Rightarrow> int \<Rightarrow> string" where
  "pad n i = (let s = nat_str (nat i) in replicate (n - length s) (CHR ''0'') @ s)"

definition ns_per_sec :: int where "ns_per_sec = 1000000000"

definition rfc3339_date :: "int \<Rightarrow> string" where
  "rfc3339_date t =
     (let secs = t div ns_per_sec; days = secs div 86400; s = secs mod 86400;
          (y, m, d) = civil_from_days days
      in pad 4 y @ ''-'' @ pad 2 m @ ''-'' @ pad 2 d @ ''T''
         @ pad 2 (s div 3600) @ '':'' @ pad 2 (s mod 3600 div 60) @ '':'' @ pad 2 (s mod 60))"

definition rfc3339 :: "int \<Rightarrow> string" where
  "rfc3339 t = rfc3339_date t @ ''Z''"

definition rfc3339_nano :: "int \<Rightarrow> string" where
  "rfc3339_nano t =
     (let f = rev (dropWhile (\<lambda>c. c = CHR ''0'') (rev (pad 9 (t mod ns_per_sec))))
      in rfc3339_date t @ (if f = [] then [] else CHR ''.'' # f) @ ''Z'')"

text \<open>A field of exactly \<open>n\<close> digits with its range.\<close>

definition num_field :: "nat \<Rightarrow> int \<Rightarrow> int \<Rightarrow> string \<Rightarrow> int option" where
  "num_field n lo hi s = (if length s < n then None else
     (case digits_val 0 (take n s) of None \<Rightarrow> None
      | Some v \<Rightarrow> if lo \<le> int v \<and> int v \<le> hi then Some (int v) else None))"

definition leap :: "int \<Rightarrow> bool" where
  "leap y = (y mod 4 = 0 \<and> (y mod 100 \<noteq> 0 \<or> y mod 400 = 0))"

definition days_in :: "int \<Rightarrow> int \<Rightarrow> int" where
  "days_in y m = (if m = 2 then (if leap y then 29 else 28)
     else if m = 4 \<or> m = 6 \<or> m = 9 \<or> m = 11 then 30 else 31)"

definition frac_nanos :: "string \<Rightarrow> int" where
  "frac_nanos ds = (case digits_val 0 (take 9 (ds @ replicate 9 (CHR ''0''))) of None \<Rightarrow> 0 | Some v \<Rightarrow> int v)"

text \<open>The zone at the end: \<open>Z\<close> or \<open>+hh:mm\<close>, as seconds east of UTC.\<close>

definition parse_zone :: "string \<Rightarrow> int option" where
  "parse_zone z =
     (if z = ''Z'' then Some 0
      else if length z = 6 \<and> (hd z = CHR ''+'' \<or> hd z = CHR ''-'') \<and> z ! 3 = CHR '':'' then
        (case (num_field 2 0 23 (drop 1 z), num_field 2 0 59 (drop 4 z)) of
           (Some h, Some m) \<Rightarrow> Some ((if hd z = CHR ''-'' then - 1 else 1) * (h * 3600 + m * 60))
         | _ \<Rightarrow> None)
      else None)"

definition parse_rfc3339 :: "string \<Rightarrow> int option" where
  "parse_rfc3339 s =
     (if length s < 20 \<or> s ! 4 \<noteq> CHR ''-'' \<or> s ! 7 \<noteq> CHR ''-'' \<or> s ! 10 \<noteq> CHR ''T''
         \<or> s ! 13 \<noteq> CHR '':'' \<or> s ! 16 \<noteq> CHR '':'' then None else
      (case (num_field 4 0 9999 s, num_field 2 1 12 (drop 5 s), num_field 2 0 23 (drop 11 s),
             num_field 2 0 59 (drop 14 s), num_field 2 0 59 (drop 17 s)) of
         (Some y, Some mo, Some h, Some mi, Some se) \<Rightarrow>
           (case num_field 2 1 (days_in y mo) (drop 8 s) of None \<Rightarrow> None
            | Some d \<Rightarrow>
                (let r = drop 19 s;
                     ds = (if hd r = CHR ''.'' then takeWhile is_digit (tl r) else []);
                     z = (if hd r = CHR ''.'' then dropWhile is_digit (tl r) else r)
                 in if hd r = CHR ''.'' \<and> ds = [] then None else
                    (case parse_zone z of None \<Rightarrow> None
                     | Some off \<Rightarrow>
                         Some ((days_from_civil y mo d * 86400 + h * 3600 + mi * 60 + se - off) * ns_per_sec
                               + frac_nanos ds))))
       | _ \<Rightarrow> None))"

text \<open>\<open>t.Sub(u)\<close> saturates at the bounds of \<open>Duration\<close>.\<close>

definition time_sub :: "int \<Rightarrow> int \<Rightarrow> int" where
  "time_sub t u = max (- (2 ^ 63)) (min (2 ^ 63 - 1) (t - u))"

lemma rfc3339_epoch: "rfc3339 1700000000123456789 = ''2023-11-14T22:13:20Z''"
  by code_simp

lemma parse_rfc3339_example: "parse_rfc3339 ''2023-11-14T22:13:20Z'' = Some 1700000000000000000"
  by code_simp

end
