(* ===== verification/Env.thy ===== *)
theory Env
  imports GoCodec GoTime Sha256
begin

text \<open>
  The node's surroundings as parameters, and the state of a record store. Libraries that are
  not part of the repository (Keccak hashing, ECDSA and BLS signatures, addresses) are functions of
  the record \<open>crypto\<close>; the network, the local database, the clock and the Ethereum client are
  the operations of \<open>env\<close>, each a transformer of an abstract world that other nodes, time and
  failures may change at will. \<open>NewKey\<close> is \<open>datastore.NewKey\<close>, which cleans a database key. Keys, signatures and curve points are their encodings.
\<close>

record crypto =
  Keccak :: "bytes \<Rightarrow> bytes"
  SigToPub :: "bytes \<Rightarrow> bytes \<Rightarrow> goerr + bytes"
  UnmarshalPubkey :: "bytes \<Rightarrow> goerr + bytes"
  FromECDSAPub :: "bytes \<Rightarrow> bytes"
  PubkeyToAddress :: "bytes \<Rightarrow> bytes"
  EcdsaSign :: "bytes \<Rightarrow> bytes \<Rightarrow> goerr + bytes"
  EcdsaPublic :: "bytes \<Rightarrow> bytes"
  AddrToJSON :: "bytes \<Rightarrow> json"
  AddrFromJSON :: "json \<Rightarrow> goerr + bytes"
  AddrHex :: "bytes \<Rightarrow> string"
  BlsSign :: "bytes \<Rightarrow> bytes \<Rightarrow> goerr + bytes"
  BlsPublicBytes :: "bytes \<Rightarrow> goerr + bytes"
  BlsVerify :: "bytes \<Rightarrow> bytes \<Rightarrow> bytes \<Rightarrow> bool"
  G1Null :: bytes
  G1Unmarshal :: "bytes \<Rightarrow> goerr + bytes"
  G1Add :: "bytes \<Rightarrow> bytes \<Rightarrow> bytes"
  G1Marshal :: "bytes \<Rightarrow> goerr + bytes"
  PtNull :: bytes
  PtUnmarshal :: "bytes \<Rightarrow> goerr + bytes"
  PtAdd :: "bytes \<Rightarrow> bytes \<Rightarrow> bytes"

text \<open>The fields the code reads of a chain transaction and of a receipt.\<close>

record eth_tx =
  tx_To :: "bytes option"
  tx_Data :: bytes

record eth_receipt =
  rc_Status :: uint64
  rc_BlockNumber :: "int option"

record 'w env = crypto +
  DhtGet :: "string \<Rightarrow> 'w \<Rightarrow> (goerr + slice) \<times> 'w"
  DhtPut :: "string \<Rightarrow> bytes \<Rightarrow> 'w \<Rightarrow> goerr option \<times> 'w"
  DbGet :: "string \<Rightarrow> 'w \<Rightarrow> (goerr + slice) \<times> 'w"
  DbPut :: "string \<Rightarrow> bytes \<Rightarrow> 'w \<Rightarrow> goerr option \<times> 'w"
  DbQuery :: "string \<Rightarrow> 'w \<Rightarrow> (goerr + (goerr + string \<times> slice) list) \<times> 'w"
  NewKey :: "string \<Rightarrow> string"
  RoutingPeers :: "'w \<Rightarrow> string list \<times> 'w"
  PeerDecode :: "string \<Rightarrow> goerr option"
  Clock :: "'w \<Rightarrow> int \<times> 'w"
  Sleep :: "int \<Rightarrow> 'w \<Rightarrow> 'w"
  Getenv :: "string \<Rightarrow> string"
  EthDial :: "string \<Rightarrow> 'w \<Rightarrow> goerr option \<times> 'w"
  EthSendRaw :: "slice \<Rightarrow> 'w \<Rightarrow> (goerr + bytes) \<times> 'w"
  EthTransactionByHash :: "bytes \<Rightarrow> 'w \<Rightarrow> (eth_tx option \<times> bool \<times> goerr option) \<times> 'w"
  EthTransactionReceipt :: "bytes \<Rightarrow> 'w \<Rightarrow> (eth_receipt option \<times> goerr option) \<times> 'w"
  EthCallContract :: "bytes option \<Rightarrow> bytes \<Rightarrow> int option \<Rightarrow> 'w \<Rightarrow> (goerr + slice) \<times> 'w"
  HashHex :: "bytes \<Rightarrow> string"

text \<open>
  What a run has done to its surroundings, in order: the writes attempted to the network and
  to the database, the sleeps, and the transactions handed to the chain. The component
  theories state frame and ordering properties over this trace.
\<close>

datatype effect = EDht string bytes | EDb string bytes | ESleep int | ETx slice

record voter =
  vt_privKey :: bytes

record 'w RecordStore =
  rs_world :: 'w
  rs_hostID :: string
  rs_pendingLocks :: "(string, string) gomap"
  rs_version :: int64
  rs_voting :: "voter option"
  rs_trace :: "effect list"

section \<open>Primitive operations\<close>

definition dht_GetValue :: "('w, 'e) env_scheme \<Rightarrow> string \<Rightarrow> (('w, 's) RecordStore_scheme, goerr + slice) go" where
  "dht_GetValue E k = (\<lambda>s. case DhtGet E k (rs_world s) of (r, w) \<Rightarrow> (Done r, s\<lparr>rs_world := w\<rparr>))"

definition dht_PutValue :: "('w, 'e) env_scheme \<Rightarrow> string \<Rightarrow> bytes \<Rightarrow> (('w, 's) RecordStore_scheme, goerr option) go" where
  "dht_PutValue E k v = (\<lambda>s. case DhtPut E k v (rs_world s) of (r, w) \<Rightarrow>
     (Done r, s\<lparr>rs_world := w, rs_trace := rs_trace s @ [EDht k v]\<rparr>))"

definition db_Get :: "('w, 'e) env_scheme \<Rightarrow> string \<Rightarrow> (('w, 's) RecordStore_scheme, goerr + slice) go" where
  "db_Get E k = (\<lambda>s. case DbGet E k (rs_world s) of (r, w) \<Rightarrow> (Done r, s\<lparr>rs_world := w\<rparr>))"

definition db_Put :: "('w, 'e) env_scheme \<Rightarrow> string \<Rightarrow> bytes \<Rightarrow> (('w, 's) RecordStore_scheme, goerr option) go" where
  "db_Put E k v = (\<lambda>s. case DbPut E k v (rs_world s) of (r, w) \<Rightarrow>
     (Done r, s\<lparr>rs_world := w, rs_trace := rs_trace s @ [EDb k v]\<rparr>))"

definition db_Query :: "('w, 'e) env_scheme \<Rightarrow> string \<Rightarrow> (('w, 's) RecordStore_scheme, goerr + (goerr + string \<times> slice) list) go" where
  "db_Query E p = (\<lambda>s. case DbQuery E p (rs_world s) of (r, w) \<Rightarrow> (Done r, s\<lparr>rs_world := w\<rparr>))"

definition dht_ListPeers :: "('w, 'e) env_scheme \<Rightarrow> (('w, 's) RecordStore_scheme, string list) go" where
  "dht_ListPeers E = (\<lambda>s. case RoutingPeers E (rs_world s) of (r, w) \<Rightarrow> (Done r, s\<lparr>rs_world := w\<rparr>))"

definition time_Now :: "('w, 'e) env_scheme \<Rightarrow> (('w, 's) RecordStore_scheme, int) go" where
  "time_Now E = (\<lambda>s. case Clock E (rs_world s) of (t, w) \<Rightarrow> (Done t, s\<lparr>rs_world := w\<rparr>))"

definition time_Sleep :: "('w, 'e) env_scheme \<Rightarrow> int \<Rightarrow> (('w, 's) RecordStore_scheme, unit) go" where
  "time_Sleep E d = (\<lambda>s. (Done (), s\<lparr>rs_world := Sleep E d (rs_world s), rs_trace := rs_trace s @ [ESleep d]\<rparr>))"

definition eth_Dial :: "('w, 'e) env_scheme \<Rightarrow> string \<Rightarrow> (('w, 's) RecordStore_scheme, goerr option) go" where
  "eth_Dial E u = (\<lambda>s. case EthDial E u (rs_world s) of (r, w) \<Rightarrow> (Done r, s\<lparr>rs_world := w\<rparr>))"

definition eth_SendRaw :: "('w, 'e) env_scheme \<Rightarrow> slice \<Rightarrow> (('w, 's) RecordStore_scheme, goerr + bytes) go" where
  "eth_SendRaw E tx = (\<lambda>s. case EthSendRaw E tx (rs_world s) of (r, w) \<Rightarrow>
     (Done r, s\<lparr>rs_world := w, rs_trace := rs_trace s @ [ETx tx]\<rparr>))"

definition eth_TransactionByHash :: "('w, 'e) env_scheme \<Rightarrow> bytes \<Rightarrow> (('w, 's) RecordStore_scheme, eth_tx option \<times> bool \<times> goerr option) go" where
  "eth_TransactionByHash E h = (\<lambda>s. case EthTransactionByHash E h (rs_world s) of (r, w) \<Rightarrow> (Done r, s\<lparr>rs_world := w\<rparr>))"

definition eth_TransactionReceipt :: "('w, 'e) env_scheme \<Rightarrow> bytes \<Rightarrow> (('w, 's) RecordStore_scheme, eth_receipt option \<times> goerr option) go" where
  "eth_TransactionReceipt E h = (\<lambda>s. case EthTransactionReceipt E h (rs_world s) of (r, w) \<Rightarrow> (Done r, s\<lparr>rs_world := w\<rparr>))"

definition eth_CallContract :: "('w, 'e) env_scheme \<Rightarrow> bytes option \<Rightarrow> bytes \<Rightarrow> int option \<Rightarrow> (('w, 's) RecordStore_scheme, goerr + slice) go" where
  "eth_CallContract E a d b = (\<lambda>s. case EthCallContract E a d b (rs_world s) of (r, w) \<Rightarrow> (Done r, s\<lparr>rs_world := w\<rparr>))"

text \<open>\<open>t.UnixNano()\<close> as the 64-bit integer it is.\<close>

definition UnixNano :: "int \<Rightarrow> int64" where
  "UnixNano t = of_int t"

lemmas prim_defs = dht_GetValue_def dht_PutValue_def db_Get_def db_Put_def db_Query_def
  dht_ListPeers_def time_Now_def time_Sleep_def eth_Dial_def eth_SendRaw_def
  eth_TransactionByHash_def eth_TransactionReceipt_def eth_CallContract_def

end
