(* ===== verification/Naming.thy ===== *)
theory Naming
  imports Env
begin

text \<open>
  The hierarchical hash of a domain name (\<open>core/resolver.go\<close>), its recursive ENS
  specification, and its collision resistance relative to the hash function; the chain
  bindings of a record (\<open>core/bindings.go\<close>).
\<close>

section \<open>Namehash\<close>

definition zero_hash :: bytes where
  "zero_hash = replicate 32 (CHR 0x00)"

definition keccak256 :: "('e) crypto_scheme \<Rightarrow> bytes \<Rightarrow> bytes" where
  "keccak256 C data = Keccak C data"

text \<open>The loop runs over the labels from the last to the first.\<close>

fun namehash_loop :: "('e) crypto_scheme \<Rightarrow> string list \<Rightarrow> bytes \<Rightarrow> bytes" where
  "namehash_loop C [] node = node"
| "namehash_loop C (l # ls) node = namehash_loop C ls (keccak256 C (node @ keccak256 C l))"

definition Namehash :: "('e) crypto_scheme \<Rightarrow> string \<Rightarrow> bytes" where
  "Namehash C name =
     (if name = [] then zero_hash
      else namehash_loop C (rev (Split name (CHR ''.''))) zero_hash)"

lemma namehash_loop_append:
  "namehash_loop C (xs @ ys) node = namehash_loop C ys (namehash_loop C xs node)"
  by (induction C xs node rule: namehash_loop.induct) simp_all

text \<open>The value on a list of labels, first label outermost.\<close>

fun namehash_labels :: "('e) crypto_scheme \<Rightarrow> string list \<Rightarrow> bytes" where
  "namehash_labels C [] = zero_hash"
| "namehash_labels C (l # ls) = keccak256 C (namehash_labels C ls @ keccak256 C l)"

lemma namehash_loop_rev: "namehash_loop C (rev ls) zero_hash = namehash_labels C ls"
  by (induction ls) (simp_all add: namehash_loop_append)

lemma Namehash_labels: "name \<noteq> [] \<Longrightarrow> Namehash C name = namehash_labels C (Split name (CHR ''.''))"
  by (simp add: Namehash_def namehash_loop_rev)

lemma Split_inj: "Split a sep = Split b sep \<Longrightarrow> a = b"
proof (induction a sep arbitrary: b rule: Split.induct)
  case (1 sep)
  then show ?case by (cases b) (auto simp: Split_nonempty[symmetric] split: if_splits list.splits)
next
  case (2 c cs sep)
  obtain l ls where l: "Split cs sep = l # ls" by (cases "Split cs sep") auto
  show ?case
  proof (cases b)
    case Nil
    with "2.prems" l show ?thesis by (auto split: if_splits)
  next
    case (Cons d ds)
    obtain k ks where k: "Split ds sep = k # ks" by (cases "Split ds sep") auto
    show ?thesis
    proof (cases "c = sep")
      case True
      with "2.prems" Cons k have "d = sep" "Split cs sep = Split ds sep" by (auto split: if_splits)
      with True Cons "2.IH"(1)[of ds] show ?thesis by simp
    next
      case False
      with "2.prems" Cons k l have "d = c" "d \<noteq> sep" "Split cs sep = Split ds sep" by (auto split: if_splits)
      with False Cons "2.IH"(2)[of ds] show ?thesis by simp
    qed
  qed
qed

text \<open>Two different label lists with the same hash exhibit a collision or a preimage of zero.\<close>

definition hash_break :: "('e) crypto_scheme \<Rightarrow> bool" where
  "hash_break C = ((\<exists>x y. x \<noteq> y \<and> keccak256 C x = keccak256 C y) \<or> (\<exists>x. keccak256 C x = zero_hash))"

lemma namehash_labels_collision:
  assumes len: "\<And>x. length (keccak256 C x) = 32"
  shows "namehash_labels C a = namehash_labels C b \<Longrightarrow> a \<noteq> b \<Longrightarrow> hash_break C"
proof (induction a arbitrary: b)
  case Nil
  then obtain l ls where "b = l # ls" by (cases b) auto
  with Nil show ?case unfolding hash_break_def by (metis namehash_labels.simps)
next
  case (Cons x xs)
  show ?case
  proof (cases b)
    case Nil
    with Cons show ?thesis unfolding hash_break_def by (metis namehash_labels.simps)
  next
    case (Cons y ys)
    let ?u = "namehash_labels C xs @ keccak256 C x" and ?v = "namehash_labels C ys @ keccak256 C y"
    show ?thesis
    proof (cases "?u = ?v")
      case False
      with Cons.prems Cons show ?thesis unfolding hash_break_def by auto
    next
      case True
      have "length (namehash_labels C zs) = 32" for zs
        by (cases zs) (simp_all add: len zero_hash_def)
      then have "namehash_labels C xs = namehash_labels C ys" "keccak256 C x = keccak256 C y"
        using True by auto
      with Cons.prems Cons Cons.IH[of ys] show ?thesis unfolding hash_break_def by auto
    qed
  qed
qed

section \<open>Bindings\<close>

record Binding =
  b_Addresses :: "(uint64, string) gomap option"
  b_ContentHash :: string
  b_TXT :: string
  b_A :: string

definition zero_Binding :: Binding where
  "zero_Binding = \<lparr>b_Addresses = None, b_ContentHash = [], b_TXT = [], b_A = []\<rparr>"

definition ChainIDToBlockchainName :: "(uint64 \<times> string) list" where
  "ChainIDToBlockchainName =
     [(1, ''ethereum''), (56, ''bsc''), (137, ''polygon''), (42161, ''arbitrum''),
      (10, ''optimism''), (43114, ''avalanche''), (8453, ''base''), (324, ''zksync''),
      (59144, ''linea''), (534352, ''scroll''), (25, ''cronos''), (250, ''fantom''),
      (100, ''gnosis''), (5000, ''mantle''), (1313161554, ''aurora'')]"

fun invalid_chain :: "(uint64, string) gomap \<Rightarrow> goerr option" where
  "invalid_chain [] = None"
| "invalid_chain ((chainID, _) # m) =
     (if map_of ChainIDToBlockchainName chainID = None
      then Some (Errorf (''invalid chain_id in Addresses: '' @ nat_str (unat chainID)))
      else invalid_chain m)"

definition ValidateAddressesChainIDs :: "Binding \<Rightarrow> goerr option" where
  "ValidateAddressesChainIDs b = (case b_Addresses b of None \<Rightarrow> None | Some m \<Rightarrow> invalid_chain m)"

lemma invalid_chain_iff:
  "invalid_chain m = None \<longleftrightarrow> (\<forall>c \<in> fst ` set m. map_of ChainIDToBlockchainName c \<noteq> None)"
  by (induction m rule: invalid_chain.induct) auto

end
