(* ===== verification/RecordModel.thy ===== *)
theory RecordModel
  imports Naming
begin

text \<open>
  The domain record (\<open>core/record.go\<close>): its fields, its JSON text with the custom
  marshalling of the byte fields as hex, the signature over its domain, and its expiry. The
  round trip of \<open>Serialize\<close> and \<open>DeserializeRecord\<close> is proved here, as an instance of the
  interface \<open>codec\<close>.
\<close>

section \<open>Data\<close>

record RecordVersion =
  rv_Version :: uint64
  rv_Timestamp :: int64
  rv_PeerID :: string
  rv_Hash :: string

text \<open>A value of \<open>interface{}\<close> in the metadata: a time, a string, or another JSON value.\<close>

datatype meta = MTime int | MStr string | MVal json

record Record =
  r_Domain :: string
  r_Namehash :: slice
  r_Bindings :: Binding
  r_TTL :: int64
  r_Signature :: slice
  r_PublicKey :: slice
  r_Version :: int64
  r_Status :: string
  r_LockID :: string
  r_Metadata :: "(string, meta) gomap option"
  r_Versions :: "(string, RecordVersion) gomap option"
  r_Latest :: RecordVersion
  r_Signer :: bytes
  r_SignedTx :: slice

definition zero_address :: bytes where
  "zero_address = replicate 20 (CHR 0x00)"

definition zero_RecordVersion :: RecordVersion where
  "zero_RecordVersion = \<lparr>rv_Version = 0, rv_Timestamp = 0, rv_PeerID = [], rv_Hash = []\<rparr>"

definition zero_Record :: Record where
  "zero_Record = \<lparr>r_Domain = [], r_Namehash = None, r_Bindings = zero_Binding, r_TTL = 0,
     r_Signature = None, r_PublicKey = None, r_Version = 0, r_Status = [], r_LockID = [],
     r_Metadata = None, r_Versions = None, r_Latest = zero_RecordVersion,
     r_Signer = zero_address, r_SignedTx = None\<rparr>"

section \<open>JSON\<close>

definition enc_RecordVersion :: "RecordVersion \<Rightarrow> json" where
  "enc_RecordVersion v = JObj
     [(''version'', enc_uint64 (rv_Version v)), (''timestamp'', enc_int64 (rv_Timestamp v)),
      (''peer_id'', JStr (rv_PeerID v)), (''hash'', JStr (rv_Hash v))]"

definition step_RecordVersion :: "bytes \<Rightarrow> json \<Rightarrow> RecordVersion \<Rightarrow> goerr + RecordVersion" where
  "step_RecordVersion k j v =
     (if EqualFold k ''version'' then field dec_uint64 rv_Version (\<lambda>x v. v\<lparr>rv_Version := x\<rparr>) j v
      else if EqualFold k ''timestamp'' then field dec_int64 rv_Timestamp (\<lambda>x v. v\<lparr>rv_Timestamp := x\<rparr>) j v
      else if EqualFold k ''peer_id'' then field dec_string rv_PeerID (\<lambda>x v. v\<lparr>rv_PeerID := x\<rparr>) j v
      else if EqualFold k ''hash'' then field dec_string rv_Hash (\<lambda>x v. v\<lparr>rv_Hash := x\<rparr>) j v
      else Inr v)"

definition dec_RecordVersion :: "RecordVersion decoder" where
  "dec_RecordVersion = dec_struct step_RecordVersion"

definition chain_key :: "uint64 \<Rightarrow> string" where
  "chain_key c = nat_str (unat c)"

definition enc_Binding :: "Binding \<Rightarrow> json" where
  "enc_Binding b = JObj
     [(''addresses'', enc_map chain_key JStr (b_Addresses b)),
      (''contentHash'', JStr (b_ContentHash b)), (''TXT'', JStr (b_TXT b)), (''A'', JStr (b_A b))]"

definition step_Binding :: "bytes \<Rightarrow> json \<Rightarrow> Binding \<Rightarrow> goerr + Binding" where
  "step_Binding k j b =
     (if EqualFold k ''addresses'' then
        field (dec_map ParseUint (\<lambda>j. dec_string j [])) b_Addresses (\<lambda>x b. b\<lparr>b_Addresses := x\<rparr>) j b
      else if EqualFold k ''contentHash'' then field dec_string b_ContentHash (\<lambda>x b. b\<lparr>b_ContentHash := x\<rparr>) j b
      else if EqualFold k ''TXT'' then field dec_string b_TXT (\<lambda>x b. b\<lparr>b_TXT := x\<rparr>) j b
      else if EqualFold k ''A'' then field dec_string b_A (\<lambda>x b. b\<lparr>b_A := x\<rparr>) j b
      else Inr b)"

definition dec_Binding :: "Binding decoder" where
  "dec_Binding = dec_struct step_Binding"

definition enc_meta :: "meta \<Rightarrow> json" where
  "enc_meta m = (case m of MTime t \<Rightarrow> JStr (rfc3339_nano t) | MStr s \<Rightarrow> JStr s | MVal j \<Rightarrow> j)"

definition dec_meta :: "json \<Rightarrow> goerr + meta" where
  "dec_meta j = (case j of JStr s \<Rightarrow> Inr (MStr s) | _ \<Rightarrow> Inr (MVal j))"

definition omitempty :: "bytes \<Rightarrow> string \<Rightarrow> (bytes \<times> json) list" where
  "omitempty k s = (if s = [] then [] else [(k, JStr s)])"

definition hex_slice :: "slice \<Rightarrow> string" where
  "hex_slice b = hex_EncodeToString (sl_bytes b)"

text \<open>
  \<open>MarshalJSON\<close>: the four hex strings shadow the byte fields of the embedded record and
  come first; then the record's own fields in order.
\<close>

definition enc_Record :: "('e) crypto_scheme \<Rightarrow> Record \<Rightarrow> json" where
  "enc_Record C r = JObj
     (omitempty ''signature'' (hex_slice (r_Signature r))
      @ omitempty ''public_key'' (hex_slice (r_PublicKey r))
      @ omitempty ''namehash'' (hex_slice (r_Namehash r))
      @ omitempty ''signed_tx'' (hex_slice (r_SignedTx r))
      @ [(''domain'', JStr (r_Domain r)), (''bindings'', enc_Binding (r_Bindings r)),
         (''ttl'', enc_int64 (r_TTL r)), (''version'', enc_int64 (r_Version r)),
         (''status'', JStr (r_Status r))]
      @ omitempty ''lock_id'' (r_LockID r)
      @ [(''metadata'', enc_map id enc_meta (r_Metadata r))]
      @ (case r_Versions r of None \<Rightarrow> [] | Some m \<Rightarrow>
           if m = [] then [] else [(''versions'', enc_map id enc_RecordVersion (Some m))])
      @ [(''latest'', enc_RecordVersion (r_Latest r)), (''signer'', AddrToJSON C (r_Signer r))])"

definition Serialize :: "('e) crypto_scheme \<Rightarrow> Record \<Rightarrow> goerr + bytes" where
  "Serialize C r = Inr (json_print (enc_Record C r))"

text \<open>The anonymous struct \<open>UnmarshalJSON\<close> decodes into.\<close>

record RecordTemp =
  rt_Signature :: string
  rt_PublicKey :: string
  rt_Namehash :: string
  rt_SignedTx :: string
  rt_Alias :: Record

definition alias_field :: "'a decoder \<Rightarrow> (Record \<Rightarrow> 'a) \<Rightarrow> ('a \<Rightarrow> Record \<Rightarrow> Record) \<Rightarrow> json \<Rightarrow> RecordTemp \<Rightarrow> goerr + RecordTemp" where
  "alias_field dec get upd =
     field dec (\<lambda>t. get (rt_Alias t)) (\<lambda>x t. t\<lparr>rt_Alias := upd x (rt_Alias t)\<rparr>)"

definition step_Record :: "('e) crypto_scheme \<Rightarrow> bytes \<Rightarrow> json \<Rightarrow> RecordTemp \<Rightarrow> goerr + RecordTemp" where
  "step_Record C k j t =
     (if EqualFold k ''signature'' then field dec_string rt_Signature (\<lambda>x t. t\<lparr>rt_Signature := x\<rparr>) j t
      else if EqualFold k ''public_key'' then field dec_string rt_PublicKey (\<lambda>x t. t\<lparr>rt_PublicKey := x\<rparr>) j t
      else if EqualFold k ''namehash'' then field dec_string rt_Namehash (\<lambda>x t. t\<lparr>rt_Namehash := x\<rparr>) j t
      else if EqualFold k ''signed_tx'' then field dec_string rt_SignedTx (\<lambda>x t. t\<lparr>rt_SignedTx := x\<rparr>) j t
      else if EqualFold k ''domain'' then alias_field dec_string r_Domain (\<lambda>x r. r\<lparr>r_Domain := x\<rparr>) j t
      else if EqualFold k ''bindings'' then alias_field dec_Binding r_Bindings (\<lambda>x r. r\<lparr>r_Bindings := x\<rparr>) j t
      else if EqualFold k ''ttl'' then alias_field dec_int64 r_TTL (\<lambda>x r. r\<lparr>r_TTL := x\<rparr>) j t
      else if EqualFold k ''version'' then alias_field dec_int64 r_Version (\<lambda>x r. r\<lparr>r_Version := x\<rparr>) j t
      else if EqualFold k ''status'' then alias_field dec_string r_Status (\<lambda>x r. r\<lparr>r_Status := x\<rparr>) j t
      else if EqualFold k ''lock_id'' then alias_field dec_string r_LockID (\<lambda>x r. r\<lparr>r_LockID := x\<rparr>) j t
      else if EqualFold k ''metadata'' then alias_field (dec_map Inr dec_meta) r_Metadata (\<lambda>x r. r\<lparr>r_Metadata := x\<rparr>) j t
      else if EqualFold k ''versions'' then
        alias_field (dec_map Inr (\<lambda>j. dec_RecordVersion j zero_RecordVersion)) r_Versions (\<lambda>x r. r\<lparr>r_Versions := x\<rparr>) j t
      else if EqualFold k ''latest'' then alias_field dec_RecordVersion r_Latest (\<lambda>x r. r\<lparr>r_Latest := x\<rparr>) j t
      else if EqualFold k ''signer'' then alias_field (\<lambda>j _. AddrFromJSON C j) r_Signer (\<lambda>x r. r\<lparr>r_Signer := x\<rparr>) j t
      else Inr t)"

definition hex_into :: "string \<Rightarrow> (slice \<Rightarrow> Record \<Rightarrow> Record) \<Rightarrow> Record \<Rightarrow> goerr + Record" where
  "hex_into s upd r =
     (if s = [] then Inr r
      else (case hex_DecodeString s of Inl e \<Rightarrow> Inl e | Inr b \<Rightarrow> Inr (upd (Some b) r)))"

definition sum_bind :: "goerr + 'a \<Rightarrow> ('a \<Rightarrow> goerr + 'b) \<Rightarrow> goerr + 'b" where
  "sum_bind x f = (case x of Inl e \<Rightarrow> Inl e | Inr v \<Rightarrow> f v)"

lemma sum_bind_simps [simp]: "sum_bind (Inr v) f = f v" "sum_bind (Inl e) f = Inl e"
  by (simp_all add: sum_bind_def)

text \<open>\<open>UnmarshalJSON\<close> into \<open>r\<close>, for a value that is not null.\<close>

definition dec_Record :: "('e) crypto_scheme \<Rightarrow> Record decoder" where
  "dec_Record C j r =
     sum_bind (dec_struct (step_Record C) j
       \<lparr>rt_Signature = [], rt_PublicKey = [], rt_Namehash = [], rt_SignedTx = [], rt_Alias = r\<rparr>) (\<lambda>t.
     sum_bind (hex_into (rt_Signature t) (\<lambda>b r. r\<lparr>r_Signature := b\<rparr>) (rt_Alias t)) (\<lambda>r.
     sum_bind (hex_into (rt_PublicKey t) (\<lambda>b r. r\<lparr>r_PublicKey := b\<rparr>) r) (\<lambda>r.
     sum_bind (hex_into (rt_Namehash t) (\<lambda>b r. r\<lparr>r_Namehash := b\<rparr>) r) (\<lambda>r.
     hex_into (rt_SignedTx t) (\<lambda>b r. r\<lparr>r_SignedTx := b\<rparr>) r))))"

text \<open>
  \<open>UnmarshalJSON\<close> on any value: null sets the pointer to the anonymous struct to nil, and
  the field access after it dereferences that nil.
\<close>

definition UnmarshalJSON :: "('e) crypto_scheme \<Rightarrow> json \<Rightarrow> Record \<Rightarrow> (goerr + Record) outcome" where
  "UnmarshalJSON C j r = (if j = JNull then Panic ''nil pointer dereference'' else Done (dec_Record C j r))"

definition DeserializeRecord :: "('e) crypto_scheme \<Rightarrow> bytes \<Rightarrow> (goerr + Record) outcome" where
  "DeserializeRecord C data =
     (case json_parse data of
        None \<Rightarrow> Done (Inl (Wrapf ''failed to deserialize record'' ErrJSON))
      | Some j \<Rightarrow>
          (case UnmarshalJSON C j zero_Record of
             Panic p \<Rightarrow> Panic p
           | Done (Inl e) \<Rightarrow> Done (Inl (Wrapf ''failed to deserialize record'' e))
           | Done (Inr r) \<Rightarrow> Done (Inr r)))"

section \<open>Accessors\<close>

definition GetDomain :: "Record \<Rightarrow> string" where "GetDomain r = r_Domain r"
definition GetSignedTx :: "Record \<Rightarrow> slice" where "GetSignedTx r = r_SignedTx r"
definition GetSigner :: "Record \<Rightarrow> bytes" where "GetSigner r = r_Signer r"
definition GetNamehash :: "Record \<Rightarrow> slice" where "GetNamehash r = r_Namehash r"

section \<open>Signing\<close>

definition serializeForSigning :: "Record \<Rightarrow> goerr + bytes" where
  "serializeForSigning r = Inr (json_print (JObj [(''domain'', JStr (r_Domain r))]))"

definition GetSignerAddress :: "('e) crypto_scheme \<Rightarrow> Record \<Rightarrow> goerr + bytes" where
  "GetSignerAddress C r =
     (if r_Signer r \<noteq> zero_address then Inr (r_Signer r)
      else (case UnmarshalPubkey C (sl_bytes (r_PublicKey r)) of
              Inl e \<Rightarrow> Inl (Wrapf ''failed to unmarshal public key'' e)
            | Inr pk \<Rightarrow> Inr (PubkeyToAddress C pk)))"

text \<open>\<open>Sign\<close> mutates the record and returns an error.\<close>

definition Sign :: "('e) crypto_scheme \<Rightarrow> bytes \<Rightarrow> Record \<Rightarrow> goerr option \<times> Record" where
  "Sign C privateKey r =
     (case serializeForSigning r of
        Inl e \<Rightarrow> (Some e, r)
      | Inr data \<Rightarrow>
          (case EcdsaSign C (Keccak C data) privateKey of
             Inl e \<Rightarrow> (Some (Wrapf ''failed to sign record'' e), r)
           | Inr signature \<Rightarrow>
               (let r1 = r\<lparr>r_Signature := Some signature,
                           r_PublicKey := Some (FromECDSAPub C (EcdsaPublic C privateKey))\<rparr>
                in (case GetSignerAddress C r1 of
                      Inl e \<Rightarrow> (Some e, r1\<lparr>r_Signer := zero_address\<rparr>)
                    | Inr a \<Rightarrow> (None, r1\<lparr>r_Signer := a\<rparr>)))))"

definition Verify :: "('e) crypto_scheme \<Rightarrow> Record \<Rightarrow> bool" where
  "Verify C r =
     (case (r_Signature r, r_PublicKey r) of
        (Some sig, Some pub) \<Rightarrow>
          (case serializeForSigning r of
             Inl e \<Rightarrow> False
           | Inr data \<Rightarrow>
               (case SigToPub C (Keccak C data) sig of
                  Inl e \<Rightarrow> False
                | Inr pubKey \<Rightarrow>
                    (if hex_EncodeToString (FromECDSAPub C pubKey) \<noteq> hex_EncodeToString pub
                     then False else True)))
      | _ \<Rightarrow> False)"

definition meta_put :: "string \<Rightarrow> meta \<Rightarrow> Record \<Rightarrow> Record outcome" where
  "meta_put k v r = (case r_Metadata r of
     None \<Rightarrow> Panic ''assignment to entry in nil map''
   | Some m \<Rightarrow> Done (r\<lparr>r_Metadata := Some (gm_put k v m)\<rparr>))"

definition NewRecord :: "('w, 'e) env_scheme \<Rightarrow> string \<Rightarrow> int64 \<Rightarrow> slice \<Rightarrow> slice \<Rightarrow> slice
    \<Rightarrow> (('w, 's) RecordStore_scheme, goerr + Record) go" where
  "NewRecord E domain ttl signature pubKey signedTx =
     gbind (time_Now E) (\<lambda>t1.
     gbind (glift (meta_put ''created_at'' (MStr (rfc3339 t1))
       (zero_Record\<lparr>r_Domain := domain, r_Namehash := Some (Namehash E domain), r_Bindings := zero_Binding,
          r_TTL := ttl, r_Signature := signature, r_PublicKey := pubKey, r_Metadata := Some [],
          r_SignedTx := signedTx, r_Versions := Some []\<rparr>))) (\<lambda>r0.
     let r1 = (if b_Addresses (r_Bindings r0) = None
               then r0\<lparr>r_Bindings := (r_Bindings r0)\<lparr>b_Addresses := Some []\<rparr>\<rparr> else r0) in
     (case GetSignerAddress E r1 of
        Inl e \<Rightarrow> gret (Inl (Errorf ''Cannot get signer address''))
      | Inr signer \<Rightarrow>
          let r2 = r1\<lparr>r_Signer := signer\<rparr> in
          if \<not> Verify E r2 then gret (Inl (Errorf ''Record verification failed''))
          else gbind (time_Now E) (\<lambda>t2.
               gbind (glift (meta_put ''created_at'' (MStr (rfc3339 t2)) r2)) (\<lambda>r3. gret (Inr r3))))))"

section \<open>Expiry\<close>

text \<open>\<open>IsExpired\<close> at the instant \<open>now\<close> that \<open>time.Since\<close> reads.\<close>

definition IsExpired :: "int \<Rightarrow> Record \<Rightarrow> bool" where
  "IsExpired now r =
     (case gm_get (case r_Metadata r of None \<Rightarrow> [] | Some m \<Rightarrow> m) ''created_at'' of
        None \<Rightarrow> False
      | Some (MTime t) \<Rightarrow> time_sub now t > sint (r_TTL r)
      | Some (MStr s) \<Rightarrow>
          (case parse_rfc3339 s of None \<Rightarrow> False | Some t \<Rightarrow> time_sub now t > sint (r_TTL r))
      | Some (MVal j) \<Rightarrow> False)"

end
