(* ===== verification/RecordFacts.thy ===== *)
theory RecordFacts
  imports RecordModel
begin

text \<open>
  Facts about records: the round trip of their JSON text, what a signature covers, and what
  \<open>NewRecord\<close> guarantees of the record it returns.
\<close>

section \<open>Round trip\<close>

text \<open>
  A decoded record has no empty non-nil slice and no empty non-nil version map: \<open>canon\<close> is
  that normal form. \<open>record_ok\<close> bounds the round trip to ASCII text and to metadata that was
  read from JSON or set to a string; the laws of the address codec are go-ethereum's.
\<close>

definition canon_slice :: "slice \<Rightarrow> slice" where
  "canon_slice b = (if sl_bytes b = [] then None else b)"

definition canon :: "Record \<Rightarrow> Record" where
  "canon r = r\<lparr>r_Namehash := canon_slice (r_Namehash r), r_Signature := canon_slice (r_Signature r),
     r_PublicKey := canon_slice (r_PublicKey r), r_SignedTx := canon_slice (r_SignedTx r),
     r_Versions := (if r_Versions r = Some [] then None else r_Versions r)\<rparr>"

definition addr_codec_ok :: "('e) crypto_scheme \<Rightarrow> bytes \<Rightarrow> bool" where
  "addr_codec_ok C a = (AddrFromJSON C (AddrToJSON C a) = Inr a \<and> json_ok (AddrToJSON C a))"

definition version_ok :: "RecordVersion \<Rightarrow> bool" where
  "version_ok v = (ascii (rv_PeerID v) \<and> ascii (rv_Hash v))"

fun meta_ok :: "meta \<Rightarrow> bool" where
  "meta_ok (MTime t) = False"
| "meta_ok (MStr s) = ascii s"
| "meta_ok (MVal j) = (json_ok j \<and> (\<forall>s. j \<noteq> JStr s))"

definition map_all :: "('k::linorder \<Rightarrow> 'v \<Rightarrow> bool) \<Rightarrow> ('k, 'v) gomap option \<Rightarrow> bool" where
  "map_all P m = (case m of None \<Rightarrow> True | Some kvs \<Rightarrow> gm_ok kvs \<and> list_all (\<lambda>(k, v). P k v) kvs)"

lemma map_all_put: "map_all P (Some m) \<Longrightarrow> P k v \<Longrightarrow> map_all P (Some (gm_put k v m))"
  using set_gm_put[of k v m] by (auto simp: map_all_def list_all_iff)

definition binding_ok :: "Binding \<Rightarrow> bool" where
  "binding_ok b = (map_all (\<lambda>k v. ascii v) (b_Addresses b) \<and> ascii (b_ContentHash b) \<and> ascii (b_TXT b) \<and> ascii (b_A b))"

definition record_ok :: "('e) crypto_scheme \<Rightarrow> Record \<Rightarrow> bool" where
  "record_ok C r = (ascii (r_Domain r) \<and> ascii (r_Status r) \<and> ascii (r_LockID r)
     \<and> binding_ok (r_Bindings r) \<and> map_all (\<lambda>k v. ascii k \<and> meta_ok v) (r_Metadata r)
     \<and> map_all (\<lambda>k v. ascii k \<and> version_ok v) (r_Versions r) \<and> version_ok (r_Latest r)
     \<and> addr_codec_ok C (r_Signer r))"

lemma canon_idem [simp]: "canon (canon r) = canon r"
  by (simp add: canon_def canon_slice_def)

lemma canon_fields [simp]:
  "r_Domain (canon r) = r_Domain r" "r_Status (canon r) = r_Status r" "r_LockID (canon r) = r_LockID r"
  "r_Bindings (canon r) = r_Bindings r" "r_Metadata (canon r) = r_Metadata r" "r_Signer (canon r) = r_Signer r"
  by (simp_all add: canon_def)

lemma dec_members_append:
  "dec_members step (xs @ ys) r = sum_bind (dec_members step xs r) (dec_members step ys)"
  by (induction step xs r rule: dec_members.induct) (simp_all split: sum.splits)

lemma dec_members_Cons:
  "dec_members step ((k, j) # ms) r = sum_bind (step k j r) (dec_members step ms)"
  by (simp add: sum_bind_def split: sum.splits)

lemma dec_members_appendI:
  "dec_members step xs r = Inr r' \<Longrightarrow> dec_members step (xs @ ys) r = dec_members step ys r'"
  by (simp add: dec_members_append)

lemma EqualFold_lower: "ToLower n = n \<Longrightarrow> EqualFold n m \<longleftrightarrow> n = ToLower m"
  by (simp add: EqualFold_def)

lemmas fold_defs = EqualFold_def ToLower_def lower_char_def Let_def

lemma dec_enc_RecordVersion [simp]: "dec_RecordVersion (enc_RecordVersion v) old = Inr v"
  by (simp add: dec_RecordVersion_def enc_RecordVersion_def dec_struct_def step_RecordVersion_def
      field_def fold_defs)

lemma json_ok_RecordVersion: "version_ok v \<Longrightarrow> json_ok (enc_RecordVersion v)"
  by (simp add: enc_RecordVersion_def version_ok_def)

lemma dec_enc_addresses:
  "map_all (\<lambda>k v. ascii v) m \<Longrightarrow> dec_map ParseUint (\<lambda>j. dec_string j []) (enc_map chain_key JStr m) None = Inr m"
  by (rule dec_enc_map) (simp_all add: map_all_def chain_key_def)

lemma dec_enc_Binding:
  assumes "binding_ok b"
  shows "dec_Binding (enc_Binding b) zero_Binding = Inr b"
  using assms dec_enc_addresses[of "b_Addresses b"]
  by (simp add: dec_Binding_def enc_Binding_def dec_struct_def step_Binding_def
      field_def fold_defs binding_ok_def zero_Binding_def)

lemma json_ok_Binding: "binding_ok b \<Longrightarrow> json_ok (enc_Binding b)"
  by (auto simp: enc_Binding_def binding_ok_def chain_key_def map_all_def list_all_iff intro!: json_ok_enc_map)

lemma dec_enc_meta: "meta_ok v \<Longrightarrow> dec_meta (enc_meta v) = Inr v"
  by (cases v) (auto simp: dec_meta_def enc_meta_def split: json.splits)

lemma json_ok_meta: "meta_ok v \<Longrightarrow> json_ok (enc_meta v)"
  by (cases v) (auto simp: enc_meta_def)

lemma dec_enc_metadata:
  "map_all (\<lambda>k v. ascii k \<and> meta_ok v) m \<Longrightarrow> dec_map Inr dec_meta (enc_map id enc_meta m) None = Inr m"
  by (rule dec_enc_map) (auto simp: map_all_def list_all_iff dec_enc_meta)

lemma dec_enc_versions:
  "map_all (\<lambda>k v. ascii k \<and> version_ok v) m \<Longrightarrow>
   dec_map Inr (\<lambda>j. dec_RecordVersion j zero_RecordVersion) (enc_map id enc_RecordVersion m) None = Inr m"
  by (rule dec_enc_map) (auto simp: map_all_def)

lemma members_ok_append [simp]: "members_ok (xs @ ys) \<longleftrightarrow> members_ok xs \<and> members_ok ys"
  by (simp add: members_ok_list_all)

lemma members_ok_omitempty [simp]: "ascii k \<Longrightarrow> ascii s \<Longrightarrow> members_ok (omitempty k s)"
  by (simp add: omitempty_def)

lemma json_ok_Record: "record_ok C r \<Longrightarrow> json_ok (enc_Record C r)"
proof -
  assume ok: "record_ok C r"
  have m: "json_ok (enc_map id enc_meta (r_Metadata r))"
    using ok by (intro json_ok_enc_map) (auto simp: record_ok_def map_all_def list_all_iff json_ok_meta)
  have v: "json_ok (enc_map id enc_RecordVersion (r_Versions r))"
    using ok by (intro json_ok_enc_map) (auto simp: record_ok_def map_all_def list_all_iff json_ok_RecordVersion)
  show ?thesis
    using ok m v
    by (auto simp: enc_Record_def record_ok_def hex_slice_def json_ok_Binding json_ok_RecordVersion
        addr_codec_ok_def split: option.split)
qed

lemma step_omitempty:
  assumes "step k (JStr s) t = Inr (f s)" and "f [] = t"
  shows "dec_members step (omitempty k s) t = Inr (f s)"
  using assms by (simp add: omitempty_def)

lemma hex_into_slice:
  "hex_into (hex_slice b) upd r = Inr (if sl_bytes b = [] then r else upd b r)"
  by (cases b) (simp_all add: hex_into_def hex_slice_def)

lemma dec_enc_Record:
  assumes ok: "record_ok C r"
  shows "dec_Record C (enc_Record C r) zero_Record = Inr (canon r)"
proof -
  let ?st = "step_Record C" and ?z = zero_Record
  let ?H = "omitempty ''signature'' (hex_slice (r_Signature r))
      @ omitempty ''public_key'' (hex_slice (r_PublicKey r))
      @ omitempty ''namehash'' (hex_slice (r_Namehash r))
      @ omitempty ''signed_tx'' (hex_slice (r_SignedTx r))"
  let ?F = "[(''domain'', JStr (r_Domain r)), (''bindings'', enc_Binding (r_Bindings r)),
         (''ttl'', enc_int64 (r_TTL r)), (''version'', enc_int64 (r_Version r)),
         (''status'', JStr (r_Status r))]"
  let ?T = "omitempty ''lock_id'' (r_LockID r) @ [(''metadata'', enc_map id enc_meta (r_Metadata r))]"
  let ?V = "case r_Versions r of None \<Rightarrow> [] | Some m \<Rightarrow>
           if m = [] then [] else [(''versions'', enc_map id enc_RecordVersion (Some m))]"
  let ?L = "[(''latest'', enc_RecordVersion (r_Latest r)), (''signer'', AddrToJSON C (r_Signer r))]"
  define t0 where "t0 = \<lparr>rt_Signature = [], rt_PublicKey = [], rt_Namehash = [], rt_SignedTx = [], rt_Alias = ?z\<rparr>"
  define t4 where "t4 = \<lparr>rt_Signature = hex_slice (r_Signature r), rt_PublicKey = hex_slice (r_PublicKey r),
     rt_Namehash = hex_slice (r_Namehash r), rt_SignedTx = hex_slice (r_SignedTx r), rt_Alias = ?z\<rparr>"
  have hexes: "dec_members ?st (?H) t0 = Inr t4"
    by (simp add: dec_members_append t0_def t4_def step_Record_def field_def fold_defs omitempty_def)
  define z9 where "z9 = ?z\<lparr>r_Domain := r_Domain r, r_Bindings := r_Bindings r, r_TTL := r_TTL r,
     r_Version := r_Version r, r_Status := r_Status r\<rparr>"
  have five: "dec_members ?st ?F t4 = Inr (t4\<lparr>rt_Alias := z9\<rparr>)"
    using ok dec_enc_Binding[of "r_Bindings r"]
    by (simp add: t4_def z9_def step_Record_def alias_field_def field_def fold_defs record_ok_def zero_Record_def)
  define z11 where "z11 = z9\<lparr>r_LockID := r_LockID r, r_Metadata := r_Metadata r\<rparr>"
  have two: "dec_members ?st (?T) (t4\<lparr>rt_Alias := z9\<rparr>) = Inr (t4\<lparr>rt_Alias := z11\<rparr>)"
    using ok dec_enc_metadata[of "r_Metadata r"]
    by (simp add: dec_members_append t4_def z9_def z11_def step_Record_def alias_field_def field_def fold_defs
        record_ok_def zero_Record_def omitempty_def)
  define z12 where "z12 = z11\<lparr>r_Versions := (if r_Versions r = Some [] then None else r_Versions r)\<rparr>"
  have vers: "dec_members ?st (?V) (t4\<lparr>rt_Alias := z11\<rparr>) = Inr (t4\<lparr>rt_Alias := z12\<rparr>)"
    using ok dec_enc_versions[of "r_Versions r"]
    by (auto simp: t4_def z9_def z11_def z12_def step_Record_def alias_field_def field_def fold_defs
        record_ok_def zero_Record_def split: option.split)
  define z14 where "z14 = z12\<lparr>r_Latest := r_Latest r, r_Signer := r_Signer r\<rparr>"
  have last: "dec_members ?st ?L (t4\<lparr>rt_Alias := z12\<rparr>) = Inr (t4\<lparr>rt_Alias := z14\<rparr>)"
    using ok by (simp add: z14_def step_Record_def alias_field_def field_def fold_defs record_ok_def addr_codec_ok_def)
  have "enc_Record C r = JObj ((?H) @ ?F @ (?T) @ (?V) @ ?L)"
    by (simp add: enc_Record_def)
  then have "dec_struct ?st (enc_Record C r) t0 = Inr (t4\<lparr>rt_Alias := z14\<rparr>)"
    by (simp only: dec_struct_def json.case dec_members_appendI[OF hexes] dec_members_appendI[OF five]
        dec_members_appendI[OF two] dec_members_appendI[OF vers] last)
  then show ?thesis
    by (simp add: dec_Record_def t0_def t4_def hex_into_slice z14_def z12_def z11_def z9_def canon_def
        canon_slice_def zero_Record_def)
qed

lemma enc_Record_not_null [simp]: "enc_Record C r \<noteq> JNull"
  by (simp add: enc_Record_def)

definition record_text :: "('e) crypto_scheme \<Rightarrow> Record \<Rightarrow> bytes" where
  "record_text C r = json_print (enc_Record C r)"

lemma Serialize_text: "Serialize C r = Inr (record_text C r)"
  by (simp add: Serialize_def record_text_def)

lemma DeserializeRecord_text: "record_ok C r \<Longrightarrow> DeserializeRecord C (record_text C r) = Done (Inr (canon r))"
  by (simp add: DeserializeRecord_def record_text_def UnmarshalJSON_def json_parse_print json_ok_Record dec_enc_Record)

lemma DeserializeRecord_empty [simp]: "DeserializeRecord C [] = Done (Inl (Wrapf ''failed to deserialize record'' ErrJSON))"
  by (simp add: DeserializeRecord_def)

lemma record_text_nonempty: "record_ok C r \<Longrightarrow> record_text C r \<noteq> []"
  unfolding record_text_def by (rule json_print_nonempty) (rule json_ok_Record)

interpretation rec_codec: codec "record_text C" "DeserializeRecord C" canon "record_ok C" for C
  by unfold_locales (simp_all add: DeserializeRecord_text record_text_nonempty)

end
