(* ===== verification/Locks.thy ===== *)
theory Locks
  imports RecordFacts
begin

text \<open>
  The key layout of the node's network namespace and its distributed locks
  (\<open>core/store.go\<close>): acquiring and releasing the lock of a domain, and acquiring the lock of
  the pending index with bounded exponential backoff.
\<close>

section \<open>Keys\<close>

definition lockNamespace :: string where "lockNamespace = ''/altica/locks''"
definition indexKey :: string where "indexKey = ''_index''"
definition recordNamespace :: string where "recordNamespace = ''/altica/records''"
definition voteNamespace :: string where "voteNamespace = ''/altica/votes''"

definition makeLockKey :: "string \<Rightarrow> string" where
  "makeLockKey domain = lockNamespace @ ''/'' @ ToLower domain"

definition makeRecordKey :: "string \<Rightarrow> string" where
  "makeRecordKey domain = recordNamespace @ ''/'' @ domain"

definition makePendingKey :: "string \<Rightarrow> string" where
  "makePendingKey domain = ''/altica/pending/'' @ ToLower domain"

definition makeMetadataKey :: "string \<Rightarrow> string" where
  "makeMetadataKey domain = recordNamespace @ ''/'' @ domain @ ''/metadata''"

definition makeNamehashKey :: "bytes \<Rightarrow> string" where
  "makeNamehashKey namehash = recordNamespace @ ''/namehash/'' @ hex_EncodeToString namehash"

definition makeVoteKey :: "string \<Rightarrow> string" where
  "makeVoteKey domain = voteNamespace @ ''/'' @ domain"

lemmas key_defs = makeLockKey_def makeRecordKey_def makePendingKey_def makeMetadataKey_def
  makeNamehashKey_def makeVoteKey_def lockNamespace_def recordNamespace_def voteNamespace_def

lemma lock_pending_disjoint [simp]:
  "makeLockKey a \<noteq> makePendingKey b" "makePendingKey b \<noteq> makeLockKey a"
  by (simp_all add: key_defs)

lemma record_lock_pending_disjoint [simp]:
  "makeRecordKey a \<noteq> makeLockKey b" "makeRecordKey a \<noteq> makePendingKey b"
  "makeLockKey b \<noteq> makeRecordKey a" "makePendingKey b \<noteq> makeRecordKey a"
  "makeNamehashKey h \<noteq> makeLockKey b" "makeNamehashKey h \<noteq> makePendingKey b"
  "makeLockKey b \<noteq> makeNamehashKey h" "makePendingKey b \<noteq> makeNamehashKey h"
  by (simp_all add: key_defs)

lemma vote_key_disjoint [simp]:
  "makeVoteKey a \<noteq> makeLockKey b" "makeVoteKey a \<noteq> makePendingKey b" "makeVoteKey a \<noteq> makeRecordKey b"
  "makeLockKey b \<noteq> makeVoteKey a" "makePendingKey b \<noteq> makeVoteKey a" "makeRecordKey b \<noteq> makeVoteKey a"
  "makeVoteKey a \<noteq> makeNamehashKey h" "makeNamehashKey h \<noteq> makeVoteKey a"
  by (simp_all add: key_defs)

lemma makeLockKey_eq: "makeLockKey a = makeLockKey b \<longleftrightarrow> ToLower a = ToLower b"
  by (simp add: key_defs)

lemma makePendingKey_eq: "makePendingKey a = makePendingKey b \<longleftrightarrow> ToLower a = ToLower b"
  by (simp add: key_defs)

lemma ToLower_indexKey [simp]: "ToLower indexKey = indexKey"
  by (simp add: indexKey_def ToLower_def lower_char_def Let_def)

section \<open>Operations\<close>

definition IsLockValid :: "('w, 'e) env_scheme \<Rightarrow> string \<Rightarrow> string \<Rightarrow> (('w, 's) RecordStore_scheme, bool) go" where
  "IsLockValid E domain lockID =
     gbind (dht_GetValue E (makeLockKey domain)) (\<lambda>r.
     gret (case r of Inl e \<Rightarrow> False | Inr storedValue \<Rightarrow> sl_bytes storedValue = lockID))"

definition make_lockID :: "string \<Rightarrow> int \<Rightarrow> string" where
  "make_lockID hostID t = hostID @ ''-'' @ int_str (sint (UnixNano t))"

definition TryAcquireLock :: "('w, 'e) env_scheme \<Rightarrow> string \<Rightarrow> (('w, 's) RecordStore_scheme, string \<times> bool) go" where
  "TryAcquireLock E domain =
     gbind (gread rs_hostID) (\<lambda>hostID.
     gbind (time_Now E) (\<lambda>t.
     let lockID = make_lockID hostID t in
     gbind (dht_GetValue E (makeLockKey domain)) (\<lambda>existing.
     if (case existing of Inl e \<Rightarrow> False | Inr existingValue \<Rightarrow> 0 < length (sl_bytes existingValue))
     then gret ([], False)
     else gbind (dht_PutValue E (makeLockKey domain) lockID) (\<lambda>err.
       case err of
         Some e \<Rightarrow> gret ([], False)
       | None \<Rightarrow>
           gbind (gmodify (\<lambda>s. s\<lparr>rs_pendingLocks := gm_put domain lockID (rs_pendingLocks s)\<rparr>)) (\<lambda>_.
           gret (lockID, True))))))"

definition ReleaseLock :: "('w, 'e) env_scheme \<Rightarrow> string \<Rightarrow> string \<Rightarrow> (('w, 's) RecordStore_scheme, bool) go" where
  "ReleaseLock E domain lockID =
     gbind (IsLockValid E domain lockID) (\<lambda>valid.
     if \<not> valid then gret False
     else gbind (dht_PutValue E (makeLockKey domain) []) (\<lambda>_.
       gbind (gread rs_pendingLocks) (\<lambda>locks.
       if gm_get locks domain = Some lockID
       then gbind (gmodify (\<lambda>s. s\<lparr>rs_pendingLocks := gm_del domain (rs_pendingLocks s)\<rparr>)) (\<lambda>_. gret True)
       else gret False)))"

definition millisecond :: int where "millisecond = 1000000"
definition sec :: int where "sec = 1000000000"

definition index_maxAttempts :: nat where "index_maxAttempts = 5"
definition index_initialBackoff :: int where "index_initialBackoff = 100 * millisecond"
definition index_maxBackoff :: int where "index_maxBackoff = 2 * sec"
definition index_timeout :: int where "index_timeout = 10 * sec"

definition index_backoff :: "nat \<Rightarrow> int" where
  "index_backoff attempt =
     (let backoff = index_initialBackoff * 2 ^ attempt
      in if backoff > index_maxBackoff then index_maxBackoff else backoff)"

text \<open>The loop of \<open>TryAcquireIndexLock\<close> with \<open>n\<close> attempts left.\<close>

fun index_lock_loop :: "('w, 'e) env_scheme \<Rightarrow> int \<Rightarrow> nat \<Rightarrow> (('w, 's) RecordStore_scheme, string \<times> bool) go" where
  "index_lock_loop E startTime 0 = gret ([], False)"
| "index_lock_loop E startTime (Suc n) =
     gbind (time_Now E) (\<lambda>t.
     if time_sub t startTime > index_timeout then gret ([], False)
     else gbind (TryAcquireLock E indexKey) (\<lambda>(lockID, acquired).
       if \<not> acquired
       then gbind (time_Sleep E (index_backoff (index_maxAttempts - Suc n))) (\<lambda>_. index_lock_loop E startTime n)
       else gbind (gmodify (\<lambda>s. s\<lparr>rs_pendingLocks := gm_put indexKey lockID (rs_pendingLocks s)\<rparr>)) (\<lambda>_.
            gret (lockID, True))))"

definition TryAcquireIndexLock :: "('w, 'e) env_scheme \<Rightarrow> (('w, 's) RecordStore_scheme, string \<times> bool) go" where
  "TryAcquireIndexLock E = gbind (time_Now E) (\<lambda>startTime. index_lock_loop E startTime index_maxAttempts)"

end
