(* ===== verification/EvmSubmit.thy ===== *)
theory EvmSubmit
  imports RecordFacts
begin

text \<open>
  Handing a signed transaction to the chain and waiting for it to be mined
  (\<open>SubmitSignedTx\<close> and \<open>simulateTx\<close> of \<open>contracts/evm/utils.go\<close>).
\<close>

definition simulateTx :: "('w, 'e) env_scheme \<Rightarrow> bytes option \<Rightarrow> bytes \<Rightarrow> int option \<Rightarrow> (('w, 's) RecordStore_scheme, bool \<times> goerr option) go" where
  "simulateTx E addr data blockNumber =
     gbind (eth_CallContract E addr data blockNumber) (\<lambda>r.
     gret (case r of
        Inl e \<Rightarrow> (False, Some (Wrapf ''transaction reverted with reason'' e))
      | Inr revertReason \<Rightarrow>
          if 0 < length (sl_bytes revertReason)
          then (False, Some (Errorf (''transaction reverted with reason: '' @ sl_bytes revertReason)))
          else (True, None)))"

definition mined_maxRetries :: nat where "mined_maxRetries = 4"

text \<open>
  The polling loop: \<open>n\<close> attempts are left, so the attempt counter is
  \<open>mined_maxRetries + 1 - n\<close>; \<open>tx\<close> is the loop's variable, nil before the first poll.
\<close>

fun wait_mined :: "('w, 'e) env_scheme \<Rightarrow> bytes \<Rightarrow> nat \<Rightarrow> eth_tx option \<Rightarrow> (('w, 's) RecordStore_scheme, goerr + eth_tx option) go" where
  "wait_mined E txHash 0 tx = gret (Inr tx)"
| "wait_mined E txHash (Suc n) tx =
     (let attempt = mined_maxRetries - n in
      gbind (time_Sleep E (2 * 2 ^ attempt * 1000000000)) (\<lambda>_.
      gbind (eth_TransactionByHash E txHash) (\<lambda>(tx, isPending, err).
      case err of
        Some e \<Rightarrow> gret (Inl (Wrapf ''failed to get transaction by hash'' e))
      | None \<Rightarrow>
          if isPending \<and> attempt = mined_maxRetries
          then gret (Inl (Errorf (''transaction is still pending: '' @ HashHex E txHash)))
          else if tx = None
          then gret (Inl (Errorf (''transaction not found: '' @ HashHex E txHash)))
          else if isPending then wait_mined E txHash n tx
          else gret (Inr tx))))"

definition SubmitSignedTx :: "('w, 'e) env_scheme \<Rightarrow> slice \<Rightarrow> (('w, 's) RecordStore_scheme, goerr + string) go" where
  "SubmitSignedTx E signedTx =
     (let rpcURL = Getenv E ''EVM_RPC_URL'' in
      if rpcURL = [] then gret (Inl (Errorf ''EVM_RPC_URL environment variable is not set''))
      else gbind (eth_Dial E rpcURL) (\<lambda>dial.
      case dial of
        Some e \<Rightarrow> gret (Inl (Wrapf ''failed to connect to Ethereum node'' e))
      | None \<Rightarrow>
      gbind (eth_SendRaw E signedTx) (\<lambda>sent.
      case sent of
        Inl e \<Rightarrow> gret (Inl (Wrapf ''failed to send raw transaction'' e))
      | Inr txHash \<Rightarrow>
      gbind (wait_mined E txHash mined_maxRetries None) (\<lambda>mined.
      case mined of
        Inl e \<Rightarrow> gret (Inl e)
      | Inr tx \<Rightarrow>
      gbind (eth_TransactionReceipt E txHash) (\<lambda>(receipt, err).
      case receipt of
        None \<Rightarrow> gpanic ''nil pointer dereference''
      | Some rc \<Rightarrow>
          if rc_Status rc = 0 then
            (case tx of
               None \<Rightarrow> gpanic ''nil pointer dereference''
             | Some t \<Rightarrow>
                 gbind (simulateTx E (tx_To t) (tx_Data t) (rc_BlockNumber rc)) (\<lambda>(reverted, err').
                 case err' of
                   Some e \<Rightarrow> gret (Inl (Wrapf ''transaction reverted with error'' e))
                 | None \<Rightarrow>
                     if reverted then gret (Inl (Errorf ''transaction reverted without a reason''))
                     else gret (Inl (Errorf ''transaction reverted with an unknown reason''))))
          else (case err of
                  Some e \<Rightarrow> gret (Inl (Wrapf ''failed to get transaction receipt'' e))
                | None \<Rightarrow> gret (Inr (HashHex E txHash))))))))"

end
