(* ===== verification/Store.thy ===== *)
theory Store
  imports Locks EvmSubmit
begin

text \<open>
  The record store (\<open>core/store.go\<close>): pending registrations and their index in the network,
  confirmed records in the network and the local database, versions, synchronisation from
  the network, and the operations on a record found by its name hash.
\<close>

section \<open>Pending records\<close>

text \<open>\<open>PendingRecord\<close> holds one record pointer, which may be nil.\<close>

type_synonym PendingRecord = "Record option"

definition enc_Pending :: "('e) crypto_scheme \<Rightarrow> PendingRecord \<Rightarrow> json" where
  "enc_Pending C p = JObj [(''Record'', case p of None \<Rightarrow> JNull | Some r \<Rightarrow> enc_Record C r)]"

definition step_Pending :: "('e) crypto_scheme \<Rightarrow> bytes \<Rightarrow> json \<Rightarrow> PendingRecord \<Rightarrow> goerr + PendingRecord" where
  "step_Pending C k j p =
     (if EqualFold k ''Record'' then
        (if j = JNull then Inr None
         else map_sum id Some (dec_Record C j (case p of None \<Rightarrow> zero_Record | Some r \<Rightarrow> r)))
      else Inr p)"

definition dec_Pending :: "('e) crypto_scheme \<Rightarrow> bytes \<Rightarrow> goerr + PendingRecord" where
  "dec_Pending C data = (case json_parse data of
     None \<Rightarrow> Inl ErrJSON | Some j \<Rightarrow> dec_struct (step_Pending C) j None)"

definition enc_index :: "string list \<Rightarrow> bytes" where
  "enc_index domains = json_print (JArr (map JStr domains))"

definition dec_index :: "bytes \<Rightarrow> goerr + string list" where
  "dec_index data = (case json_parse data of None \<Rightarrow> Inl ErrJSON | Some j \<Rightarrow> dec_string_list j)"

definition GetPendingRecordFromDHT :: "('w, 'e) env_scheme \<Rightarrow> string \<Rightarrow> (('w, 's) RecordStore_scheme, goerr + PendingRecord) go" where
  "GetPendingRecordFromDHT E domain =
     gbind (dht_GetValue E (makePendingKey domain)) (\<lambda>r.
     case r of
       Inl err \<Rightarrow> gret (Inl err)
     | Inr data \<Rightarrow> gret (dec_Pending E (sl_bytes data)))"

definition GetPendingDomains :: "('w, 'e) env_scheme \<Rightarrow> (('w, 's) RecordStore_scheme, string list \<times> bool) go" where
  "GetPendingDomains E =
     gbind (dht_GetValue E (makePendingKey indexKey)) (\<lambda>r.
     case r of
       Inl err \<Rightarrow> gret ([], False)
     | Inr indexData \<Rightarrow>
         (case dec_index (sl_bytes indexData) of
            Inl err \<Rightarrow> gret ([], False)
          | Inr domains \<Rightarrow> gret (domains, True)))"

definition SavePendingRecordToDHT :: "('w, 'e) env_scheme \<Rightarrow> Record \<Rightarrow> (('w, 's) RecordStore_scheme, goerr option) go" where
  "SavePendingRecordToDHT E record =
     gbind (TryAcquireIndexLock E) (\<lambda>(lockID, acquired).
     if \<not> acquired then gret (Some (Errorf ''failed to acquire lock for pending index''))
     else gdefer (ReleaseLock E indexKey lockID) (
       gbind (GetPendingDomains E) (\<lambda>(domains, ok).
       gbind (if r_Domain record \<in> set domains then gret None
              else gbind (dht_PutValue E (makePendingKey indexKey) (enc_index (domains @ [r_Domain record]))) (\<lambda>err.
                   gret (map_option (Wrapf ''failed to update pending index'') err))) (\<lambda>err.
       case err of
         Some e \<Rightarrow> gret (Some e)
       | None \<Rightarrow> dht_PutValue E (makePendingKey (r_Domain record)) (json_print (enc_Pending E (Some record)))))))"

section \<open>Records in the network and the database\<close>

definition GetLatestRecord :: "('w, 'e) env_scheme \<Rightarrow> string \<Rightarrow> (('w, 's) RecordStore_scheme, goerr + Record) go" where
  "GetLatestRecord E domain =
     gbind (dht_GetValue E (makeRecordKey domain)) (\<lambda>r.
     case r of
       Inl err \<Rightarrow> gret (Inl err)
     | Inr data \<Rightarrow> glift (DeserializeRecord E (sl_bytes data)))"

definition SaveRecord :: "('w, 'e) env_scheme \<Rightarrow> Record \<Rightarrow> (('w, 's) RecordStore_scheme, goerr option) go" where
  "SaveRecord E record =
     (case Serialize E record of
        Inl err \<Rightarrow> gret (Some (Wrapf ''failed to serialize record'' err))
      | Inr data \<Rightarrow>
     gbind (dht_PutValue E (makeRecordKey (r_Domain record)) data) (\<lambda>e1.
     case e1 of Some err \<Rightarrow> gret (Some (Wrapf ''failed to store record to dht'' err)) | None \<Rightarrow>
     gbind (db_Put E (NewKey E (makeRecordKey (r_Domain record))) data) (\<lambda>e2.
     case e2 of Some err \<Rightarrow> gret (Some (Wrapf ''failed to store record'' err)) | None \<Rightarrow>
     let namehashKey = makeNamehashKey (Namehash E (r_Domain record)) in
     gbind (dht_PutValue E namehashKey (r_Domain record)) (\<lambda>e3.
     case e3 of Some err \<Rightarrow> gret (Some (Wrapf ''failed to store namehash mapping to dht'' err)) | None \<Rightarrow>
     gbind (db_Put E (NewKey E namehashKey) (r_Domain record)) (\<lambda>e4.
     case e4 of Some err \<Rightarrow> gret (Some (Wrapf ''failed to store namehash mapping'' err)) | None \<Rightarrow>
     gret None)))))"

definition getLatestVersion :: "('w, 'e) env_scheme \<Rightarrow> string \<Rightarrow> (('w, 's) RecordStore_scheme, Record option) go" where
  "getLatestVersion E domain =
     gbind (GetLatestRecord E domain) (\<lambda>r.
     case r of
       Inl err \<Rightarrow> gret None
     | Inr record \<Rightarrow> gbind (SaveRecord E record) (\<lambda>_. gret (Some record)))"

definition Get :: "('w, 'e) env_scheme \<Rightarrow> string \<Rightarrow> (('w, 's) RecordStore_scheme, Record option) go" where
  "Get E domain =
     gbind (db_Get E (NewKey E (makeRecordKey domain))) (\<lambda>local.
     gbind (case local of
              Inr (Some data) \<Rightarrow> gbind (glift (DeserializeRecord E data)) (\<lambda>r.
                (case r of Inl err \<Rightarrow> gret None | Inr record \<Rightarrow> gret (Some record)))
            | _ \<Rightarrow> gret None) (\<lambda>found.
     case found of
       Some record \<Rightarrow>
         if r_Status record = ''pending'' then getLatestVersion E domain else gret (Some record)
     | None \<Rightarrow>
         gbind (GetPendingRecordFromDHT E domain) (\<lambda>pending.
         case pending of
           Inr (Some record) \<Rightarrow> gret (Some record)
         | _ \<Rightarrow> getLatestVersion E domain)))"

definition IsDomainAvailable :: "('w, 'e) env_scheme \<Rightarrow> string \<Rightarrow> (('w, 's) RecordStore_scheme, bool \<times> goerr option) go" where
  "IsDomainAvailable E domain =
     gbind (Get E domain) (\<lambda>found.
     if found \<noteq> None then gret (False, None)
     else gbind (GetPendingRecordFromDHT E domain) (\<lambda>pending.
       case pending of
         Inl err \<Rightarrow> if errors_Is err ErrRoutingNotFound then gret (True, None) else gret (False, Some err)
       | Inr p \<Rightarrow> gret (False, Some (Errorf ''domain locked for registration''))))"

fun decode_all :: "('w, 'e) env_scheme \<Rightarrow> (goerr + string \<times> slice) list \<Rightarrow> Record list outcome" where
  "decode_all E [] = Done []"
| "decode_all E (Inl err # rs) = decode_all E rs"
| "decode_all E (Inr (k, v) # rs) =
     (case DeserializeRecord E (sl_bytes v) of
        Panic p \<Rightarrow> Panic p
      | Done (Inl err) \<Rightarrow> decode_all E rs
      | Done (Inr record) \<Rightarrow>
          (case decode_all E rs of Panic p \<Rightarrow> Panic p | Done records \<Rightarrow> Done (record # records)))"

definition list_prefix :: string where "list_prefix = ''/record/''"

definition ListRecords :: "('w, 'e) env_scheme \<Rightarrow> (('w, 's) RecordStore_scheme, Record list) go" where
  "ListRecords E =
     gbind (db_Query E list_prefix) (\<lambda>r.
     case r of Inl err \<Rightarrow> gret [] | Inr results \<Rightarrow> glift (decode_all E results))"

definition computeStateRoot :: "('w, 'e) env_scheme \<Rightarrow> (('w, 's) RecordStore_scheme, bytes) go" where
  "computeStateRoot E =
     gbind (ListRecords E) (\<lambda>records.
     gret (sha256 (concat (map (\<lambda>r. case Serialize E r of Inl e \<Rightarrow> [] | Inr data \<Rightarrow> data)
                           (sort_key r_Domain records)))))"

section \<open>Versioned update\<close>

text \<open>The metadata document is only checked for being valid JSON of the right shape.\<close>

record RecordMetadata =
  md_Latest :: RecordVersion
  md_Versions :: "(string, RecordVersion) gomap option"

definition step_Metadata :: "bytes \<Rightarrow> json \<Rightarrow> RecordMetadata \<Rightarrow> goerr + RecordMetadata" where
  "step_Metadata k j m =
     (if EqualFold k ''latest'' then field dec_RecordVersion md_Latest (\<lambda>x m. m\<lparr>md_Latest := x\<rparr>) j m
      else if EqualFold k ''versions'' then
        field (dec_map Inr (\<lambda>j. dec_RecordVersion j zero_RecordVersion)) md_Versions (\<lambda>x m. m\<lparr>md_Versions := x\<rparr>) j m
      else Inr m)"

definition dec_Metadata :: "bytes \<Rightarrow> goerr + RecordMetadata" where
  "dec_Metadata data = (case json_parse data of
     None \<Rightarrow> Inl ErrJSON
   | Some j \<Rightarrow> dec_struct step_Metadata j \<lparr>md_Latest = zero_RecordVersion, md_Versions = None\<rparr>)"

definition enc_Metadata :: "RecordVersion \<Rightarrow> (string, RecordVersion) gomap option \<Rightarrow> json" where
  "enc_Metadata latest versions =
     JObj [(''latest'', enc_RecordVersion latest), (''versions'', enc_map id enc_RecordVersion versions)]"

definition GetRecord :: "('w, 'e) env_scheme \<Rightarrow> string \<Rightarrow> (('w, 's) RecordStore_scheme, goerr + Record) go" where
  "GetRecord E domain =
     gbind (dht_GetValue E (makeMetadataKey domain)) (\<lambda>md.
     case (case md of
             Inl err \<Rightarrow> if errors_Is err ErrRoutingNotFound then None else Some err
           | Inr None \<Rightarrow> None
           | Inr (Some metadataData) \<Rightarrow>
               (case dec_Metadata metadataData of Inl err \<Rightarrow> Some err | Inr m \<Rightarrow> None)) of
       Some err \<Rightarrow> gret (Inl err)
     | None \<Rightarrow>
         gbind (dht_GetValue E (makeRecordKey domain)) (\<lambda>r.
         case r of
           Inl err \<Rightarrow> gret (Inl err)
         | Inr data \<Rightarrow> glift (DeserializeRecord E (sl_bytes data))))"

definition GetLatestVersion :: "('w, 'e) env_scheme \<Rightarrow> string \<Rightarrow> (('w, 's) RecordStore_scheme, goerr + RecordVersion) go" where
  "GetLatestVersion E domain =
     gbind (dht_GetValue E (makeMetadataKey domain)) (\<lambda>r.
     case r of
       Inl err \<Rightarrow> gret (Inl err)
     | Inr data \<Rightarrow>
         gret (case json_parse (sl_bytes data) of
             None \<Rightarrow> Inl ErrJSON
           | Some j \<Rightarrow>
               dec_struct (\<lambda>k j v. if EqualFold k ''latest'' then dec_RecordVersion j v else Inr v) j zero_RecordVersion))"

definition default_TTL :: int64 where "default_TTL = 86400000000000"

definition UpdateRecord :: "('w, 'e) env_scheme \<Rightarrow> string \<Rightarrow> bytes \<Rightarrow> (('w, 's) RecordStore_scheme, goerr option) go" where
  "UpdateRecord E domain content =
     gbind (GetRecord E domain) (\<lambda>got.
     case (case got of Inl err \<Rightarrow> if errors_Is err ErrRoutingNotFound then None else Some err | Inr r \<Rightarrow> None) of
       Some err \<Rightarrow> gret (Some err)
     | None \<Rightarrow>
       let hashStr = hex_EncodeToString (sha256 content);
           record = (case got of
              Inr r \<Rightarrow> r
            | Inl err \<Rightarrow> zero_Record\<lparr>r_Domain := domain, r_Bindings := zero_Binding, r_TTL := default_TTL,
                           r_Metadata := Some [], r_Versions := Some []\<rparr>)
       in
       gbind (time_Now E) (\<lambda>t1.
       gbind (glift (meta_put ''updated_at'' (MStr (rfc3339 t1)) record)) (\<lambda>r1.
       gbind (time_Now E) (\<lambda>t2.
       gbind (gread rs_hostID) (\<lambda>hostID.
       let version = \<lparr>rv_Version = r_Version r1 + 1, rv_Timestamp = UnixNano t2,
                      rv_PeerID = hostID, rv_Hash = hashStr\<rparr>;
           versions = gm_put hostID version (case r_Versions r1 of None \<Rightarrow> [] | Some m \<Rightarrow> m);
           r2 = r1\<lparr>r_Versions := Some versions, r_Latest := version, r_Version := rv_Version version\<rparr>
       in
       (case Serialize E r2 of
          Inl err \<Rightarrow> gret (Some err)
        | Inr data \<Rightarrow>
            gbind (dht_PutValue E (makeRecordKey domain) data) (\<lambda>e.
            case e of
              Some err \<Rightarrow> gret (Some err)
            | None \<Rightarrow> dht_PutValue E (makeMetadataKey domain) (json_print (enc_Metadata version (Some versions))))))))))"

section \<open>Store version\<close>

definition versionKey :: string where "versionKey = ''/store/version''"

definition GetStoreVersion :: "('w, 'e) env_scheme \<Rightarrow> (('w, 's) RecordStore_scheme, goerr + int64) go" where
  "GetStoreVersion E =
     gbind (db_Get E (NewKey E versionKey)) (\<lambda>r.
     case r of
       Inl err \<Rightarrow> if err = ErrDatastoreNotFound then gret (Inr 0)
                  else gret (Inl (Wrapf ''failed to get store version'' err))
     | Inr data \<Rightarrow> gbind (glift (be_Uint64 (sl_bytes data))) (\<lambda>v. gret (Inr v)))"

definition GetCurrentVersion :: "(('w, 's) RecordStore_scheme, int64) go" where
  "GetCurrentVersion = gread rs_version"

definition bump_version :: "(('w, 's) RecordStore_scheme, unit) go" where
  "bump_version = gmodify (\<lambda>s. s\<lparr>rs_version := rs_version s + 1\<rparr>)"

definition IncrementVersion :: "(('w, 's) RecordStore_scheme, int64) go" where
  "IncrementVersion = gbind bump_version (\<lambda>_. gread rs_version)"

section \<open>Completing a registration\<close>

text \<open>The part \<open>ConfirmRecord\<close> and \<open>RejectRecord\<close> share: drop the domain from the index.\<close>

definition remove_from_index :: "('w, 'e) env_scheme \<Rightarrow> string \<Rightarrow> (('w, 's) RecordStore_scheme, goerr option) go" where
  "remove_from_index E domain =
     gbind (GetPendingDomains E) (\<lambda>(domains, ok).
     let newDomains = filter (\<lambda>d. d \<noteq> domain) domains in
     gbind (dht_PutValue E (makePendingKey indexKey) (enc_index newDomains)) (\<lambda>err.
     gret (map_option (Wrapf ''failed to update pending index'') err)))"

definition ConfirmRecord :: "('w, 'e) env_scheme \<Rightarrow> string \<Rightarrow> (('w, 's) RecordStore_scheme, goerr option) go" where
  "ConfirmRecord E domain =
     gbind (GetPendingRecordFromDHT E domain) (\<lambda>pending.
     case pending of
       Inl err \<Rightarrow> gret (Some (Errorf ''no pending record found for domain''))
     | Inr p \<Rightarrow>
     gbind (TryAcquireIndexLock E) (\<lambda>(lockID, acquired).
     if \<not> acquired then gret (Some (Errorf ''failed to acquire lock for pending index''))
     else gdefer (ReleaseLock E indexKey lockID) (
       gbind (remove_from_index E domain) (\<lambda>e1.
       case e1 of Some err \<Rightarrow> gret (Some err) | None \<Rightarrow>
       (case p of
          None \<Rightarrow> gpanic ''nil pointer dereference''
        | Some record0 \<Rightarrow>
       let record = record0\<lparr>r_Status := ''confirmed''\<rparr> in
       gbind (SaveRecord E record) (\<lambda>e2.
       case e2 of Some err \<Rightarrow> gret (Some err) | None \<Rightarrow>
       gbind bump_version (\<lambda>_.
       gbind (gread rs_version) (\<lambda>v.
       gbind (db_Put E (NewKey E versionKey) (be_PutUint64 v)) (\<lambda>e3.
       case e3 of Some err \<Rightarrow> gret (Some (Wrapf ''failed to update store version'' err)) | None \<Rightarrow>
       gbind (dht_PutValue E (makePendingKey domain) []) (\<lambda>_.
       gbind (ReleaseLock E domain (r_LockID record)) (\<lambda>_.
       gret None)))))))))))"

definition RejectRecord :: "('w, 'e) env_scheme \<Rightarrow> string \<Rightarrow> (('w, 's) RecordStore_scheme, goerr option) go" where
  "RejectRecord E domain =
     gbind (GetPendingRecordFromDHT E domain) (\<lambda>pending.
     case pending of
       Inl err \<Rightarrow> gret (Some (Errorf ''no pending record found for domain''))
     | Inr p \<Rightarrow>
     gbind (TryAcquireIndexLock E) (\<lambda>(lockID, acquired).
     if \<not> acquired then gret (Some (Errorf ''failed to acquire lock for pending index''))
     else gdefer (ReleaseLock E indexKey lockID) (
       gbind (remove_from_index E domain) (\<lambda>e1.
       case e1 of Some err \<Rightarrow> gret (Some err) | None \<Rightarrow>
       gbind (dht_PutValue E (makePendingKey domain) []) (\<lambda>_.
       case p of
         None \<Rightarrow> gpanic ''nil pointer dereference''
       | Some record \<Rightarrow> gbind (ReleaseLock E domain (r_LockID record)) (\<lambda>_. gret None))))))"

section \<open>Lookup by name hash\<close>

definition GetByNamehash :: "('w, 'e) env_scheme \<Rightarrow> bytes \<Rightarrow> (('w, 's) RecordStore_scheme, Record option) go" where
  "GetByNamehash E namehash =
     gbind (db_Get E (NewKey E (makeNamehashKey namehash))) (\<lambda>r1.
     case r1 of
       Inr (Some domain) \<Rightarrow> Get E domain
     | _ \<Rightarrow>
         gbind (dht_GetValue E (makeNamehashKey namehash)) (\<lambda>r2.
         case r2 of
           Inr (Some domain) \<Rightarrow> Get E domain
         | _ \<Rightarrow> gret None))"

text \<open>The fields of a \<open>NameBoundEvent\<close> the store uses.\<close>

record NameBoundEvent =
  ev_Namehash :: bytes
  ev_Resolver :: bytes
  ev_ExpiresAt :: uint64
  ev_ChainID :: uint64
  ev_EventID :: string

definition BindAddressResolver :: "('w, 'e) env_scheme \<Rightarrow> NameBoundEvent \<Rightarrow> (('w, 's) RecordStore_scheme, goerr option) go" where
  "BindAddressResolver E evt =
     gbind (GetByNamehash E (ev_Namehash evt)) (\<lambda>found.
     case found of
       None \<Rightarrow> gret (Some (Errorf (''record not found for domain: '' @ hex_EncodeToString (ev_Namehash evt))))
     | Some record \<Rightarrow>
         (case b_Addresses (r_Bindings record) of
            None \<Rightarrow> gpanic ''assignment to entry in nil map''
          | Some addrs \<Rightarrow>
              let b = (r_Bindings record)\<lparr>b_Addresses := Some (gm_put (ev_ChainID evt) (AddrHex E (ev_Resolver evt)) addrs)\<rparr> in
              gbind (SaveRecord E (record\<lparr>r_Bindings := b\<rparr>)) (\<lambda>err.
              gret (map_option (Wrapf ''failed to save updated record'') err))))"

definition Resolve :: "('w, 'e) env_scheme \<Rightarrow> string \<Rightarrow> (('w, 's) RecordStore_scheme, string \<times> bool) go" where
  "Resolve E domain =
     gbind (Get E domain) (\<lambda>r.
     case r of None \<Rightarrow> gret ([], False) | Some record \<Rightarrow> gret (b_A (r_Bindings record), True))"

definition GetAndSubmitSignedTx :: "('w, 'e) env_scheme \<Rightarrow> string \<Rightarrow> (('w, 's) RecordStore_scheme, goerr + string) go" where
  "GetAndSubmitSignedTx E domain =
     gbind (Get E domain) (\<lambda>r.
     case r of
       None \<Rightarrow> gret (Inl (Errorf (''record not found for domain: '' @ domain)))
     | Some record \<Rightarrow> SubmitSignedTx E (r_SignedTx record))"

section \<open>Synchronisation\<close>

fun fetch_records :: "('w, 'e) env_scheme \<Rightarrow> (goerr + string \<times> slice) list \<Rightarrow> (('w, 's) RecordStore_scheme, Record list) go" where
  "fetch_records E [] = gret []"
| "fetch_records E (Inl err # rs) = fetch_records E rs"
| "fetch_records E (Inr (key, _) # rs) =
     gbind (dht_GetValue E key) (\<lambda>r.
     case r of
       Inl err \<Rightarrow> fetch_records E rs
     | Inr data \<Rightarrow>
         gbind (glift (DeserializeRecord E (sl_bytes data))) (\<lambda>d.
         case d of
           Inl err \<Rightarrow> fetch_records E rs
         | Inr record \<Rightarrow>
             gbind (fetch_records E rs) (\<lambda>records.
             gret (if 0 < length (sl_bytes (r_Signature record)) then record # records else records))))"

definition getAllRecordsFromPeer :: "('w, 'e) env_scheme \<Rightarrow> string \<Rightarrow> (('w, 's) RecordStore_scheme, goerr + Record list) go" where
  "getAllRecordsFromPeer E peerID =
     (case PeerDecode E peerID of
        Some err \<Rightarrow> gret (Inl (Wrapf ''invalid peer ID'' err))
      | None \<Rightarrow>
     gbind (db_Query E recordNamespace) (\<lambda>q.
     case q of
       Inl err \<Rightarrow> gret (Inl (Wrapf ''failed to query local records'' err))
     | Inr results \<Rightarrow>
     gbind (fetch_records E results) (\<lambda>records.
     gbind (dht_GetValue E (makePendingKey ''*'')) (\<lambda>r.
     gret (Inr (case r of
         Inl err \<Rightarrow> records
       | Inr data \<Rightarrow>
           (case dec_Pending E (sl_bytes data) of
              Inr (Some p) \<Rightarrow> if r_LockID p \<noteq> [] \<and> HasPrefix (r_LockID p) peerID then records @ [p] else records
            | _ \<Rightarrow> records)))))))"

fun store_verified :: "('w, 'e) env_scheme \<Rightarrow> Record list \<Rightarrow> (('w, 's) RecordStore_scheme, unit) go" where
  "store_verified E [] = gret ()"
| "store_verified E (record # rs) =
     (if \<not> Verify E record then store_verified E rs
      else (case Serialize E record of
              Inl err \<Rightarrow> store_verified E rs
            | Inr data \<Rightarrow> gbind (db_Put E (NewKey E (makeRecordKey (r_Domain record))) data) (\<lambda>_. store_verified E rs)))"

definition SyncFromPeer :: "('w, 'e) env_scheme \<Rightarrow> string \<Rightarrow> (('w, 's) RecordStore_scheme, goerr option) go" where
  "SyncFromPeer E peerID =
     gbind (dht_GetValue E versionKey) (\<lambda>r.
     case r of
       Inl err \<Rightarrow> gret (Some (Wrapf ''failed to get peer's store version'' err))
     | Inr data \<Rightarrow>
     gbind (glift (be_Uint64 (sl_bytes data))) (\<lambda>peerVersion.
     gbind (GetStoreVersion E) (\<lambda>our.
     case our of
       Inl err \<Rightarrow> gret (Some (Wrapf ''failed to get our store version'' err))
     | Inr ourVersion \<Rightarrow>
     if sint peerVersion \<le> sint ourVersion then gret None
     else gbind (getAllRecordsFromPeer E peerID) (\<lambda>all.
     case all of
       Inl err \<Rightarrow> gret (Some (Wrapf ''failed to get records from peer'' err))
     | Inr records \<Rightarrow>
     gbind (store_verified E records) (\<lambda>_.
     gbind (gmodify (\<lambda>s. s\<lparr>rs_version := peerVersion\<rparr>)) (\<lambda>_.
     gbind (db_Put E (NewKey E versionKey) (be_PutUint64 peerVersion)) (\<lambda>e.
     gret (map_option (Wrapf ''failed to update store version after sync'') e))))))))"

text \<open>The goroutine \<open>NewRecordStore\<close> starts.\<close>

fun highest_version :: "('w, 'e) env_scheme \<Rightarrow> string list \<Rightarrow> int64 \<Rightarrow> string \<Rightarrow> (('w, 's) RecordStore_scheme, string) go" where
  "highest_version E [] highestVersion highestPeer = gret highestPeer"
| "highest_version E (p # ps) highestVersion highestPeer =
     gbind (dht_GetValue E versionKey) (\<lambda>r.
     case r of
       Inl err \<Rightarrow> highest_version E ps highestVersion highestPeer
     | Inr data \<Rightarrow>
         gbind (glift (be_Uint64 (sl_bytes data))) (\<lambda>version.
         if sint version > sint highestVersion then highest_version E ps version p
         else highest_version E ps highestVersion highestPeer))"

definition initial_sync :: "('w, 'e) env_scheme \<Rightarrow> (('w, 's) RecordStore_scheme, unit) go" where
  "initial_sync E =
     gbind (time_Sleep E (5 * sec)) (\<lambda>_.
     gbind (dht_ListPeers E) (\<lambda>peers.
     if peers = [] then gret ()
     else gbind (highest_version E peers 0 []) (\<lambda>p.
       if p \<noteq> [] then gbind (SyncFromPeer E p) (\<lambda>_. gret ()) else gret ())))"

section \<open>Peers\<close>

definition bootstrapPeers :: "string list" where
  "bootstrapPeers =
     [''/dns4/4.tcp.eu.ngrok.io/tcp/12305/p2p/12D3KooWH6hNr8GtqXpmpB7oPshmKnA58G7UuYR5YXdnJxEAoT5s'']"

definition is_bootstrap :: "string \<Rightarrow> bool" where
  "is_bootstrap peer = list_ex (\<lambda>addr. Contains addr peer) bootstrapPeers"

definition OnlineNodes :: "('w, 'e) env_scheme \<Rightarrow> (('w, 's) RecordStore_scheme, string list) go" where
  "OnlineNodes E = gbind (dht_ListPeers E) (\<lambda>ps. gret (filter (\<lambda>p. \<not> is_bootstrap p) ps))"

definition OnlineNodesCount :: "('w, 'e) env_scheme \<Rightarrow> (('w, 's) RecordStore_scheme, nat) go" where
  "OnlineNodesCount E = gbind (OnlineNodes E) (\<lambda>ps. gret (length ps))"

end
