(* ===== verification/Voting.thy ===== *)
theory Voting
  imports Store
begin

text \<open>
  Threshold voting on pending registrations (\<open>core/voting.go\<close>): votes and vote results with
  their JSON text, casting a vote, choosing and acting as the decision maker, verifying
  votes; and the operations of the store that vote (\<open>Add\<close>, \<open>GetVoteResult\<close>).
\<close>

section \<open>Data\<close>

record Vote =
  v_Domain :: string
  v_PeerID :: string
  v_Signature :: slice
  v_PublicKey :: slice
  v_Decision :: bool
  v_Timestamp :: int64

record VoteResult =
  vr_Domain :: string
  vr_Votes :: "(string, Vote option) gomap option"
  vr_Threshold :: int64
  vr_TotalVotes :: int64
  vr_Consensus :: bool
  vr_Decision :: bool
  vr_Signature :: slice
  vr_OnlineNodes :: int64
  vr_DecisionMaker :: string
  vr_LastUpdated :: int64
  vr_Attempts :: int64

definition zero_Vote :: Vote where
  "zero_Vote = \<lparr>v_Domain = [], v_PeerID = [], v_Signature = None, v_PublicKey = None,
     v_Decision = False, v_Timestamp = 0\<rparr>"

definition zero_VoteResult :: VoteResult where
  "zero_VoteResult = \<lparr>vr_Domain = [], vr_Votes = None, vr_Threshold = 0, vr_TotalVotes = 0,
     vr_Consensus = False, vr_Decision = False, vr_Signature = None, vr_OnlineNodes = 0,
     vr_DecisionMaker = [], vr_LastUpdated = 0, vr_Attempts = 0\<rparr>"

definition decisionTimeout :: int where "decisionTimeout = 30 * sec"
definition maxAttempts :: int where "maxAttempts = 3"

section \<open>JSON\<close>

definition enc_Vote :: "Vote \<Rightarrow> json" where
  "enc_Vote v = JObj
     [(''domain'', JStr (v_Domain v)), (''peer_id'', JStr (v_PeerID v)),
      (''signature'', enc_bytes (v_Signature v)), (''public_key'', enc_bytes (v_PublicKey v)),
      (''decision'', JBool (v_Decision v)), (''timestamp'', enc_int64 (v_Timestamp v))]"

definition step_Vote :: "bytes \<Rightarrow> json \<Rightarrow> Vote \<Rightarrow> goerr + Vote" where
  "step_Vote k j v =
     (if EqualFold k ''domain'' then field dec_string v_Domain (\<lambda>x v. v\<lparr>v_Domain := x\<rparr>) j v
      else if EqualFold k ''peer_id'' then field dec_string v_PeerID (\<lambda>x v. v\<lparr>v_PeerID := x\<rparr>) j v
      else if EqualFold k ''signature'' then field dec_bytes v_Signature (\<lambda>x v. v\<lparr>v_Signature := x\<rparr>) j v
      else if EqualFold k ''public_key'' then field dec_bytes v_PublicKey (\<lambda>x v. v\<lparr>v_PublicKey := x\<rparr>) j v
      else if EqualFold k ''decision'' then field dec_bool v_Decision (\<lambda>x v. v\<lparr>v_Decision := x\<rparr>) j v
      else if EqualFold k ''timestamp'' then field dec_int64 v_Timestamp (\<lambda>x v. v\<lparr>v_Timestamp := x\<rparr>) j v
      else Inr v)"

definition enc_vote_ptr :: "Vote option \<Rightarrow> json" where
  "enc_vote_ptr p = (case p of None \<Rightarrow> JNull | Some v \<Rightarrow> enc_Vote v)"

definition dec_vote_ptr :: "json \<Rightarrow> goerr + Vote option" where
  "dec_vote_ptr j = (if j = JNull then Inr None else map_sum id Some (dec_struct step_Vote j zero_Vote))"

definition enc_VoteResult :: "VoteResult \<Rightarrow> json" where
  "enc_VoteResult r = JObj
     [(''domain'', JStr (vr_Domain r)), (''votes'', enc_map id enc_vote_ptr (vr_Votes r)),
      (''threshold'', enc_int64 (vr_Threshold r)), (''total_votes'', enc_int64 (vr_TotalVotes r)),
      (''consensus'', JBool (vr_Consensus r)), (''decision'', JBool (vr_Decision r)),
      (''signature'', enc_bytes (vr_Signature r)), (''online_nodes'', enc_int64 (vr_OnlineNodes r)),
      (''decision_maker'', JStr (vr_DecisionMaker r)), (''last_updated'', enc_int64 (vr_LastUpdated r)),
      (''attempts'', enc_int64 (vr_Attempts r))]"

definition step_VoteResult :: "bytes \<Rightarrow> json \<Rightarrow> VoteResult \<Rightarrow> goerr + VoteResult" where
  "step_VoteResult k j r =
     (if EqualFold k ''domain'' then field dec_string vr_Domain (\<lambda>x r. r\<lparr>vr_Domain := x\<rparr>) j r
      else if EqualFold k ''votes'' then field (dec_map Inr dec_vote_ptr) vr_Votes (\<lambda>x r. r\<lparr>vr_Votes := x\<rparr>) j r
      else if EqualFold k ''threshold'' then field dec_int64 vr_Threshold (\<lambda>x r. r\<lparr>vr_Threshold := x\<rparr>) j r
      else if EqualFold k ''total_votes'' then field dec_int64 vr_TotalVotes (\<lambda>x r. r\<lparr>vr_TotalVotes := x\<rparr>) j r
      else if EqualFold k ''consensus'' then field dec_bool vr_Consensus (\<lambda>x r. r\<lparr>vr_Consensus := x\<rparr>) j r
      else if EqualFold k ''decision'' then field dec_bool vr_Decision (\<lambda>x r. r\<lparr>vr_Decision := x\<rparr>) j r
      else if EqualFold k ''signature'' then field dec_bytes vr_Signature (\<lambda>x r. r\<lparr>vr_Signature := x\<rparr>) j r
      else if EqualFold k ''online_nodes'' then field dec_int64 vr_OnlineNodes (\<lambda>x r. r\<lparr>vr_OnlineNodes := x\<rparr>) j r
      else if EqualFold k ''decision_maker'' then field dec_string vr_DecisionMaker (\<lambda>x r. r\<lparr>vr_DecisionMaker := x\<rparr>) j r
      else if EqualFold k ''last_updated'' then field dec_int64 vr_LastUpdated (\<lambda>x r. r\<lparr>vr_LastUpdated := x\<rparr>) j r
      else if EqualFold k ''attempts'' then field dec_int64 vr_Attempts (\<lambda>x r. r\<lparr>vr_Attempts := x\<rparr>) j r
      else Inr r)"

definition votes_text :: "VoteResult \<Rightarrow> bytes" where
  "votes_text r = json_print (enc_VoteResult r)"

definition dec_votes :: "bytes \<Rightarrow> goerr + VoteResult" where
  "dec_votes data = (case json_parse data of
     None \<Rightarrow> Inl ErrJSON | Some j \<Rightarrow> dec_struct step_VoteResult j zero_VoteResult)"

section \<open>Reading and writing results\<close>

definition getVoteResult :: "('w, 'e) env_scheme \<Rightarrow> string \<Rightarrow> (('w, 's) RecordStore_scheme, goerr + VoteResult) go" where
  "getVoteResult E domain =
     gbind (dht_GetValue E (makeVoteKey domain)) (\<lambda>r.
     case r of Inl err \<Rightarrow> gret (Inl err) | Inr data \<Rightarrow> gret (dec_votes (sl_bytes data)))"

definition saveVoteResult :: "('w, 'e) env_scheme \<Rightarrow> VoteResult \<Rightarrow> (('w, 's) RecordStore_scheme, goerr option) go" where
  "saveVoteResult E result = dht_PutValue E (makeVoteKey (vr_Domain result)) (votes_text result)"

text \<open>Go's integer remainder and quotient truncate towards zero.\<close>

definition go_rem :: "int \<Rightarrow> int \<Rightarrow> int" where
  "go_rem a b = sgn a * (\<bar>a\<bar> mod \<bar>b\<bar>)"

definition go_quot :: "int \<Rightarrow> int \<Rightarrow> int" where
  "go_quot a b = sgn a * sgn b * (\<bar>a\<bar> div \<bar>b\<bar>)"

definition decision_index :: "string \<Rightarrow> nat \<Rightarrow> int outcome" where
  "decision_index domain onlineNodesCount =
     (case be_Uint64 (take 8 (sha256 domain)) of
        Panic p \<Rightarrow> Panic p
      | Done h \<Rightarrow> Done (go_rem (sint h) (int onlineNodesCount)))"

definition selectDecisionMaker :: "('w, 'e) env_scheme \<Rightarrow> string \<Rightarrow> nat \<Rightarrow> (('w, 's) RecordStore_scheme, string) go" where
  "selectDecisionMaker E domain onlineNodesCount =
     (if onlineNodesCount = 0 then gread rs_hostID
      else gbind (glift (decision_index domain onlineNodesCount)) (\<lambda>index.
        gbind (OnlineNodes E) (\<lambda>peers.
        if 0 \<le> index \<and> index < int (length peers) then gret (peers ! nat index)
        else gpanic ''index out of range'')))"

definition bool_str :: "bool \<Rightarrow> string" where
  "bool_str b = (if b then ''true'' else ''false'')"

definition vote_message :: "string \<Rightarrow> bool \<Rightarrow> int64 \<Rightarrow> bytes" where
  "vote_message domain decision timestamp =
     domain @ '':'' @ bool_str decision @ '':'' @ int_str (sint timestamp)"

definition new_VoteResult :: "string \<Rightarrow> nat \<Rightarrow> string \<Rightarrow> int \<Rightarrow> VoteResult" where
  "new_VoteResult domain onlineNodes decisionMaker now = zero_VoteResult\<lparr>
     vr_Domain := domain, vr_Votes := Some [], vr_OnlineNodes := of_nat onlineNodes,
     vr_Threshold := of_nat (onlineNodes * 2 div 3), vr_DecisionMaker := decisionMaker,
     vr_LastUpdated := UnixNano now\<rparr>"

text \<open>The result to vote on: the stored one, or a fresh one when there is none.\<close>

definition current_result :: "('w, 'e) env_scheme \<Rightarrow> string \<Rightarrow> (('w, 's) RecordStore_scheme, goerr + VoteResult) go" where
  "current_result E domain =
     gbind (getVoteResult E domain) (\<lambda>r.
     case r of
       Inr result \<Rightarrow> gret (Inr result)
     | Inl err \<Rightarrow>
         if \<not> errors_Is err ErrRoutingNotFound then gret (Inl err)
         else gbind (OnlineNodesCount E) (\<lambda>onlineNodes.
              gbind (selectDecisionMaker E domain onlineNodes) (\<lambda>decisionMaker.
              gbind (time_Now E) (\<lambda>now.
              gret (Inr (new_VoteResult domain onlineNodes decisionMaker now))))))"

definition SubmitVote :: "('w, 'e) env_scheme \<Rightarrow> voter \<Rightarrow> string \<Rightarrow> bool \<Rightarrow> (('w, 's) RecordStore_scheme, goerr option) go" where
  "SubmitVote E vm domain decision =
     gbind (current_result E domain) (\<lambda>r.
     case r of Inl err \<Rightarrow> gret (Some err) | Inr result \<Rightarrow>
     if vr_Consensus result \<or> vr_Decision result
     then gret (Some (Errorf ''Domain already reached consensus/decision''))
     else gbind (gread rs_hostID) (\<lambda>hostID.
     gbind (time_Now E) (\<lambda>now.
     let timestamp = UnixNano now in
     (case BlsSign E (vt_privKey vm) (vote_message domain decision timestamp) of
        Inl err \<Rightarrow> gret (Some (Wrapf ''failed to sign vote'' err))
      | Inr signature \<Rightarrow>
     (case BlsPublicBytes E (vt_privKey vm) of
        Inl err \<Rightarrow> gret (Some (Wrapf ''failed to marshal public key'' err))
      | Inr pubKeyBytes \<Rightarrow>
     (case vr_Votes result of
        None \<Rightarrow> gpanic ''assignment to entry in nil map''
      | Some votes \<Rightarrow>
          let vote = \<lparr>v_Domain = domain, v_PeerID = hostID, v_Signature = Some signature,
                      v_PublicKey = Some pubKeyBytes, v_Decision = decision, v_Timestamp = timestamp\<rparr>;
              votes' = gm_put hostID (Some vote) votes
          in saveVoteResult E (result\<lparr>vr_Votes := Some votes', vr_TotalVotes := of_nat (length votes')\<rparr>)))))))"

section \<open>Deciding\<close>

fun count_accepts :: "(string, Vote option) gomap \<Rightarrow> nat outcome" where
  "count_accepts [] = Done 0"
| "count_accepts ((_, None) # vs) = Panic ''nil pointer dereference''"
| "count_accepts ((_, Some v) # vs) =
     (case count_accepts vs of Panic p \<Rightarrow> Panic p | Done n \<Rightarrow> Done (if v_Decision v then Suc n else n))"

fun aggregate :: "('e) crypto_scheme \<Rightarrow> (string, Vote option) gomap \<Rightarrow> bytes \<Rightarrow> goerr + bytes" where
  "aggregate C [] aggSig = Inr aggSig"
| "aggregate C ((k, v) # vs) aggSig =
     (case G1Unmarshal C (case v of None \<Rightarrow> [] | Some v' \<Rightarrow> sl_bytes (v_Signature v')) of
        Inl err \<Rightarrow> Inl (Wrapf ''failed to unmarshal signature'' err)
      | Inr sigPoint \<Rightarrow> aggregate C vs (G1Add C aggSig sigPoint))"

definition result_votes :: "VoteResult \<Rightarrow> (string, Vote option) gomap" where
  "result_votes r = (case vr_Votes r of None \<Rightarrow> [] | Some m \<Rightarrow> m)"

text \<open>The outcome of the ballot, before any effect: the result with consensus and decision set.\<close>

definition tally :: "VoteResult \<Rightarrow> VoteResult outcome" where
  "tally result =
     (case count_accepts (result_votes result) of
        Panic p \<Rightarrow> Panic p
      | Done accepts \<Rightarrow>
          Done (result\<lparr>vr_Consensus := True,
                       vr_Decision := (int accepts > go_quot (sint (vr_TotalVotes result)) 2)\<rparr>))"

definition submit_accepted :: "('w, 'e) env_scheme \<Rightarrow> VoteResult \<Rightarrow> (('w, 's) RecordStore_scheme, goerr option) go" where
  "submit_accepted E result =
     (if vr_Decision result then
        gbind (GetAndSubmitSignedTx E (vr_Domain result)) (\<lambda>r.
        case r of
          Inr txHash \<Rightarrow> gret None
        | Inl err \<Rightarrow>
            gbind (RejectRecord E (vr_Domain result)) (\<lambda>rej.
            case rej of
              Some err' \<Rightarrow> gret (Some (Wrapf ''failed to reject record after signedTx submission failed'' err'))
            | None \<Rightarrow> gret (Some (Wrapf ''failed to submit signed transaction'' err))))
      else gret None)"

definition decide :: "('w, 'e) env_scheme \<Rightarrow> VoteResult \<Rightarrow> (('w, 's) RecordStore_scheme, goerr option) go" where
  "decide E result =
     (if sint (vr_TotalVotes result) \<ge> sint (vr_Threshold result) then
        gbind (glift (tally result)) (\<lambda>result1.
        (case aggregate E (result_votes result1) (G1Null E) of
           Inl err \<Rightarrow> gret (Some err)
         | Inr aggSig \<Rightarrow>
        (case G1Marshal E aggSig of
           Inl err \<Rightarrow> gret (Some (Wrapf ''failed to marshal aggregated signature'' err))
         | Inr aggSigBytes \<Rightarrow>
        let result2 = result1\<lparr>vr_Signature := Some aggSigBytes\<rparr> in
        gbind (submit_accepted E result2) (\<lambda>e1.
        case e1 of Some err \<Rightarrow> gret (Some err) | None \<Rightarrow>
        gbind (saveVoteResult E result2) (\<lambda>e2.
        case e2 of Some err \<Rightarrow> gret (Some (Wrapf ''failed to save consensus result'' err)) | None \<Rightarrow>
        gbind (ConfirmRecord E (vr_Domain result2)) (\<lambda>e3.
        case e3 of
          Some err \<Rightarrow> gret (Some (Wrapf ''Unable to confirm record after consensus'' err))
        | None \<Rightarrow> gret None))))))
      else gret None)"

text \<open>A non-decision-maker's check of the decision maker; it returns the updated local result.\<close>

definition watch_decision_maker :: "('w, 'e) env_scheme \<Rightarrow> string \<Rightarrow> VoteResult \<Rightarrow> (('w, 's) RecordStore_scheme, VoteResult) go" where
  "watch_decision_maker E domain result =
     gbind (OnlineNodes E) (\<lambda>peers.
     gbind (if vr_DecisionMaker result \<notin> set peers then gret True
            else gbind (time_Now E) (\<lambda>now.
                 gret (sint (UnixNano now - vr_LastUpdated result) > decisionTimeout))) (\<lambda>stale.
     if \<not> stale then gret result
     else gbind (if sint (vr_Attempts result) \<ge> maxAttempts
                 then gbind (selectDecisionMaker E domain (length peers)) (\<lambda>dm.
                      gret (result\<lparr>vr_DecisionMaker := dm, vr_Attempts := 0\<rparr>))
                 else gret (result\<lparr>vr_Attempts := vr_Attempts result + 1\<rparr>)) (\<lambda>result1.
          gbind (time_Now E) (\<lambda>now. gret (result1\<lparr>vr_LastUpdated := UnixNano now\<rparr>)))))"

definition process_domain :: "('w, 'e) env_scheme \<Rightarrow> string \<Rightarrow> (('w, 's) RecordStore_scheme, unit) go" where
  "process_domain E domain =
     gbind (getVoteResult E domain) (\<lambda>r.
     case r of
       Inl err \<Rightarrow> gret ()
     | Inr result \<Rightarrow>
     gbind (gread rs_hostID) (\<lambda>hostID.
     if hostID = vr_DecisionMaker result then
       (if sint (vr_TotalVotes result) \<ge> sint (vr_Threshold result)
        then gbind (decide E result) (\<lambda>_. gret ())
        else gret ())
     else gbind (watch_decision_maker E domain result) (\<lambda>_. gret ())))"

fun process_domains :: "('w, 'e) env_scheme \<Rightarrow> string list \<Rightarrow> (('w, 's) RecordStore_scheme, unit) go" where
  "process_domains E [] = gret ()"
| "process_domains E (d # ds) = gbind (process_domain E d) (\<lambda>_. process_domains E ds)"

definition processPendingRecords :: "('w, 'e) env_scheme \<Rightarrow> (('w, 's) RecordStore_scheme, unit) go" where
  "processPendingRecords E =
     gbind (GetPendingDomains E) (\<lambda>(domains, ok).
     if \<not> ok then gret () else process_domains E domains)"

section \<open>Verifying\<close>

definition VerifyVote :: "('e) crypto_scheme \<Rightarrow> Vote \<Rightarrow> bool" where
  "VerifyVote C vote =
     (case PtUnmarshal C (sl_bytes (v_PublicKey vote)) of
        Inl err \<Rightarrow> False
      | Inr pubKey \<Rightarrow>
          BlsVerify C pubKey (vote_message (v_Domain vote) (v_Decision vote) (v_Timestamp vote))
            (sl_bytes (v_Signature vote)))"

fun verify_votes :: "('e) crypto_scheme \<Rightarrow> (string, Vote option) gomap \<Rightarrow> bool outcome" where
  "verify_votes C [] = Done True"
| "verify_votes C ((_, None) # vs) = Panic ''nil pointer dereference''"
| "verify_votes C ((_, Some v) # vs) = (if \<not> VerifyVote C v then Done False else verify_votes C vs)"

fun sum_pubkeys :: "('e) crypto_scheme \<Rightarrow> (string, Vote option) gomap \<Rightarrow> bytes \<Rightarrow> bytes option" where
  "sum_pubkeys C [] agg = Some agg"
| "sum_pubkeys C ((k, v) # vs) agg =
     (case PtUnmarshal C (case v of None \<Rightarrow> [] | Some v' \<Rightarrow> sl_bytes (v_PublicKey v')) of
        Inl err \<Rightarrow> None
      | Inr pk \<Rightarrow> sum_pubkeys C vs (PtAdd C agg pk))"

definition VerifyConsensus :: "('e) crypto_scheme \<Rightarrow> VoteResult \<Rightarrow> bool outcome" where
  "VerifyConsensus C result =
     (if \<not> vr_Consensus result \<or> length (sl_bytes (vr_Signature result)) = 0 then Done False
      else (case verify_votes C (result_votes result) of
              Panic p \<Rightarrow> Panic p
            | Done False \<Rightarrow> Done False
            | Done True \<Rightarrow>
                (case sum_pubkeys C (result_votes result) (PtNull C) of
                   None \<Rightarrow> Done False
                 | Some aggPubKey \<Rightarrow>
                     Done (BlsVerify C aggPubKey (vr_Domain result @ '':'' @ bool_str (vr_Decision result))
                             (sl_bytes (vr_Signature result))))))"

text \<open>The periodic loop, over what its \<open>select\<close> receives: ticks of the ticker, or the closing of the stop channel.\<close>

datatype vm_signal = Tick | Stopped

fun periodicDecisionMaking :: "('w, 'e) env_scheme \<Rightarrow> vm_signal list \<Rightarrow> (('w, 's) RecordStore_scheme, unit) go" where
  "periodicDecisionMaking E [] = gret ()"
| "periodicDecisionMaking E (Tick # sigs) = gbind (processPendingRecords E) (\<lambda>_. periodicDecisionMaking E sigs)"
| "periodicDecisionMaking E (Stopped # sigs) = gret ()"

section \<open>The store's voting operations\<close>

definition NewVotingManager :: "bytes option \<Rightarrow> goerr + voter" where
  "NewVotingManager privKey = (case privKey of
     None \<Rightarrow> Inl (Errorf ''private key is nil'') | Some k \<Rightarrow> Inr \<lparr>vt_privKey = k\<rparr>)"

text \<open>The store \<open>NewRecordStore\<close> builds, given the result of converting the node's key.\<close>

definition NewRecordStore :: "'w \<Rightarrow> string \<Rightarrow> bytes option \<Rightarrow> 'w RecordStore" where
  "NewRecordStore w hostID kyberPrivKey =
     \<lparr>rs_world = w, rs_hostID = hostID, rs_pendingLocks = [], rs_version = 0,
      rs_voting = (case kyberPrivKey of None \<Rightarrow> None
                   | Some k \<Rightarrow> (case NewVotingManager (Some k) of Inl e \<Rightarrow> None | Inr vm \<Rightarrow> Some vm)),
      rs_trace = []\<rparr>"

definition GetVoteResult :: "('w, 'e) env_scheme \<Rightarrow> string \<Rightarrow> (('w, 's) RecordStore_scheme, goerr + VoteResult) go" where
  "GetVoteResult E domain =
     gbind (gread rs_voting) (\<lambda>vm.
     case vm of
       None \<Rightarrow> gret (Inl (Errorf ''voting manager not initialized''))
     | Some _ \<Rightarrow> getVoteResult E domain)"

text \<open>
  \<open>Add\<close> mutates the caller's record, so it is returned; the third component is the lock id
  of the goroutine it starts to vote, whose body is \<open>add_vote_task\<close>.
\<close>

definition Add :: "('w, 'e) env_scheme \<Rightarrow> Record \<Rightarrow> bool \<Rightarrow> (('w, 's) RecordStore_scheme, goerr option \<times> Record \<times> string option) go" where
  "Add E record knownNotFound =
     gbind (if \<not> knownNotFound then gbind (Get E (r_Domain record)) (\<lambda>r. gret (r \<noteq> None)) else gret False) (\<lambda>found.
     if found then gret (Some (Errorf ''record already exists''), record, None)
     else gbind (TryAcquireLock E (r_Domain record)) (\<lambda>(lockID, acquired).
     if \<not> acquired then gret (Some (Errorf ''domain is currently locked for registration''), record, None)
     else let record1 = record\<lparr>r_Status := ''pending'', r_LockID := lockID\<rparr> in
     gbind (SavePendingRecordToDHT E record1) (\<lambda>err.
     case err of
       Some e \<Rightarrow>
         gbind (ReleaseLock E (r_Domain record1) lockID) (\<lambda>_.
         gret (Some (Wrapf ''Failed to save as pending records to dht'' e), record1, None))
     | None \<Rightarrow>
         gbind (gread rs_voting) (\<lambda>vm.
         gret (None, record1, if vm = None then None else Some lockID)))))"

definition add_vote_task :: "('w, 'e) env_scheme \<Rightarrow> voter \<Rightarrow> string \<Rightarrow> string \<Rightarrow> (('w, 's) RecordStore_scheme, unit) go" where
  "add_vote_task E vm domain lockID =
     gbind (SubmitVote E vm domain True) (\<lambda>err.
     case err of
       Some e \<Rightarrow> gbind (ReleaseLock E domain lockID) (\<lambda>_. gret ())
     | None \<Rightarrow> gret ())"

end
