(* ===== verification/QuietNet.thy ===== *)
theory QuietNet
  imports Voting
begin

text \<open>
  Reasoning about runs. \<open>runs m s Q\<close> is total correctness: the run of \<open>m\<close> from \<open>s\<close> returns
  (it does not panic) and \<open>Q\<close> holds of its value and final state. \<open>quiet E dv bv\<close> is the
  documented behaviour of the network, the database and the clock for a node that works alone
  and without failures: \<open>dv w\<close> holds the non-empty values of the network in the world \<open>w\<close>, and
  \<open>bv w\<close> the database. A network value that was overwritten by the empty string may be
  reported as empty or as not found. The component theories state their functional
  properties of the \<open>view\<close> of a state: network, database, and the fields of the store.
\<close>

section \<open>Total correctness of runs\<close>

definition runs :: "('s, 'a) go \<Rightarrow> 's \<Rightarrow> ('a \<Rightarrow> 's \<Rightarrow> bool) \<Rightarrow> bool" where
  "runs m s Q = (case m s of (Done x, s') \<Rightarrow> Q x s' | (Panic p, s') \<Rightarrow> False)"

lemma runs_iff: "runs m s Q \<longleftrightarrow> (\<exists>x s'. m s = (Done x, s') \<and> Q x s')"
  by (auto simp: runs_def split: prod.splits outcome.splits)

lemma runs_mono: "runs m s P \<Longrightarrow> (\<And>x s'. P x s' \<Longrightarrow> Q x s') \<Longrightarrow> runs m s Q"
  by (auto simp: runs_iff)

lemma runsD: "runs m s Q \<Longrightarrow> m s = (r, s') \<Longrightarrow> \<exists>x. r = Done x \<and> Q x s'"
  by (auto simp: runs_iff)

lemma runs_gret [simp]: "runs (gret x) s Q = Q x s"
  by (simp add: runs_def gret_def)

lemma runs_gpanic [simp]: "runs (gpanic p) s Q = False"
  by (simp add: runs_def gpanic_def)

lemma runs_glift [simp]: "runs (glift r) s Q = (case r of Done x \<Rightarrow> Q x s | Panic p \<Rightarrow> False)"
  by (simp add: runs_def glift_def)

lemma runs_gread: "runs (gread f) s Q = Q (f s) s"
  by (simp add: runs_def gread_def)

lemma runs_gmodify: "runs (gmodify f) s Q = Q () (f s)"
  by (simp add: runs_def gmodify_def)

lemma runs_gbind [simp]: "runs (gbind m f) s Q = runs m s (\<lambda>x s'. runs (f x) s' Q)"
  by (auto simp: runs_def gbind_def split: prod.splits outcome.splits)

lemma runs_gdefer: "runs (gdefer c m) s Q \<longleftrightarrow> runs m s (\<lambda>x s'. runs c s' (\<lambda>_ s''. Q x s''))"
  by (auto simp: runs_def gdefer_def split: prod.splits outcome.splits)

section \<open>The view of a state\<close>

record view =
  vw_dht :: "string \<Rightarrow> bytes option"
  vw_db :: "string \<Rightarrow> bytes option"
  vw_version :: int64
  vw_host :: string
  vw_voting :: "voter option"

definition view_of :: "('w \<Rightarrow> string \<Rightarrow> bytes option) \<Rightarrow> ('w \<Rightarrow> string \<Rightarrow> bytes option) \<Rightarrow> ('w, 's) RecordStore_scheme \<Rightarrow> view" where
  "view_of dv bv s = \<lparr>vw_dht = dv (rs_world s), vw_db = bv (rs_world s),
     vw_version = rs_version s, vw_host = rs_hostID s, vw_voting = rs_voting s\<rparr>"

definition dht_answer :: "bytes option \<Rightarrow> goerr + slice \<Rightarrow> bool" where
  "dht_answer v r = (case v of
     None \<Rightarrow> r = Inl ErrRoutingNotFound \<or> r = Inr None \<or> r = Inr (Some [])
   | Some b \<Rightarrow> r = Inr (Some b))"

definition non_empty :: "bytes \<Rightarrow> bytes option" where
  "non_empty b = (if b = [] then None else Some b)"

lemma non_empty_simps [simp]: "non_empty [] = None" "b \<noteq> [] \<Longrightarrow> non_empty b = Some b"
  by (simp_all add: non_empty_def)

text \<open>The clauses: what each primitive answers, and what it does to the network and the database.\<close>

definition keeps_world :: "('w \<Rightarrow> string \<Rightarrow> bytes option) \<Rightarrow> ('w \<Rightarrow> string \<Rightarrow> bytes option) \<Rightarrow> 'w \<Rightarrow> 'w \<Rightarrow> bool" where
  "keeps_world dv bv w w' = (dv w' = dv w \<and> bv w' = bv w)"

definition quiet_dht :: "('w, 'e) env_scheme \<Rightarrow> ('w \<Rightarrow> string \<Rightarrow> bytes option) \<Rightarrow> ('w \<Rightarrow> string \<Rightarrow> bytes option) \<Rightarrow> bool" where
  "quiet_dht E dv bv =
     ((\<forall>k w r w'. DhtGet E k w = (r, w') \<longrightarrow> keeps_world dv bv w w' \<and> dht_answer (dv w k) r)
    \<and> (\<forall>k v w r w'. DhtPut E k v w = (r, w') \<longrightarrow> r = None \<and> dv w' = (dv w)(k := non_empty v) \<and> bv w' = bv w)
    \<and> (\<forall>w r w'. RoutingPeers E w = (r, w') \<longrightarrow> keeps_world dv bv w w'))"

definition quiet_db :: "('w, 'e) env_scheme \<Rightarrow> ('w \<Rightarrow> string \<Rightarrow> bytes option) \<Rightarrow> ('w \<Rightarrow> string \<Rightarrow> bytes option) \<Rightarrow> bool" where
  "quiet_db E dv bv =
     ((\<forall>k w r w'. DbGet E k w = (r, w') \<longrightarrow> keeps_world dv bv w w'
          \<and> r = (case bv w k of None \<Rightarrow> Inl ErrDatastoreNotFound | Some b \<Rightarrow> Inr (Some b)))
    \<and> (\<forall>k v w r w'. DbPut E k v w = (r, w') \<longrightarrow> r = None \<and> dv w' = dv w \<and> bv w' = (bv w)(k \<mapsto> v))
    \<and> (\<forall>p w r w'. DbQuery E p w = (r, w') \<longrightarrow> keeps_world dv bv w w'
          \<and> (\<exists>ks. r = Inr (map (\<lambda>k. Inr (k, bv w k)) ks)
                 \<and> (\<forall>k \<in> set ks. bv w k \<noteq> None \<and> HasPrefix k p)
                 \<and> (\<forall>k. bv w k \<noteq> None \<and> HasPrefix k (p @ ''/'') \<longrightarrow> k \<in> set ks))))"

definition quiet_time :: "('w, 'e) env_scheme \<Rightarrow> ('w \<Rightarrow> string \<Rightarrow> bytes option) \<Rightarrow> ('w \<Rightarrow> string \<Rightarrow> bytes option) \<Rightarrow> bool" where
  "quiet_time E dv bv =
     ((\<forall>w t w'. Clock E w = (t, w') \<longrightarrow> keeps_world dv bv w w'
          \<and> time_sub (fst (Clock E w')) t \<le> index_timeout)
    \<and> (\<forall>d w. keeps_world dv bv w (Sleep E d w)))"

definition quiet :: "('w, 'e) env_scheme \<Rightarrow> ('w \<Rightarrow> string \<Rightarrow> bytes option) \<Rightarrow> ('w \<Rightarrow> string \<Rightarrow> bytes option) \<Rightarrow> bool" where
  "quiet E dv bv = (quiet_dht E dv bv \<and> quiet_db E dv bv \<and> quiet_time E dv bv
     \<and> (\<forall>w k. dv w k \<noteq> Some []))"

lemma quietD:
  assumes "quiet E dv bv"
  shows "DhtGet E k w = (ra, w') \<Longrightarrow> keeps_world dv bv w w' \<and> dht_answer (dv w k) ra"
    and "DhtPut E k v w = (rb, w') \<Longrightarrow> rb = None \<and> dv w' = (dv w)(k := non_empty v) \<and> bv w' = bv w"
    and "DbGet E k w = (ra, w') \<Longrightarrow> keeps_world dv bv w w'
          \<and> ra = (case bv w k of None \<Rightarrow> Inl ErrDatastoreNotFound | Some b \<Rightarrow> Inr (Some b))"
    and "DbPut E k v w = (rb, w') \<Longrightarrow> rb = None \<and> dv w' = dv w \<and> bv w' = (bv w)(k \<mapsto> v)"
    and "RoutingPeers E w = (ps, w') \<Longrightarrow> keeps_world dv bv w w'"
    and "Clock E w = (t, w') \<Longrightarrow> keeps_world dv bv w w'"
    and "keeps_world dv bv w (Sleep E d w)"
    and "dv w k \<noteq> Some []"
proof -
  from assms have d: "quiet_dht E dv bv" and b: "quiet_db E dv bv" and t: "quiet_time E dv bv"
    and n: "dv w k \<noteq> Some []" by (simp_all add: quiet_def)
  show "DhtGet E k w = (ra, w') \<Longrightarrow> keeps_world dv bv w w' \<and> dht_answer (dv w k) ra"
    using d unfolding quiet_dht_def by blast
  show "DhtPut E k v w = (rb, w') \<Longrightarrow> rb = None \<and> dv w' = (dv w)(k := non_empty v) \<and> bv w' = bv w"
    using d unfolding quiet_dht_def by blast
  show "DbGet E k w = (ra, w') \<Longrightarrow> keeps_world dv bv w w'
          \<and> ra = (case bv w k of None \<Rightarrow> Inl ErrDatastoreNotFound | Some b \<Rightarrow> Inr (Some b))"
    using b unfolding quiet_db_def by blast
  show "DbPut E k v w = (rb, w') \<Longrightarrow> rb = None \<and> dv w' = dv w \<and> bv w' = (bv w)(k \<mapsto> v)"
    using b unfolding quiet_db_def by blast
  show "RoutingPeers E w = (ps, w') \<Longrightarrow> keeps_world dv bv w w'"
    using d unfolding quiet_dht_def by blast
  show "Clock E w = (t, w') \<Longrightarrow> keeps_world dv bv w w'" for t
    using t unfolding quiet_time_def by blast
  show "keeps_world dv bv w (Sleep E d w)" for d
    using t unfolding quiet_time_def by blast
  show "dv w k \<noteq> Some []" by (rule n)
qed

lemma quiet_QueryD:
  assumes "quiet E dv bv" "DbQuery E p w = (r, w')"
  obtains ks where "keeps_world dv bv w w'" "r = Inr (map (\<lambda>k. Inr (k, bv w k)) ks)"
    "\<And>k. k \<in> set ks \<Longrightarrow> bv w k \<noteq> None \<and> HasPrefix k p"
    "\<And>k. bv w k \<noteq> None \<Longrightarrow> HasPrefix k (p @ ''/'') \<Longrightarrow> k \<in> set ks"
  using assms unfolding quiet_def quiet_db_def by meson

lemma quiet_clock:
  assumes "quiet E dv bv" "Clock E w = (t, w')" "Clock E w' = (t', w'')"
  shows "time_sub t' t \<le> index_timeout"
  using assms unfolding quiet_def quiet_time_def by (metis fst_conv)

lemma view_of_world:
  "view_of dv bv (s\<lparr>rs_world := w, rs_trace := tr\<rparr>) = (view_of dv bv s)\<lparr>vw_dht := dv w, vw_db := bv w\<rparr>"
  "view_of dv bv (s\<lparr>rs_world := w\<rparr>) = (view_of dv bv s)\<lparr>vw_dht := dv w, vw_db := bv w\<rparr>"
  by (simp_all add: view_of_def)

lemma view_of_same:
  assumes "keeps_world dv bv (rs_world s) w"
  shows "view_of dv bv (s\<lparr>rs_world := w, rs_trace := tr\<rparr>) = view_of dv bv s"
    "view_of dv bv (s\<lparr>rs_world := w\<rparr>) = view_of dv bv s"
  using assms by (simp_all add: view_of_def keeps_world_def)

section \<open>Specifications of the primitive operations\<close>

text \<open>Rules of the form: to run the operation it is enough that every answer it may give is good.\<close>

lemma runs_dht_GetValue:
  assumes "quiet E dv bv"
    and "\<And>r s'. dht_answer (vw_dht (view_of dv bv s) k) r \<Longrightarrow> view_of dv bv s' = view_of dv bv s \<Longrightarrow> Q r s'"
  shows "runs (dht_GetValue E k) s Q"
proof -
  obtain r w' where g: "DhtGet E k (rs_world s) = (r, w')" by fastforce
  with quietD(1)[OF assms(1) g] show ?thesis
    by (auto simp: runs_def dht_GetValue_def view_of_same view_of_def[of _ _ s] intro!: assms(2))
qed

lemma runs_dht_PutValue:
  assumes "quiet E dv bv"
    and "\<And>s'. view_of dv bv s' = (view_of dv bv s)\<lparr>vw_dht := (vw_dht (view_of dv bv s))(k := non_empty v)\<rparr> \<Longrightarrow> Q None s'"
  shows "runs (dht_PutValue E k v) s Q"
proof -
  obtain r w' where g: "DhtPut E k v (rs_world s) = (r, w')" by fastforce
  with quietD(2)[OF assms(1) g] show ?thesis
    by (auto simp: runs_def dht_PutValue_def view_of_def intro!: assms(2))
qed

lemma runs_db_Get:
  assumes "quiet E dv bv"
    and "\<And>s'. view_of dv bv s' = view_of dv bv s \<Longrightarrow>
      Q (case vw_db (view_of dv bv s) k of None \<Rightarrow> Inl ErrDatastoreNotFound | Some b \<Rightarrow> Inr (Some b)) s'"
  shows "runs (db_Get E k) s Q"
proof -
  obtain r w' where g: "DbGet E k (rs_world s) = (r, w')" by fastforce
  with quietD(3)[OF assms(1) g] assms(2)[of "s\<lparr>rs_world := w'\<rparr>"] show ?thesis
    by (simp add: runs_def db_Get_def view_of_same) (simp add: view_of_def)
qed

lemma runs_db_Put:
  assumes "quiet E dv bv"
    and "\<And>s'. view_of dv bv s' = (view_of dv bv s)\<lparr>vw_db := (vw_db (view_of dv bv s))(k \<mapsto> v)\<rparr> \<Longrightarrow> Q None s'"
  shows "runs (db_Put E k v) s Q"
proof -
  obtain r w' where g: "DbPut E k v (rs_world s) = (r, w')" by fastforce
  with quietD(4)[OF assms(1) g] show ?thesis
    by (auto simp: runs_def db_Put_def view_of_def intro!: assms(2))
qed

lemma runs_db_Query:
  assumes "quiet E dv bv"
    and "\<And>s' ks. view_of dv bv s' = view_of dv bv s \<Longrightarrow>
      (\<And>k. k \<in> set ks \<Longrightarrow> vw_db (view_of dv bv s) k \<noteq> None \<and> HasPrefix k p) \<Longrightarrow>
      (\<And>k. vw_db (view_of dv bv s) k \<noteq> None \<Longrightarrow> HasPrefix k (p @ ''/'') \<Longrightarrow> k \<in> set ks) \<Longrightarrow>
      Q (Inr (map (\<lambda>k. Inr (k, vw_db (view_of dv bv s) k)) ks)) s'"
  shows "runs (db_Query E p) s Q"
proof -
  obtain r w' where g: "DbQuery E p (rs_world s) = (r, w')" by fastforce
  from assms(1) g obtain ks where k: "keeps_world dv bv (rs_world s) w'"
      "r = Inr (map (\<lambda>k. Inr (k, bv (rs_world s) k)) ks)"
      "\<And>k. k \<in> set ks \<Longrightarrow> bv (rs_world s) k \<noteq> None \<and> HasPrefix k p"
      "\<And>k. bv (rs_world s) k \<noteq> None \<Longrightarrow> HasPrefix k (p @ ''/'') \<Longrightarrow> k \<in> set ks"
    by (rule quiet_QueryD) blast
  have b: "vw_db (view_of dv bv s) = bv (rs_world s)" by (simp add: view_of_def)
  have "Q (Inr (map (\<lambda>k. Inr (k, vw_db (view_of dv bv s) k)) ks)) (s\<lparr>rs_world := w'\<rparr>)"
    using k(3,4) by (intro assms(2)) (simp_all add: view_of_same(2)[OF k(1)] b)
  with g show ?thesis by (simp add: runs_def db_Query_def k(2) b)
qed

lemma runs_time_Now:
  assumes "quiet E dv bv" and "\<And>t s'. view_of dv bv s' = view_of dv bv s \<Longrightarrow> Q t s'"
  shows "runs (time_Now E) s Q"
proof -
  obtain t w' where g: "Clock E (rs_world s) = (t, w')" by fastforce
  with quietD(6)[OF assms(1) g] show ?thesis
    by (simp add: runs_def time_Now_def view_of_same assms(2))
qed

lemma runs_time_Sleep:
  assumes "quiet E dv bv" and "\<And>s'. view_of dv bv s' = view_of dv bv s \<Longrightarrow> Q () s'"
  shows "runs (time_Sleep E d) s Q"
  using quietD(7)[OF assms(1)] by (simp add: runs_def time_Sleep_def view_of_same assms(2))

lemma runs_ListPeers:
  assumes "quiet E dv bv" and "\<And>ps s'. view_of dv bv s' = view_of dv bv s \<Longrightarrow> Q ps s'"
  shows "runs (dht_ListPeers E) s Q"
proof -
  obtain t w' where g: "RoutingPeers E (rs_world s) = (t, w')" by fastforce
  with quietD(5)[OF assms(1) g] show ?thesis
    by (simp add: runs_def dht_ListPeers_def view_of_same assms(2))
qed

lemma runs_read_host:
  "quiet E dv bv \<Longrightarrow> Q (vw_host (view_of dv bv s)) s \<Longrightarrow> runs (gread rs_hostID) s Q"
  by (simp add: runs_gread view_of_def)

lemma runs_read_version:
  "quiet E dv bv \<Longrightarrow> Q (vw_version (view_of dv bv s)) s \<Longrightarrow> runs (gread rs_version) s Q"
  by (simp add: runs_gread view_of_def)

lemma runs_read_voting:
  "quiet E dv bv \<Longrightarrow> Q (vw_voting (view_of dv bv s)) s \<Longrightarrow> runs (gread rs_voting) s Q"
  by (simp add: runs_gread view_of_def)

lemma runs_read_locks:
  "quiet E dv bv \<Longrightarrow> (\<And>m. Q m s) \<Longrightarrow> runs (gread rs_pendingLocks) s Q"
  by (simp add: runs_gread)

lemma runs_modify_locks:
  assumes "quiet E dv bv" "\<And>s'. view_of dv bv s' = view_of dv bv s \<Longrightarrow> Q () s'"
  shows "runs (gmodify (\<lambda>s. s\<lparr>rs_pendingLocks := f s\<rparr>)) s Q"
  by (auto simp: runs_gmodify view_of_def intro!: assms(2))

lemma runs_modify_version:
  assumes "quiet E dv bv" "\<And>s'. view_of dv bv s' = (view_of dv bv s)\<lparr>vw_version := f (vw_version (view_of dv bv s))\<rparr> \<Longrightarrow> Q () s'"
  shows "runs (gmodify (\<lambda>s. s\<lparr>rs_version := f (rs_version s)\<rparr>)) s Q"
  by (auto simp: runs_gmodify view_of_def intro!: assms(2))

lemmas runs_rules = runs_dht_GetValue runs_dht_PutValue runs_db_Get runs_db_Put runs_db_Query
  runs_time_Now runs_time_Sleep runs_ListPeers runs_read_host runs_read_version runs_read_voting
  runs_read_locks runs_modify_locks runs_modify_version

lemma dht_answer_simps [simp]:
  "dht_answer (Some b) r \<longleftrightarrow> r = Inr (Some b)"
  "dht_answer None r \<longleftrightarrow> r = Inl ErrRoutingNotFound \<or> r = Inr None \<or> r = Inr (Some [])"
  by (simp_all add: dht_answer_def)

section \<open>A concrete environment\<close>

text \<open>
  An in-memory network and database, and simple functions for the libraries. Witnesses of the
  properties are runs in it; nothing is proved from its particular choices.
\<close>

record mem_world =
  mw_dht :: "(string, bytes) gomap"
  mw_db :: "(string, bytes) gomap"
  mw_clock :: int
  mw_peers :: "string list"

definition fit :: "nat \<Rightarrow> bytes \<Rightarrow> bytes" where
  "fit n b = take n (b @ replicate n (CHR 0x01))"

definition mem_env :: "mem_world env" where
  "mem_env = \<lparr>
     Keccak = fit 32,
     SigToPub = (\<lambda>h sig. if length sig = 65 then Inr sig else Inl (ErrExt ''invalid signature length'')),
     UnmarshalPubkey = (\<lambda>b. if length b = 65 then Inr b else Inl (ErrExt ''invalid public key'')),
     FromECDSAPub = (\<lambda>pk. pk),
     PubkeyToAddress = fit 20,
     EcdsaSign = (\<lambda>h k. Inr (fit 65 k)),
     EcdsaPublic = fit 65,
     AddrToJSON = (\<lambda>a. JStr (''0x'' @ hex_EncodeToString a)),
     AddrFromJSON = (\<lambda>j. case j of
        JStr s \<Rightarrow> (case hex_DecodeString (drop 2 s) of Inl e \<Rightarrow> Inl ErrJSON | Inr b \<Rightarrow> Inr b) | _ \<Rightarrow> Inl ErrJSON),
     AddrHex = (\<lambda>a. ''0x'' @ hex_EncodeToString a),
     BlsSign = (\<lambda>k m. Inr (k @ m)),
     BlsPublicBytes = (\<lambda>k. Inr k),
     BlsVerify = (\<lambda>pk m sig. sig = pk @ m),
     G1Null = [],
     G1Unmarshal = (\<lambda>b. if b = [] then Inl (ErrExt ''not enough data'') else Inr b),
     G1Add = (\<lambda>a b. a @ b),
     G1Marshal = (\<lambda>p. Inr p),
     PtNull = [],
     PtUnmarshal = (\<lambda>b. Inr b),
     PtAdd = (\<lambda>a b. a @ b),
     DhtGet = (\<lambda>k w. (case gm_get (mw_dht w) k of None \<Rightarrow> Inl ErrRoutingNotFound | Some v \<Rightarrow> Inr (Some v), w)),
     DhtPut = (\<lambda>k v w. (None, w\<lparr>mw_dht := gm_put k v (mw_dht w)\<rparr>)),
     DbGet = (\<lambda>k w. (case gm_get (mw_db w) k of None \<Rightarrow> Inl ErrDatastoreNotFound | Some v \<Rightarrow> Inr (Some v), w)),
     DbPut = (\<lambda>k v w. (None, w\<lparr>mw_db := gm_put k v (mw_db w)\<rparr>)),
     DbQuery = (\<lambda>p w. (Inr (map (\<lambda>k. Inr (k, gm_get (mw_db w) k)) (filter (\<lambda>k. HasPrefix k p) (map fst (mw_db w)))), w)),
     NewKey = (\<lambda>k. k),
     RoutingPeers = (\<lambda>w. (mw_peers w, w)),
     PeerDecode = (\<lambda>p. None),
     Clock = (\<lambda>w. (mw_clock w, w\<lparr>mw_clock := mw_clock w + 1\<rparr>)),
     Sleep = (\<lambda>d w. w\<lparr>mw_clock := mw_clock w + d\<rparr>),
     Getenv = (\<lambda>v. ''x''),
     EthDial = (\<lambda>u w. (None, w)),
     EthSendRaw = (\<lambda>tx w. (if sl_bytes tx = [] then Inl (ErrExt ''typed transaction too short'') else Inr (sl_bytes tx), w)),
     EthTransactionByHash = (\<lambda>h w. ((Some \<lparr>tx_To = None, tx_Data = []\<rparr>, False, None), w)),
     EthTransactionReceipt = (\<lambda>h w. ((Some \<lparr>rc_Status = 1, rc_BlockNumber = None\<rparr>, None), w)),
     EthCallContract = (\<lambda>a d b w. (Inr None, w)),
     HashHex = (\<lambda>h. h)\<rparr>"

definition mem_dht :: "mem_world \<Rightarrow> string \<Rightarrow> bytes option" where
  "mem_dht w k = (if gm_get (mw_dht w) k = Some [] then None else gm_get (mw_dht w) k)"

definition mem_db :: "mem_world \<Rightarrow> string \<Rightarrow> bytes option" where
  "mem_db w = gm_get (mw_db w)"

definition mem_start :: "mem_world RecordStore" where
  "mem_start = NewRecordStore \<lparr>mw_dht = [], mw_db = [], mw_clock = 1, mw_peers = []\<rparr> ''n1'' (Some ''k'')"

lemma mem_dht_put: "mem_dht (w\<lparr>mw_dht := gm_put k v (mw_dht w)\<rparr>) = (mem_dht w)(k := non_empty v)"
  by (rule ext) (simp add: mem_dht_def non_empty_def)

lemma mem_db_put: "mem_db (w\<lparr>mw_db := gm_put k v (mw_db w)\<rparr>) = (mem_db w)(k \<mapsto> v)"
  by (rule ext) (simp add: mem_db_def)

lemma quiet_mem: "quiet mem_env mem_dht mem_db"
proof -
  have d: "quiet_dht mem_env mem_dht mem_db"
    unfolding quiet_dht_def mem_env_def
    by (auto simp: keeps_world_def dht_answer_def mem_dht_put mem_dht_def mem_db_def split: option.splits)
  have keys: "k \<in> set (map fst m) \<longleftrightarrow> gm_get m k \<noteq> None" for k :: string and m :: "(string, bytes) gomap"
    by (simp add: gm_get_None)
  have "k \<in> set (filter (\<lambda>k. HasPrefix k p) (map fst m)) \<longleftrightarrow> gm_get m k \<noteq> None \<and> HasPrefix k p"
    for k p :: string and m :: "(string, bytes) gomap"
    using keys[of k m] by auto
  moreover have "HasPrefix k (p @ ''/'') \<Longrightarrow> HasPrefix k p" for k p
    by (auto simp: HasPrefix_iff)
  ultimately have "\<exists>ks. map (\<lambda>k. Inr (k, gm_get m k)) (filter (\<lambda>k. HasPrefix k p) (map fst m))
      = (map (\<lambda>k. Inr (k, gm_get m k)) ks :: (goerr + string \<times> slice) list)
      \<and> (\<forall>k \<in> set ks. gm_get m k \<noteq> None \<and> HasPrefix k p)
      \<and> (\<forall>k. gm_get m k \<noteq> None \<and> HasPrefix k (p @ ''/'') \<longrightarrow> k \<in> set ks)"
    for m :: "(string, bytes) gomap" and p
    by (intro exI[of _ "filter (\<lambda>k. HasPrefix k p) (map fst m)"]) auto
  then have b: "quiet_db mem_env mem_dht mem_db"
    unfolding quiet_db_def mem_env_def
    by (auto simp: keeps_world_def mem_dht_def mem_db_put mem_db_def split: option.splits)
  have t: "quiet_time mem_env mem_dht mem_db"
    unfolding quiet_time_def mem_env_def
    by (simp add: keeps_world_def mem_dht_def mem_db_def time_sub_def index_timeout_def sec_def fun_eq_iff)
  show ?thesis unfolding quiet_def using d b t by (simp add: mem_dht_def)
qed

end
