(* ===== verification/Frames.thy ===== *)
theory Frames
  imports QuietNet
begin

text \<open>
  What the operations do to their surroundings, in every environment and on every exit:
  \<open>does K\<close> relates a state to the states a run may leave when every effect it adds to the
  trace satisfies \<open>K\<close>; the host, the voting manager and what the node keeps beside the store never change. It is an instance of
  the interface \<open>frame\<close>, whose rules reduce each operation to its calls.
\<close>

definition does :: "(effect \<Rightarrow> bool) \<Rightarrow> ('w, 's) RecordStore_scheme \<Rightarrow> ('w, 's) RecordStore_scheme \<Rightarrow> bool" where
  "does K s s' = ((\<exists>es. rs_trace s' = rs_trace s @ es \<and> list_all K es)
     \<and> rs_hostID s' = rs_hostID s \<and> rs_voting s' = rs_voting s
     \<and> RecordStore.more s' = RecordStore.more s)"

interpretation fr: frame "does K" for K :: "effect \<Rightarrow> bool"
  by unfold_locales (auto simp: does_def)

section \<open>Primitive operations\<close>

lemma does_read:
  "keeps (does K) (dht_GetValue E k)" "keeps (does K) (db_Get E k)" "keeps (does K) (db_Query E p)"
  "keeps (does K) (dht_ListPeers E)" "keeps (does K) (time_Now E)" "keeps (does K) (eth_Dial E u)"
  "keeps (does K) (eth_TransactionByHash E h)" "keeps (does K) (eth_TransactionReceipt E h)"
  "keeps (does K) (eth_CallContract E a d b)"
  by (auto simp: keeps_def does_def prim_defs split: prod.splits)

lemma does_nothing: "does (\<lambda>_. False) s s' \<Longrightarrow> rs_hostID s' = rs_hostID s \<and> rs_trace s' = rs_trace s"
  by (auto simp: does_def list_all_iff)

lemma does_dht_PutValue: "K (EDht k v) \<Longrightarrow> keeps (does K) (dht_PutValue E k v)"
  by (auto simp: keeps_def does_def prim_defs split: prod.splits)

lemma does_db_Put: "K (EDb k v) \<Longrightarrow> keeps (does K) (db_Put E k v)"
  by (auto simp: keeps_def does_def prim_defs split: prod.splits)

lemma does_time_Sleep: "K (ESleep d) \<Longrightarrow> keeps (does K) (time_Sleep E d)"
  by (auto simp: keeps_def does_def prim_defs split: prod.splits)

lemma does_eth_SendRaw: "K (ETx tx) \<Longrightarrow> keeps (does K) (eth_SendRaw E tx)"
  by (auto simp: keeps_def does_def prim_defs split: prod.splits)

lemma does_modify:
  "keeps (does K) (gmodify (\<lambda>s. s\<lparr>rs_pendingLocks := f s\<rparr>))"
  "keeps (does K) (gmodify (\<lambda>s. s\<lparr>rs_version := g s\<rparr>))"
  by (auto simp: keeps_def does_def gmodify_def)

lemmas does_rules = fr.keeps_rules does_read does_modify
lemmas does_write = does_dht_PutValue does_db_Put does_time_Sleep does_eth_SendRaw

section \<open>Locks\<close>

lemma does_IsLockValid: "keeps (does K) (IsLockValid E d i)"
  unfolding IsLockValid_def by (intro does_rules)

lemma does_TryAcquireLock:
  "(\<And>v. K (EDht (makeLockKey d) v)) \<Longrightarrow> keeps (does K) (TryAcquireLock E d)"
  unfolding TryAcquireLock_def Let_def by (intro does_rules does_write)

lemma does_ReleaseLock:
  "(\<And>v. K (EDht (makeLockKey d) v)) \<Longrightarrow> keeps (does K) (ReleaseLock E d i)"
  unfolding ReleaseLock_def by (intro does_rules does_write does_IsLockValid)

lemma does_index_lock_loop:
  assumes "\<And>v. K (EDht (makeLockKey indexKey) v)" "\<And>t. K (ESleep t)"
  shows "keeps (does K) (index_lock_loop E st n)"
proof (induction n)
  case (Suc n)
  show ?case
    unfolding index_lock_loop.simps
    by (intro does_rules does_write does_TryAcquireLock assms Suc)
qed (simp add: fr.keeps_gret)

lemma does_TryAcquireIndexLock:
  assumes "\<And>v. K (EDht (makeLockKey indexKey) v)" "\<And>t. K (ESleep t)"
  shows "keeps (does K) (TryAcquireIndexLock E)"
  unfolding TryAcquireIndexLock_def by (intro does_rules does_index_lock_loop assms)

section \<open>Records\<close>

lemma does_GetPending: "keeps (does K) (GetPendingRecordFromDHT E d)"
  unfolding GetPendingRecordFromDHT_def by (intro does_rules)

lemma does_GetPendingDomains: "keeps (does K) (GetPendingDomains E)"
  unfolding GetPendingDomains_def by (intro does_rules)

lemma does_GetLatestRecord: "keeps (does K) (GetLatestRecord E d)"
  unfolding GetLatestRecord_def by (intro does_rules)

text \<open>The effects of \<open>SaveRecord\<close>: both mappings of a record, in the network and the database.\<close>

definition saves :: "('w, 'e) env_scheme \<Rightarrow> effect \<Rightarrow> bool" where
  "saves E e = (case e of
     EDht k v \<Rightarrow> HasPrefix k recordNamespace
   | EDb k v \<Rightarrow> (\<exists>k'. k = NewKey E k' \<and> HasPrefix k' recordNamespace)
   | _ \<Rightarrow> False)"

lemma record_prefix [simp]:
  "HasPrefix (makeRecordKey d) recordNamespace" "HasPrefix (makeNamehashKey h) recordNamespace"
  "HasPrefix (makeMetadataKey d) recordNamespace"
  by (simp_all add: makeRecordKey_def makeNamehashKey_def makeMetadataKey_def)

lemma saves_simps [simp]:
  "saves E (EDht (makeRecordKey d) v)" "saves E (EDht (makeNamehashKey h) v)"
  "saves E (EDb (NewKey E (makeRecordKey d)) v)" "saves E (EDb (NewKey E (makeNamehashKey h)) v)"
  "saves E (EDht (makeMetadataKey d) v)"
  unfolding saves_def effect.case by (blast intro: record_prefix)+

lemma does_SaveRecord: "(\<And>e. saves E e \<Longrightarrow> K e) \<Longrightarrow> keeps (does K) (SaveRecord E r)"
  unfolding SaveRecord_def Let_def by (intro does_rules does_write) simp_all

lemma does_getLatestVersion: "(\<And>e. saves E e \<Longrightarrow> K e) \<Longrightarrow> keeps (does K) (getLatestVersion E d)"
  unfolding getLatestVersion_def by (intro does_rules does_GetLatestRecord does_SaveRecord) simp_all

lemma does_Get: "(\<And>e. saves E e \<Longrightarrow> K e) \<Longrightarrow> keeps (does K) (Get E d)"
  unfolding Get_def by (intro does_rules does_getLatestVersion does_GetPending) simp_all

lemma does_IsDomainAvailable: "(\<And>e. saves E e \<Longrightarrow> K e) \<Longrightarrow> keeps (does K) (IsDomainAvailable E d)"
  unfolding IsDomainAvailable_def by (intro does_rules does_Get does_GetPending) simp_all

lemma does_GetByNamehash: "(\<And>e. saves E e \<Longrightarrow> K e) \<Longrightarrow> keeps (does K) (GetByNamehash E h)"
  unfolding GetByNamehash_def by (intro does_rules does_Get) simp_all

lemma does_BindAddressResolver: "(\<And>e. saves E e \<Longrightarrow> K e) \<Longrightarrow> keeps (does K) (BindAddressResolver E ev)"
  unfolding BindAddressResolver_def Let_def by (intro does_rules does_GetByNamehash does_SaveRecord) simp_all

lemma does_ListRecords: "keeps (does K) (ListRecords E)"
  unfolding ListRecords_def by (intro does_rules)

lemma does_GetRecord: "keeps (does K) (GetRecord E d)"
  unfolding GetRecord_def by (intro does_rules)

lemma does_UpdateRecord: "(\<And>e. saves E e \<Longrightarrow> K e) \<Longrightarrow> keeps (does K) (UpdateRecord E d c)"
  unfolding UpdateRecord_def Let_def by (intro does_rules does_write does_GetRecord) simp_all

section \<open>Registration\<close>

text \<open>The effects of handling the pending index under its lock.\<close>

definition indexes :: "effect \<Rightarrow> bool" where
  "indexes e = (case e of
     EDht k v \<Rightarrow> k = makeLockKey indexKey \<or> HasPrefix k ''/altica/pending/''
   | ESleep t \<Rightarrow> True
   | _ \<Rightarrow> False)"

lemma indexes_simps [simp]:
  "indexes (EDht (makeLockKey indexKey) v)" "indexes (EDht (makePendingKey d) v)" "indexes (ESleep t)"
  by (simp_all add: indexes_def makePendingKey_def)

lemma does_index_locked:
  assumes "\<And>e. indexes e \<Longrightarrow> K e" "\<And>i. keeps (does K) (body i)"
  shows "keeps (does K) (gbind (TryAcquireIndexLock E) (\<lambda>(i, acquired).
     if \<not> acquired then gret x else gdefer (ReleaseLock E indexKey i) (body i)))"
  by (intro does_rules does_TryAcquireIndexLock does_ReleaseLock assms) simp_all

lemma does_SavePending:
  assumes "\<And>e. indexes e \<Longrightarrow> K e"
  shows "keeps (does K) (SavePendingRecordToDHT E r)"
  unfolding SavePendingRecordToDHT_def
  by (intro does_index_locked does_rules does_write does_GetPendingDomains assms) simp_all

lemma does_remove_from_index:
  assumes "\<And>e. indexes e \<Longrightarrow> K e"
  shows "keeps (does K) (remove_from_index E d)"
  unfolding remove_from_index_def Let_def
  by (intro does_rules does_write does_GetPendingDomains assms) simp_all

text \<open>The effects of completing a registration.\<close>

definition completes :: "('w, 'e) env_scheme \<Rightarrow> string \<Rightarrow> effect \<Rightarrow> bool" where
  "completes E d e = (indexes e \<or> saves E e \<or> (\<exists>v. e = EDb (NewKey E versionKey) v)
     \<or> (\<exists>v. e = EDht (makeLockKey d) v))"

lemma completes_simps [simp]:
  "indexes e \<Longrightarrow> completes E d e" "saves E e \<Longrightarrow> completes E d e"
  "completes E d (EDb (NewKey E versionKey) v)" "completes E d (EDht (makeLockKey d) v)"
  by (auto simp: completes_def)

lemma does_ConfirmRecord:
  assumes "\<And>e. completes E d e \<Longrightarrow> K e"
  shows "keeps (does K) (ConfirmRecord E d)"
  unfolding ConfirmRecord_def Let_def bump_version_def
  by (intro does_GetPending does_rules does_index_locked does_write does_remove_from_index
      does_SaveRecord does_ReleaseLock does_TryAcquireIndexLock assms) simp_all

lemma does_RejectRecord:
  assumes "\<And>e. completes E d e \<Longrightarrow> K e"
  shows "keeps (does K) (RejectRecord E d)"
  unfolding RejectRecord_def
  by (intro does_GetPending does_rules does_write does_remove_from_index
      does_ReleaseLock does_TryAcquireIndexLock assms) simp_all

lemma does_Add:
  assumes "\<And>e. completes E (r_Domain r) e \<Longrightarrow> K e"
  shows "keeps (does K) (Add E r b)"
  unfolding Add_def Let_def
  by (intro does_rules does_Get does_TryAcquireLock does_SavePending does_ReleaseLock assms) simp_all

section \<open>Chain\<close>

definition submits :: "effect \<Rightarrow> bool" where
  "submits e = (case e of ESleep t \<Rightarrow> True | ETx tx \<Rightarrow> True | _ \<Rightarrow> False)"

lemma submits_simps [simp]: "submits (ESleep t)" "submits (ETx tx)"
  by (simp_all add: submits_def)

lemma does_wait_mined:
  assumes "\<And>e. submits e \<Longrightarrow> K e"
  shows "keeps (does K) (wait_mined E h n tx)"
proof (induction n arbitrary: tx)
  case (Suc n)
  show ?case unfolding wait_mined.simps Let_def
    by (intro does_rules does_write Suc assms) simp_all
qed (simp add: fr.keeps_gret)

lemma does_SubmitSignedTx:
  assumes "\<And>e. submits e \<Longrightarrow> K e"
  shows "keeps (does K) (SubmitSignedTx E tx)"
  unfolding SubmitSignedTx_def simulateTx_def Let_def
  by (intro does_rules does_write does_wait_mined assms) simp_all

lemma does_GetAndSubmit:
  assumes "\<And>e. submits e \<Longrightarrow> K e" "\<And>e. saves E e \<Longrightarrow> K e"
  shows "keeps (does K) (GetAndSubmitSignedTx E d)"
  unfolding GetAndSubmitSignedTx_def
  by (intro does_rules does_Get does_SubmitSignedTx assms) simp_all

section \<open>Synchronisation\<close>

lemma does_fetch_records: "keeps (does K) (fetch_records E rs)"
proof (induction E rs rule: fetch_records.induct)
  case (3 E key v rs)
  then show ?case unfolding fetch_records.simps by (intro does_rules)
qed (simp_all add: fr.keeps_gret)

lemma does_getAllRecordsFromPeer: "keeps (does K) (getAllRecordsFromPeer E p)"
  unfolding getAllRecordsFromPeer_def by (intro does_rules does_fetch_records)

text \<open>The database writes of a synchronisation: the version, and records that verify.\<close>

definition syncs :: "('w, 'e) env_scheme \<Rightarrow> effect \<Rightarrow> bool" where
  "syncs E e = ((\<exists>v. e = EDb (NewKey E versionKey) v)
     \<or> (\<exists>r. Verify E r \<and> e = EDb (NewKey E (makeRecordKey (r_Domain r))) (record_text E r)))"

lemma does_store_verified:
  assumes "\<And>e. syncs E e \<Longrightarrow> K e"
  shows "keeps (does K) (store_verified E rs)"
proof (induction rs)
  case (Cons r rs)
  have "Verify E r \<Longrightarrow> K (EDb (NewKey E (makeRecordKey (r_Domain r))) (record_text E r))"
    by (rule assms) (auto simp: syncs_def)
  then show ?case
    unfolding store_verified.simps Serialize_text sum.case
    by (intro does_rules does_write Cons) simp_all
qed (simp add: fr.keeps_gret)

lemma does_GetStoreVersion: "keeps (does K) (GetStoreVersion E)"
  unfolding GetStoreVersion_def by (intro does_rules)

lemma does_SyncFromPeer:
  assumes "\<And>e. syncs E e \<Longrightarrow> K e"
  shows "keeps (does K) (SyncFromPeer E p)"
proof -
  have "K (EDb (NewKey E versionKey) v)" for v by (rule assms) (simp add: syncs_def)
  then show ?thesis
    unfolding SyncFromPeer_def
    by (intro does_rules does_write does_store_verified does_getAllRecordsFromPeer
        does_GetStoreVersion) (simp_all add: assms)
qed

section \<open>Voting\<close>

lemma does_getVoteResult: "keeps (does K) (getVoteResult E d)"
  unfolding getVoteResult_def by (intro does_rules)

lemma does_OnlineNodes: "keeps (does K) (OnlineNodes E)"
  unfolding OnlineNodes_def by (intro does_rules)

lemma does_selectDecisionMaker: "keeps (does K) (selectDecisionMaker E d n)"
  unfolding selectDecisionMaker_def by (intro does_rules does_OnlineNodes)

lemma does_current_result: "keeps (does K) (current_result E d)"
  unfolding current_result_def OnlineNodesCount_def
  by (intro does_rules does_getVoteResult does_selectDecisionMaker does_OnlineNodes)

definition votes :: "effect \<Rightarrow> bool" where
  "votes e = (case e of EDht k v \<Rightarrow> HasPrefix k voteNamespace | _ \<Rightarrow> False)"

lemma votes_simps [simp]: "votes (EDht (makeVoteKey d) v)"
  by (simp add: votes_def makeVoteKey_def)

lemma does_saveVoteResult: "(\<And>e. votes e \<Longrightarrow> K e) \<Longrightarrow> keeps (does K) (saveVoteResult E r)"
  unfolding saveVoteResult_def by (intro does_write) simp_all

lemma does_SubmitVote: "(\<And>e. votes e \<Longrightarrow> K e) \<Longrightarrow> keeps (does K) (SubmitVote E vm d b)"
  unfolding SubmitVote_def Let_def
  by (intro does_rules does_current_result does_saveVoteResult) simp_all

lemma does_watch: "keeps (does K) (watch_decision_maker E d r)"
  unfolding watch_decision_maker_def
  by (intro does_rules does_OnlineNodes does_selectDecisionMaker)

definition decides :: "('w, 'e) env_scheme \<Rightarrow> string \<Rightarrow> effect \<Rightarrow> bool" where
  "decides E d e = (completes E d e \<or> submits e \<or> votes e)"

lemma decides_simps [simp]:
  "completes E d e \<Longrightarrow> decides E d e" "submits e \<Longrightarrow> decides E d e" "votes e \<Longrightarrow> decides E d e"
  by (auto simp: decides_def)

lemma does_decide:
  assumes "\<And>e. decides E (vr_Domain r) e \<Longrightarrow> K e"
  shows "keeps (does K) (decide E r)"
proof -
  have t: "vr_Domain r' = vr_Domain r" if "tally r = Done r'" for r'
    using that by (auto simp: tally_def split: outcome.splits)
  have g: "keeps (does K) (gbind (glift (tally r)) f)"
    if "\<And>r'. tally r = Done r' \<Longrightarrow> keeps (does K) (f r')" for f :: "_ \<Rightarrow> (('a, 'c) RecordStore_scheme, goerr option) go"
    using that by (cases "tally r") (auto simp: keeps_def glift_def gbind_def fr.frame_refl)
  have sub: "keeps (does K) (submit_accepted E r')" if "vr_Domain r' = vr_Domain r" for r'
    unfolding submit_accepted_def that
    by (intro does_rules does_GetAndSubmit does_RejectRecord assms) simp_all
  have conf: "keeps (does K) (ConfirmRecord E (vr_Domain r'))" if "vr_Domain r' = vr_Domain r" for r'
    unfolding that by (intro does_ConfirmRecord assms) simp
  have save: "keeps (does K) (saveVoteResult E r')" for r'
    by (intro does_saveVoteResult assms) simp
  show ?thesis
    unfolding decide_def Let_def
  proof (rule fr.keeps_if, rule g)
    fix r' assume "tally r = Done r'"
    then have d: "vr_Domain (r'\<lparr>vr_Signature := x\<rparr>) = vr_Domain r" for x
      using t[of r'] by simp
    show "keeps (does K) (case aggregate E (result_votes r') (G1Null E) of
           Inl err \<Rightarrow> gret (Some err)
         | Inr aggSig \<Rightarrow>
        (case G1Marshal E aggSig of
           Inl err \<Rightarrow> gret (Some (Wrapf ''failed to marshal aggregated signature'' err))
         | Inr aggSigBytes \<Rightarrow>
        gbind (submit_accepted E (r'\<lparr>vr_Signature := Some aggSigBytes\<rparr>)) (\<lambda>e1.
        case e1 of Some err \<Rightarrow> gret (Some err) | None \<Rightarrow>
        gbind (saveVoteResult E (r'\<lparr>vr_Signature := Some aggSigBytes\<rparr>)) (\<lambda>e2.
        case e2 of Some err \<Rightarrow> gret (Some (Wrapf ''failed to save consensus result'' err)) | None \<Rightarrow>
        gbind (ConfirmRecord E (vr_Domain (r'\<lparr>vr_Signature := Some aggSigBytes\<rparr>))) (\<lambda>e3.
        case e3 of
          Some err \<Rightarrow> gret (Some (Wrapf ''Unable to confirm record after consensus'' err))
        | None \<Rightarrow> gret None)))))"
      by (intro does_rules sub conf save d)
  qed (rule fr.keeps_gret)
qed

text \<open>A round of decisions by a node that is no decision maker, and by one that is.\<close>

lemma does_process_domain:
  assumes "\<And>d e. decides E d e \<Longrightarrow> K e"
  shows "keeps (does K) (process_domain E d)"
  unfolding process_domain_def
  by (intro does_rules does_getVoteResult does_decide does_watch) (erule assms)

lemma does_process_domains:
  assumes "\<And>d e. decides E d e \<Longrightarrow> K e"
  shows "keeps (does K) (process_domains E ds)"
  by (induction ds) (auto intro!: does_rules does_process_domain assms)

lemma does_processPendingRecords:
  assumes "\<And>d e. decides E d e \<Longrightarrow> K e"
  shows "keeps (does K) (processPendingRecords E)"
  unfolding processPendingRecords_def
  by (intro does_rules does_GetPendingDomains does_process_domains) (erule assms)

lemma does_periodicDecisionMaking:
  assumes "\<And>d e. decides E d e \<Longrightarrow> K e"
  shows "keeps (does K) (periodicDecisionMaking E sigs)"
proof (induction sigs)
  case (Cons sig sigs)
  then show ?case
    by (cases sig) (auto intro!: does_rules does_processPendingRecords assms)
qed (simp add: fr.keeps_gret)

end
