(* ===== verification/LockFacts.thy ===== *)
theory LockFacts
  imports Frames
begin

text \<open>
  The distributed locks as a service: the interface \<open>lock_service\<close> states what a lock promises
  its clients, and its lemmas are what clients build on (exclusion, and running a body under a
  lock with a deferred release). The lock of a domain and the lock of the pending index are its
  two instances. Then the properties of locks that hold in every environment.
\<close>

section \<open>The interface\<close>

locale lock_service =
  fixes ok :: "'s \<Rightarrow> bool"
    and abst :: "'s \<Rightarrow> 'a"
    and holder :: "'a \<Rightarrow> 'k \<Rightarrow> string option"
    and set_holder :: "'k \<Rightarrow> string option \<Rightarrow> 'a \<Rightarrow> 'a"
    and key :: "'d \<Rightarrow> 'k"
    and acquire :: "'d \<Rightarrow> ('s, string \<times> bool) go"
    and release :: "'d \<Rightarrow> string \<Rightarrow> ('s, bool) go"
  assumes holder_set: "holder (set_holder k v a) k' = (if k' = k then v else holder a k')"
    and set_same: "holder a k = v \<Longrightarrow> set_holder k v a = a"
    and set_set: "set_holder k v (set_holder k u a) = set_holder k v a"
    and acquire_free: "ok s \<Longrightarrow> holder (abst s) (key d) = None \<Longrightarrow>
      (\<And>i s'. ok s' \<Longrightarrow> abst s' = set_holder (key d) (Some i) (abst s) \<Longrightarrow> Q (i, True) s') \<Longrightarrow>
      runs (acquire d) s Q"
    and acquire_held: "ok s \<Longrightarrow> holder (abst s) (key d) = Some j \<Longrightarrow>
      (\<And>s'. ok s' \<Longrightarrow> abst s' = abst s \<Longrightarrow> Q ([], False) s') \<Longrightarrow> runs (acquire d) s Q"
    and release_owner: "ok s \<Longrightarrow> holder (abst s) (key d) = Some i \<Longrightarrow>
      (\<And>b s'. ok s' \<Longrightarrow> abst s' = set_holder (key d) None (abst s) \<Longrightarrow> R b s') \<Longrightarrow>
      runs (release d i) s R"
    and release_other: "ok s \<Longrightarrow> holder (abst s) (key d) \<noteq> Some i \<Longrightarrow>
      (\<And>b s'. ok s' \<Longrightarrow> abst s' = abst s \<Longrightarrow> R b s') \<Longrightarrow> runs (release d i) s R"
begin

text \<open>Between an acquisition and its release no one else acquires; after the release one may.\<close>

lemma exclusion:
  assumes "ok s" "holder (abst s) (key a) = None" "key b = key a"
  shows "runs (gbind (acquire a) (\<lambda>(i, first).
           gbind (acquire b) (\<lambda>(j, second).
           gbind (release a i) (\<lambda>_.
           gbind (acquire b) (\<lambda>(k, third). gret (first, second, third)))))) s
           (\<lambda>r s'. r = (True, False, True))"
proof -
  have third: "runs (acquire b) s3 (\<lambda>x s'. runs (case x of (k, third) \<Rightarrow> gret (True, False, third)) s' (\<lambda>r s'. r = (True, False, True)))"
    if "ok s3" "holder (abst s3) (key b) = None" for s3
    by (rule acquire_free[OF that]) simp
  have "runs (release a i) s2 (\<lambda>_ s3. ok s3 \<and> holder (abst s3) (key b) = None)"
    if "ok s2" "holder (abst s2) (key a) = Some i" for s2 i
    by (rule release_owner[OF that]) (simp add: holder_set assms(3))
  then have rest: "runs (release a i) s2 (\<lambda>_ s3. runs (acquire b) s3
      (\<lambda>x s'. runs (case x of (k, third) \<Rightarrow> gret (True, False, third)) s' (\<lambda>r s'. r = (True, False, True))))"
    if "ok s2" "holder (abst s2) (key a) = Some i" for s2 i
    using that third by (blast intro: runs_mono)
  show ?thesis
    unfolding runs_gbind
  proof (rule acquire_free[OF assms(1,2)], simp)
    fix i s1 assume 1: "ok s1" "abst s1 = set_holder (key a) (Some i) (abst s)"
    show "runs (acquire b) s1 (\<lambda>x s'. runs (case x of (j, second) \<Rightarrow>
        gbind (release a i) (\<lambda>_. gbind (acquire b) (\<lambda>(k, third). gret (True, second, third)))) s' (\<lambda>r s'. r = (True, False, True)))"
      by (rule acquire_held[OF 1(1), of b i]) (use 1 rest in \<open>simp_all add: assms(3) holder_set\<close>)
  qed
qed

text \<open>A body that leaves the lock to its holder, run under the lock with a deferred release.\<close>

lemma with_lock:
  assumes "ok s" "holder (abst s) (key d) = None"
    and body: "\<And>i s1. ok s1 \<Longrightarrow> abst s1 = set_holder (key d) (Some i) (abst s) \<Longrightarrow>
      runs (body i) s1 (\<lambda>x s2. ok s2 \<and> (\<exists>a. abst s2 = set_holder (key d) (Some i) a
        \<and> holder a (key d) = None \<and> Q x a))"
  shows "runs (gbind (acquire d) (\<lambda>(i, acquired).
           if \<not> acquired then m else gdefer (release d i) (body i))) s (\<lambda>x s'. ok s' \<and> Q x (abst s'))"
proof -
  have rel: "runs (release d i) s2 (\<lambda>_ s'. ok s' \<and> Q x (abst s'))"
    if "ok s2" "abst s2 = set_holder (key d) (Some i) a" "holder a (key d) = None" "Q x a" for i s2 a x
    using that by (auto intro!: release_owner simp: holder_set set_set set_same)
  have "runs (gdefer (release d i) (body i)) s1 (\<lambda>x s'. ok s' \<and> Q x (abst s'))"
    if "ok s1" "abst s1 = set_holder (key d) (Some i) (abst s)" for i s1
    unfolding runs_gdefer by (rule runs_mono[OF body[OF that]]) (use rel in blast)
  then show ?thesis
    unfolding runs_gbind by (intro acquire_free[OF assms(1,2)]) simp
qed

lemma busy:
  assumes "ok s" "holder (abst s) (key d) = Some j"
  shows "runs (gbind (acquire d) (\<lambda>(i, acquired). if \<not> acquired then gret x else m i)) s
    (\<lambda>y s'. y = x \<and> ok s' \<and> abst s' = abst s)"
  unfolding runs_gbind by (rule acquire_held[OF assms]) simp

end

section \<open>The locks of domains\<close>

definition set_dht :: "string \<Rightarrow> bytes option \<Rightarrow> view \<Rightarrow> view" where
  "set_dht k v V = V\<lparr>vw_dht := (vw_dht V)(k := v)\<rparr>"

lemma set_dht_simps [simp]:
  "vw_dht (set_dht k v V) = (vw_dht V)(k := v)" "vw_db (set_dht k v V) = vw_db V"
  "vw_version (set_dht k v V) = vw_version V" "vw_host (set_dht k v V) = vw_host V"
  "vw_voting (set_dht k v V) = vw_voting V" "set_dht k v (set_dht k u V) = set_dht k v V"
  by (simp_all add: set_dht_def)

lemma set_dht_same: "vw_dht V k = v \<Longrightarrow> set_dht k v V = V"
  by (auto simp: set_dht_def)

lemma set_dht_swap: "k \<noteq> k' \<Longrightarrow> set_dht k v (set_dht k' v' V) = set_dht k' v' (set_dht k v V)"
  by (simp add: set_dht_def fun_upd_twist)

lemma make_lockID_nonempty [simp]: "make_lockID h t \<noteq> []"
  by (simp add: make_lockID_def)

lemma runs_PutValue_set:
  assumes "quiet E dv bv"
    and "\<And>s'. view_of dv bv s' = set_dht k (non_empty v) (view_of dv bv s) \<Longrightarrow> Q None s'"
  shows "runs (dht_PutValue E k v) s Q"
  by (rule runs_dht_PutValue[OF assms(1)]) (simp add: assms(2) set_dht_def)

lemma runs_TryAcquireLock_free:
  assumes q: "quiet E dv bv" and "vw_dht (view_of dv bv s) (makeLockKey d) = None"
    and "\<And>i s'. i \<noteq> [] \<Longrightarrow> view_of dv bv s' = set_dht (makeLockKey d) (Some i) (view_of dv bv s) \<Longrightarrow> Q (i, True) s'"
  shows "runs (TryAcquireLock E d) s Q"
  unfolding TryAcquireLock_def Let_def runs_gbind
  apply (rule runs_read_host[OF q], rule runs_time_Now[OF q], rule runs_dht_GetValue[OF q])
  using assms(2) apply (auto intro!: runs_PutValue_set[OF q] runs_modify_locks[OF q] assms(3))
  done

lemma runs_TryAcquireLock_held:
  assumes q: "quiet E dv bv" and "vw_dht (view_of dv bv s) (makeLockKey d) = Some j"
    and "\<And>s'. view_of dv bv s' = view_of dv bv s \<Longrightarrow> Q ([], False) s'"
  shows "runs (TryAcquireLock E d) s Q"
proof -
  have "j \<noteq> []" using assms(2) quietD(8)[OF q] by (auto simp: view_of_def)
  then show ?thesis
    unfolding TryAcquireLock_def Let_def runs_gbind
    by (intro runs_read_host[OF q] runs_time_Now[OF q] runs_dht_GetValue[OF q])
      (use assms(2) in \<open>auto intro!: assms(3)\<close>)
qed

lemma runs_IsLockValid:
  assumes q: "quiet E dv bv"
    and "\<And>b s'. view_of dv bv s' = view_of dv bv s \<Longrightarrow>
      (b \<Longrightarrow> vw_dht (view_of dv bv s) (makeLockKey d) = non_empty i) \<Longrightarrow>
      (vw_dht (view_of dv bv s) (makeLockKey d) = Some i \<Longrightarrow> b) \<Longrightarrow> Q b s'"
  shows "runs (IsLockValid E d i) s Q"
proof -
  have ne: "vw_dht (view_of dv bv s) k \<noteq> Some []" for k
    using quietD(8)[OF q] by (auto simp: view_of_def)
  show ?thesis
    unfolding IsLockValid_def runs_gbind
    by (rule runs_dht_GetValue[OF q], cases "vw_dht (view_of dv bv s) (makeLockKey d)")
      (use ne in \<open>auto intro!: assms(2) simp: non_empty_def\<close>)
qed

lemma runs_ReleaseLock:
  assumes q: "quiet E dv bv"
    and "\<And>b s'. view_of dv bv s' = (if vw_dht (view_of dv bv s) (makeLockKey d) = Some i
      then set_dht (makeLockKey d) None (view_of dv bv s) else view_of dv bv s) \<Longrightarrow> Q b s'"
  shows "runs (ReleaseLock E d i) s Q"
  unfolding ReleaseLock_def runs_gbind
  apply (rule runs_IsLockValid[OF q, where d = d and i = i])
  apply (auto intro!: assms(2))
  apply (rule runs_PutValue_set[OF q])
  apply (rule runs_read_locks[OF q])
  apply (auto intro!: assms(2) runs_modify_locks[OF q] simp: non_empty_def set_dht_same split: if_splits)
  done

interpretation dl: lock_service "\<lambda>s. quiet E dv bv" "view_of dv bv" vw_dht set_dht makeLockKey
    "TryAcquireLock E" "ReleaseLock E"
  for E :: "('w, 'e) env_scheme" and dv bv
proof unfold_locales
  fix s :: "('w, 's) RecordStore_scheme" and d j i and Q :: "string \<times> bool \<Rightarrow> _ \<Rightarrow> bool"
    and R :: "bool \<Rightarrow> ('w, 's) RecordStore_scheme \<Rightarrow> bool"
  assume q: "quiet E dv bv"
  show "vw_dht (view_of dv bv s) (makeLockKey d) = None \<Longrightarrow>
      (\<And>i s'. quiet E dv bv \<Longrightarrow> view_of dv bv s' = set_dht (makeLockKey d) (Some i) (view_of dv bv s) \<Longrightarrow> Q (i, True) s') \<Longrightarrow>
      runs (TryAcquireLock E d) s Q"
    using q by (auto intro: runs_TryAcquireLock_free[OF q])
  show "vw_dht (view_of dv bv s) (makeLockKey d) = Some j \<Longrightarrow>
      (\<And>s'. quiet E dv bv \<Longrightarrow> view_of dv bv s' = view_of dv bv s \<Longrightarrow> Q ([], False) s') \<Longrightarrow>
      runs (TryAcquireLock E d) s Q"
    using q by (auto intro: runs_TryAcquireLock_held[OF q])
  show "vw_dht (view_of dv bv s) (makeLockKey d) = Some i \<Longrightarrow>
      (\<And>b s'. quiet E dv bv \<Longrightarrow> view_of dv bv s' = set_dht (makeLockKey d) None (view_of dv bv s) \<Longrightarrow> R b s') \<Longrightarrow>
      runs (ReleaseLock E d i) s R"
    using q by (auto intro: runs_ReleaseLock[OF q])
  show "vw_dht (view_of dv bv s) (makeLockKey d) \<noteq> Some i \<Longrightarrow>
      (\<And>b s'. quiet E dv bv \<Longrightarrow> view_of dv bv s' = view_of dv bv s \<Longrightarrow> R b s') \<Longrightarrow>
      runs (ReleaseLock E d i) s R"
    using q by (auto intro: runs_ReleaseLock[OF q])
qed (simp_all add: set_dht_same)

section \<open>The lock of the pending index\<close>

lemma runs_two_clocks:
  assumes q: "quiet E dv bv"
    and "\<And>t t' s'. time_sub t' t \<le> index_timeout \<Longrightarrow> view_of dv bv s' = view_of dv bv s \<Longrightarrow> Q t t' s'"
  shows "runs (time_Now E) s (\<lambda>t s1. runs (time_Now E) s1 (Q t))"
proof -
  obtain t w1 where 1: "Clock E (rs_world s) = (t, w1)" by fastforce
  obtain t' w2 where 2: "Clock E w1 = (t', w2)" by fastforce
  have "view_of dv bv (s\<lparr>rs_world := w2\<rparr>) = view_of dv bv s"
    using quietD(6)[OF q 1] quietD(6)[OF q 2] by (simp add: view_of_def keeps_world_def)
  with assms(2) quiet_clock[OF q 1 2] show ?thesis
    by (simp add: runs_def time_Now_def 1 2)
qed

lemma runs_index_lock_loop_held:
  assumes q: "quiet E dv bv"
  shows "vw_dht (view_of dv bv s) (makeLockKey indexKey) = Some j \<Longrightarrow>
    (\<And>s'. view_of dv bv s' = view_of dv bv s \<Longrightarrow> Q ([], False) s') \<Longrightarrow> runs (index_lock_loop E st n) s Q"
proof (induction n arbitrary: s)
  case (Suc n)
  have again: "runs (TryAcquireLock E indexKey) s1 (\<lambda>x s2. runs (case x of (lockID, acquired) \<Rightarrow>
       if \<not> acquired
       then gbind (time_Sleep E (index_backoff (index_maxAttempts - Suc n))) (\<lambda>_. index_lock_loop E st n)
       else gbind (gmodify (\<lambda>s. s\<lparr>rs_pendingLocks := gm_put indexKey lockID (rs_pendingLocks s)\<rparr>)) (\<lambda>_.
            gret (lockID, True))) s2 Q)" if "view_of dv bv s1 = view_of dv bv s" for s1
    using Suc.prems that
    by (intro runs_TryAcquireLock_held[OF q, where j = j]) (auto intro!: runs_time_Sleep[OF q] Suc.IH)
  show ?case
    unfolding index_lock_loop.simps runs_gbind
    by (rule runs_time_Now[OF q]) (use again Suc.prems in auto)
qed simp

lemma runs_TryAcquireIndexLock_held:
  assumes q: "quiet E dv bv" and "vw_dht (view_of dv bv s) (makeLockKey indexKey) = Some j"
    and "\<And>s'. view_of dv bv s' = view_of dv bv s \<Longrightarrow> Q ([], False) s'"
  shows "runs (TryAcquireIndexLock E) s Q"
  unfolding TryAcquireIndexLock_def runs_gbind
  by (rule runs_time_Now[OF q], rule runs_index_lock_loop_held[OF q]) (use assms in auto)

lemma runs_TryAcquireIndexLock_free:
  assumes q: "quiet E dv bv" and "vw_dht (view_of dv bv s) (makeLockKey indexKey) = None"
    and "\<And>i s'. view_of dv bv s' = set_dht (makeLockKey indexKey) (Some i) (view_of dv bv s) \<Longrightarrow> Q (i, True) s'"
  shows "runs (TryAcquireIndexLock E) s Q"
proof -
  have one: "index_maxAttempts = Suc 4" by (simp add: index_maxAttempts_def)
  show ?thesis
    unfolding TryAcquireIndexLock_def one index_lock_loop.simps runs_gbind
    by (rule runs_two_clocks[OF q])
      (use assms(2,3) in \<open>auto intro!: runs_TryAcquireLock_free[OF q] runs_modify_locks[OF q]\<close>)
qed

interpretation ix: lock_service "\<lambda>s. quiet E dv bv" "view_of dv bv" vw_dht set_dht
    "\<lambda>_. makeLockKey indexKey" "\<lambda>_ :: unit. TryAcquireIndexLock E" "\<lambda>_. ReleaseLock E indexKey"
  for E :: "('w, 'e) env_scheme" and dv bv
proof unfold_locales
  fix s :: "('w, 's) RecordStore_scheme" and d j i and Q :: "string \<times> bool \<Rightarrow> _ \<Rightarrow> bool"
    and R :: "bool \<Rightarrow> ('w, 's) RecordStore_scheme \<Rightarrow> bool"
  assume q: "quiet E dv bv"
  show "vw_dht (view_of dv bv s) (makeLockKey indexKey) = None \<Longrightarrow>
      (\<And>i s'. quiet E dv bv \<Longrightarrow> view_of dv bv s' = set_dht (makeLockKey indexKey) (Some i) (view_of dv bv s) \<Longrightarrow> Q (i, True) s') \<Longrightarrow>
      runs (TryAcquireIndexLock E) s Q"
    using q by (auto intro: runs_TryAcquireIndexLock_free[OF q])
  show "vw_dht (view_of dv bv s) (makeLockKey indexKey) = Some j \<Longrightarrow>
      (\<And>s'. quiet E dv bv \<Longrightarrow> view_of dv bv s' = view_of dv bv s \<Longrightarrow> Q ([], False) s') \<Longrightarrow>
      runs (TryAcquireIndexLock E) s Q"
    using q by (auto intro: runs_TryAcquireIndexLock_held[OF q])
  show "vw_dht (view_of dv bv s) (makeLockKey indexKey) = Some i \<Longrightarrow>
      (\<And>b s'. quiet E dv bv \<Longrightarrow> view_of dv bv s' = set_dht (makeLockKey indexKey) None (view_of dv bv s) \<Longrightarrow> R b s') \<Longrightarrow>
      runs (ReleaseLock E indexKey i) s R"
    using q by (auto intro: runs_ReleaseLock[OF q])
  show "vw_dht (view_of dv bv s) (makeLockKey indexKey) \<noteq> Some i \<Longrightarrow>
      (\<And>b s'. quiet E dv bv \<Longrightarrow> view_of dv bv s' = view_of dv bv s \<Longrightarrow> R b s') \<Longrightarrow>
      runs (ReleaseLock E indexKey i) s R"
    using q by (auto intro: runs_ReleaseLock[OF q])
qed (simp_all add: set_dht_same)

section \<open>Properties of the locks\<close>

text \<open>
  C13. On a quiet network the lock of a name excludes: after a node acquired it, an attempt on any
  spelling of the name in other letter case fails, and after its release an attempt succeeds.
\<close>

theorem lock_mutual_exclusion:
  assumes "quiet E dv bv" and "ToLower a = ToLower b"
    and "vw_dht (view_of dv bv s) (makeLockKey a) = None"
  shows "runs (gbind (TryAcquireLock E a) (\<lambda>(i, first).
           gbind (TryAcquireLock E b) (\<lambda>(j, second).
           gbind (ReleaseLock E a i) (\<lambda>_.
           gbind (TryAcquireLock E b) (\<lambda>(k, third). gret (first, second, third)))))) s
           (\<lambda>r s'. r = (True, False, True))"
  by (rule dl.exclusion[OF assms(1,3)]) (simp add: makeLockKey_eq assms(2))

theorem lock_mutual_exclusion_witness:
  "runs (gbind (TryAcquireLock mem_env ''Ab'') (\<lambda>(i, first).
           gbind (TryAcquireLock mem_env ''aB'') (\<lambda>(j, second).
           gbind (ReleaseLock mem_env ''Ab'' i) (\<lambda>_.
           gbind (TryAcquireLock mem_env ''aB'') (\<lambda>(k, third). gret (first, second, third)))))) mem_start
           (\<lambda>r s'. r = (True, False, True))"
  by (rule lock_mutual_exclusion[OF quiet_mem], code_simp)
    (simp add: mem_start_def NewRecordStore_def view_of_def mem_dht_def)

text \<open>
  C30. In every environment, a release by a node whose lock id is not the one the network reports
  returns false and writes nothing: it only reads.
\<close>

theorem release_needs_ownership:
  assumes "DhtGet E (makeLockKey d) (rs_world s) = (r, w)" and "\<And>x. r = Inr x \<Longrightarrow> sl_bytes x \<noteq> i"
  shows "ReleaseLock E d i s = (Done False, s\<lparr>rs_world := w\<rparr>)"
  using assms by (cases r) (simp_all add: ReleaseLock_def IsLockValid_def dht_GetValue_def gbind_def gret_def)

theorem release_needs_ownership_witness:
  "ReleaseLock mem_env ''a'' ''n2-5'' (mem_start\<lparr>rs_world := (rs_world mem_start)\<lparr>mw_dht := [(makeLockKey ''a'', ''n1-1'')]\<rparr>\<rparr>)
   = (Done False, mem_start\<lparr>rs_world := (rs_world mem_start)\<lparr>mw_dht := [(makeLockKey ''a'', ''n1-1'')]\<rparr>\<rparr>)"
  by (subst release_needs_ownership[where r = "Inr (Some ''n1-1'')"
      and w = "(rs_world mem_start)\<lparr>mw_dht := [(makeLockKey ''a'', ''n1-1'')]\<rparr>"])
    (simp_all add: mem_env_def mem_start_def NewRecordStore_def)

text \<open>The time a run has slept and the number of its network writes.\<close>

definition slept :: "effect list \<Rightarrow> int" where
  "slept es = sum_list (map (\<lambda>e. case e of ESleep d \<Rightarrow> d | _ \<Rightarrow> 0) es)"

definition dht_writes :: "effect list \<Rightarrow> nat" where
  "dht_writes es = length (filter (\<lambda>e. case e of EDht k v \<Rightarrow> True | _ \<Rightarrow> False) es)"

lemma slept_simps [simp]:
  "slept [] = 0" "slept (a @ b) = slept a + slept b" "slept (EDht k v # es) = slept es"
  "slept (ESleep d # es) = d + slept es" "slept (EDb k v # es) = slept es" "slept (ETx t # es) = slept es"
  by (simp_all add: slept_def)

lemma dht_writes_simps [simp]:
  "dht_writes [] = 0" "dht_writes (a @ b) = dht_writes a + dht_writes b"
  "dht_writes (EDht k v # es) = Suc (dht_writes es)" "dht_writes (ESleep d # es) = dht_writes es"
  by (simp_all add: dht_writes_def)

lemma TryAcquireLock_trace:
  assumes "TryAcquireLock E d s = (r, s')"
  shows "\<exists>es. rs_trace s' = rs_trace s @ es \<and> slept es = 0 \<and> dht_writes es \<le> 1"
proof -
  have "rs_trace s' = rs_trace s \<or> (\<exists>v. rs_trace s' = rs_trace s @ [EDht (makeLockKey d) v])"
    using assms
    by (auto simp: TryAcquireLock_def prim_defs gbind_def go_defs Let_def
        split: prod.splits sum.splits option.splits if_splits)
  then show ?thesis
  proof (elim disjE exE)
    assume "rs_trace s' = rs_trace s"
    then show ?thesis by (intro exI[of _ "[]"]) simp
  next
    fix v assume "rs_trace s' = rs_trace s @ [EDht (makeLockKey d) v]"
    then show ?thesis by (intro exI[of _ "[EDht (makeLockKey d) v]"]) simp
  qed
qed

text \<open>The sleeps that \<open>n\<close> remaining attempts may add.\<close>

fun backoff_sum :: "nat \<Rightarrow> int" where
  "backoff_sum 0 = 0"
| "backoff_sum (Suc n) = index_backoff (index_maxAttempts - Suc n) + backoff_sum n"

lemma index_backoff_pos: "0 \<le> index_backoff k"
  by (simp add: index_backoff_def index_initialBackoff_def index_maxBackoff_def millisecond_def sec_def Let_def)

lemma backoff_sum_pos: "0 \<le> backoff_sum n"
  by (induction n) (simp_all add: index_backoff_pos)

lemma index_lock_loop_trace:
  "index_lock_loop E st n s = (r, s') \<Longrightarrow>
   \<exists>es. rs_trace s' = rs_trace s @ es \<and> slept es \<le> backoff_sum n \<and> dht_writes es \<le> n"
proof (induction n arbitrary: s)
  case (Suc n)
  obtain t w where c: "Clock E (rs_world s) = (t, w)" by fastforce
  let ?s0 = "s\<lparr>rs_world := w\<rparr>"
  show ?case
  proof (cases "time_sub t st > index_timeout")
    case True
    with Suc.prems c show ?thesis
      by (intro exI[of _ "[]"]) (auto simp: gbind_def time_Now_def gret_def index_backoff_pos backoff_sum_pos)
  next
    case False
    obtain o1 s1 where l: "TryAcquireLock E indexKey ?s0 = (o1, s1)" by fastforce
    obtain es where es: "rs_trace s1 = rs_trace s @ es" "slept es = 0" "dht_writes es \<le> 1"
      using TryAcquireLock_trace[OF l] by auto
    let ?b = "index_backoff (index_maxAttempts - Suc n)"
    show ?thesis
    proof (cases "\<exists>i. o1 = Done (i, False)")
      case True
      let ?s2 = "s1\<lparr>rs_world := Sleep E ?b (rs_world s1), rs_trace := rs_trace s1 @ [ESleep ?b]\<rparr>"
      from True Suc.prems c l False have "index_lock_loop E st n ?s2 = (r, s')"
        by (auto simp: gbind_def time_Now_def time_Sleep_def)
      from Suc.IH[OF this] obtain fs where "rs_trace s' = rs_trace ?s2 @ fs" "slept fs \<le> backoff_sum n" "dht_writes fs \<le> n"
        by auto
      with es show ?thesis by (intro exI[of _ "es @ [ESleep ?b] @ fs"]) simp
    next
      case no: False
      with Suc.prems c l False have "rs_trace s' = rs_trace s1"
        by (auto simp: gbind_def time_Now_def gret_def gmodify_def split: outcome.splits prod.splits if_splits)
      with es show ?thesis
        by (intro exI[of _ es]) (simp add: index_backoff_pos backoff_sum_pos)
    qed
  qed
qed (simp add: gret_def)

text \<open>
  C18. In every environment, whatever other nodes and the clock do, an attempt on the lock of the
  pending index ends after at most five lock writes and at most 3.1 seconds of sleeping (the
  backoff 100, 200, 400, 800, 1600 ms, never cut by the 2 s maximum), and it writes nothing but
  that lock's key.
\<close>

theorem index_lock_bounded:
  assumes "TryAcquireIndexLock E s = (r, s')"
  shows "\<exists>es. rs_trace s' = rs_trace s @ es \<and> slept es \<le> 3100 * millisecond \<and> dht_writes es \<le> 5
    \<and> list_all (\<lambda>e. (\<exists>v. e = EDht (makeLockKey indexKey) v) \<or> (\<exists>t. e = ESleep t)) es"
proof -
  obtain t w where c: "Clock E (rs_world s) = (t, w)" by fastforce
  with assms have "index_lock_loop E t index_maxAttempts (s\<lparr>rs_world := w\<rparr>) = (r, s')"
    by (simp add: TryAcquireIndexLock_def gbind_def time_Now_def)
  from index_lock_loop_trace[OF this] obtain es where
    "rs_trace s' = rs_trace s @ es" "slept es \<le> backoff_sum index_maxAttempts" "dht_writes es \<le> index_maxAttempts"
    by auto
  moreover have "backoff_sum index_maxAttempts = 3100 * millisecond" "index_maxAttempts = 5"
    by (simp_all add: index_maxAttempts_def index_backoff_def index_initialBackoff_def index_maxBackoff_def
        millisecond_def sec_def eval_nat_numeral)
  moreover have "does (\<lambda>e. (\<exists>v. e = EDht (makeLockKey indexKey) v) \<or> (\<exists>t. e = ESleep t)) s s'"
    by (rule keepsD[OF does_TryAcquireIndexLock assms]) auto
  ultimately show ?thesis by (auto simp: does_def)
qed

theorem index_lock_bounded_witness:
  "\<exists>es. rs_trace (snd (TryAcquireIndexLock mem_env mem_start)) = rs_trace mem_start @ es
    \<and> slept es \<le> 3100 * millisecond \<and> dht_writes es \<le> 5
    \<and> list_all (\<lambda>e. (\<exists>v. e = EDht (makeLockKey indexKey) v) \<or> (\<exists>t. e = ESleep t)) es"
  by (rule index_lock_bounded[OF surjective_pairing])

text \<open>
  The key that holds the pending record of a domain is the key of the pending index exactly
  when the domain is spelled \<open>_index\<close> up to letter case: such a registration overwrites the index.
\<close>

lemma pending_key_is_index_key:
  "makePendingKey d = makePendingKey indexKey \<longleftrightarrow> ToLower d = ''_index''"
  by (simp add: makePendingKey_eq) (simp add: indexKey_def)

end
