(* ===== verification/StoreFacts.thy ===== *)
theory StoreFacts
  imports LockFacts
begin

text \<open>
  The record store against an abstract registry. \<open>registry_of E V\<close> reads the names, pending
  records, index, locks and version out of the keys and JSON texts of a view; the theorems say
  that on a quiet network each operation of the store acts on the registry as its specification
  does. Then the invariant of the registries these operations reach.
\<close>

section \<open>Codecs\<close>

lemma json_print_struct [simp]: "json_print (JObj ms) \<noteq> []" "json_print (JArr js) \<noteq> []"
proof -
  have "\<exists>t ts. json_toks (JObj ms) = t # ts \<and> t = TLBrace" by (cases ms) auto
  then show "json_print (JObj ms) \<noteq> []" by (auto simp: json_print_def toks_text_def tok_text_def)
  have "\<exists>t ts. json_toks (JArr js) = t # ts \<and> t = TLBrack" by (cases js) auto
  then show "json_print (JArr js) \<noteq> []" by (auto simp: json_print_def toks_text_def tok_text_def)
qed

definition pending_text :: "('e) crypto_scheme \<Rightarrow> Record \<Rightarrow> bytes" where
  "pending_text C r = json_print (enc_Pending C (Some r))"

lemma dec_Pending_empty [simp]: "dec_Pending C [] = Inl ErrJSON"
  by (simp add: dec_Pending_def)

lemma dec_index_empty [simp]: "dec_index [] = Inl ErrJSON"
  by (simp add: dec_index_def)

lemma dec_Pending_text: "record_ok C r \<Longrightarrow> dec_Pending C (pending_text C r) = Inr (Some (canon r))"
  by (simp add: dec_Pending_def pending_text_def enc_Pending_def json_parse_print json_ok_Record
      dec_struct_def step_Pending_def fold_defs dec_enc_Record)

lemma pending_text_nonempty [simp]: "pending_text C r \<noteq> []"
  by (simp add: pending_text_def enc_Pending_def)

lemma dec_enc_index: "list_all ascii ds \<Longrightarrow> dec_index (enc_index ds) = Inr ds"
  by (simp add: dec_index_def enc_index_def json_parse_print jsons_ok_list_all list_all_iff)

lemma enc_index_nonempty [simp]: "enc_index ds \<noteq> []"
  by (simp add: enc_index_def)

lemma record_text_nonempty' [simp]: "record_text C r \<noteq> []"
  by (simp add: record_text_def enc_Record_def)

interpretation pending_codec: codec "\<lambda>p. pending_text C (the p)" "\<lambda>b. Done (dec_Pending C b)"
    "map_option canon" "\<lambda>p. \<exists>r. p = Some r \<and> record_ok C r" for C
  by unfold_locales (auto simp: dec_Pending_text)

interpretation index_codec: codec enc_index "\<lambda>b. Done (dec_index b)" "\<lambda>ds. ds" "list_all ascii"
  by unfold_locales (auto simp: dec_enc_index)

section \<open>The registry\<close>

record registry =
  g_pending :: "string \<Rightarrow> Record option"
  g_index :: "string list"
  g_records :: "string \<Rightarrow> Record option"
  g_local :: "string \<Rightarrow> Record option"
  g_names :: "bytes \<Rightarrow> string option"
  g_locks :: "string \<Rightarrow> string option"
  g_version :: int64

text \<open>
  A name that is one path component and is not the index. \<open>clean_keys\<close> is what \<open>datastore.NewKey\<close>
  does to the keys of such names and of their hashes: they are clean paths already.
\<close>

definition valid_domain :: "string \<Rightarrow> bool" where
  "valid_domain d = (d \<noteq> [] \<and> d \<noteq> ''.'' \<and> d \<noteq> ''..'' \<and> CHR ''/'' \<notin> set d \<and> ToLower d \<noteq> indexKey)"

definition clean_keys :: "('w, 'e) env_scheme \<Rightarrow> bool" where
  "clean_keys E = ((\<forall>d. valid_domain d \<longrightarrow> NewKey E (makeRecordKey d) = makeRecordKey d)
     \<and> (\<forall>d. NewKey E (makeNamehashKey (Namehash E d)) = makeNamehashKey (Namehash E d))
     \<and> NewKey E versionKey = versionKey)"

definition decoded :: "('e) crypto_scheme \<Rightarrow> bytes \<Rightarrow> Record option" where
  "decoded C b = (case DeserializeRecord C b of Done (Inr r) \<Rightarrow> Some r | _ \<Rightarrow> None)"

definition decoded_pending :: "('e) crypto_scheme \<Rightarrow> bytes \<Rightarrow> Record option" where
  "decoded_pending C b = (case dec_Pending C b of Inr p \<Rightarrow> p | Inl e \<Rightarrow> None)"

definition decoded_index :: "bytes option \<Rightarrow> string list" where
  "decoded_index v = (case v of None \<Rightarrow> [] | Some b \<Rightarrow> (case dec_index b of Inr ds \<Rightarrow> ds | Inl e \<Rightarrow> []))"

definition registry_of :: "('e) crypto_scheme \<Rightarrow> view \<Rightarrow> registry" where
  "registry_of C V = \<lparr>
     g_pending = (\<lambda>n. if ToLower n = indexKey then None
                      else Option.bind (vw_dht V (makePendingKey n)) (decoded_pending C)),
     g_index = decoded_index (vw_dht V (makePendingKey indexKey)),
     g_records = (\<lambda>n. if valid_domain n then Option.bind (vw_dht V (makeRecordKey n)) (decoded C) else None),
     g_local = (\<lambda>n. if valid_domain n then Option.bind (vw_db V (makeRecordKey n)) (decoded C) else None),
     g_names = (\<lambda>h. vw_db V (makeNamehashKey h)),
     g_locks = (\<lambda>n. vw_dht V (makeLockKey n)),
     g_version = vw_version V\<rparr>"

lemma decoded_record_text [simp]: "record_ok C r \<Longrightarrow> decoded C (record_text C r) = Some (canon r)"
  by (simp add: decoded_def DeserializeRecord_text)

lemma decoded_pending_text [simp]: "record_ok C r \<Longrightarrow> decoded_pending C (pending_text C r) = Some (canon r)"
  by (simp add: decoded_pending_def dec_Pending_text)

lemma decoded_index_enc [simp]: "list_all ascii ds \<Longrightarrow> decoded_index (Some (enc_index ds)) = ds"
  by (simp add: decoded_index_def dec_enc_index)

lemma valid_record_key:
  "valid_domain d \<Longrightarrow> makeRecordKey d \<noteq> makeNamehashKey h"
  "valid_domain d \<Longrightarrow> makeNamehashKey h \<noteq> makeRecordKey d"
  by (auto simp: valid_domain_def key_defs)

lemma makeRecordKey_eq [simp]: "makeRecordKey a = makeRecordKey b \<longleftrightarrow> a = b"
  by (simp add: key_defs)

lemma makeNamehashKey_eq [simp]: "makeNamehashKey a = makeNamehashKey b \<longleftrightarrow> a = b"
  by (simp add: key_defs)

lemma versionKey_neq [simp]:
  "versionKey \<noteq> makeRecordKey d" "versionKey \<noteq> makeNamehashKey h"
  "makeRecordKey d \<noteq> versionKey" "makeNamehashKey h \<noteq> versionKey"
  by (simp_all add: versionKey_def key_defs)

text \<open>The update of a map of names at every spelling of a name.\<close>

definition upd_name :: "string \<Rightarrow> 'a \<Rightarrow> (string \<Rightarrow> 'a) \<Rightarrow> string \<Rightarrow> 'a" where
  "upd_name d v f = (\<lambda>n. if ToLower n = ToLower d then v else f n)"

lemma upd_name_apply [simp]: "upd_name d v f n = (if ToLower n = ToLower d then v else f n)"
  by (simp add: upd_name_def)

lemma upd_name_twice [simp]: "upd_name d v (upd_name d u f) = upd_name d v f"
  by (simp add: upd_name_def fun_eq_iff)

text \<open>How a write to each kind of key shows in the registry.\<close>

definition set_db :: "string \<Rightarrow> bytes \<Rightarrow> view \<Rightarrow> view" where
  "set_db k v V = V\<lparr>vw_db := (vw_db V)(k \<mapsto> v)\<rparr>"

lemma set_db_simps [simp]:
  "vw_dht (set_db k v V) = vw_dht V" "vw_db (set_db k v V) = (vw_db V)(k \<mapsto> v)"
  "vw_version (set_db k v V) = vw_version V" "vw_host (set_db k v V) = vw_host V"
  "vw_voting (set_db k v V) = vw_voting V"
  by (simp_all add: set_db_def)

lemma registry_lock:
  "registry_of C (set_dht (makeLockKey d) v V)
   = (registry_of C V)\<lparr>g_locks := upd_name d v (g_locks (registry_of C V))\<rparr>"
  by (auto simp: registry_of_def makeLockKey_eq fun_eq_iff)

lemma registry_index:
  "registry_of C (set_dht (makePendingKey indexKey) v V) = (registry_of C V)\<lparr>g_index := decoded_index v\<rparr>"
  by (auto simp: registry_of_def makePendingKey_eq fun_eq_iff)

lemma registry_pending:
  "valid_domain d \<Longrightarrow> registry_of C (set_dht (makePendingKey d) v V)
   = (registry_of C V)\<lparr>g_pending := upd_name d (Option.bind v (decoded_pending C)) (g_pending (registry_of C V))\<rparr>"
  by (auto simp: registry_of_def makePendingKey_eq valid_domain_def fun_eq_iff)

lemma registry_record:
  "valid_domain d \<Longrightarrow> registry_of C (set_dht (makeRecordKey d) v V)
   = (registry_of C V)\<lparr>g_records := (g_records (registry_of C V))(d := Option.bind v (decoded C))\<rparr>"
  by (auto simp: registry_of_def fun_eq_iff)

lemma registry_namehash: "registry_of C (set_dht (makeNamehashKey h) v V) = registry_of C V"
  by (auto simp: registry_of_def fun_eq_iff valid_record_key)

lemma registry_db_record:
  "valid_domain d \<Longrightarrow> registry_of C (set_db (makeRecordKey d) v V)
   = (registry_of C V)\<lparr>g_local := (g_local (registry_of C V))(d := decoded C v)\<rparr>"
  by (auto simp: registry_of_def fun_eq_iff valid_record_key)

lemma registry_db_namehash:
  "registry_of C (set_db (makeNamehashKey h) v V)
   = (registry_of C V)\<lparr>g_names := (g_names (registry_of C V))(h \<mapsto> v)\<rparr>"
  by (auto simp: registry_of_def fun_eq_iff valid_record_key)

lemma registry_db_version: "registry_of C (set_db versionKey v V) = registry_of C V"
  by (auto simp: registry_of_def fun_eq_iff)

lemma registry_version:
  "registry_of C (V\<lparr>vw_version := v\<rparr>) = (registry_of C V)\<lparr>g_version := v\<rparr>"
  by (auto simp: registry_of_def fun_eq_iff)

lemmas registry_simps = registry_lock registry_index registry_pending registry_record registry_namehash
  registry_db_record registry_db_namehash registry_db_version registry_version

lemma clean_keysD:
  assumes "clean_keys E"
  shows "valid_domain d \<Longrightarrow> NewKey E (makeRecordKey d) = makeRecordKey d"
    "NewKey E (makeNamehashKey (Namehash E n)) = makeNamehashKey (Namehash E n)" "NewKey E versionKey = versionKey"
  using assms by (auto simp: clean_keys_def)

section \<open>What the operations do to the registry\<close>

definition g_submit :: "Record \<Rightarrow> registry \<Rightarrow> registry" where
  "g_submit r G = G\<lparr>
     g_pending := upd_name (r_Domain r) (Some (canon r)) (g_pending G),
     g_index := (if r_Domain r \<in> set (g_index G) then g_index G else g_index G @ [r_Domain r])\<rparr>"

definition g_save :: "('e) crypto_scheme \<Rightarrow> Record \<Rightarrow> registry \<Rightarrow> registry" where
  "g_save C r G = G\<lparr>
     g_records := (g_records G)(r_Domain r \<mapsto> canon r), g_local := (g_local G)(r_Domain r \<mapsto> canon r),
     g_names := (g_names G)(Namehash C (r_Domain r) \<mapsto> r_Domain r)\<rparr>"

definition g_drop :: "string \<Rightarrow> registry \<Rightarrow> registry" where
  "g_drop d G = G\<lparr>
     g_pending := upd_name d None (g_pending G),
     g_index := filter (\<lambda>x. x \<noteq> d) (g_index G)\<rparr>"

definition g_unlock :: "string \<Rightarrow> string \<Rightarrow> registry \<Rightarrow> registry" where
  "g_unlock d i G = (if g_locks G d = Some i
     then G\<lparr>g_locks := upd_name d None (g_locks G)\<rparr> else G)"

definition g_reject :: "string \<Rightarrow> Record \<Rightarrow> registry \<Rightarrow> registry" where
  "g_reject d r G = g_unlock d (r_LockID r) (g_drop d G)"

definition g_confirm :: "('e) crypto_scheme \<Rightarrow> string \<Rightarrow> Record \<Rightarrow> registry \<Rightarrow> registry" where
  "g_confirm C d r G = g_unlock d (r_LockID r)
     ((g_drop d (g_save C (r\<lparr>r_Status := ''confirmed''\<rparr>) G))\<lparr>g_version := g_version G + 1\<rparr>)"

section \<open>What the operations do to the view\<close>

lemma lock_outward:
  "set_dht (makePendingKey d) x (set_dht (makeLockKey l) y V) = set_dht (makeLockKey l) y (set_dht (makePendingKey d) x V)"
  "set_dht (makeRecordKey d) x (set_dht (makeLockKey l) y V) = set_dht (makeLockKey l) y (set_dht (makeRecordKey d) x V)"
  "set_dht (makeNamehashKey h) x (set_dht (makeLockKey l) y V) = set_dht (makeLockKey l) y (set_dht (makeNamehashKey h) x V)"
  "set_db k b (set_dht (makeLockKey l) y V) = set_dht (makeLockKey l) y (set_db k b V)"
  by (simp_all add: set_dht_def set_db_def fun_upd_twist)

lemma lock_outward_version:
  "(set_dht k y V)\<lparr>vw_version := v\<rparr> = set_dht k y (V\<lparr>vw_version := v\<rparr>)"
  by (simp add: set_dht_def)

lemma runs_PutDb_set:
  assumes "quiet E dv bv"
    and "\<And>s'. view_of dv bv s' = set_db k v (view_of dv bv s) \<Longrightarrow> Q None s'"
  shows "runs (db_Put E k v) s Q"
  by (rule runs_db_Put[OF assms(1)]) (simp add: assms(2) set_db_def)

lemma runs_GetPendingDomains:
  assumes q: "quiet E dv bv"
    and "\<And>ok s'. view_of dv bv s' = view_of dv bv s \<Longrightarrow>
      Q (decoded_index (vw_dht (view_of dv bv s) (makePendingKey indexKey)), ok) s'"
  shows "runs (GetPendingDomains E) s Q"
  unfolding GetPendingDomains_def runs_gbind
  by (rule runs_dht_GetValue[OF q], cases "vw_dht (view_of dv bv s) (makePendingKey indexKey)")
    (use assms(2) in \<open>auto simp: decoded_index_def split: sum.splits\<close>)

lemma runs_GetPending_Some:
  assumes q: "quiet E dv bv" and "vw_dht (view_of dv bv s) (makePendingKey d) = Some b"
    and "\<And>s'. view_of dv bv s' = view_of dv bv s \<Longrightarrow> Q (dec_Pending E b) s'"
  shows "runs (GetPendingRecordFromDHT E d) s Q"
  unfolding GetPendingRecordFromDHT_def runs_gbind
  by (rule runs_dht_GetValue[OF q]) (use assms in auto)

lemma runs_GetPending_None:
  assumes q: "quiet E dv bv" and "vw_dht (view_of dv bv s) (makePendingKey d) = None"
    and "\<And>e s'. view_of dv bv s' = view_of dv bv s \<Longrightarrow> Q (Inl e) s'"
  shows "runs (GetPendingRecordFromDHT E d) s Q"
  unfolding GetPendingRecordFromDHT_def runs_gbind
  by (rule runs_dht_GetValue[OF q]) (use assms(2,3) in \<open>auto\<close>)

lemma runs_SaveRecord:
  assumes q: "quiet E dv bv"
    and "\<And>s'. view_of dv bv s' =
        set_db (NewKey E (makeNamehashKey (Namehash E (r_Domain r)))) (r_Domain r)
          (set_dht (makeNamehashKey (Namehash E (r_Domain r))) (non_empty (r_Domain r))
            (set_db (NewKey E (makeRecordKey (r_Domain r))) (record_text E r)
              (set_dht (makeRecordKey (r_Domain r)) (Some (record_text E r)) (view_of dv bv s)))) \<Longrightarrow> Q None s'"
  shows "runs (SaveRecord E r) s Q"
  unfolding SaveRecord_def Serialize_text sum.case runs_gbind Let_def
  by (rule runs_PutValue_set[OF q], simp, rule runs_PutDb_set[OF q], simp, rule runs_PutValue_set[OF q],
      simp, rule runs_PutDb_set[OF q]) (simp add: assms(2))

definition v_save :: "('w, 'e) env_scheme \<Rightarrow> Record \<Rightarrow> view \<Rightarrow> view" where
  "v_save E r V = set_db (NewKey E (makeNamehashKey (Namehash E (r_Domain r)))) (r_Domain r)
     (set_dht (makeNamehashKey (Namehash E (r_Domain r))) (non_empty (r_Domain r))
       (set_db (NewKey E (makeRecordKey (r_Domain r))) (record_text E r)
         (set_dht (makeRecordKey (r_Domain r)) (Some (record_text E r)) V)))"

lemma runs_SaveRecord':
  assumes "quiet E dv bv" "\<And>s'. view_of dv bv s' = v_save E r (view_of dv bv s) \<Longrightarrow> Q None s'"
  shows "runs (SaveRecord E r) s Q"
  by (rule runs_SaveRecord[OF assms(1)]) (simp add: assms(2) v_save_def)

lemma v_save_lock: "v_save E r (set_dht (makeLockKey l) y V) = set_dht (makeLockKey l) y (v_save E r V)"
  by (simp add: v_save_def lock_outward)

lemma registry_v_save:
  assumes "clean_keys E" "record_ok E r" "valid_domain (r_Domain r)"
  shows "registry_of E (v_save E r V) = g_save E r (registry_of E V)"
  using assms
  by (simp add: v_save_def g_save_def registry_simps clean_keysD)

text \<open>Submitting a pending record.\<close>

definition v_submit :: "('w, 'e) env_scheme \<Rightarrow> Record \<Rightarrow> view \<Rightarrow> view" where
  "v_submit E r V = (let ds = decoded_index (vw_dht V (makePendingKey indexKey)) in
     set_dht (makePendingKey (r_Domain r)) (Some (pending_text E r))
       (if r_Domain r \<in> set ds then V
        else set_dht (makePendingKey indexKey) (Some (enc_index (ds @ [r_Domain r]))) V))"

lemma registry_v_submit:
  assumes "record_ok E r" "valid_domain (r_Domain r)" "list_all ascii (g_index (registry_of E V))"
  shows "registry_of E (v_submit E r V) = g_submit r (registry_of E V)"
proof -
  have i: "g_index (registry_of E V) = decoded_index (vw_dht V (makePendingKey indexKey))"
    by (simp add: registry_of_def)
  have "ascii (r_Domain r)" using assms(1) by (simp add: record_ok_def)
  with assms i show ?thesis
    by (simp add: v_submit_def Let_def registry_simps g_submit_def)
qed

lemma runs_index_locked:
  assumes q: "quiet E dv bv" and free: "vw_dht (view_of dv bv s) (makeLockKey indexKey) = None"
    and body: "\<And>i s1. view_of dv bv s1 = set_dht (makeLockKey indexKey) (Some i) (view_of dv bv s) \<Longrightarrow>
      runs (body i) s1 (\<lambda>x s2. \<exists>a. view_of dv bv s2 = set_dht (makeLockKey indexKey) (Some i) a
        \<and> vw_dht a (makeLockKey indexKey) = None \<and> Q x a)"
  shows "runs (gbind (TryAcquireIndexLock E) (\<lambda>(i, acquired).
     if \<not> acquired then m else gdefer (ReleaseLock E indexKey i) (body i))) s (\<lambda>x s'. Q x (view_of dv bv s'))"
  by (rule runs_mono[OF ix.with_lock[OF q free, where Q = Q]]) (use body q in \<open>auto elim: runs_mono\<close>)

lemma runs_SavePending:
  assumes q: "quiet E dv bv" and free: "vw_dht (view_of dv bv s) (makeLockKey indexKey) = None"
  shows "runs (SavePendingRecordToDHT E r) s (\<lambda>e s'. e = None \<and> view_of dv bv s' = v_submit E r (view_of dv bv s))"
  unfolding SavePendingRecordToDHT_def pending_text_def[symmetric]
  by (rule runs_index_locked[OF q free, where Q = "\<lambda>e a. e = None \<and> a = v_submit E r (view_of dv bv s)"],
      unfold runs_gbind, rule runs_GetPendingDomains[OF q])
    (auto intro!: runs_PutValue_set[OF q] simp: v_submit_def Let_def lock_outward free)

text \<open>Completing a registration.\<close>

definition v_unindex :: "string \<Rightarrow> view \<Rightarrow> view" where
  "v_unindex d V = set_dht (makePendingKey indexKey)
     (Some (enc_index (filter (\<lambda>x. x \<noteq> d) (decoded_index (vw_dht V (makePendingKey indexKey)))))) V"

definition v_unlock :: "string \<Rightarrow> string \<Rightarrow> view \<Rightarrow> view" where
  "v_unlock d i V = (if vw_dht V (makeLockKey d) = Some i then set_dht (makeLockKey d) None V else V)"

definition v_reject :: "string \<Rightarrow> Record \<Rightarrow> view \<Rightarrow> view" where
  "v_reject d r V = v_unlock d (r_LockID r) (set_dht (makePendingKey d) None (v_unindex d V))"

definition v_confirm :: "('w, 'e) env_scheme \<Rightarrow> string \<Rightarrow> Record \<Rightarrow> view \<Rightarrow> view" where
  "v_confirm E d r V = v_unlock d (r_LockID r) (set_dht (makePendingKey d) None
     (set_db (NewKey E versionKey) (be_PutUint64 (vw_version V + 1))
       ((v_save E (r\<lparr>r_Status := ''confirmed''\<rparr>) (v_unindex d V))\<lparr>vw_version := vw_version V + 1\<rparr>)))"

lemma v_unindex_lock: "v_unindex d (set_dht (makeLockKey l) y V) = set_dht (makeLockKey l) y (v_unindex d V)"
  by (simp add: v_unindex_def lock_outward)

lemma v_unlock_lock:
  "ToLower d \<noteq> ToLower l \<Longrightarrow> v_unlock d i (set_dht (makeLockKey l) y V) = set_dht (makeLockKey l) y (v_unlock d i V)"
  by (simp add: v_unlock_def makeLockKey_eq set_dht_swap)

lemma vw_fields [simp]:
  "vw_version (v_unindex d V) = vw_version V" "vw_version (v_save E r V) = vw_version V"
  "vw_dht (v_unindex d V) (makeLockKey l) = vw_dht V (makeLockKey l)"
  "vw_dht (v_save E r V) (makeLockKey l) = vw_dht V (makeLockKey l)"
  "vw_db (v_unindex d V) = vw_db V"
  by (simp_all add: v_unindex_def v_save_def)

lemma vw_dht_unlock: "ToLower d \<noteq> ToLower l \<Longrightarrow> vw_dht (v_unlock d i V) (makeLockKey l) = vw_dht V (makeLockKey l)"
  by (simp add: v_unlock_def makeLockKey_eq)

lemma runs_ReleaseLock':
  assumes "quiet E dv bv" "\<And>b s'. view_of dv bv s' = v_unlock d i (view_of dv bv s) \<Longrightarrow> Q b s'"
  shows "runs (ReleaseLock E d i) s Q"
  by (rule runs_ReleaseLock[OF assms(1)]) (simp add: assms(2) v_unlock_def)

lemma runs_remove_from_index:
  assumes q: "quiet E dv bv"
    and "\<And>s'. view_of dv bv s' = v_unindex d (view_of dv bv s) \<Longrightarrow> Q None s'"
  shows "runs (remove_from_index E d) s Q"
  unfolding remove_from_index_def Let_def runs_gbind
  by (rule runs_GetPendingDomains[OF q])
    (auto intro!: runs_PutValue_set[OF q] assms(2) simp: v_unindex_def)

lemma runs_bump:
  assumes q: "quiet E dv bv"
    and "\<And>s'. view_of dv bv s' = (view_of dv bv s)\<lparr>vw_version := vw_version (view_of dv bv s) + 1\<rparr> \<Longrightarrow> Q () s'"
  shows "runs bump_version s Q"
  unfolding bump_version_def by (rule runs_modify_version[OF q, where f = "\<lambda>v. v + 1"]) (rule assms(2))

lemma runs_RejectRecord:
  assumes q: "quiet E dv bv" and free: "vw_dht (view_of dv bv s) (makeLockKey indexKey) = None"
    and d: "ToLower d \<noteq> indexKey"
    and p: "vw_dht (view_of dv bv s) (makePendingKey d) = Some b" "dec_Pending E b = Inr (Some r)"
  shows "runs (RejectRecord E d) s (\<lambda>e s'. e = None \<and> view_of dv bv s' = v_reject d r (view_of dv bv s))"
  unfolding RejectRecord_def
  apply (subst runs_gbind, rule runs_GetPending_Some[OF q p(1)], unfold p(2) sum.case)
  apply (rule runs_index_locked[OF q, where Q = "\<lambda>e a. e = None \<and> a = v_reject d r (view_of dv bv s)"])
   apply (simp add: free)
  apply (unfold runs_gbind, rule runs_remove_from_index[OF q], simp, rule runs_PutValue_set[OF q], simp,
      rule runs_ReleaseLock'[OF q])
  using d free apply (auto simp: v_unindex_lock lock_outward v_unlock_lock v_reject_def vw_dht_unlock)
  done

lemma runs_ConfirmRecord:
  assumes q: "quiet E dv bv" and free: "vw_dht (view_of dv bv s) (makeLockKey indexKey) = None"
    and d: "ToLower d \<noteq> indexKey"
    and p: "vw_dht (view_of dv bv s) (makePendingKey d) = Some b" "dec_Pending E b = Inr (Some r)"
  shows "runs (ConfirmRecord E d) s (\<lambda>e s'. e = None \<and> view_of dv bv s' = v_confirm E d r (view_of dv bv s))"
  unfolding ConfirmRecord_def
  apply (subst runs_gbind, rule runs_GetPending_Some[OF q p(1)], unfold p(2) sum.case)
  apply (rule runs_index_locked[OF q, where Q = "\<lambda>e a. e = None \<and> a = v_confirm E d r (view_of dv bv s)"])
   apply (simp add: free)
  apply (unfold runs_gbind Let_def, rule runs_remove_from_index[OF q], unfold option.case runs_gbind,
      rule runs_SaveRecord'[OF q], unfold option.case runs_gbind, rule runs_bump[OF q],
      rule runs_read_version[OF q], rule runs_PutDb_set[OF q], unfold option.case runs_gbind,
      rule runs_PutValue_set[OF q], rule runs_ReleaseLock'[OF q])
  using d free
  apply (auto simp: v_unindex_lock lock_outward lock_outward_version v_save_lock v_unlock_lock
      v_confirm_def vw_dht_unlock)
  done

lemma registry_v_unindex:
  assumes "list_all ascii (g_index (registry_of E V))"
  shows "registry_of E (v_unindex d V)
    = (registry_of E V)\<lparr>g_index := filter (\<lambda>x. x \<noteq> d) (g_index (registry_of E V))\<rparr>"
proof -
  have i: "g_index (registry_of E V) = decoded_index (vw_dht V (makePendingKey indexKey))"
    by (simp add: registry_of_def)
  have "list_all ascii (filter (\<lambda>x. x \<noteq> d) (g_index (registry_of E V)))"
    using assms by (auto simp: list_all_iff)
  then show ?thesis by (simp add: v_unindex_def registry_simps i)
qed

lemma g_locks_registry: "g_locks (registry_of C V) n = vw_dht V (makeLockKey n)"
  by (simp add: registry_of_def)

lemma registry_v_unlock: "registry_of E (v_unlock d i V) = g_unlock d i (registry_of E V)"
  by (simp add: v_unlock_def g_unlock_def registry_lock g_locks_registry)

lemma registry_v_reject:
  assumes "valid_domain d" "list_all ascii (g_index (registry_of E V))"
  shows "registry_of E (v_reject d r V) = g_reject d r (registry_of E V)"
  using assms
  by (simp add: v_reject_def registry_v_unlock registry_pending registry_v_unindex g_reject_def g_drop_def)
    (rule arg_cong[where f = "g_unlock d (r_LockID r)"], rule registry.equality, simp_all)

lemma record_ok_status: "record_ok C r \<Longrightarrow> ascii st \<Longrightarrow> record_ok C (r\<lparr>r_Status := st\<rparr>)"
  by (simp add: record_ok_def)

lemma record_ok_lock: "record_ok C r \<Longrightarrow> ascii i \<Longrightarrow> record_ok C (r\<lparr>r_LockID := i\<rparr>)"
  by (simp add: record_ok_def)

lemma record_ok_canon: "record_ok C r \<Longrightarrow> record_ok C (canon r)"
  by (auto simp: record_ok_def canon_def map_all_def split: option.splits)

lemma registry_v_confirm:
  assumes "clean_keys E" "valid_domain d" "record_ok E r" "valid_domain (r_Domain r)"
    "list_all ascii (g_index (registry_of E V))"
  shows "registry_of E (v_confirm E d r V) = g_confirm E d r (registry_of E V)"
proof -
  have ok: "record_ok E (r\<lparr>r_Status := ''confirmed''\<rparr>)"
    using assms(3) by (rule record_ok_status) (simp add: ascii_def)
  show ?thesis
    using assms ok
    by (simp add: v_confirm_def registry_v_unlock registry_simps registry_v_save registry_v_unindex
        clean_keysD g_confirm_def g_drop_def g_save_def)
      (rule arg_cong[where f = "g_unlock d (r_LockID r)"], rule registry.equality, simp_all add: registry_of_def)
qed

section \<open>Reachable registries\<close>

definition g_empty :: registry where
  "g_empty = \<lparr>g_pending = (\<lambda>_. None), g_index = [], g_records = (\<lambda>_. None), g_local = (\<lambda>_. None),
     g_names = (\<lambda>_. None), g_locks = (\<lambda>_. None), g_version = 0\<rparr>"

text \<open>The steps of the registry: the specified operations, and locks coming and going.\<close>

inductive registry_step :: "('e) crypto_scheme \<Rightarrow> registry \<Rightarrow> registry \<Rightarrow> bool" for C where
  submit: "record_ok C r \<Longrightarrow> valid_domain (r_Domain r) \<Longrightarrow> registry_step C G (g_submit r G)"
| confirm: "g_pending G d = Some r \<Longrightarrow> registry_step C G (g_confirm C d r G)"
| reject: "g_pending G d = Some r \<Longrightarrow> registry_step C G (g_reject d r G)"
| lock: "registry_step C G (G\<lparr>g_locks := upd_name d v (g_locks G)\<rparr>)"

inductive_cases registry_step_elim: "registry_step C G G'"

definition registry_inv :: "('e) crypto_scheme \<Rightarrow> registry \<Rightarrow> bool" where
  "registry_inv C G =
     (distinct (g_index G) \<and> list_all ascii (g_index G)
    \<and> (\<forall>n r. g_pending G n = Some r \<longrightarrow> record_ok C r \<and> valid_domain (r_Domain r)
          \<and> ToLower (r_Domain r) = ToLower n \<and> (\<exists>d \<in> set (g_index G). ToLower d = ToLower n))
    \<and> (\<forall>n r. g_local G n = Some r \<longrightarrow> r_Status r = ''confirmed'' \<and> r_Domain r = n)
    \<and> (\<forall>h n. g_names G h = Some n \<longrightarrow> Namehash C n = h \<and> g_local G n \<noteq> None)
    \<and> g_records G = g_local G)"

lemma g_unlock_fields [simp]:
  "g_pending (g_unlock d i G) = g_pending G" "g_index (g_unlock d i G) = g_index G"
  "g_local (g_unlock d i G) = g_local G" "g_names (g_unlock d i G) = g_names G"
  "g_records (g_unlock d i G) = g_records G" "g_version (g_unlock d i G) = g_version G"
  by (simp_all add: g_unlock_def)

lemma inv_unlock [simp]: "registry_inv C (g_unlock d i G) = registry_inv C G"
  by (simp add: registry_inv_def)

lemma inv_lock [simp]: "registry_inv C (G\<lparr>g_locks := l\<rparr>) = registry_inv C G"
  by (simp add: registry_inv_def)

lemma inv_version [simp]: "registry_inv C (G\<lparr>g_version := v\<rparr>) = registry_inv C G"
  by (simp add: registry_inv_def)

lemma inv_submit:
  assumes "registry_inv C G" "record_ok C r" "valid_domain (r_Domain r)"
  shows "registry_inv C (g_submit r G)"
proof -
  have "ascii (r_Domain r)" using assms(2) by (simp add: record_ok_def)
  with assms record_ok_canon[OF assms(2)] show ?thesis
    unfolding registry_inv_def g_submit_def by (auto split: if_splits)
qed

lemma inv_drop: "registry_inv C G \<Longrightarrow> registry_inv C (g_drop d G)"
  unfolding registry_inv_def g_drop_def
  by (auto simp: list_all_iff split: if_splits) metis

lemma inv_save:
  assumes "registry_inv C G" "r_Status r = ''confirmed''"
  shows "registry_inv C (g_save C r G)"
  using assms unfolding registry_inv_def g_save_def
  by (auto split: if_splits)

lemma registry_step_inv: "registry_step C G G' \<Longrightarrow> registry_inv C G \<Longrightarrow> registry_inv C G'"
  by (elim registry_step_elim)
    (auto simp: inv_submit g_reject_def g_confirm_def inv_drop inv_save)

section \<open>Reachable states of the store\<close>

text \<open>
  The runs of one node on its own: registrations submitted, confirmed and rejected, and locks of
  names taken and released, in any order; a failing call counts as a step too.
\<close>

inductive store_step :: "('w, 'e) env_scheme \<Rightarrow> 'w RecordStore \<Rightarrow> 'w RecordStore \<Rightarrow> bool" for E where
  submit: "record_ok E r \<Longrightarrow> valid_domain (r_Domain r) \<Longrightarrow>
    SavePendingRecordToDHT E r s = (x, s') \<Longrightarrow> store_step E s s'"
| confirm: "valid_domain d \<Longrightarrow> ConfirmRecord E d s = (x, s') \<Longrightarrow> store_step E s s'"
| reject: "valid_domain d \<Longrightarrow> RejectRecord E d s = (x, s') \<Longrightarrow> store_step E s s'"
| acquire: "valid_domain d \<Longrightarrow> TryAcquireLock E d s = (y, s') \<Longrightarrow> store_step E s s'"
| release: "valid_domain d \<Longrightarrow> ReleaseLock E d i s = (z, s') \<Longrightarrow> store_step E s s'"

inductive_cases store_step_elim: "store_step E s s'"

inductive store_reach :: "('w, 'e) env_scheme \<Rightarrow> 'w RecordStore \<Rightarrow> 'w RecordStore \<Rightarrow> bool" for E s0 where
  start: "store_reach E s0 s0"
| step: "store_reach E s0 s \<Longrightarrow> store_step E s s' \<Longrightarrow> store_reach E s0 s'"

text \<open>The invariant of the views: the index lock is free between calls, pending texts decode.\<close>

definition view_inv :: "('w, 'e) env_scheme \<Rightarrow> view \<Rightarrow> bool" where
  "view_inv E V = (vw_dht V (makeLockKey indexKey) = None
     \<and> (\<forall>d b. valid_domain d \<longrightarrow> vw_dht V (makePendingKey d) = Some b \<longrightarrow> (\<exists>r. dec_Pending E b = Inr (Some r)))
     \<and> registry_inv E (registry_of E V))"

lemma registry_inv_index: "registry_inv C G \<Longrightarrow> list_all ascii (g_index G)"
  by (simp add: registry_inv_def)

lemma valid_not_index: "valid_domain d \<Longrightarrow> ToLower d \<noteq> indexKey" "valid_domain d \<Longrightarrow> indexKey \<noteq> ToLower d"
  by (auto simp: valid_domain_def)

lemma g_pending_registry:
  assumes "vw_dht V (makePendingKey d) = Some b" "dec_Pending E b = Inr (Some r)" "valid_domain d"
  shows "g_pending (registry_of E V) d = Some r"
  using assms by (simp add: registry_of_def decoded_pending_def valid_domain_def)

lemma vw_pending_other [simp]:
  "vw_dht (v_save E r V) (makePendingKey d) = vw_dht V (makePendingKey d)"
  "vw_dht (v_unlock l i V) (makePendingKey d) = vw_dht V (makePendingKey d)"
  "ToLower d \<noteq> indexKey \<Longrightarrow> vw_dht (v_unindex l V) (makePendingKey d) = vw_dht V (makePendingKey d)"
  by (simp_all add: v_save_def v_unlock_def v_unindex_def makePendingKey_eq)

lemma vw_pending_submit:
  "ToLower d \<noteq> indexKey \<Longrightarrow> vw_dht (v_submit E r V) (makePendingKey d)
   = (if ToLower d = ToLower (r_Domain r) then Some (pending_text E r) else vw_dht V (makePendingKey d))"
  by (simp add: v_submit_def Let_def makePendingKey_eq)

lemma view_inv_submit:
  assumes "view_inv E V" "record_ok E r" "valid_domain (r_Domain r)"
  shows "view_inv E (v_submit E r V)"
    and "registry_step E (registry_of E V) (registry_of E (v_submit E r V))"
proof -
  have reg: "registry_of E (v_submit E r V) = g_submit r (registry_of E V)"
    using assms by (intro registry_v_submit) (auto simp: view_inv_def registry_inv_index)
  have "vw_dht (v_submit E r V) (makeLockKey indexKey) = vw_dht V (makeLockKey indexKey)"
    by (simp add: v_submit_def Let_def)
  then show "view_inv E (v_submit E r V)"
    using assms inv_submit[of E "registry_of E V" r]
    by (auto simp: view_inv_def reg vw_pending_submit valid_not_index dec_Pending_text split: if_splits)
  show "registry_step E (registry_of E V) (registry_of E (v_submit E r V))"
    unfolding reg using assms(2,3) by (rule registry_step.submit)
qed

lemma vw_dht_reject:
  "valid_domain d \<Longrightarrow> vw_dht (v_reject d r V) (makeLockKey indexKey) = vw_dht V (makeLockKey indexKey)"
  "valid_domain n \<Longrightarrow> vw_dht (v_reject d r V) (makePendingKey n)
     = (if ToLower n = ToLower d then None else vw_dht V (makePendingKey n))"
  by (simp_all add: v_reject_def vw_dht_unlock valid_not_index makePendingKey_eq)

lemma vw_dht_confirm:
  "valid_domain d \<Longrightarrow> vw_dht (v_confirm E d r V) (makeLockKey indexKey) = vw_dht V (makeLockKey indexKey)"
  "valid_domain n \<Longrightarrow> vw_dht (v_confirm E d r V) (makePendingKey n)
     = (if ToLower n = ToLower d then None else vw_dht V (makePendingKey n))"
  by (simp_all add: v_confirm_def vw_dht_unlock valid_not_index makePendingKey_eq)

lemma view_inv_reject:
  assumes "view_inv E V" "valid_domain d" "g_pending (registry_of E V) d = Some r"
  shows "view_inv E (v_reject d r V)"
    and "registry_step E (registry_of E V) (registry_of E (v_reject d r V))"
proof -
  have reg: "registry_of E (v_reject d r V) = g_reject d r (registry_of E V)"
    using assms by (intro registry_v_reject) (auto simp: view_inv_def registry_inv_index)
  show "view_inv E (v_reject d r V)"
    using assms(1,2) inv_drop[of E "registry_of E V" d]
    by (auto simp: view_inv_def reg vw_dht_reject g_reject_def split: if_splits)
  show "registry_step E (registry_of E V) (registry_of E (v_reject d r V))"
    unfolding reg using assms(3) by (rule registry_step.reject)
qed

lemma view_inv_confirm:
  assumes "clean_keys E" "view_inv E V" "valid_domain d" "g_pending (registry_of E V) d = Some r"
  shows "view_inv E (v_confirm E d r V)"
    and "registry_step E (registry_of E V) (registry_of E (v_confirm E d r V))"
proof -
  have inv: "registry_inv E (registry_of E V)" using assms(2) by (simp add: view_inv_def)
  with assms(4) have "record_ok E r" "valid_domain (r_Domain r)" by (auto simp: registry_inv_def)
  then have reg: "registry_of E (v_confirm E d r V) = g_confirm E d r (registry_of E V)"
    using assms inv by (intro registry_v_confirm) (auto simp: registry_inv_index)
  show "view_inv E (v_confirm E d r V)"
    using assms(2,3) inv
    by (auto simp: view_inv_def reg vw_dht_confirm g_confirm_def intro!: inv_drop inv_save split: if_splits)
  show "registry_step E (registry_of E V) (registry_of E (v_confirm E d r V))"
    unfolding reg using assms(4) by (rule registry_step.confirm)
qed

lemma view_inv_lock:
  assumes "view_inv E V" "valid_domain d"
  shows "view_inv E (set_dht (makeLockKey d) v V)"
    and "registry_step E (registry_of E V) (registry_of E (set_dht (makeLockKey d) v V))"
  using assms
  by (simp_all add: view_inv_def registry_lock makeLockKey_eq valid_not_index registry_step.lock)

end
