(* ===== verification/StoreProps.thy ===== *)
theory StoreProps
  imports StoreFacts
begin

text \<open>
  Properties of the record store: refinement of the registry by each operation, the invariant of
  all reachable states, registration from start to end, and what lookups find.
\<close>

section \<open>Lookups\<close>

lemma runs_Get_local:
  assumes q: "quiet E dv bv" and "vw_db (view_of dv bv s) (NewKey E (makeRecordKey d)) = Some b"
    and "DeserializeRecord E b = Done (Inr r)" "r_Status r \<noteq> ''pending''"
    and "\<And>s'. view_of dv bv s' = view_of dv bv s \<Longrightarrow> Q (Some r) s'"
  shows "runs (Get E d) s Q"
  unfolding Get_def runs_gbind
  by (rule runs_db_Get[OF q]) (use assms(2-5) in auto)

lemma runs_GetLatestRecord_None:
  assumes q: "quiet E dv bv" and "vw_dht (view_of dv bv s) (makeRecordKey d) = None"
    and "\<And>e s'. view_of dv bv s' = view_of dv bv s \<Longrightarrow> Q (Inl e) s'"
  shows "runs (GetLatestRecord E d) s Q"
  unfolding GetLatestRecord_def runs_gbind
  by (rule runs_dht_GetValue[OF q]) (use assms(2,3) in auto)

lemma runs_Get_pending:
  assumes q: "quiet E dv bv" and "vw_db (view_of dv bv s) (NewKey E (makeRecordKey d)) = None"
    and "vw_dht (view_of dv bv s) (makePendingKey d) = Some b" "dec_Pending E b = Inr (Some r)"
    and "\<And>s'. view_of dv bv s' = view_of dv bv s \<Longrightarrow> Q (Some r) s'"
  shows "runs (Get E d) s Q"
  unfolding Get_def runs_gbind
  by (rule runs_db_Get[OF q], simp add: assms(2), rule runs_GetPending_Some[OF q])
    (use assms(3-5) in auto)

lemma runs_Get_None:
  assumes q: "quiet E dv bv" and "vw_db (view_of dv bv s) (NewKey E (makeRecordKey d)) = None"
    and "vw_dht (view_of dv bv s) (makePendingKey d) = None" "vw_dht (view_of dv bv s) (makeRecordKey d) = None"
    and "\<And>s'. view_of dv bv s' = view_of dv bv s \<Longrightarrow> Q None s'"
  shows "runs (Get E d) s Q"
  unfolding Get_def getLatestVersion_def runs_gbind
  by (rule runs_db_Get[OF q], simp add: assms(2), rule runs_GetPending_None[OF q])
    (use assms(3-5) in \<open>auto intro!: runs_GetLatestRecord_None[OF q]\<close>)

lemma g_pendingD:
  assumes "view_inv E V" "valid_domain d" "g_pending (registry_of E V) d = Some r"
  obtains b where "vw_dht V (makePendingKey d) = Some b" "dec_Pending E b = Inr (Some r)"
  using assms
  by (auto simp: registry_of_def decoded_pending_def valid_domain_def split: if_splits bind_splits sum.splits)

lemma g_localD:
  assumes "clean_keys E" "g_local (registry_of E V) d = Some r"
  obtains b where "vw_db V (NewKey E (makeRecordKey d)) = Some b" "DeserializeRecord E b = Done (Inr r)"
  using assms
  by (auto simp: registry_of_def decoded_def clean_keysD split: if_splits bind_splits sum.splits outcome.splits)

section \<open>A small store for the witnesses\<close>

definition demo_record :: Record where
  "demo_record = zero_Record\<lparr>r_Domain := ''ab'', r_Bindings := zero_Binding\<lparr>b_Addresses := Some []\<rparr>\<rparr>"

lemma clean_mem: "clean_keys mem_env"
  by (simp add: clean_keys_def mem_env_def)

lemma demo_ok: "record_ok mem_env demo_record" "valid_domain ''ab''" "r_Domain demo_record = ''ab''"
  by (simp_all add: record_ok_def demo_record_def zero_Record_def zero_Binding_def binding_ok_def
      map_all_def version_ok_def zero_RecordVersion_def addr_codec_ok_def mem_env_def zero_address_def
      valid_domain_def indexKey_def ToLower_def)

lemma view_mem_start:
  "view_of mem_dht mem_db mem_start = \<lparr>vw_dht = \<lambda>_. None, vw_db = \<lambda>_. None, vw_version = 0,
     vw_host = ''n1'', vw_voting = Some \<lparr>vt_privKey = ''k''\<rparr>\<rparr>"
  by (simp add: view_of_def mem_start_def NewRecordStore_def NewVotingManager_def mem_dht_def mem_db_def fun_eq_iff)

lemma view_inv_start: "view_inv mem_env (view_of mem_dht mem_db mem_start)"
  by (simp add: view_mem_start view_inv_def registry_inv_def registry_of_def decoded_index_def cong: if_cong)

lemma start_simps:
  "g_locks (registry_of mem_env (view_of mem_dht mem_db mem_start)) n = None" "rs_hostID mem_start = ''n1''"
  by (simp_all add: view_mem_start registry_of_def) (simp add: mem_start_def NewRecordStore_def)

definition demo_pending :: "mem_world RecordStore" where
  "demo_pending = snd (SavePendingRecordToDHT mem_env demo_record mem_start)"

lemma view_demo_pending:
  "view_of mem_dht mem_db demo_pending = v_submit mem_env demo_record (view_of mem_dht mem_db mem_start)"
  using runs_SavePending[OF quiet_mem, of mem_start demo_record]
  by (auto simp: runs_iff demo_pending_def view_mem_start)

lemma view_inv_demo: "view_inv mem_env (view_of mem_dht mem_db demo_pending)"
  unfolding view_demo_pending by (rule view_inv_submit) (simp_all add: view_inv_start demo_ok)

lemma demo_g_pending:
  "g_pending (registry_of mem_env (view_of mem_dht mem_db demo_pending)) ''ab'' = Some (canon demo_record)"
proof -
  have "registry_of mem_env (v_submit mem_env demo_record (view_of mem_dht mem_db mem_start))
      = g_submit demo_record (registry_of mem_env (view_of mem_dht mem_db mem_start))"
    using view_inv_start by (intro registry_v_submit) (auto simp: demo_ok view_inv_def intro: registry_inv_index)
  then show ?thesis by (simp add: view_demo_pending g_submit_def demo_ok)
qed

section \<open>Refinement of the registry\<close>

lemma submit_refines:
  assumes "quiet E dv bv" "view_inv E (view_of dv bv s)" "record_ok E r" "valid_domain (r_Domain r)"
  shows "runs (SavePendingRecordToDHT E r) s (\<lambda>e s'. e = None
    \<and> registry_of E (view_of dv bv s') = g_submit r (registry_of E (view_of dv bv s))
    \<and> view_inv E (view_of dv bv s'))"
  using assms view_inv_submit(1)[OF assms(2-4)] registry_v_submit[OF assms(3,4)]
  by (intro runs_mono[OF runs_SavePending[OF assms(1)]]) (auto simp: view_inv_def intro: registry_inv_index)

lemma confirm_refines:
  assumes "quiet E dv bv" "clean_keys E" "view_inv E (view_of dv bv s)" "valid_domain d"
    and "g_pending (registry_of E (view_of dv bv s)) d = Some r"
  shows "runs (ConfirmRecord E d) s (\<lambda>e s'. e = None
    \<and> registry_of E (view_of dv bv s') = g_confirm E d r (registry_of E (view_of dv bv s))
    \<and> vw_db (view_of dv bv s') versionKey = Some (be_PutUint64 (rs_version s + 1))
    \<and> view_inv E (view_of dv bv s'))"
proof -
  let ?V = "view_of dv bv s"
  obtain b where b: "vw_dht ?V (makePendingKey d) = Some b" "dec_Pending E b = Inr (Some r)"
    using assms(3-5) by (rule g_pendingD)
  have r: "record_ok E r" "valid_domain (r_Domain r)"
    using assms(3,5) by (auto simp: view_inv_def registry_inv_def)
  have "registry_of E (v_confirm E d r ?V) = g_confirm E d r (registry_of E ?V)"
    using assms r by (intro registry_v_confirm) (auto simp: view_inv_def intro: registry_inv_index)
  moreover have "vw_db (v_confirm E d r ?V) versionKey = Some (be_PutUint64 (rs_version s + 1))"
    by (simp add: v_confirm_def v_unlock_def clean_keysD[OF assms(2)]) (simp add: view_of_def)
  ultimately show ?thesis
    using assms b view_inv_confirm(1)[OF assms(2-5)]
    by (intro runs_mono[OF runs_ConfirmRecord]) (auto simp: view_inv_def valid_not_index)
qed

lemma reject_refines:
  assumes "quiet E dv bv" "view_inv E (view_of dv bv s)" "valid_domain d"
    and "g_pending (registry_of E (view_of dv bv s)) d = Some r"
  shows "runs (RejectRecord E d) s (\<lambda>e s'. e = None
    \<and> registry_of E (view_of dv bv s') = g_reject d r (registry_of E (view_of dv bv s))
    \<and> vw_db (view_of dv bv s') = vw_db (view_of dv bv s)
    \<and> view_inv E (view_of dv bv s'))"
proof -
  let ?V = "view_of dv bv s"
  obtain b where b: "vw_dht ?V (makePendingKey d) = Some b" "dec_Pending E b = Inr (Some r)"
    using assms(2-4) by (rule g_pendingD)
  have "registry_of E (v_reject d r ?V) = g_reject d r (registry_of E ?V)"
    using assms by (intro registry_v_reject) (auto simp: view_inv_def intro: registry_inv_index)
  moreover have "vw_db (v_reject d r ?V) = vw_db ?V"
    by (simp add: v_reject_def v_unlock_def)
  ultimately show ?thesis
    using assms b view_inv_reject(1)[OF assms(2-4)]
    by (intro runs_mono[OF runs_RejectRecord]) (auto simp: view_inv_def valid_not_index)
qed

text \<open>
  C4. Saving a pending record refines the registry's submission: the record is pending under every
  spelling of its name, and the index lists the name once; nothing else changes and the index lock
  is free again.
\<close>

theorem SavePending_refines:
  assumes "quiet E dv bv" "view_inv E (view_of dv bv s)" "record_ok E r" "valid_domain (r_Domain r)"
  shows "runs (SavePendingRecordToDHT E r) s (\<lambda>e s'. e = None
    \<and> registry_of E (view_of dv bv s') = g_submit r (registry_of E (view_of dv bv s))
    \<and> view_inv E (view_of dv bv s'))"
  by (rule submit_refines[OF assms])

theorem SavePending_refines_witness:
  "runs (SavePendingRecordToDHT mem_env demo_record) mem_start (\<lambda>e s'. e = None
    \<and> registry_of mem_env (view_of mem_dht mem_db s') = g_submit demo_record (registry_of mem_env (view_of mem_dht mem_db mem_start))
    \<and> view_inv mem_env (view_of mem_dht mem_db s'))"
  by (rule SavePending_refines[OF quiet_mem view_inv_start]) (simp_all add: demo_ok)

text \<open>
  C3. Confirming a pending registration refines the registry's confirmation: the record, now
  confirmed, is in the network and the database with its name hash, the pending record and its
  index entry are gone, the lock it holds is released, and the version is one higher, in memory
  and in the database.
\<close>

theorem ConfirmRecord_refines:
  assumes "quiet E dv bv" "clean_keys E" "view_inv E (view_of dv bv s)" "valid_domain d"
    and "g_pending (registry_of E (view_of dv bv s)) d = Some r"
  shows "runs (ConfirmRecord E d) s (\<lambda>e s'. e = None
    \<and> registry_of E (view_of dv bv s') = g_confirm E d r (registry_of E (view_of dv bv s))
    \<and> vw_db (view_of dv bv s') versionKey = Some (be_PutUint64 (rs_version s + 1))
    \<and> view_inv E (view_of dv bv s'))"
  by (rule confirm_refines[OF assms])

theorem ConfirmRecord_refines_witness:
  "runs (ConfirmRecord mem_env ''ab'') demo_pending (\<lambda>e s'. e = None
    \<and> registry_of mem_env (view_of mem_dht mem_db s')
        = g_confirm mem_env ''ab'' (canon demo_record) (registry_of mem_env (view_of mem_dht mem_db demo_pending))
    \<and> vw_db (view_of mem_dht mem_db s') versionKey = Some (be_PutUint64 (rs_version demo_pending + 1))
    \<and> view_inv mem_env (view_of mem_dht mem_db s'))"
  by (rule ConfirmRecord_refines[OF quiet_mem clean_mem view_inv_demo demo_ok(2) demo_g_pending])

text \<open>
  C5. Rejecting a pending registration refines the registry's rejection: the pending record, its
  index entry and the lock it holds are gone; records, database and version are as before.
\<close>

theorem RejectRecord_refines:
  assumes "quiet E dv bv" "view_inv E (view_of dv bv s)" "valid_domain d"
    and "g_pending (registry_of E (view_of dv bv s)) d = Some r"
  shows "runs (RejectRecord E d) s (\<lambda>e s'. e = None
    \<and> registry_of E (view_of dv bv s') = g_reject d r (registry_of E (view_of dv bv s))
    \<and> vw_db (view_of dv bv s') = vw_db (view_of dv bv s)
    \<and> view_inv E (view_of dv bv s'))"
  by (rule reject_refines[OF assms])

theorem RejectRecord_refines_witness:
  "runs (RejectRecord mem_env ''ab'') demo_pending (\<lambda>e s'. e = None
    \<and> registry_of mem_env (view_of mem_dht mem_db s')
        = g_reject ''ab'' (canon demo_record) (registry_of mem_env (view_of mem_dht mem_db demo_pending))
    \<and> vw_db (view_of mem_dht mem_db s') = vw_db (view_of mem_dht mem_db demo_pending)
    \<and> view_inv mem_env (view_of mem_dht mem_db s'))"
  by (rule RejectRecord_refines[OF quiet_mem view_inv_demo demo_ok(2) demo_g_pending])

section \<open>Reachable states\<close>

lemma runs_Confirm_none:
  assumes q: "quiet E dv bv" and "vw_dht (view_of dv bv s) (makePendingKey d) = None"
  shows "runs (ConfirmRecord E d) s (\<lambda>e s'. e \<noteq> None \<and> view_of dv bv s' = view_of dv bv s)"
  unfolding ConfirmRecord_def runs_gbind
  by (rule runs_GetPending_None[OF q assms(2)]) simp

lemma runs_Reject_none:
  assumes q: "quiet E dv bv" and "vw_dht (view_of dv bv s) (makePendingKey d) = None"
  shows "runs (RejectRecord E d) s (\<lambda>e s'. e \<noteq> None \<and> view_of dv bv s' = view_of dv bv s)"
  unfolding RejectRecord_def runs_gbind
  by (rule runs_GetPending_None[OF q assms(2)]) simp

lemma runs_TryAcquire_any:
  assumes q: "quiet E dv bv"
  shows "runs (TryAcquireLock E d) s (\<lambda>y s'. view_of dv bv s' = view_of dv bv s
    \<or> (\<exists>i. view_of dv bv s' = set_dht (makeLockKey d) (Some i) (view_of dv bv s)))"
proof (cases "vw_dht (view_of dv bv s) (makeLockKey d)")
  case None
  with q show ?thesis by (intro runs_TryAcquireLock_free) auto
next
  case (Some j)
  with q show ?thesis by (intro runs_TryAcquireLock_held) auto
qed

lemma runs_Release_any:
  assumes q: "quiet E dv bv"
  shows "runs (ReleaseLock E d i) s (\<lambda>y s'. view_of dv bv s' = view_of dv bv s
    \<or> view_of dv bv s' = set_dht (makeLockKey d) None (view_of dv bv s))"
  by (rule runs_ReleaseLock[OF q]) (auto split: if_splits)

lemma store_step_inv:
  assumes q: "quiet E dv bv" and c: "clean_keys E" and "store_step E s s'" and inv: "view_inv E (view_of dv bv s)"
  shows "view_inv E (view_of dv bv s') \<and>
    (registry_of E (view_of dv bv s') = registry_of E (view_of dv bv s)
     \<or> registry_step E (registry_of E (view_of dv bv s)) (registry_of E (view_of dv bv s')))"
  using assms(3)
proof (cases rule: store_step.cases)
  case (submit r x)
  with runsD[OF submit_refines[OF q inv submit(1,2)]] show ?thesis
    using registry_step.submit[OF submit(1,2)] by auto
next
  case (confirm d x)
  show ?thesis
  proof (cases "vw_dht (view_of dv bv s) (makePendingKey d)")
    case None
    with runsD[OF runs_Confirm_none[OF q] confirm(2)] inv show ?thesis by auto
  next
    case (Some b)
    with inv confirm(1) obtain r where "dec_Pending E b = Inr (Some r)" by (auto simp: view_inv_def)
    with Some confirm(1) have g: "g_pending (registry_of E (view_of dv bv s)) d = Some r"
      by (intro g_pending_registry)
    from runsD[OF confirm_refines[OF q c inv confirm(1) g] confirm(2)] registry_step.confirm[OF g]
    show ?thesis by auto
  qed
next
  case (reject d x)
  show ?thesis
  proof (cases "vw_dht (view_of dv bv s) (makePendingKey d)")
    case None
    with runsD[OF runs_Reject_none[OF q] reject(2)] inv show ?thesis by auto
  next
    case (Some b)
    with inv reject(1) obtain r where "dec_Pending E b = Inr (Some r)" by (auto simp: view_inv_def)
    with Some reject(1) have g: "g_pending (registry_of E (view_of dv bv s)) d = Some r"
      by (intro g_pending_registry)
    from runsD[OF reject_refines[OF q inv reject(1) g] reject(2)] registry_step.reject[OF g]
    show ?thesis by auto
  qed
next
  case (acquire d y)
  from runsD[OF runs_TryAcquire_any[OF q] acquire(2)] view_inv_lock[OF inv acquire(1)] inv
  show ?thesis by auto
next
  case (release d i z)
  from runsD[OF runs_Release_any[OF q] release(2)] view_inv_lock[OF inv release(1)] inv
  show ?thesis by auto
qed

text \<open>
  C2. On a quiet network every state a node reaches from an empty store by submitting, confirming
  and rejecting registrations and by taking and releasing name locks (calls that fail included)
  satisfies the invariant: the index lock is free between calls, the index is duplicate-free and
  lists every pending name, pending texts decode, and the database holds exactly the confirmed
  records of the network, each under its own name.
\<close>

theorem store_reach_inv:
  assumes "quiet E dv bv" "clean_keys E" "view_inv E (view_of dv bv s0)" "store_reach E s0 s"
  shows "view_inv E (view_of dv bv s)"
  using assms(4,3) by induction (auto dest: store_step_inv[OF assms(1,2)])

theorem store_reach_inv_witness:
  "view_inv mem_env (view_of mem_dht mem_db (snd (ConfirmRecord mem_env ''ab'' demo_pending)))"
proof (rule store_reach_inv[OF quiet_mem clean_mem view_inv_start])
  have "store_step mem_env mem_start demo_pending"
    using demo_ok unfolding demo_pending_def
    by (intro store_step.submit[OF _ _ surjective_pairing]) auto
  moreover have "store_step mem_env demo_pending (snd (ConfirmRecord mem_env ''ab'' demo_pending))"
    by (intro store_step.confirm[OF demo_ok(2) surjective_pairing])
  ultimately show "store_reach mem_env mem_start (snd (ConfirmRecord mem_env ''ab'' demo_pending))"
    by (blast intro: store_reach.intros)
qed

section \<open>Registration from start to end\<close>

lemma ascii_int_str [simp]: "ascii (int_str i)"
  by (simp add: int_str_def)

lemma runs_TryAcquireLock_id:
  assumes q: "quiet E dv bv" and "vw_dht (view_of dv bv s) (makeLockKey d) = None"
    and "\<And>t s'. view_of dv bv s' = set_dht (makeLockKey d) (Some (make_lockID (rs_hostID s) t)) (view_of dv bv s) \<Longrightarrow>
      Q (make_lockID (rs_hostID s) t, True) s'"
  shows "runs (TryAcquireLock E d) s Q"
proof -
  have h: "vw_host (view_of dv bv s) = rs_hostID s" by (simp add: view_of_def)
  show ?thesis
    unfolding TryAcquireLock_def Let_def runs_gbind
    apply (rule runs_read_host[OF q], rule runs_time_Now[OF q], rule runs_dht_GetValue[OF q])
    using assms(2) h apply (auto intro!: runs_PutValue_set[OF q] runs_modify_locks[OF q] assms(3))
    done
qed

text \<open>The registry once a name is claimed: its lock is held and its record submitted.\<close>

definition g_claim :: "Record \<Rightarrow> string \<Rightarrow> registry \<Rightarrow> registry" where
  "g_claim r i G = g_submit (r\<lparr>r_Status := ''pending'', r_LockID := i\<rparr>)
     (G\<lparr>g_locks := upd_name (r_Domain r) (Some i) (g_locks G)\<rparr>)"

lemma runs_Add:
  assumes q: "quiet E dv bv" and inv: "view_inv E (view_of dv bv s)" and ok: "record_ok E r" "valid_domain (r_Domain r)"
    and host: "ascii (rs_hostID s)" and free: "g_locks (registry_of E (view_of dv bv s)) (r_Domain r) = None"
    and K: "\<And>i s' t. registry_of E (view_of dv bv s') = g_claim r i (registry_of E (view_of dv bv s)) \<Longrightarrow>
       view_inv E (view_of dv bv s') \<Longrightarrow> ascii i \<Longrightarrow> vw_db (view_of dv bv s') = vw_db (view_of dv bv s) \<Longrightarrow>
       vw_version (view_of dv bv s') = vw_version (view_of dv bv s) \<Longrightarrow>
       Q (None, r\<lparr>r_Status := ''pending'', r_LockID := i\<rparr>, t) s'"
  shows "runs (Add E r True) s Q"
  unfolding Add_def runs_gbind
proof (simp, rule runs_TryAcquireLock_id[OF q], goal_cases)
  case 1
  show ?case using free by (simp add: registry_of_def)
next
  case (2 t s1)
  let ?V = "view_of dv bv s" and ?i = "make_lockID (rs_hostID s) t"
  let ?r = "r\<lparr>r_Status := ''pending'', r_LockID := ?i\<rparr>"
  have i: "ascii ?i" using host by (simp add: make_lockID_def)
  have rok: "record_ok E ?r" using ok(1) i by (simp add: record_ok_def ascii_def)
  have inv1: "view_inv E (view_of dv bv s1)"
    unfolding 2 by (rule view_inv_lock(1)[OF inv ok(2)])
  then have f1: "vw_dht (view_of dv bv s1) (makeLockKey indexKey) = None" by (simp add: view_inv_def)
  have reg: "registry_of E (v_submit E ?r (view_of dv bv s1)) = g_claim r ?i (registry_of E ?V)"
  proof -
    have "list_all ascii (g_index (registry_of E (view_of dv bv s1)))"
      using inv1 by (auto simp: view_inv_def intro: registry_inv_index)
    from registry_v_submit[OF rok _ this] ok(2) show ?thesis
      by (simp add: 2 registry_lock g_claim_def)
  qed
  have inv2: "view_inv E (v_submit E ?r (view_of dv bv s1))"
    using inv1 rok ok(2) by (intro view_inv_submit) simp_all
  have db: "vw_db (v_submit E ?r (view_of dv bv s1)) = vw_db ?V" "vw_version (v_submit E ?r (view_of dv bv s1)) = vw_version ?V"
    by (simp_all add: v_submit_def Let_def 2)
  show ?case
    apply (simp add: Let_def)
    apply (rule runs_mono[OF runs_SavePending[OF q f1]])
    apply (auto intro!: runs_read_voting[OF q] K simp: reg inv2 db i)
    done
qed

text \<open>
  C17. A name claimed by \<open>Add\<close> is taken: while the registration runs, a second \<open>Add\<close> for any
  spelling of the name, by any record, is refused and starts no vote.
\<close>

theorem Add_excludes:
  assumes "quiet E dv bv" "view_inv E (view_of dv bv s)" "record_ok E r" "valid_domain (r_Domain r)"
    and "ascii (rs_hostID s)" "g_locks (registry_of E (view_of dv bv s)) (r_Domain r) = None"
    and "ToLower (r_Domain r2) = ToLower (r_Domain r)"
  shows "runs (gbind (Add E r True) (\<lambda>first. gbind (Add E r2 True) (\<lambda>second. gret (first, second)))) s
    (\<lambda>((e1, r1, t1), (e2, r2', t2)) s'. e1 = None \<and> r_Status r1 = ''pending''
       \<and> e2 = Some (Errorf ''domain is currently locked for registration'') \<and> r2' = r2 \<and> t2 = None
       \<and> g_pending (registry_of E (view_of dv bv s')) (r_Domain r) = Some (canon r1))"
  unfolding runs_gbind
proof (rule runs_Add[OF assms(1-6)])
  fix i s' t
  let ?G = "registry_of E (view_of dv bv s)" and ?r1 = "r\<lparr>r_Status := ''pending'', r_LockID := i\<rparr>"
  assume g: "registry_of E (view_of dv bv s') = g_claim r i ?G"
  have lock: "vw_dht (view_of dv bv s') (makeLockKey (r_Domain r2)) = Some i"
    using g assms(7) g_locks_registry[of E "view_of dv bv s'" "r_Domain r2"]
    by (simp add: g_claim_def g_submit_def)
  have "g_pending (registry_of E (view_of dv bv s')) (r_Domain r) = Some (canon ?r1)"
    by (simp add: g g_claim_def g_submit_def)
  then show "runs (Add E r2 True) s' (\<lambda>x s'. runs (gret ((None, ?r1, t), x)) s'
      (\<lambda>((e1, r1, t1), (e2, r2', t2)) s'. e1 = None \<and> r_Status r1 = ''pending''
       \<and> e2 = Some (Errorf ''domain is currently locked for registration'') \<and> r2' = r2 \<and> t2 = None
       \<and> g_pending (registry_of E (view_of dv bv s')) (r_Domain r) = Some (canon r1)))"
    unfolding Add_def runs_gbind
    by (simp, intro runs_TryAcquireLock_held[OF assms(1) lock]) simp
qed

theorem Add_excludes_witness:
  "runs (gbind (Add mem_env demo_record True) (\<lambda>first.
      gbind (Add mem_env (demo_record\<lparr>r_Domain := ''AB''\<rparr>) True) (\<lambda>second. gret (first, second)))) mem_start
    (\<lambda>((e1, r1, t1), (e2, r2', t2)) s'. e1 = None \<and> r_Status r1 = ''pending''
       \<and> e2 = Some (Errorf ''domain is currently locked for registration'')
       \<and> r2' = demo_record\<lparr>r_Domain := ''AB''\<rparr> \<and> t2 = None
       \<and> g_pending (registry_of mem_env (view_of mem_dht mem_db s')) (r_Domain demo_record) = Some (canon r1))"
proof (rule Add_excludes[OF quiet_mem view_inv_start demo_ok(1)])
  have "ToLower ''AB'' = ToLower ''ab''" by code_simp
  then show "ToLower (r_Domain (demo_record\<lparr>r_Domain := ''AB''\<rparr>)) = ToLower (r_Domain demo_record)"
    by (simp add: demo_ok)
qed (simp_all add: demo_ok start_simps)

lemma canon_confirmed:
  "canon ((canon (r\<lparr>r_Status := st, r_LockID := i\<rparr>))\<lparr>r_Status := c\<rparr>) = canon (r\<lparr>r_Status := c, r_LockID := i\<rparr>)"
  by (rule Record.equality) (simp_all add: canon_def canon_slice_def)

text \<open>
  C1. A registration from start to end: after \<open>Add\<close> and \<open>ConfirmRecord\<close> a lookup finds the record,
  confirmed and otherwise as submitted; nothing is pending under the name, its lock is free, the
  index no longer lists it, and the version is one higher.
\<close>

theorem registration_lifecycle:
  assumes "quiet E dv bv" "clean_keys E" "view_inv E (view_of dv bv s)" "record_ok E r" "valid_domain (r_Domain r)"
    and "ascii (rs_hostID s)" "g_locks (registry_of E (view_of dv bv s)) (r_Domain r) = None"
  shows "runs (gbind (Add E r True) (\<lambda>_. gbind (ConfirmRecord E (r_Domain r)) (\<lambda>e.
      gbind (Get E (r_Domain r)) (\<lambda>found. gret (e, found))))) s
    (\<lambda>(e, found) s'. e = None
      \<and> (\<exists>i. found = Some (canon (r\<lparr>r_Status := ''confirmed'', r_LockID := i\<rparr>)))
      \<and> g_pending (registry_of E (view_of dv bv s')) (r_Domain r) = None
      \<and> g_locks (registry_of E (view_of dv bv s')) (r_Domain r) = None
      \<and> r_Domain r \<notin> set (g_index (registry_of E (view_of dv bv s')))
      \<and> rs_version s' = rs_version s + 1)"
  unfolding runs_gbind
proof (rule runs_Add[OF assms(1,3-7)])
  fix i s1
  let ?d = "r_Domain r" and ?G = "registry_of E (view_of dv bv s)"
    and ?p = "r\<lparr>r_Status := ''pending'', r_LockID := i\<rparr>"
    and ?c = "canon (r\<lparr>r_Status := ''confirmed'', r_LockID := i\<rparr>)"
  assume g1: "registry_of E (view_of dv bv s1) = g_claim r i ?G" and inv1: "view_inv E (view_of dv bv s1)"
    and v1: "vw_version (view_of dv bv s1) = vw_version (view_of dv bv s)"
  have p: "g_pending (registry_of E (view_of dv bv s1)) ?d = Some (canon ?p)"
    by (simp add: g1 g_claim_def g_submit_def)
  have "runs (Get E ?d) s2 (\<lambda>found s'. runs (gret (None :: goerr option, found)) s' (\<lambda>(e, found) s'. e = None
      \<and> (\<exists>i. found = Some (canon (r\<lparr>r_Status := ''confirmed'', r_LockID := i\<rparr>)))
      \<and> g_pending (registry_of E (view_of dv bv s')) ?d = None \<and> g_locks (registry_of E (view_of dv bv s')) ?d = None
      \<and> ?d \<notin> set (g_index (registry_of E (view_of dv bv s'))) \<and> rs_version s' = rs_version s + 1))"
    if g2: "registry_of E (view_of dv bv s2) = g_confirm E ?d (canon ?p) (g_claim r i ?G)" for s2
  proof -
    have G: "g_pending (registry_of E (view_of dv bv s2)) ?d = None"
        "g_locks (registry_of E (view_of dv bv s2)) ?d = None"
        "?d \<notin> set (g_index (registry_of E (view_of dv bv s2)))"
        "g_version (registry_of E (view_of dv bv s2)) = g_version ?G + 1"
        "g_local (registry_of E (view_of dv bv s2)) ?d = Some ?c"
      unfolding g2
      by (simp_all add: g_confirm_def g_unlock_def g_drop_def g_save_def g_claim_def g_submit_def canon_confirmed)
    have "rs_version s' = rs_version s + 1" if "view_of dv bv s' = view_of dv bv s2" for s'
      using that G(4) by (simp add: registry_of_def view_of_def)
    with G show ?thesis
      by (elim g_localD[OF assms(2)]) (rule runs_Get_local[OF assms(1)], auto)
  qed
  then show "runs (ConfirmRecord E ?d) s1 (\<lambda>e s2. runs (Get E ?d) s2 (\<lambda>found s'. runs (gret (e, found)) s' (\<lambda>(e, found) s'. e = None
      \<and> (\<exists>i. found = Some (canon (r\<lparr>r_Status := ''confirmed'', r_LockID := i\<rparr>)))
      \<and> g_pending (registry_of E (view_of dv bv s')) ?d = None \<and> g_locks (registry_of E (view_of dv bv s')) ?d = None
      \<and> ?d \<notin> set (g_index (registry_of E (view_of dv bv s'))) \<and> rs_version s' = rs_version s + 1)))"
    using g1 by (intro runs_mono[OF confirm_refines[OF assms(1,2) inv1 assms(5) p]]) auto
qed

theorem registration_lifecycle_witness:
  "runs (gbind (Add mem_env demo_record True) (\<lambda>_. gbind (ConfirmRecord mem_env (r_Domain demo_record)) (\<lambda>e.
      gbind (Get mem_env (r_Domain demo_record)) (\<lambda>found. gret (e, found))))) mem_start
    (\<lambda>(e, found) s'. e = None
      \<and> (\<exists>i. found = Some (canon (demo_record\<lparr>r_Status := ''confirmed'', r_LockID := i\<rparr>)))
      \<and> g_pending (registry_of mem_env (view_of mem_dht mem_db s')) (r_Domain demo_record) = None
      \<and> g_locks (registry_of mem_env (view_of mem_dht mem_db s')) (r_Domain demo_record) = None
      \<and> r_Domain demo_record \<notin> set (g_index (registry_of mem_env (view_of mem_dht mem_db s')))
      \<and> rs_version s' = rs_version mem_start + 1)"
  by (rule registration_lifecycle[OF quiet_mem clean_mem view_inv_start demo_ok(1)])
    (simp_all add: demo_ok start_simps)

end
