(* ===== verification/StoreEdges.thy ===== *)
theory StoreEdges
  imports StoreProps
begin

text \<open>
  Lookups by name hash, listing, synchronisation and binding events; and the edges of the record
  store: what a tombstone, a null document or a colliding name makes its operations do.
\<close>

section \<open>Lookup and listing\<close>

lemma db_after_save:
  assumes "clean_keys E" "valid_domain (r_Domain r)"
  shows "vw_db (v_save E r V) (NewKey E (makeRecordKey (r_Domain r))) = Some (record_text E r)"
    "vw_db (v_save E r V) (NewKey E (makeNamehashKey (Namehash E (r_Domain r)))) = Some (r_Domain r)"
  using assms by (simp_all add: v_save_def clean_keysD valid_record_key)

text \<open>
  After a record that is not pending was saved, a lookup by the name hash of its domain finds
  it, in the form a decoded record has.
\<close>

theorem GetByNamehash_after_save:
  assumes "quiet E dv bv" "clean_keys E" "record_ok E r" "valid_domain (r_Domain r)" "r_Status r \<noteq> ''pending''"
  shows "runs (gbind (SaveRecord E r) (\<lambda>e. gbind (GetByNamehash E (Namehash E (r_Domain r))) (\<lambda>f. gret (e, f)))) s
    (\<lambda>x s'. x = (None, Some (canon r)) \<and> view_of dv bv s' = v_save E r (view_of dv bv s))"
  unfolding runs_gbind
proof (rule runs_SaveRecord'[OF assms(1)])
  fix s1 assume v: "view_of dv bv s1 = v_save E r (view_of dv bv s)"
  note db = db_after_save[OF assms(2,4), of "view_of dv bv s"]
  show "runs (GetByNamehash E (Namehash E (r_Domain r))) s1
     (\<lambda>f s'. runs (gret (None :: goerr option, f)) s' (\<lambda>x s'. x = (None, Some (canon r)) \<and> view_of dv bv s' = v_save E r (view_of dv bv s)))"
    unfolding GetByNamehash_def runs_gbind
    by (rule runs_db_Get[OF assms(1)], simp add: v db, rule runs_Get_local[OF assms(1)])
      (use assms(3,5) in \<open>auto simp: v db DeserializeRecord_text\<close>)
qed

theorem GetByNamehash_after_save_witness:
  "runs (gbind (SaveRecord mem_env demo_record) (\<lambda>e.
      gbind (GetByNamehash mem_env (Namehash mem_env (r_Domain demo_record))) (\<lambda>f. gret (e, f)))) mem_start
    (\<lambda>x s'. x = (None, Some (canon demo_record))
       \<and> view_of mem_dht mem_db s' = v_save mem_env demo_record (view_of mem_dht mem_db mem_start))"
  by (rule GetByNamehash_after_save[OF quiet_mem clean_mem])
    (simp_all add: demo_ok, simp add: demo_record_def zero_Record_def)





section \<open>Tombstones and collisions\<close>

text \<open>
  A name that is registered nowhere is reported as unavailable, with a JSON error, when the
  network answers with the empty value that rejection and confirmation leave as a tombstone.
\<close>

theorem tombstone_unavailable:
  assumes "Get E d s = (Done None, s1)" and "DhtGet E (makePendingKey d) (rs_world s1) = (Inr x, w)"
    and "sl_bytes x = []"
  shows "IsDomainAvailable E d s = (Done (False, Some ErrJSON), s1\<lparr>rs_world := w\<rparr>)"
  using assms
  by (simp add: IsDomainAvailable_def gbind_def GetPendingRecordFromDHT_def dht_GetValue_def gret_def)

definition demo_tombstone :: "mem_world RecordStore" where
  "demo_tombstone = mem_start\<lparr>rs_world := (rs_world mem_start)\<lparr>mw_dht := [(makePendingKey ''ab'', [])]\<rparr>\<rparr>"

theorem tombstone_unavailable_witness:
  "IsDomainAvailable mem_env ''ab'' demo_tombstone = (Done (False, Some ErrJSON), demo_tombstone)"
proof -
  have "Get mem_env ''ab'' demo_tombstone = (Done None, demo_tombstone)"
    by (simp add: Get_def getLatestVersion_def GetLatestRecord_def GetPendingRecordFromDHT_def prim_defs
        gbind_def gret_def glift_def demo_tombstone_def mem_start_def NewRecordStore_def mem_env_def)
  from tombstone_unavailable[OF this, of "Some []" "rs_world demo_tombstone"] show ?thesis
    by (simp add: mem_env_def demo_tombstone_def)
qed

text \<open>
  Submitting a registration whose name is \<open>_index\<close> in any letter case succeeds and overwrites
  the index of all pending names: the next reading of the index fails.
\<close>

theorem index_clobbered:
  assumes "quiet E dv bv" "vw_dht (view_of dv bv s) (makeLockKey indexKey) = None"
    and "record_ok E r" "ToLower (r_Domain r) = indexKey"
  shows "runs (gbind (SavePendingRecordToDHT E r) (\<lambda>e. gbind (GetPendingDomains E) (\<lambda>x. gret (e, x)))) s
    (\<lambda>x s'. x = (None, [], False))"
proof -
  have key: "makePendingKey (r_Domain r) = makePendingKey indexKey"
    using assms(4) by (simp add: makePendingKey_eq)
  have bad: "dec_index (pending_text E r) = Inl ErrJSON"
    using assms(3) by (simp add: dec_index_def pending_text_def enc_Pending_def json_parse_print json_ok_Record dec_string_list_def)
  have "runs (GetPendingDomains E) s1 (\<lambda>x s'. runs (gret (None :: goerr option, x)) s' (\<lambda>x s'. x = (None, [], False)))"
    if "view_of dv bv s1 = v_submit E r (view_of dv bv s)" for s1
    unfolding GetPendingDomains_def runs_gbind
    by (rule runs_dht_GetValue[OF assms(1)]) (simp add: that v_submit_def Let_def key bad)
  then show ?thesis
    unfolding runs_gbind by (intro runs_mono[OF runs_SavePending[OF assms(1,2)]]) auto
qed

theorem index_clobbered_witness:
  "runs (gbind (SavePendingRecordToDHT mem_env (demo_record\<lparr>r_Domain := ''_Index''\<rparr>)) (\<lambda>e.
      gbind (GetPendingDomains mem_env) (\<lambda>x. gret (e, x)))) demo_pending
    (\<lambda>x s'. x = (None, [], False))"
proof (rule index_clobbered[OF quiet_mem])
  show "ToLower (r_Domain (demo_record\<lparr>r_Domain := ''_Index''\<rparr>)) = indexKey" by code_simp
  show "record_ok mem_env (demo_record\<lparr>r_Domain := ''_Index''\<rparr>)"
    using demo_ok(1) by (simp add: record_ok_def ascii_def)
qed (use view_inv_demo in \<open>simp add: view_inv_def\<close>)

text \<open>
  A pending document whose record is null makes \<open>ConfirmRecord\<close> panic, after it removed the name
  from the index; the deferred release still frees the index lock, and nothing else changed.
\<close>

theorem ConfirmRecord_null_panics:
  assumes "quiet E dv bv" "vw_dht (view_of dv bv s) (makeLockKey indexKey) = None"
    and "vw_dht (view_of dv bv s) (makePendingKey d) = Some b" "dec_Pending E b = Inr None"
  shows "\<exists>s'. ConfirmRecord E d s = (Panic ''nil pointer dereference'', s')
    \<and> view_of dv bv s' = v_unindex d (view_of dv bv s)"
proof -
  let ?V = "view_of dv bv s" and ?L = "makeLockKey indexKey"
  have "runs (GetPendingRecordFromDHT E d) s (\<lambda>x s0. x = Inr None \<and> view_of dv bv s0 = ?V)"
    by (rule runs_GetPending_Some[OF assms(1,3)]) (simp add: assms(4))
  then obtain s0 where 0: "GetPendingRecordFromDHT E d s = (Done (Inr None), s0)" "view_of dv bv s0 = ?V"
    by (auto simp: runs_iff)
  have "runs (TryAcquireIndexLock E) s0 (\<lambda>x s1. \<exists>i. x = (i, True) \<and> view_of dv bv s1 = set_dht ?L (Some i) ?V)"
    using assms(2) by (intro runs_TryAcquireIndexLock_free[OF assms(1)]) (auto simp: 0)
  then obtain i s1 where 1: "TryAcquireIndexLock E s0 = (Done (i, True), s1)" "view_of dv bv s1 = set_dht ?L (Some i) ?V"
    by (auto simp: runs_iff)
  have "runs (remove_from_index E d) s1 (\<lambda>x s2. x = None \<and> view_of dv bv s2 = set_dht ?L (Some i) (v_unindex d ?V))"
    by (rule runs_remove_from_index[OF assms(1)]) (simp add: 1 v_unindex_lock)
  then obtain s2 where 2: "remove_from_index E d s1 = (Done None, s2)" "view_of dv bv s2 = set_dht ?L (Some i) (v_unindex d ?V)"
    by (auto simp: runs_iff)
  have "runs (ReleaseLock E indexKey i) s2 (\<lambda>x s3. view_of dv bv s3 = v_unindex d ?V)"
    by (rule runs_ReleaseLock[OF assms(1)]) (simp add: 2 set_dht_same assms(2))
  then obtain x s3 where 3: "ReleaseLock E indexKey i s2 = (Done x, s3)" "view_of dv bv s3 = v_unindex d ?V"
    by (auto simp: runs_iff)
  show ?thesis
    using 0(1) 1(1) 2(1) 3
    by (simp add: ConfirmRecord_def gbind_def gdefer_def gpanic_def)
qed

definition demo_null :: "mem_world RecordStore" where
  "demo_null = mem_start\<lparr>rs_world := (rs_world mem_start)\<lparr>mw_dht := [(makePendingKey ''ab'', ''{}'')]\<rparr>\<rparr>"

theorem ConfirmRecord_null_panics_witness:
  "\<exists>s'. ConfirmRecord mem_env ''ab'' demo_null = (Panic ''nil pointer dereference'', s')
    \<and> view_of mem_dht mem_db s' = v_unindex ''ab'' (view_of mem_dht mem_db demo_null)"
proof (rule ConfirmRecord_null_panics[OF quiet_mem])
  show "dec_Pending mem_env ''{}'' = Inr None" by code_simp
qed (simp_all add: demo_null_def mem_start_def NewRecordStore_def view_of_def mem_dht_def)

section \<open>Synchronisation\<close>

text \<open>
  C19. In every environment, whatever the peers answer and however the run ends, a synchronisation
  writes nothing to the network and writes to the database only the version number and records
  whose signature verifies, each under the key of its own domain.
\<close>

theorem SyncFromPeer_writes_verified: "keeps (does (syncs E)) (SyncFromPeer E p)"
  by (rule does_SyncFromPeer)

text \<open>The version in memory and what a run may do to it.\<close>

definition keeps_version :: "('w, 's) RecordStore_scheme \<Rightarrow> ('w, 's) RecordStore_scheme \<Rightarrow> bool" where
  "keeps_version s s' = (rs_version s' = rs_version s)"

interpretation kv: frame keeps_version
  by unfold_locales (simp_all add: keeps_version_def)

lemma kv_read:
  "keeps keeps_version (dht_GetValue E k)" "keeps keeps_version (db_Get E k)"
  "keeps keeps_version (db_Query E p)" "keeps keeps_version (db_Put E k v)"
  by (auto simp: keeps_def keeps_version_def prim_defs split: prod.splits)

lemma kv_fetch: "keeps keeps_version (fetch_records E rs)"
proof (induction E rs rule: fetch_records.induct)
  case (3 E key v rs)
  then show ?case unfolding fetch_records.simps by (intro kv.keeps_rules kv_read)
qed (simp_all add: kv.keeps_gret)

lemma kv_all: "keeps keeps_version (getAllRecordsFromPeer E p)"
  unfolding getAllRecordsFromPeer_def by (intro kv.keeps_rules kv_read kv_fetch)

lemma kv_store: "keeps keeps_version (store_verified E rs)"
  by (induction rs) (auto intro!: kv.keeps_rules kv_read split: sum.split)

lemma kv_stored: "keeps keeps_version (GetStoreVersion E)"
  unfolding GetStoreVersion_def by (intro kv.keeps_rules kv_read)

text \<open>
  In every environment, a synchronisation changes the version in memory only to one the
  network reported and that is higher, as a signed number, than the version stored in the database.
\<close>

theorem SyncFromPeer_version:
  assumes "SyncFromPeer E p s = (r, s')" and "rs_version s' \<noteq> rs_version s"
  shows "\<exists>data w our s2. DhtGet E versionKey (rs_world s) = (Inr data, w)
    \<and> be_Uint64 (sl_bytes data) = Done (rs_version s')
    \<and> GetStoreVersion E (s\<lparr>rs_world := w\<rparr>) = (Done (Inr our), s2) \<and> sint our < sint (rs_version s')"
proof -
  obtain a w where g: "DhtGet E versionKey (rs_world s) = (a, w)" by fastforce
  let ?s1 = "s\<lparr>rs_world := w\<rparr>"
  obtain data where a: "a = Inr data"
    using assms g by (cases a) (auto simp: SyncFromPeer_def gbind_def dht_GetValue_def gret_def)
  obtain v where v: "be_Uint64 (sl_bytes data) = Done v"
    using assms g a by (cases "be_Uint64 (sl_bytes data)") (auto simp: SyncFromPeer_def gbind_def dht_GetValue_def gret_def glift_def)
  obtain o2 s2 where 2: "GetStoreVersion E ?s1 = (o2, s2)" by fastforce
  have v2: "rs_version s2 = rs_version s"
    using keepsD[OF kv_stored 2] by (simp add: keeps_version_def)
  obtain our where our: "o2 = Done (Inr our)" "sint our < sint v"
    using assms g a v 2 v2
    by (cases o2) (auto simp: SyncFromPeer_def gbind_def dht_GetValue_def gret_def glift_def split: sum.splits if_splits)
  obtain o3 s3 where 3: "getAllRecordsFromPeer E p s2 = (o3, s3)" by fastforce
  have v3: "rs_version s3 = rs_version s"
    using keepsD[OF kv_all 3] v2 by (simp add: keeps_version_def)
  obtain records where rec: "o3 = Done (Inr records)"
    using assms g a v 2 our 3 v3
    by (cases o3) (auto simp: SyncFromPeer_def gbind_def dht_GetValue_def gret_def glift_def split: sum.splits)
  obtain o4 s4 where 4: "store_verified E records s3 = (o4, s4)" by fastforce
  have v4: "rs_version s4 = rs_version s"
    using keepsD[OF kv_store 4] v3 by (simp add: keeps_version_def)
  obtain o5 s5 where 5: "db_Put E (NewKey E versionKey) (be_PutUint64 v) (s4\<lparr>rs_version := v\<rparr>) = (o5, s5)" by fastforce
  have v5: "rs_version s5 = v"
    using keepsD[OF kv_read(4) 5] by (simp add: keeps_version_def)
  have "rs_version s' = v"
    using assms g a v 2 our 3 rec 4 v4 5 v5
    by (auto simp: SyncFromPeer_def gbind_def dht_GetValue_def gret_def glift_def gmodify_def split: outcome.splits if_splits)
  with g a v 2 our show ?thesis by blast
qed

definition demo_peer :: "mem_world RecordStore" where
  "demo_peer = mem_start\<lparr>rs_world := (rs_world mem_start)\<lparr>mw_dht := [(versionKey, be_PutUint64 7)]\<rparr>\<rparr>"

lemma demo_peer_sync: "rs_version (snd (SyncFromPeer mem_env ''p'' demo_peer)) = 7"
  by (simp add: SyncFromPeer_def gbind_def gret_def glift_def gmodify_def prim_defs GetStoreVersion_def
      getAllRecordsFromPeer_def demo_peer_def mem_start_def NewRecordStore_def mem_env_def versionKey_def
      makePendingKey_def)

theorem SyncFromPeer_version_witness:
  "\<exists>data w our s2. DhtGet mem_env versionKey (rs_world demo_peer) = (Inr data, w)
    \<and> be_Uint64 (sl_bytes data) = Done (rs_version (snd (SyncFromPeer mem_env ''p'' demo_peer)))
    \<and> GetStoreVersion mem_env (demo_peer\<lparr>rs_world := w\<rparr>) = (Done (Inr our), s2) \<and> sint our < sint (rs_version (snd (SyncFromPeer mem_env ''p'' demo_peer)))"
  by (rule SyncFromPeer_version[OF surjective_pairing])
    (unfold demo_peer_sync, simp add: demo_peer_def mem_start_def NewRecordStore_def)

section \<open>The version is never published\<close>

definition not_version :: "effect \<Rightarrow> bool" where
  "not_version e = (case e of EDht k v \<Rightarrow> k \<noteq> versionKey | _ \<Rightarrow> True)"

lemma namespace_not_version:
  "saves E e \<Longrightarrow> not_version e" "indexes e \<Longrightarrow> not_version e" "votes e \<Longrightarrow> not_version e"
  "submits e \<Longrightarrow> not_version e" "syncs E e \<Longrightarrow> not_version e" "completes E d e \<Longrightarrow> not_version e"
proof -
  show s: "saves E e \<Longrightarrow> not_version e"
    by (cases e) (auto simp: saves_def not_version_def versionKey_def recordNamespace_def)
  show i: "indexes e \<Longrightarrow> not_version e"
    by (cases e) (auto simp: indexes_def not_version_def versionKey_def key_defs)
  show "votes e \<Longrightarrow> not_version e"
    by (cases e) (auto simp: votes_def not_version_def versionKey_def voteNamespace_def)
  show "submits e \<Longrightarrow> not_version e"
    by (cases e) (auto simp: submits_def not_version_def)
  show "syncs E e \<Longrightarrow> not_version e"
    by (auto simp: syncs_def not_version_def)
  show "completes E d e \<Longrightarrow> not_version e"
    using s i by (auto simp: completes_def not_version_def versionKey_def key_defs)
qed

lemma decides_not_version: "decides E d e \<Longrightarrow> not_version e"
  by (auto simp: decides_def namespace_not_version)

text \<open>
  The key \<open>/store/version\<close>, which \<open>SyncFromPeer\<close> and the initial synchronisation read from the
  network to decide whether a peer is ahead, is written to the network by no operation of the
  store or of the voting manager, in any environment and on any exit.
\<close>

theorem version_never_published:
  "keeps (does not_version) (SaveRecord E r) \<and> keeps (does not_version) (Get E d)
   \<and> keeps (does not_version) (Add E r b) \<and> keeps (does not_version) (SavePendingRecordToDHT E r)
   \<and> keeps (does not_version) (ConfirmRecord E d) \<and> keeps (does not_version) (RejectRecord E d)
   \<and> keeps (does not_version) (UpdateRecord E d c) \<and> keeps (does not_version) (BindAddressResolver E ev)
   \<and> keeps (does not_version) (SyncFromPeer E p) \<and> keeps (does not_version) (SubmitVote E vm d dec)
   \<and> keeps (does not_version) (processPendingRecords E) \<and> keeps (does not_version) (GetAndSubmitSignedTx E d)"
  by (intro conjI does_SaveRecord does_Get does_Add does_SavePending does_ConfirmRecord does_RejectRecord
      does_UpdateRecord does_BindAddressResolver does_SyncFromPeer does_SubmitVote does_processPendingRecords
      does_GetAndSubmit)
    (auto intro: namespace_not_version decides_not_version)

lemma highest_version_same:
  assumes q: "quiet E dv bv" and "vw_dht (view_of dv bv s) versionKey = Some (be_PutUint64 v)"
    and "sint v \<le> sint best"
  shows "runs (highest_version E ps best p) s (\<lambda>x s'. x = p)"
  using assms(2)
proof (induction ps arbitrary: s)
  case (Cons a ps)
  show ?case
    unfolding highest_version.simps runs_gbind
    by (rule runs_dht_GetValue[OF q]) (use Cons assms(3) in auto)
qed simp

text \<open>
  The initial synchronisation asks the network, not the peers, for a version: with a positive
  version in the network it chooses the first peer of the routing table, whichever peer is ahead.
\<close>

theorem initial_sync_first_peer:
  assumes "quiet E dv bv" "vw_dht (view_of dv bv s) versionKey = Some (be_PutUint64 v)"
  shows "runs (highest_version E (p # ps) 0 []) s (\<lambda>x s'. x = (if 0 < sint v then p else []))"
proof (cases "0 < sint v")
  case True
  then show ?thesis
    unfolding highest_version.simps runs_gbind
    by (intro runs_dht_GetValue[OF assms(1)]) (auto simp: assms(2) intro!: highest_version_same[OF assms(1)])
next
  case False
  then show ?thesis
    using highest_version_same[OF assms, where best = 0 and p = "[]" and ps = "p # ps"] by simp
qed

theorem initial_sync_first_peer_witness:
  "runs (highest_version mem_env [''p'', ''q''] 0 []) demo_peer (\<lambda>x s'. x = (if 0 < sint (7 :: int64) then ''p'' else []))"
  by (rule initial_sync_first_peer[OF quiet_mem])
    (simp add: demo_peer_def mem_start_def NewRecordStore_def view_of_def mem_dht_def be_PutUint64_def)

section \<open>Binding events\<close>

lemma binding_ok_put:
  assumes "binding_ok b" "b_Addresses b = Some m" "ascii a"
  shows "binding_ok (b\<lparr>b_Addresses := Some (gm_put c a m)\<rparr>)"
  using assms set_gm_put[of c a m] by (auto simp: binding_ok_def map_all_def list_all_iff)

lemma BindAddressResolver_nil:
  assumes "GetByNamehash E (ev_Namehash ev) s = (Done (Some r), s1)" and "b_Addresses (r_Bindings r) = None"
  shows "BindAddressResolver E ev s = (Panic ''assignment to entry in nil map'', s1)"
  using assms by (simp add: BindAddressResolver_def gbind_def gpanic_def)

lemma runs_GetByNamehash:
  assumes "quiet E dv bv" "clean_keys E" "record_ok E r" "valid_domain (r_Domain r)" "r_Status r \<noteq> ''pending''"
    and "view_of dv bv s = v_save E r V" and "\<And>s'. view_of dv bv s' = view_of dv bv s \<Longrightarrow> Q (Some (canon r)) s'"
  shows "runs (GetByNamehash E (Namehash E (r_Domain r))) s Q"
  unfolding GetByNamehash_def runs_gbind
  by (rule runs_db_Get[OF assms(1)], simp add: assms(6) db_after_save[OF assms(2,4)],
      rule runs_Get_local[OF assms(1), where r = "canon r" and b = "record_text E r"])
    (use assms(3,5,7) in \<open>auto simp: assms(6) db_after_save[OF assms(2,4)] DeserializeRecord_text\<close>)

definition bound_record :: "('e) crypto_scheme \<Rightarrow> NameBoundEvent \<Rightarrow> (uint64, string) gomap \<Rightarrow> Record \<Rightarrow> Record" where
  "bound_record C ev m r = r\<lparr>r_Bindings := (r_Bindings r)\<lparr>b_Addresses :=
     Some (gm_put (ev_ChainID ev) (AddrHex C (ev_Resolver ev)) m)\<rparr>\<rparr>"

lemma bound_record_status [simp]: "r_Status (bound_record C ev m r) = r_Status r"
  by (simp add: bound_record_def)

text \<open>After a record is saved, an event for it binds, and a lookup finds the bound record.\<close>

lemma runs_bind_Get:
  fixes s :: "('w, 's) RecordStore_scheme"
  assumes "quiet E dv bv" "clean_keys E" "record_ok E r" "valid_domain (r_Domain r)" "r_Status r \<noteq> ''pending''"
    and "b_Addresses (r_Bindings r) = Some m" "ev_Namehash ev = Namehash E (r_Domain r)"
    and "ascii (AddrHex E (ev_Resolver ev))" "view_of dv bv s = v_save E r V"
    and K: "\<And>s' :: ('w, 's) RecordStore_scheme. Q (Some (canon (bound_record E ev m r))) s'"
  shows "runs (BindAddressResolver E ev) s (\<lambda>e s'. e = None \<and> runs (Get E (r_Domain r)) s' Q)"
proof -
  let ?r' = "(canon r)\<lparr>r_Bindings := r_Bindings (bound_record E ev m r)\<rparr>"
  have canon: "canon ?r' = canon (bound_record E ev m r)"
    by (rule Record.equality) (simp_all add: bound_record_def canon_def canon_slice_def)
  have ok': "record_ok E ?r'"
    using record_ok_canon[OF assms(3)] binding_ok_put[of "r_Bindings r", OF _ assms(6,8)]
    by (simp add: record_ok_def bound_record_def)
  have get: "runs (Get E (r_Domain r)) s3 Q" if "view_of dv bv s3 = v_save E ?r' V'" for s3 :: "('w, 's) RecordStore_scheme" and V'
    by (rule runs_Get_local[OF assms(1), where r = "canon ?r'" and b = "record_text E ?r'"])
      (use that assms(4,5) K ok' db_after_save[OF assms(2), of ?r' V'] in \<open>simp_all add: DeserializeRecord_text canon\<close>)
  show ?thesis
    unfolding BindAddressResolver_def assms(7) runs_gbind Let_def
    by (rule runs_GetByNamehash[OF assms(1-5,9)])
      (auto simp: assms(6) bound_record_def intro!: runs_SaveRecord'[OF assms(1)] get[unfolded bound_record_def])
qed

text \<open>
  A binding event for the name hash of a saved record whose address map is not nil succeeds; a
  lookup then finds the record with the event's resolver as the address of the event's chain, all
  other chains and fields as they were.
\<close>

theorem BindAddressResolver_binds:
  assumes "quiet E dv bv" "clean_keys E" "record_ok E r" "valid_domain (r_Domain r)" "r_Status r \<noteq> ''pending''"
    and "b_Addresses (r_Bindings r) = Some m" "ev_Namehash ev = Namehash E (r_Domain r)"
    and "ascii (AddrHex E (ev_Resolver ev))"
  shows "runs (gbind (SaveRecord E r) (\<lambda>_. gbind (BindAddressResolver E ev) (\<lambda>e. gbind (Get E (r_Domain r)) (\<lambda>f.
      gret (e, f))))) s
    (\<lambda>x s'. x = (None, Some (canon (r\<lparr>r_Bindings := (r_Bindings r)\<lparr>b_Addresses :=
        Some (gm_put (ev_ChainID ev) (AddrHex E (ev_Resolver ev)) m)\<rparr>\<rparr>))))"
  unfolding runs_gbind
  by (intro runs_SaveRecord'[OF assms(1)] runs_mono[OF runs_bind_Get[OF assms]])
    (auto simp: bound_record_def)

theorem BindAddressResolver_binds_witness:
  "runs (gbind (SaveRecord mem_env demo_record) (\<lambda>_.
      gbind (BindAddressResolver mem_env \<lparr>ev_Namehash = Namehash mem_env (r_Domain demo_record), ev_Resolver = ''r'',
          ev_ExpiresAt = 0, ev_ChainID = 1, ev_EventID = ''e''\<rparr>) (\<lambda>e.
      gbind (Get mem_env (r_Domain demo_record)) (\<lambda>f. gret (e, f))))) mem_start
    (\<lambda>x s'. x = (None, Some (canon (demo_record\<lparr>r_Bindings := (r_Bindings demo_record)\<lparr>b_Addresses :=
        Some (gm_put 1 (AddrHex mem_env ''r'') [])\<rparr>\<rparr>))))"
proof -
  have "ascii (AddrHex mem_env ''r'')"
    by (simp add: mem_env_def del: hex_EncodeToString.simps)
  then show ?thesis
    using BindAddressResolver_binds[OF quiet_mem clean_mem demo_ok(1), of "[]"
        "\<lparr>ev_Namehash = Namehash mem_env (r_Domain demo_record), ev_Resolver = ''r'',
          ev_ExpiresAt = 0, ev_ChainID = 1, ev_EventID = ''e''\<rparr>" mem_start]
    by (simp add: demo_ok) (simp add: demo_record_def zero_Record_def zero_Binding_def)
qed

end
