(* ===== verification/RecordProps.thy ===== *)
theory RecordProps
  imports QuietNet
begin

text \<open>
  Properties of records and names: the round trip of a record's text, which documents make
  the decoder panic, what a signature guarantees and what it does not cover, what
  \<open>NewRecord\<close> promises, the recursive specification of the name hash and its collisions,
  and the chain-id check.
\<close>

section \<open>Text\<close>

definition plain_record :: Record where
  "plain_record = zero_Record\<lparr>r_Domain := ''ab'', r_Signature := Some [], r_Versions := Some []\<rparr>"

lemma plain_record_ok: "record_ok mem_env plain_record"
  by (simp add: record_ok_def plain_record_def zero_Record_def zero_Binding_def binding_ok_def
      map_all_def version_ok_def zero_RecordVersion_def addr_codec_ok_def mem_env_def zero_address_def)

lemma Serialize_canon: "Serialize C (canon r) = Serialize C r"
proof -
  have "sl_bytes (canon_slice b) = sl_bytes b" for b by (simp add: canon_slice_def)
  then have "enc_Record C (canon r) = enc_Record C r"
    by (simp add: enc_Record_def canon_def hex_slice_def)
  then show ?thesis by (simp add: Serialize_text record_text_def)
qed

text \<open>
  C20. Serialising a record and reading it back gives the record in its normal form (empty slices and
  an empty version map come back nil), and the normal form has the same text: nothing else is lost.
\<close>

theorem record_roundtrip:
  assumes "record_ok C r"
  shows "\<exists>data. Serialize C r = Inr data \<and> DeserializeRecord C data = Done (Inr (canon r))
    \<and> Serialize C (canon r) = Inr data"
  using rec_codec.dec_enc[OF assms] Serialize_canon[of C r] by (simp add: Serialize_text)

theorem record_roundtrip_witness:
  "\<exists>data. Serialize mem_env plain_record = Inr data
    \<and> DeserializeRecord mem_env data = Done (Inr (canon plain_record)) \<and> Serialize mem_env (canon plain_record) = Inr data"
  by (rule record_roundtrip[OF plain_record_ok])

text \<open>
  Decoding a record panics exactly on the JSON document null; every other input, malformed or
  not, gives a record or an error.
\<close>

theorem DeserializeRecord_panics:
  "(\<exists>p. DeserializeRecord C data = Panic p) \<longleftrightarrow> json_parse data = Some JNull"
  by (auto simp: DeserializeRecord_def UnmarshalJSON_def split: option.splits outcome.splits sum.splits if_splits)

section \<open>Signatures\<close>

text \<open>Verification as a function of the three fields it reads.\<close>

definition verify_fields :: "('e) crypto_scheme \<Rightarrow> string \<Rightarrow> slice \<Rightarrow> slice \<Rightarrow> bool" where
  "verify_fields C d sig pk = Verify C (zero_Record\<lparr>r_Domain := d, r_Signature := sig, r_PublicKey := pk\<rparr>)"

lemma Verify_fields: "Verify C r = verify_fields C (r_Domain r) (r_Signature r) (r_PublicKey r)"
  by (simp add: verify_fields_def Verify_def serializeForSigning_def split: option.split)

text \<open>Recovery of the signer, as go-ethereum documents \<open>Sign\<close> and \<open>SigToPub\<close>.\<close>

definition recovers :: "('e) crypto_scheme \<Rightarrow> bytes \<Rightarrow> bool" where
  "recovers C key = (\<forall>h sig. EcdsaSign C h key = Inr sig \<longrightarrow>
     (\<exists>pk. SigToPub C h sig = Inr pk \<and> FromECDSAPub C pk = FromECDSAPub C (EcdsaPublic C key)))"

lemma Sign_run:
  assumes "recovers C key" "Sign C key r = (None, r')"
  shows "Verify C r' \<and> r' = r\<lparr>r_Signature := r_Signature r', r_PublicKey := r_PublicKey r', r_Signer := r_Signer r'\<rparr>
    \<and> r_PublicKey r' = Some (FromECDSAPub C (EcdsaPublic C key))
    \<and> (r_Signer r = zero_address \<longrightarrow> (\<exists>pk. UnmarshalPubkey C (FromECDSAPub C (EcdsaPublic C key)) = Inr pk
         \<and> r_Signer r' = PubkeyToAddress C pk))"
proof -
  obtain sig a where s: "EcdsaSign C (Keccak C (json_print (JObj [(''domain'', JStr (r_Domain r))]))) key = Inr sig"
    and a: "GetSignerAddress C (r\<lparr>r_Signature := Some sig, r_PublicKey := Some (FromECDSAPub C (EcdsaPublic C key))\<rparr>) = Inr a"
    and r': "r' = r\<lparr>r_Signature := Some sig, r_PublicKey := Some (FromECDSAPub C (EcdsaPublic C key)), r_Signer := a\<rparr>"
    using assms(2) by (auto simp: Sign_def serializeForSigning_def Let_def split: sum.splits)
  obtain pk where "SigToPub C (Keccak C (json_print (JObj [(''domain'', JStr (r_Domain r))]))) sig = Inr pk"
    "FromECDSAPub C pk = FromECDSAPub C (EcdsaPublic C key)"
    using assms(1) s unfolding recovers_def by blast
  then show ?thesis
    using a by (auto simp: r' Verify_def serializeForSigning_def GetSignerAddress_def split: sum.splits)
qed

text \<open>
  C22. A record that \<open>Sign\<close> signed without error verifies, and only its signature, public key and
  signer changed; a signer address that was unset becomes the address of the signing key.
\<close>

theorem Sign_verifies:
  assumes "recovers C key" "Sign C key r = (None, r')"
  shows "Verify C r' \<and> r' = r\<lparr>r_Signature := r_Signature r', r_PublicKey := r_PublicKey r', r_Signer := r_Signer r'\<rparr>
    \<and> r_PublicKey r' = Some (FromECDSAPub C (EcdsaPublic C key))
    \<and> (r_Signer r = zero_address \<longrightarrow> (\<exists>pk. UnmarshalPubkey C (FromECDSAPub C (EcdsaPublic C key)) = Inr pk
         \<and> r_Signer r' = PubkeyToAddress C pk))"
  by (rule Sign_run[OF assms])

theorem Sign_verifies_witness:
  "\<exists>r'. Sign mem_env ''k'' plain_record = (None, r') \<and> Verify mem_env r'"
proof -
  have r: "recovers mem_env ''k''" by (simp add: recovers_def mem_env_def fit_def)
  obtain e r' where s: "Sign mem_env ''k'' plain_record = (e, r')" by fastforce
  then have "e = None"
    by (auto simp: Sign_def serializeForSigning_def GetSignerAddress_def mem_env_def fit_def plain_record_def
        zero_Record_def Let_def)
  with Sign_verifies[OF r, of plain_record r'] s show ?thesis by auto
qed

text \<open>
  Verification looks only at the domain, the signature and the public key: the signer address, the
  signed transaction, the bindings, the name hash, the metadata, the versions, the status, the lock
  and the time to live of a record can all be replaced without it failing.
\<close>

theorem Verify_scope:
  "Verify C (r\<lparr>r_Signer := a, r_SignedTx := tx, r_Bindings := b, r_Namehash := n, r_Metadata := md,
     r_Versions := vs, r_Latest := l, r_Version := v, r_Status := st, r_LockID := i, r_TTL := ttl\<rparr>) = Verify C r"
  by (simp add: Verify_fields)

section \<open>Creation\<close>

lemma NewRecord_run:
  assumes "NewRecord E d ttl sig pk tx s = (out, s')"
  shows "rs_trace s' = rs_trace s \<and> (\<exists>res. out = Done res \<and> (\<forall>r. res = Inr r \<longrightarrow> Verify E r
     \<and> r_Domain r = d \<and> r_Namehash r = Some (Namehash E d) \<and> r_TTL r = ttl \<and> r_SignedTx r = tx
     \<and> r_Signature r = sig \<and> r_PublicKey r = pk
     \<and> b_Addresses (r_Bindings r) = Some [] \<and> (\<exists>w. r_Metadata r = Some [(''created_at'', MStr (rfc3339 (fst (Clock E w))))])
     \<and> (\<exists>k. UnmarshalPubkey E (sl_bytes pk) = Inr k \<and> r_Signer r = PubkeyToAddress E k)))"
proof -
  obtain t1 w1 where 1: "Clock E (rs_world s) = (t1, w1)" by fastforce
  obtain t2 w2 where 2: "Clock E w1 = (t2, w2)" by fastforce
  show ?thesis
    using assms 1 2
    by (auto simp: NewRecord_def gbind_def gret_def glift_def time_Now_def meta_put_def Let_def Verify_fields
        zero_Record_def zero_Binding_def GetSignerAddress_def split: sum.splits if_splits) (metis fst_conv)+
qed

text \<open>
  C23. In every environment \<open>NewRecord\<close> never panics and writes nothing; a record it returns verifies,
  carries the hash of its domain and the caller's fields, has an empty address map and a creation
  time, and its signer is the address of its public key.
\<close>

theorem NewRecord_sound:
  assumes "NewRecord E d ttl sig pk tx s = (out, s')"
  shows "rs_trace s' = rs_trace s \<and> (\<exists>res. out = Done res \<and> (\<forall>r. res = Inr r \<longrightarrow> Verify E r
     \<and> r_Domain r = d \<and> r_Namehash r = Some (Namehash E d) \<and> r_TTL r = ttl \<and> r_SignedTx r = tx
     \<and> r_Signature r = sig \<and> r_PublicKey r = pk
     \<and> b_Addresses (r_Bindings r) = Some [] \<and> (\<exists>w. r_Metadata r = Some [(''created_at'', MStr (rfc3339 (fst (Clock E w))))])
     \<and> (\<exists>k. UnmarshalPubkey E (sl_bytes pk) = Inr k \<and> r_Signer r = PubkeyToAddress E k)))"
  by (rule NewRecord_run[OF assms])

definition demo_key :: bytes where "demo_key = replicate 65 (CHR ''k'')"

theorem NewRecord_sound_witness:
  "\<exists>r s'. NewRecord mem_env ''ab'' 5 (Some demo_key) (Some demo_key) None mem_start = (Done (Inr r), s')
    \<and> Verify mem_env r \<and> r_Namehash r = Some (Namehash mem_env ''ab'')"
proof -
  obtain out s' where n: "NewRecord mem_env ''ab'' 5 (Some demo_key) (Some demo_key) None mem_start = (out, s')" by fastforce
  then have "\<exists>r. out = Done (Inr r)"
    by (auto simp: NewRecord_def gbind_def gret_def glift_def time_Now_def meta_put_def Let_def
        zero_Record_def zero_Binding_def GetSignerAddress_def Verify_def serializeForSigning_def
        mem_env_def demo_key_def mem_start_def NewRecordStore_def split: if_splits)
  with NewRecord_sound[OF n] n show ?thesis by auto
qed

section \<open>Names\<close>



text \<open>
  Two different names with the same name hash break the hash function: they exhibit a collision
  of it, or a preimage of the zero hash.
\<close>

theorem Namehash_collision:
  assumes "\<And>x. length (keccak256 C x) = 32" "a \<noteq> b" "Namehash C a = Namehash C b"
  shows "hash_break C"
proof -
  have zero: "hash_break C" if "Namehash C x = zero_hash" "x \<noteq> []" for x
  proof -
    obtain l ls where "Split x (CHR ''.'') = l # ls" by (cases "Split x (CHR ''.'')") auto
    with that show ?thesis unfolding hash_break_def by (auto simp: Namehash_labels)
  qed
  show ?thesis
  proof (cases "a = [] \<or> b = []")
    case True
    with assms zero[of a] zero[of b] show ?thesis by (auto simp: Namehash_def)
  next
    case False
    with assms(3) have "namehash_labels C (Split a (CHR ''.'')) = namehash_labels C (Split b (CHR ''.''))"
      by (simp add: Namehash_labels)
    then show ?thesis
      using assms(2) Split_inj namehash_labels_collision[OF assms(1)] by blast
  qed
qed

theorem Namehash_collision_witness: "hash_break mem_env"
proof (rule Namehash_collision[of _ "''a''" "''b''"])
  show "Namehash mem_env ''a'' = Namehash mem_env ''b''"
    by (simp add: Namehash_def keccak256_def mem_env_def fit_def zero_hash_def)
qed (simp_all add: keccak256_def mem_env_def fit_def)

section \<open>Chains\<close>

text \<open>
  The chain-id check accepts a binding exactly when every key of its address map is a known chain,
  and otherwise names one that is not.
\<close>

theorem ValidateAddressesChainIDs_iff:
  "(ValidateAddressesChainIDs b = None \<longleftrightarrow>
      (\<forall>m c a. b_Addresses b = Some m \<longrightarrow> (c, a) \<in> set m \<longrightarrow> map_of ChainIDToBlockchainName c \<noteq> None))
   \<and> (\<forall>e. ValidateAddressesChainIDs b = Some e \<longrightarrow> (\<exists>m c a. b_Addresses b = Some m \<and> (c, a) \<in> set m
      \<and> map_of ChainIDToBlockchainName c = None \<and> e = Errorf (''invalid chain_id in Addresses: '' @ nat_str (unat c))))"
proof -
  have "invalid_chain m = Some e \<Longrightarrow> \<exists>c a. (c, a) \<in> set m \<and> map_of ChainIDToBlockchainName c = None
      \<and> e = Errorf (''invalid chain_id in Addresses: '' @ nat_str (unat c))" for m e
    by (induction m rule: invalid_chain.induct) (auto split: if_splits)
  then show ?thesis
    by (auto simp: ValidateAddressesChainIDs_def invalid_chain_iff split: option.splits)
qed

end
