(* ===== verification/VotingFacts.thy ===== *)
theory VotingFacts
  imports StoreProps
begin

text \<open>
  Facts of threshold voting: the round trip of a vote result, casting a vote on a quiet network,
  the majority rule, the choice of the decision maker, and what a decision does to the registry.
\<close>

section \<open>Round trip\<close>

definition vote_ok :: "Vote option \<Rightarrow> bool" where
  "vote_ok p = (case p of None \<Rightarrow> True | Some v \<Rightarrow> ascii (v_Domain v) \<and> ascii (v_PeerID v))"

definition result_ok :: "VoteResult \<Rightarrow> bool" where
  "result_ok r = (ascii (vr_Domain r) \<and> ascii (vr_DecisionMaker r) \<and> map_all (\<lambda>k v. ascii k \<and> vote_ok v) (vr_Votes r))"

lemma dec_enc_Vote [simp]: "dec_struct step_Vote (enc_Vote v) zero_Vote = Inr v"
  by (simp add: enc_Vote_def dec_struct_def step_Vote_def field_def fold_defs zero_Vote_def)

lemma dec_enc_vote_ptr [simp]: "dec_vote_ptr (enc_vote_ptr p) = Inr p"
  by (cases p) (simp_all add: dec_vote_ptr_def enc_vote_ptr_def, simp add: enc_Vote_def)

lemma json_ok_vote_ptr: "vote_ok p \<Longrightarrow> json_ok (enc_vote_ptr p)"
  by (cases p) (auto simp: enc_vote_ptr_def enc_Vote_def vote_ok_def)

lemma dec_enc_votes_map:
  "map_all (\<lambda>k v. ascii k \<and> vote_ok v) m \<Longrightarrow> dec_map Inr dec_vote_ptr (enc_map id enc_vote_ptr m) None = Inr m"
  by (rule dec_enc_map) (auto simp: map_all_def)

lemma json_ok_votes_map:
  "map_all (\<lambda>k v. ascii k \<and> vote_ok v) m \<Longrightarrow> json_ok (enc_map id enc_vote_ptr m)"
  by (intro json_ok_enc_map) (auto simp: map_all_def list_all_iff json_ok_vote_ptr)

lemma dec_enc_VoteResult:
  assumes "result_ok r"
  shows "dec_struct step_VoteResult (enc_VoteResult r) zero_VoteResult = Inr r"
  using dec_enc_votes_map[of "vr_Votes r"] assms
  by (simp add: enc_VoteResult_def dec_struct_def step_VoteResult_def field_def fold_defs zero_VoteResult_def result_ok_def)

lemma dec_votes_text: "result_ok r \<Longrightarrow> dec_votes (votes_text r) = Inr r"
proof -
  assume ok: "result_ok r"
  then have "json_ok (enc_VoteResult r)"
    by (simp add: enc_VoteResult_def result_ok_def json_ok_votes_map)
  then show ?thesis
    by (simp add: dec_votes_def votes_text_def json_parse_print dec_enc_VoteResult ok)
qed

lemma dec_votes_empty [simp]: "dec_votes [] = Inl ErrJSON"
  by (simp add: dec_votes_def)

lemma votes_text_nonempty [simp]: "votes_text r \<noteq> []"
  by (simp add: votes_text_def enc_VoteResult_def)

interpretation votes_codec: codec votes_text "\<lambda>b. Done (dec_votes b)" "\<lambda>r. r" result_ok
  by unfold_locales (auto simp: dec_votes_text)

section \<open>Votes on a quiet network\<close>

lemma registry_vote [simp]: "registry_of C (set_dht (makeVoteKey d) v V) = registry_of C V"
  by (auto simp: registry_of_def fun_eq_iff)

lemma vote_key_view:
  "vw_dht (set_dht (makeVoteKey d) v V) (makeLockKey l) = vw_dht V (makeLockKey l)"
  "vw_dht (set_dht (makeVoteKey d) v V) (makePendingKey n) = vw_dht V (makePendingKey n)"
  by simp_all

lemma view_inv_vote [simp]: "view_inv E (set_dht (makeVoteKey d) v V) = view_inv E V"
  by (simp add: view_inv_def)

lemma runs_getVoteResult_Some:
  assumes q: "quiet E dv bv" and "vw_dht (view_of dv bv s) (makeVoteKey d) = Some (votes_text r)" "result_ok r"
    and "\<And>s'. view_of dv bv s' = view_of dv bv s \<Longrightarrow> Q (Inr r) s'"
  shows "runs (getVoteResult E d) s Q"
  unfolding getVoteResult_def runs_gbind
  by (rule runs_dht_GetValue[OF q]) (use assms in \<open>auto simp: dec_votes_text\<close>)

lemma runs_saveVoteResult:
  assumes q: "quiet E dv bv"
    and "\<And>s'. view_of dv bv s' = set_dht (makeVoteKey (vr_Domain r)) (Some (votes_text r)) (view_of dv bv s) \<Longrightarrow> Q None s'"
  shows "runs (saveVoteResult E r) s Q"
  unfolding saveVoteResult_def by (rule runs_PutValue_set[OF q]) (simp add: assms(2))

definition cast_vote :: "string \<Rightarrow> bytes \<Rightarrow> bytes \<Rightarrow> string \<Rightarrow> bool \<Rightarrow> int64 \<Rightarrow> Vote" where
  "cast_vote host sig pk d dec t = \<lparr>v_Domain = d, v_PeerID = host, v_Signature = Some sig,
     v_PublicKey = Some pk, v_Decision = dec, v_Timestamp = t\<rparr>"

text \<open>The result with the vote of one host set, and the count of voters brought up to date.\<close>

definition with_vote :: "string \<Rightarrow> Vote \<Rightarrow> VoteResult \<Rightarrow> VoteResult" where
  "with_vote host v r = (let vs = gm_put host (Some v) (result_votes r) in
     r\<lparr>vr_Votes := Some vs, vr_TotalVotes := of_nat (length vs)\<rparr>)"

lemma with_vote_ok:
  assumes "result_ok r" "ascii host" "ascii (v_Domain v)" "ascii (v_PeerID v)"
  shows "result_ok (with_vote host v r)"
proof -
  have "map_all (\<lambda>k v. ascii k \<and> vote_ok v) (Some (result_votes r))"
    using assms(1) by (auto simp: result_ok_def result_votes_def map_all_def split: option.splits)
  then have "map_all (\<lambda>k v. ascii k \<and> vote_ok v) (Some (gm_put host (Some v) (result_votes r)))"
    using assms by (intro map_all_put) (auto simp: vote_ok_def)
  then show ?thesis using assms(1) by (simp add: with_vote_def Let_def result_ok_def)
qed

lemma runs_SubmitVote:
  assumes q: "quiet E dv bv" and stored: "vw_dht (view_of dv bv s) (makeVoteKey d) = Some (votes_text r)" "result_ok r"
    and undecided: "\<not> vr_Consensus r" "\<not> vr_Decision r" "vr_Votes r \<noteq> None"
    and sign: "\<And>m. BlsSign E (vt_privKey vm) m = Inr (sg m)" "BlsPublicBytes E (vt_privKey vm) = Inr pk"
    and K: "\<And>t s'. view_of dv bv s' = set_dht (makeVoteKey (vr_Domain r))
        (Some (votes_text (with_vote (rs_hostID s) (cast_vote (rs_hostID s) (sg (vote_message d dec t)) pk d dec t) r)))
        (view_of dv bv s) \<Longrightarrow> Q None s'"
  shows "runs (SubmitVote E vm d dec) s Q"
proof -
  have h: "vw_host (view_of dv bv s) = rs_hostID s" by (simp add: view_of_def)
  obtain vs where vs: "vr_Votes r = Some vs" using undecided by auto
  show ?thesis
    unfolding SubmitVote_def current_result_def runs_gbind Let_def
    apply (rule runs_getVoteResult_Some[OF q stored])
    using undecided(1,2) apply simp
    apply (rule runs_read_host[OF q], rule runs_time_Now[OF q])
    apply (simp add: sign vs)
    apply (rule runs_saveVoteResult[OF q])
    apply (rule K)
    apply (simp add: h with_vote_def cast_vote_def result_votes_def vs Let_def)
    done
qed

section \<open>Counting\<close>

definition accepts :: "(string, Vote option) gomap \<Rightarrow> nat" where
  "accepts vs = length (filter (\<lambda>(k, p). \<exists>v. p = Some v \<and> v_Decision v) vs)"

lemma count_accepts_eq:
  "\<forall>(k, p) \<in> set vs. p \<noteq> None \<Longrightarrow> count_accepts vs = Done (accepts vs)"
  by (induction vs rule: count_accepts.induct) (auto simp: accepts_def)

lemma half_majority: "0 \<le> t \<Longrightarrow> int a > go_quot t 2 \<longleftrightarrow> 2 * int a > t"
  by (simp add: go_quot_def sgn_if) linarith

section \<open>Choosing the decision maker\<close>

lemma be_value_Done: "length b = 8 \<Longrightarrow> \<exists>h. be_Uint64 b = Done h"
  by (simp add: be_Uint64_def)

lemma decision_index_Done: "\<exists>i. decision_index d n = Done i"
proof -
  have "length (take 8 (sha256 d)) = 8" by (simp add: sha256_length)
  then obtain h where "be_Uint64 (take 8 (sha256 d)) = Done h" using be_value_Done by blast
  then show ?thesis by (simp add: decision_index_def)
qed

lemma go_rem_bound: "0 < b \<Longrightarrow> \<bar>go_rem a b\<bar> < b"
  by (simp add: go_rem_def abs_mult sgn_if)

lemma go_rem_negative: "0 < n \<Longrightarrow> go_rem a (int n) < 0 \<longleftrightarrow> a < 0 \<and> \<not> int n dvd a"
proof -
  assume n: "0 < n"
  then have b: "0 \<le> \<bar>a\<bar> mod int n" "\<bar>a\<bar> mod int n = 0 \<longleftrightarrow> int n dvd a"
    by (simp_all add: mod_eq_0_iff_dvd)
  have "go_rem a (int n) < 0 \<longleftrightarrow> a < 0 \<and> \<bar>a\<bar> mod int n \<noteq> 0"
    using b(1) by (cases "a < 0") (auto simp: go_rem_def sgn_if simp del: mod_eq_0_iff_dvd)
  with b(2) show ?thesis by simp
qed

lemma decision_index_bound:
  assumes "decision_index d n = Done i" "0 < n"
  shows "\<bar>i\<bar> < int n"
  using assms go_rem_bound[of "int n"] by (auto simp: decision_index_def split: outcome.splits)

section \<open>Deciding\<close>

text \<open>What a decision maker can do with a ballot: all signatures parse and add up.\<close>

definition aggregates :: "('e) crypto_scheme \<Rightarrow> VoteResult \<Rightarrow> bytes \<Rightarrow> bool" where
  "aggregates C r sig = ((\<forall>(k, p) \<in> set (result_votes r). p \<noteq> None)
     \<and> (\<exists>pt. aggregate C (result_votes r) (G1Null C) = Inr pt \<and> G1Marshal C pt = Inr sig))"

definition decided :: "VoteResult \<Rightarrow> bytes \<Rightarrow> VoteResult" where
  "decided r sig = r\<lparr>vr_Consensus := True,
     vr_Decision := (int (accepts (result_votes r)) > go_quot (sint (vr_TotalVotes r)) 2),
     vr_Signature := Some sig\<rparr>"

lemma decided_votes [simp]: "result_votes (decided r sig) = result_votes r" "vr_Domain (decided r sig) = vr_Domain r"
  "vr_Consensus (decided r sig)"
  by (simp_all add: decided_def result_votes_def)

lemma decided_majority:
  "0 \<le> sint (vr_TotalVotes r) \<Longrightarrow>
    vr_Decision (decided r sig) \<longleftrightarrow> 2 * int (accepts (result_votes r)) > sint (vr_TotalVotes r)"
  by (simp add: decided_def half_majority)

lemma gbind_glift: "gbind (glift (Done x)) f = f x"
  by (simp add: gbind_def glift_def fun_eq_iff)

lemma decide_unfold:
  assumes "aggregates E r sig" "sint (vr_TotalVotes r) \<ge> sint (vr_Threshold r)"
  shows "decide E r =
    gbind (submit_accepted E (decided r sig)) (\<lambda>e1. case e1 of Some err \<Rightarrow> gret (Some err) | None \<Rightarrow>
      gbind (saveVoteResult E (decided r sig)) (\<lambda>e2. case e2 of
        Some err \<Rightarrow> gret (Some (Wrapf ''failed to save consensus result'' err)) | None \<Rightarrow>
      gbind (ConfirmRecord E (vr_Domain r)) (\<lambda>e3. case e3 of
        Some err \<Rightarrow> gret (Some (Wrapf ''Unable to confirm record after consensus'' err)) | None \<Rightarrow> gret None)))"
proof -
  have t: "tally r = Done (r\<lparr>vr_Consensus := True,
      vr_Decision := (int (accepts (result_votes r)) > go_quot (sint (vr_TotalVotes r)) 2)\<rparr>)"
    using assms(1) by (simp add: tally_def aggregates_def count_accepts_eq)
  have v: "result_votes (r\<lparr>vr_Consensus := c, vr_Decision := d\<rparr>) = result_votes r" for c d
    by (simp add: result_votes_def)
  show ?thesis
    using assms by (auto simp: decide_def t v aggregates_def decided_def gbind_glift Let_def cong: option.case_cong)
qed

lemma runs_submit_accepted:
  fixes s :: "('w, 's) RecordStore_scheme"
  assumes q: "quiet E dv bv" and "view_inv E (view_of dv bv s)" "valid_domain (vr_Domain r)"
    and "vw_db (view_of dv bv s) (NewKey E (makeRecordKey (vr_Domain r))) = None"
    and "g_pending (registry_of E (view_of dv bv s)) (vr_Domain r) = Some p"
    and chain: "vr_Decision r \<Longrightarrow> (\<And>s' :: ('w, 's) RecordStore_scheme. runs (SubmitSignedTx E (r_SignedTx p)) s'
      (\<lambda>x s''. (\<exists>h. x = Inr h) \<and> view_of dv bv s'' = view_of dv bv s'))"
  shows "runs (submit_accepted E r) s (\<lambda>e s'. e = None \<and> view_of dv bv s' = view_of dv bv s)"
proof (cases "vr_Decision r")
  case True
  obtain b where b: "vw_dht (view_of dv bv s) (makePendingKey (vr_Domain r)) = Some b" "dec_Pending E b = Inr (Some p)"
    using assms(2,3,5) by (rule g_pendingD)
  show ?thesis
    unfolding submit_accepted_def GetAndSubmitSignedTx_def if_P[OF True] runs_gbind
    by (rule runs_Get_pending[OF q assms(4) b], unfold option.case, rule runs_mono[OF chain[OF True]]) auto
qed (simp add: submit_accepted_def)

lemma runs_conj: "runs m s P \<Longrightarrow> runs m s Q \<Longrightarrow> runs m s (\<lambda>x s'. P x s' \<and> Q x s')"
  by (auto simp: runs_iff)

lemma vote_key_done [simp]:
  "vw_dht (v_confirm E d p V) (makeVoteKey n) = vw_dht V (makeVoteKey n)"
  "vw_dht (v_reject d p V) (makeVoteKey n) = vw_dht V (makeVoteKey n)"
  by (auto simp: v_confirm_def v_reject_def v_unlock_def v_save_def v_unindex_def)

lemma runs_submit_refused:
  fixes s :: "('w, 's) RecordStore_scheme"
  assumes q: "quiet E dv bv" and inv: "view_inv E (view_of dv bv s)" "valid_domain (vr_Domain r)"
    and "vw_db (view_of dv bv s) (NewKey E (makeRecordKey (vr_Domain r))) = None"
    and g: "g_pending (registry_of E (view_of dv bv s)) (vr_Domain r) = Some p"
    and dec: "vr_Decision r"
    and chain: "\<And>s' :: ('w, 's) RecordStore_scheme. runs (SubmitSignedTx E (r_SignedTx p)) s'
      (\<lambda>x s''. (\<exists>e. x = Inl e) \<and> view_of dv bv s'' = view_of dv bv s')"
  shows "runs (submit_accepted E r) s (\<lambda>e s'. e \<noteq> None
    \<and> registry_of E (view_of dv bv s') = g_reject (vr_Domain r) p (registry_of E (view_of dv bv s))
    \<and> vw_db (view_of dv bv s') = vw_db (view_of dv bv s)
    \<and> vw_dht (view_of dv bv s') (makeVoteKey n) = vw_dht (view_of dv bv s) (makeVoteKey n))"
proof -
  obtain b where b: "vw_dht (view_of dv bv s) (makePendingKey (vr_Domain r)) = Some b" "dec_Pending E b = Inr (Some p)"
    using inv g by (rule g_pendingD)
  have "runs (RejectRecord E (vr_Domain r)) s' (\<lambda>e s''. e = None
      \<and> registry_of E (view_of dv bv s'') = g_reject (vr_Domain r) p (registry_of E (view_of dv bv s))
      \<and> vw_db (view_of dv bv s'') = vw_db (view_of dv bv s)
      \<and> vw_dht (view_of dv bv s'') (makeVoteKey n) = vw_dht (view_of dv bv s) (makeVoteKey n))"
    if v: "view_of dv bv s' = view_of dv bv s" for s' :: "('w, 's) RecordStore_scheme"
  proof -
    note b' = b[folded v] and inv' = inv(1)[folded v]
    have "vw_dht (view_of dv bv s') (makeLockKey indexKey) = None" using inv' by (simp add: view_inv_def)
    from runs_conj[OF reject_refines[OF q inv' inv(2) g[folded v]]
        runs_RejectRecord[OF q this valid_not_index(1)[OF inv(2)] b']]
    show ?thesis by (rule runs_mono) (auto simp: v)
  qed
  note rej = runs_mono[OF this]
  show ?thesis
    unfolding submit_accepted_def GetAndSubmitSignedTx_def if_P[OF dec] runs_gbind
    apply (rule runs_Get_pending[OF q assms(4) b], unfold option.case)
    apply (rule runs_mono[OF chain])
    apply (clarsimp, rule rej)
     apply auto
    done
qed

text \<open>A decision that is carried out: the ballot is closed and the registration confirmed, either way.\<close>

lemma runs_decide:
  fixes s :: "('w, 's) RecordStore_scheme"
  assumes q: "quiet E dv bv" and c: "clean_keys E" and inv: "view_inv E (view_of dv bv s)"
    and d: "vr_Domain r = d" "valid_domain d"
    and ballot: "aggregates E r sig" "sint (vr_TotalVotes r) \<ge> sint (vr_Threshold r)"
    and new: "vw_db (view_of dv bv s) (NewKey E (makeRecordKey d)) = None"
    and g: "g_pending (registry_of E (view_of dv bv s)) d = Some p"
    and chain: "vr_Decision (decided r sig) \<Longrightarrow> (\<And>s' :: ('w, 's) RecordStore_scheme. runs (SubmitSignedTx E (r_SignedTx p)) s'
      (\<lambda>x s''. (\<exists>h. x = Inr h) \<and> view_of dv bv s'' = view_of dv bv s'))"
  shows "runs (decide E r) s (\<lambda>e s'. e = None
    \<and> registry_of E (view_of dv bv s') = g_confirm E d p (registry_of E (view_of dv bv s))
    \<and> vw_dht (view_of dv bv s') (makeVoteKey d) = Some (votes_text (decided r sig)))"
proof -
  let ?V = "view_of dv bv s" and ?t = "votes_text (decided r sig)"
  have sub: "runs (submit_accepted E (decided r sig)) s (\<lambda>e s'. e = None \<and> view_of dv bv s' = ?V)"
    using assms by (intro runs_submit_accepted[OF q]) (auto simp: d)
  have conf: "runs (ConfirmRecord E d) s' (\<lambda>e s''. e = None
      \<and> registry_of E (view_of dv bv s'') = g_confirm E d p (registry_of E ?V)
      \<and> vw_dht (view_of dv bv s'') (makeVoteKey d) = Some ?t)"
    if v: "view_of dv bv s' = set_dht (makeVoteKey d) (Some ?t) ?V" for s' :: "('w, 's) RecordStore_scheme"
  proof -
    have g': "g_pending (registry_of E (view_of dv bv s')) d = Some p" and i': "view_inv E (view_of dv bv s')"
      using g inv by (simp_all add: v)
    obtain b where b: "vw_dht (view_of dv bv s') (makePendingKey d) = Some b" "dec_Pending E b = Inr (Some p)"
      using i' d(2) g' by (rule g_pendingD)
    have "vw_dht (view_of dv bv s') (makeLockKey indexKey) = None" using i' by (simp add: view_inv_def)
    from runs_conj[OF confirm_refines[OF q c i' d(2) g'] runs_ConfirmRecord[OF q this valid_not_index(1)[OF d(2)] b]]
    show ?thesis by (rule runs_mono) (auto simp: v)
  qed
  show ?thesis
    unfolding decide_unfold[OF ballot] runs_gbind d
    apply (rule runs_mono[OF sub])
    apply (clarsimp, rule runs_saveVoteResult[OF q])
    apply (simp, rule runs_mono[OF conf])
     apply (auto simp: d)
    done
qed

end
