(* ===== verification/VotingProps.thy ===== *)
theory VotingProps
  imports VotingFacts
begin

text \<open>
  Properties of voting: the round trip of a ballot's text, what casting a vote changes, how a
  decision maker's decision acts on the registry, who may write what, the choice of the decision
  maker, and what verifying a consensus establishes.
\<close>

section \<open>Ballots\<close>

text \<open>A vote result survives serialisation unchanged, nil votes and a nil vote map included.\<close>

theorem votes_roundtrip:
  assumes "result_ok r"
  shows "dec_votes (votes_text r) = Inr r"
  by (rule dec_votes_text[OF assms])

definition demo_vote :: "bool \<Rightarrow> Vote" where
  "demo_vote b = cast_vote ''n2'' ''s'' ''p'' ''ab'' b 7"

definition demo_ballot :: "bool \<Rightarrow> VoteResult" where
  "demo_ballot b = zero_VoteResult\<lparr>vr_Domain := ''ab'', vr_Votes := Some [(''n2'', Some (demo_vote b))],
     vr_TotalVotes := 1, vr_DecisionMaker := ''n1''\<rparr>"

lemma demo_ballot_ok: "result_ok (demo_ballot b)"
  by (simp add: result_ok_def demo_ballot_def zero_VoteResult_def map_all_def vote_ok_def demo_vote_def cast_vote_def ascii_def)

theorem votes_roundtrip_witness: "dec_votes (votes_text (demo_ballot True)) = Inr (demo_ballot True)"
  by (rule votes_roundtrip[OF demo_ballot_ok])

text \<open>The state in which a node has just saved a ballot.\<close>

definition demo_voting :: "bool \<Rightarrow> mem_world RecordStore" where
  "demo_voting b = snd (saveVoteResult mem_env (demo_ballot b) demo_pending)"

lemma view_demo_voting:
  "view_of mem_dht mem_db (demo_voting b)
    = set_dht (makeVoteKey ''ab'') (Some (votes_text (demo_ballot b))) (view_of mem_dht mem_db demo_pending)"
  using runs_saveVoteResult[OF quiet_mem, where s = demo_pending and r = "demo_ballot b"
      and Q = "\<lambda>x s'. view_of mem_dht mem_db s' = set_dht (makeVoteKey ''ab'') (Some (votes_text (demo_ballot b)))
        (view_of mem_dht mem_db demo_pending)"]
  by (auto simp: runs_iff demo_voting_def demo_ballot_def zero_VoteResult_def)

lemma with_vote_fields:
  assumes "vr_Domain r = d"
  shows "vr_Domain (with_vote h v r) = d" "gm_get (result_votes (with_vote h v r)) h = Some (Some v)"
    "g \<noteq> h \<Longrightarrow> gm_get (result_votes (with_vote h v r)) g = gm_get (result_votes r) g"
    "vr_TotalVotes (with_vote h v r) = of_nat (length (result_votes (with_vote h v r)))"
    "vr_Consensus (with_vote h v r) = vr_Consensus r" "vr_Decision (with_vote h v r) = vr_Decision r"
    "vr_Threshold (with_vote h v r) = vr_Threshold r"
  using assms by (simp_all add: with_vote_def Let_def result_votes_def)

text \<open>
  C10. On a quiet network a vote on an undecided ballot is recorded under the voter's own peer id,
  signed over the name, the choice and the time; every other voter's vote is kept, the total is the
  number of voters (voting twice counts once), the threshold and the outcome are untouched, and the
  registry does not change.
\<close>

theorem SubmitVote_counts:
  assumes "quiet E dv bv"
    and "vw_dht (view_of dv bv s) (makeVoteKey d) = Some (votes_text r)" "result_ok r"
    and "\<not> vr_Consensus r" "\<not> vr_Decision r" "vr_Votes r \<noteq> None" "vr_Domain r = d"
    and "\<And>m. BlsSign E (vt_privKey vm) m = Inr (sg m)" "BlsPublicBytes E (vt_privKey vm) = Inr pk"
  shows "runs (SubmitVote E vm d dec) s (\<lambda>e s'. e = None
    \<and> registry_of E (view_of dv bv s') = registry_of E (view_of dv bv s)
    \<and> (\<exists>r' t. vw_dht (view_of dv bv s') (makeVoteKey d) = Some (votes_text r')
        \<and> gm_get (result_votes r') (rs_hostID s)
            = Some (Some (cast_vote (rs_hostID s) (sg (vote_message d dec t)) pk d dec t))
        \<and> (\<forall>h. h \<noteq> rs_hostID s \<longrightarrow> gm_get (result_votes r') h = gm_get (result_votes r) h)
        \<and> vr_TotalVotes r' = of_nat (length (result_votes r'))
        \<and> vr_Threshold r' = vr_Threshold r \<and> \<not> vr_Consensus r' \<and> \<not> vr_Decision r'))"
proof (rule runs_SubmitVote[OF assms(1-6,8,9)])
  fix t s'
  let ?r = "with_vote (rs_hostID s) (cast_vote (rs_hostID s) (sg (vote_message d dec t)) pk d dec t) r"
  assume v: "view_of dv bv s' = set_dht (makeVoteKey (vr_Domain r)) (Some (votes_text ?r)) (view_of dv bv s)"
  show "None = None \<and> registry_of E (view_of dv bv s') = registry_of E (view_of dv bv s)
    \<and> (\<exists>r' t. vw_dht (view_of dv bv s') (makeVoteKey d) = Some (votes_text r')
        \<and> gm_get (result_votes r') (rs_hostID s)
            = Some (Some (cast_vote (rs_hostID s) (sg (vote_message d dec t)) pk d dec t))
        \<and> (\<forall>h. h \<noteq> rs_hostID s \<longrightarrow> gm_get (result_votes r') h = gm_get (result_votes r) h)
        \<and> vr_TotalVotes r' = of_nat (length (result_votes r'))
        \<and> vr_Threshold r' = vr_Threshold r \<and> \<not> vr_Consensus r' \<and> \<not> vr_Decision r')"
    by (intro conjI exI[of _ ?r] exI[of _ t])
      (use v assms(4,5) with_vote_fields[OF assms(7)] assms(7) in \<open>simp_all\<close>)
qed

theorem SubmitVote_counts_witness:
  "runs (SubmitVote mem_env \<lparr>vt_privKey = ''k''\<rparr> ''ab'' True) (demo_voting True) (\<lambda>e s'. e = None)"
  by (rule runs_mono[OF SubmitVote_counts[OF quiet_mem, where r = "demo_ballot True"
      and sg = "\<lambda>m. ''k'' @ m" and pk = "''k''"]])
    (simp_all add: view_demo_voting demo_ballot_ok, simp_all add: demo_ballot_def zero_VoteResult_def mem_env_def)

section \<open>Decisions\<close>

lemma demo_ballot_aggregates: "aggregates mem_env (demo_ballot b) ''s''"
  by (simp add: aggregates_def demo_ballot_def zero_VoteResult_def result_votes_def mem_env_def demo_vote_def cast_vote_def)

lemma demo_voting_facts:
  "view_inv mem_env (view_of mem_dht mem_db (demo_voting b))"
  "vw_db (view_of mem_dht mem_db (demo_voting b)) (NewKey mem_env (makeRecordKey ''ab'')) = None"
  "g_pending (registry_of mem_env (view_of mem_dht mem_db (demo_voting b))) ''ab'' = Some (canon demo_record)"
  using view_inv_demo demo_g_pending
  by (simp_all add: view_demo_voting) (simp add: view_demo_pending v_submit_def view_mem_start Let_def)

text \<open>
  C9. On a quiet network, when a ballot has reached its threshold, its signatures aggregate and (for an
  accepted name) the chain takes the owner's transaction, the decision maker closes the ballot with
  the strict majority of its voters as the outcome, and then confirms the registration whatever the
  outcome is: a name that the majority rejected is registered all the same.
\<close>

theorem decide_confirms:
  fixes s :: "('w, 's) RecordStore_scheme"
  assumes "quiet E dv bv" "clean_keys E" "view_inv E (view_of dv bv s)"
    and "vr_Domain r = d" "valid_domain d"
    and "aggregates E r sig" "sint (vr_TotalVotes r) \<ge> sint (vr_Threshold r)" "sint (vr_TotalVotes r) \<ge> 0"
    and "vw_db (view_of dv bv s) (NewKey E (makeRecordKey d)) = None"
    and "g_pending (registry_of E (view_of dv bv s)) d = Some p"
    and "vr_Decision (decided r sig) \<Longrightarrow> (\<And>s' :: ('w, 's) RecordStore_scheme. runs (SubmitSignedTx E (r_SignedTx p)) s'
      (\<lambda>x s''. (\<exists>h. x = Inr h) \<and> view_of dv bv s'' = view_of dv bv s'))"
  shows "runs (decide E r) s (\<lambda>e s'. e = None
      \<and> registry_of E (view_of dv bv s') = g_confirm E d p (registry_of E (view_of dv bv s))
      \<and> vw_dht (view_of dv bv s') (makeVoteKey d) = Some (votes_text (decided r sig)))
    \<and> (vr_Decision (decided r sig) \<longleftrightarrow> 2 * int (accepts (result_votes r)) > sint (vr_TotalVotes r))"
  using runs_decide[OF assms(1-7,9-11)] decided_majority[OF assms(8)] by blast

theorem decide_confirms_witness:
  "runs (decide mem_env (demo_ballot False)) (demo_voting False) (\<lambda>e s'. e = None
      \<and> registry_of mem_env (view_of mem_dht mem_db s')
        = g_confirm mem_env ''ab'' (canon demo_record) (registry_of mem_env (view_of mem_dht mem_db (demo_voting False)))
      \<and> vw_dht (view_of mem_dht mem_db s') (makeVoteKey ''ab'') = Some (votes_text (decided (demo_ballot False) ''s'')))"
  by (rule conjunct1[OF decide_confirms[OF quiet_mem clean_mem demo_voting_facts(1) _ _ demo_ballot_aggregates
        _ _ demo_voting_facts(2,3)]])
    (simp_all add: demo_ok decided_def, simp_all add: demo_ballot_def zero_VoteResult_def demo_vote_def
      cast_vote_def result_votes_def accepts_def go_quot_def)

text \<open>
  When the majority accepts but the chain does not take the owner's transaction, the decision
  maker rejects the registration and reports an error; the database and the stored ballot stay as
  they were, so the ballot is still open while its registration is gone.
\<close>

theorem decide_unsubmittable:
  fixes s :: "('w, 's) RecordStore_scheme"
  assumes "quiet E dv bv" "view_inv E (view_of dv bv s)" "vr_Domain r = d" "valid_domain d"
    and "aggregates E r sig" "sint (vr_TotalVotes r) \<ge> sint (vr_Threshold r)" "vr_Decision (decided r sig)"
    and "vw_db (view_of dv bv s) (NewKey E (makeRecordKey d)) = None"
    and "g_pending (registry_of E (view_of dv bv s)) d = Some p"
    and "\<And>s' :: ('w, 's) RecordStore_scheme. runs (SubmitSignedTx E (r_SignedTx p)) s'
      (\<lambda>x s''. (\<exists>e. x = Inl e) \<and> view_of dv bv s'' = view_of dv bv s')"
  shows "runs (decide E r) s (\<lambda>e s'. e \<noteq> None
      \<and> registry_of E (view_of dv bv s') = g_reject d p (registry_of E (view_of dv bv s))
      \<and> vw_db (view_of dv bv s') = vw_db (view_of dv bv s)
      \<and> vw_dht (view_of dv bv s') (makeVoteKey d) = vw_dht (view_of dv bv s) (makeVoteKey d))"
proof -
  have "runs (submit_accepted E (decided r sig)) s (\<lambda>e s'. e \<noteq> None
      \<and> registry_of E (view_of dv bv s') = g_reject d p (registry_of E (view_of dv bv s))
      \<and> vw_db (view_of dv bv s') = vw_db (view_of dv bv s)
      \<and> vw_dht (view_of dv bv s') (makeVoteKey d) = vw_dht (view_of dv bv s) (makeVoteKey d))"
    using runs_submit_refused[OF assms(1,2), where r = "decided r sig" and p = p] assms(3-) by simp
  then show ?thesis
    unfolding decide_unfold[OF assms(5,6)] runs_gbind by (rule runs_mono) (auto split: option.split)
qed

lemma mem_chain_refuses:
  "runs (SubmitSignedTx mem_env None) s (\<lambda>x s'. (\<exists>e. x = Inl e) \<and> view_of mem_dht mem_db s' = view_of mem_dht mem_db s)"
  by (simp add: runs_iff SubmitSignedTx_def mem_env_def Let_def gbind_def gret_def prim_defs view_of_def)

theorem decide_unsubmittable_witness:
  "runs (decide mem_env (demo_ballot True)) (demo_voting True) (\<lambda>e s'. e \<noteq> None
      \<and> registry_of mem_env (view_of mem_dht mem_db s')
        = g_reject ''ab'' (canon demo_record) (registry_of mem_env (view_of mem_dht mem_db (demo_voting True)))
      \<and> vw_db (view_of mem_dht mem_db s') = vw_db (view_of mem_dht mem_db (demo_voting True))
      \<and> vw_dht (view_of mem_dht mem_db s') (makeVoteKey ''ab'')
        = vw_dht (view_of mem_dht mem_db (demo_voting True)) (makeVoteKey ''ab''))"
proof (rule decide_unsubmittable[OF quiet_mem demo_voting_facts(1) _ _ demo_ballot_aggregates _ _ demo_voting_facts(2,3)])
  fix s' :: "mem_world RecordStore"
  show "runs (SubmitSignedTx mem_env (r_SignedTx (canon demo_record))) s'
      (\<lambda>x s''. (\<exists>e. x = Inl e) \<and> view_of mem_dht mem_db s'' = view_of mem_dht mem_db s')"
    using mem_chain_refuses by (simp add: canon_def demo_record_def zero_Record_def canon_slice_def)
qed (simp_all add: demo_ok decided_def, simp_all add: demo_ballot_def zero_VoteResult_def demo_vote_def
      cast_vote_def result_votes_def accepts_def go_quot_def)

section \<open>Who acts\<close>

text \<open>
  C36. In every environment a node that is not a ballot's decision maker writes nothing when it
  processes the ballot: the attempt counter, the time stamp and the decision maker it replaces after
  a timeout are changed in a local copy only, so no replacement ever takes effect.
\<close>

theorem bystander_writes_nothing:
  fixes s :: "('w, 's) RecordStore_scheme"
  assumes "getVoteResult E d s = (Done (Inr r), s1)" "vr_DecisionMaker r \<noteq> rs_hostID s"
  shows "rs_trace (snd (process_domain E d s)) = rs_trace s"
proof -
  have r: "rs_hostID s1 = rs_hostID s" "rs_trace s1 = rs_trace s"
    using does_nothing[OF keepsD[OF does_getVoteResult assms(1)]] by simp_all
  have "keeps (does (\<lambda>_. False)) (gbind (watch_decision_maker E d r) (\<lambda>_. gret ()))"
    by (intro does_rules does_watch)
  then have "rs_trace (snd (gbind (watch_decision_maker E d r) (\<lambda>_. gret ()) s1)) = rs_trace s1"
    unfolding keeps_def by (intro conjunct2[OF does_nothing]) blast
  moreover have "process_domain E d s = gbind (watch_decision_maker E d r) (\<lambda>_. gret ()) s1"
  proof -
    have "gbind (gread rs_hostID) f s1 = f (rs_hostID s) s1" for f :: "string \<Rightarrow> (('w, 's) RecordStore_scheme, unit) go"
      using r by (simp add: gbind_def gread_def)
    then show ?thesis
      using assms(2) by (simp add: process_domain_def gbind_def[of "getVoteResult E d"] assms(1))
  qed
  ultimately show ?thesis using r(2) by simp
qed

text \<open>A ballot that another node is to decide.\<close>

definition foreign_ballot :: VoteResult where
  "foreign_ballot = (demo_ballot True)\<lparr>vr_DecisionMaker := ''n9''\<rparr>"

definition foreign_state :: "mem_world RecordStore" where
  "foreign_state = mem_start\<lparr>rs_world := (rs_world mem_start)\<lparr>mw_dht := [(makeVoteKey ''ab'', votes_text foreign_ballot)]\<rparr>\<rparr>"

theorem bystander_writes_nothing_witness:
  "rs_trace (snd (process_domain mem_env ''ab'' foreign_state)) = []"
proof -
  have ok: "result_ok foreign_ballot"
    using demo_ballot_ok[of True] by (simp add: result_ok_def foreign_ballot_def ascii_def)
  have "getVoteResult mem_env ''ab'' foreign_state = (Done (Inr foreign_ballot), foreign_state)"
    by (simp add: getVoteResult_def gbind_def dht_GetValue_def foreign_state_def mem_env_def gret_def
        dec_votes_text[OF ok])
  from bystander_writes_nothing[OF this] show ?thesis
    by (simp add: foreign_ballot_def foreign_state_def mem_start_def NewRecordStore_def NewVotingManager_def)
qed

text \<open>
  C37. In every environment, when the routing table still has the \<open>n\<close> peers that were counted, the
  choice of a decision maker panics exactly if the first eight bytes of the name's hash, read as a
  signed integer, are negative and not divisible by \<open>n\<close>; otherwise it is one of the peers.
\<close>

theorem selectDecisionMaker_panics:
  assumes "OnlineNodes E s = (Done peers, s1)" "length peers = n" "0 < n"
    and "be_Uint64 (take 8 (sha256 d)) = Done h"
  shows "((\<exists>p. fst (selectDecisionMaker E d n s) = Panic p) \<longleftrightarrow> sint h < 0 \<and> \<not> int n dvd sint h)
    \<and> (\<forall>p. fst (selectDecisionMaker E d n s) = Done p \<longrightarrow> p \<in> set peers)"
proof -
  let ?i = "go_rem (sint h) (int n)"
  have i: "decision_index d n = Done ?i" using assms(4) by (simp add: decision_index_def)
  have neg: "?i < 0 \<longleftrightarrow> sint h < 0 \<and> \<not> int n dvd sint h"
    by (simp add: go_rem_negative assms(3))
  have "\<bar>?i\<bar> < int n" using assms(3) by (rule decision_index_bound[OF i])
  then have "?i < int (length peers)" using assms(2) by simp
  then show ?thesis
    using neg assms(1,3)
    by (auto simp: selectDecisionMaker_def i gbind_def glift_def gret_def gpanic_def)
qed

lemma demo_peers: "\<not> is_bootstrap ''n2''" "\<not> is_bootstrap ''n3''"
  by code_simp+

theorem selectDecisionMaker_panics_witness:
  "\<exists>h. be_Uint64 (take 8 (sha256 ''ab'')) = Done h
    \<and> ((\<exists>p. fst (selectDecisionMaker mem_env ''ab'' 2 (mem_start\<lparr>rs_world := (rs_world mem_start)\<lparr>mw_peers := [''n2'', ''n3'']\<rparr>\<rparr>)) = Panic p)
      \<longleftrightarrow> sint h < 0 \<and> \<not> 2 dvd sint h)"
proof -
  let ?s = "mem_start\<lparr>rs_world := (rs_world mem_start)\<lparr>mw_peers := [''n2'', ''n3'']\<rparr>\<rparr>"
  obtain h where h: "be_Uint64 (take 8 (sha256 ''ab'')) = Done h"
    using be_value_Done[of "take 8 (sha256 ''ab'')"] by (auto simp: sha256_length)
  have o: "OnlineNodes mem_env ?s = (Done [''n2'', ''n3''], ?s)"
    by (simp add: OnlineNodes_def gbind_def gret_def dht_ListPeers_def mem_env_def demo_peers)
  have "(\<exists>p. fst (selectDecisionMaker mem_env ''ab'' 2 ?s) = Panic p) \<longleftrightarrow> sint h < 0 \<and> \<not> int 2 dvd sint h"
    by (rule conjunct1[OF selectDecisionMaker_panics[OF o _ _ h]]) simp_all
  with h show ?thesis unfolding of_nat_numeral by blast
qed

section \<open>Verifying\<close>

lemma verify_votes_True:
  "verify_votes C vs = Done True \<Longrightarrow> (k, p) \<in> set vs \<Longrightarrow> \<exists>v. p = Some v \<and> VerifyVote C v"
  by (induction C vs rule: verify_votes.induct) (auto split: if_splits)

text \<open>
  An accepted consensus is a closed ballot in which every vote carries a valid signature of its
  own key over its own name, choice and time, and whose aggregate signature is valid for the name
  and the outcome under the sum of the voters' keys.
\<close>

theorem VerifyConsensus_sound:
  assumes "VerifyConsensus C r = Done True"
  shows "vr_Consensus r \<and> (\<forall>(k, p) \<in> set (result_votes r). \<exists>v. p = Some v \<and> VerifyVote C v)
    \<and> (\<exists>agg. sum_pubkeys C (result_votes r) (PtNull C) = Some agg
        \<and> BlsVerify C agg (vr_Domain r @ '':'' @ bool_str (vr_Decision r)) (sl_bytes (vr_Signature r)))"
  using assms verify_votes_True[of C "result_votes r"]
  by (auto simp: VerifyConsensus_def split: if_splits outcome.splits bool.splits option.splits)

definition sealed_ballot :: VoteResult where
  "sealed_ballot = zero_VoteResult\<lparr>vr_Domain := ''ab'', vr_Consensus := True, vr_Decision := True,
     vr_Votes := Some [(''n2'', Some (cast_vote ''n2'' (''p'' @ vote_message ''ab'' True 7) ''p'' ''ab'' True 7))],
     vr_Signature := Some ''pab:true''\<rparr>"

theorem VerifyConsensus_sound_witness:
  "VerifyConsensus mem_env sealed_ballot = Done True \<and> vr_Consensus sealed_ballot"
proof -
  have v: "VerifyConsensus mem_env sealed_ballot = Done True"
    by (simp add: VerifyConsensus_def sealed_ballot_def zero_VoteResult_def result_votes_def cast_vote_def
        VerifyVote_def mem_env_def bool_str_def)
  with VerifyConsensus_sound[OF v] show ?thesis by simp
qed






end
