(* ===== verification/EvmValidate.thy ===== *)
theory EvmValidate
  imports EvmSubmit
begin

text \<open>
  Checking a signed transaction before a node votes for its record, the digest and signature of a
  binding, and signing the transaction (\<open>contracts/evm/utils.go\<close>). The Ethereum libraries
  (RLP, the ABI of the registry contract, transaction signing and sender recovery, the JSON-RPC
  client) are parameters, collected in \<open>chain_env\<close>. Error texts are modelled up to the values they print.
\<close>

section \<open>Library parameters\<close>

text \<open>A decoded transaction: the fields the code reads.\<close>

record txn =
  t_ChainId :: "int option"
  t_Value :: "int option"
  t_To :: "bytes option"
  t_Nonce :: uint64
  t_Data :: bytes

record dynamic_fee_tx =
  df_ChainID :: int
  df_Nonce :: uint64
  df_GasTipCap :: "int option"
  df_GasFeeCap :: "int option"
  df_Gas :: uint64
  df_To :: bytes
  df_Value :: "int option"
  df_Data :: bytes

text \<open>ABI values, as the interface values the code packs or type-switches on.\<close>

datatype abi_arg = ABytes32 bytes | ABytes bytes | AAddress bytes | AUint64 uint64 | ABigInt int

record 'w chain_env = "'w env" +
  RlpDynamicFee :: "bytes \<Rightarrow> goerr + txn"
  TxUnmarshalBinary :: "bytes \<Rightarrow> goerr + txn"
  TxSender :: "int option \<Rightarrow> txn \<Rightarrow> goerr + bytes"
  SignTx :: "int \<Rightarrow> dynamic_fee_tx \<Rightarrow> bytes \<Rightarrow> goerr + bytes"
  HexToAddress :: "string \<Rightarrow> bytes"
  AbiMethodById :: "bytes \<Rightarrow> goerr + string"
  AbiUnpack :: "string \<Rightarrow> bytes \<Rightarrow> goerr + abi_arg list"
  AbiPackMethod :: "string \<Rightarrow> abi_arg list \<Rightarrow> goerr + bytes"
  AbiPack :: "string list \<Rightarrow> abi_arg list \<Rightarrow> goerr + bytes"
  Ecrecover :: "bytes \<Rightarrow> bytes \<Rightarrow> goerr + bytes"
  EthCodeAt :: "bytes \<Rightarrow> 'w \<Rightarrow> (goerr + bytes) \<times> 'w"
  EthPendingNonceAt :: "bytes \<Rightarrow> 'w \<Rightarrow> (goerr + uint64) \<times> 'w"

definition eth_CodeAt :: "('w, 'e) chain_env_scheme \<Rightarrow> bytes \<Rightarrow> (('w, 's) RecordStore_scheme, goerr + bytes) go" where
  "eth_CodeAt E a = (\<lambda>s. case EthCodeAt E a (rs_world s) of (r, w) \<Rightarrow> (Done r, s\<lparr>rs_world := w\<rparr>))"

definition eth_PendingNonceAt :: "('w, 'e) chain_env_scheme \<Rightarrow> bytes \<Rightarrow> (('w, 's) RecordStore_scheme, goerr + uint64) go" where
  "eth_PendingNonceAt E a = (\<lambda>s. case EthPendingNonceAt E a (rs_world s) of (r, w) \<Rightarrow> (Done r, s\<lparr>rs_world := w\<rparr>))"

section \<open>The digest and the signature of a binding\<close>

text \<open>\<open>copy(a[:], b)\<close> into a zeroed \<open>[32]byte\<close>.\<close>

definition copy32 :: "bytes \<Rightarrow> bytes" where
  "copy32 b = take 32 (b @ replicate 32 (CHR 0x00))"

text \<open>\<open>big.NewInt(int64(x))\<close> of an unsigned 64-bit value.\<close>

definition big_int64 :: "uint64 \<Rightarrow> int" where
  "big_int64 x = sint x"

definition GetDigest :: "('w, 'e) chain_env_scheme \<Rightarrow> slice \<Rightarrow> bytes \<Rightarrow> uint64 \<Rightarrow> uint64 \<Rightarrow> int64 \<Rightarrow> bytes \<Rightarrow> goerr + bytes" where
  "GetDigest E namehash resolver expiresAt timestamp chainID contractAddr =
     (let typeHash = copy32 (Keccak E ''SubmitBinding(bytes32 namehash,address resolver,uint64 expiresAt,uint64 timestamp)'') in
      case AbiPack E [''bytes32'', ''bytes32'', ''address'', ''uint256'', ''uint256'']
             [ABytes32 typeHash, ABytes32 (copy32 (sl_bytes namehash)), AAddress resolver,
              ABigInt (big_int64 expiresAt), ABigInt (big_int64 timestamp)] of
        Inl err \<Rightarrow> Inl (Wrapf ''abi.Pack struct'' err)
      | Inr structPacked \<Rightarrow>
          (let structHash = Keccak E structPacked;
               domainTypeHash = copy32 (Keccak E ''EIP712Domain(string name,string version,uint256 chainId,address verifyingContract)'');
               nameHash = copy32 (Keccak E ''AlticaRegistry'');
               versionHash = copy32 (Keccak E ''0'') in
           case AbiPack E [''bytes32'', ''bytes32'', ''bytes32'', ''uint256'', ''address'']
                  [ABytes32 domainTypeHash, ABytes32 nameHash, ABytes32 versionHash,
                   ABigInt (sint chainID), AAddress contractAddr] of
             Inl err \<Rightarrow> Inl (Wrapf ''abi.Pack domain'' err)
           | Inr domainPacked \<Rightarrow>
               (let domainSeparator = Keccak E domainPacked in
                Inr (Keccak E ([CHR 0x19, CHR 0x01] @ domainSeparator @ structHash)))))"

definition byte_add :: "char \<Rightarrow> nat \<Rightarrow> char" where
  "byte_add c n = char_of (of_char c + n)"

definition GenerateBindingSignature :: "('w, 'e) chain_env_scheme \<Rightarrow> bytes \<Rightarrow> bytes \<Rightarrow> int64 \<Rightarrow> slice \<Rightarrow> bytes \<Rightarrow> uint64 \<Rightarrow> uint64 \<Rightarrow> (goerr + bytes) outcome" where
  "GenerateBindingSignature E privateKey contractAddr chainID namehash resolver expiresAt timestamp =
     (case GetDigest E namehash resolver expiresAt timestamp chainID contractAddr of
        Inl err \<Rightarrow> Done (Inl err)
      | Inr digest \<Rightarrow>
          (case EcdsaSign E digest privateKey of
             Inl err \<Rightarrow> Done (Inl (Wrapf ''failed to sign binding'' err))
           | Inr signature \<Rightarrow>
               if length signature \<le> 64 then Panic ''index out of range''
               else if (of_char (signature ! 64) :: nat) < 27
               then Done (Inr (signature[64 := byte_add (signature ! 64) 27]))
               else Done (Inr signature)))"

definition PreSignSubmitBindingTxEIP1559 ::
  "('w, 'e) chain_env_scheme \<Rightarrow> bytes \<Rightarrow> bytes \<Rightarrow> int64 \<Rightarrow> slice \<Rightarrow> bytes \<Rightarrow> uint64 \<Rightarrow> uint64 \<Rightarrow> bytes
    \<Rightarrow> uint64 \<Rightarrow> uint64 \<Rightarrow> int option \<Rightarrow> int option \<Rightarrow> int option \<Rightarrow> goerr + bytes" where
  "PreSignSubmitBindingTxEIP1559 E privateKey contractAddr chainID namehash resolver expiresAt timestamp sig
     nonce gasLimit maxFeePerGas maxPriorityFeePerGas value =
     (case AbiPackMethod E ''SubmitBinding''
            [ABytes32 (copy32 (sl_bytes namehash)), AAddress resolver, AUint64 expiresAt, AUint64 timestamp, ABytes sig] of
        Inl err \<Rightarrow> Inl err
      | Inr inputData \<Rightarrow>
          SignTx E (sint chainID)
            \<lparr>df_ChainID = sint chainID, df_Nonce = nonce, df_GasTipCap = maxPriorityFeePerGas,
             df_GasFeeCap = maxFeePerGas, df_Gas = gasLimit, df_To = contractAddr, df_Value = value,
             df_Data = inputData\<rparr> privateKey)"

section \<open>Decoding and checking a signed transaction\<close>

definition decodeSignedTx :: "('w, 'e) chain_env_scheme \<Rightarrow> slice \<Rightarrow> (goerr + txn) outcome" where
  "decodeSignedTx E signedTx =
     (case sl_bytes signedTx of
        [] \<Rightarrow> Panic ''index out of range''
      | b # rest \<Rightarrow>
          Done (if b = CHR 0x02
                then (case RlpDynamicFee E rest of
                        Inl err \<Rightarrow> Inl (Errorf ''RLP decode error'') | Inr tx \<Rightarrow> Inr tx)
                else (case TxUnmarshalBinary E (b # rest) of
                        Inl err \<Rightarrow> Inl (Errorf ''Unmarshal error'') | Inr tx \<Rightarrow> Inr tx)))"

definition getFromAddress :: "('w, 'e) chain_env_scheme \<Rightarrow> txn \<Rightarrow> goerr + bytes" where
  "getFromAddress E tx =
     (case TxSender E (t_ChainId tx) tx of
        Inl err \<Rightarrow> Inl (Wrapf ''cannot recover sender'' err) | Inr sender \<Rightarrow> Inr sender)"

definition getBytesArg :: "abi_arg \<Rightarrow> bytes option" where
  "getBytesArg arg = (case arg of ABytes32 v \<Rightarrow> Some v | ABytes v \<Rightarrow> Some v | _ \<Rightarrow> None)"

definition min_value :: int where "min_value = 1000000000000000"

text \<open>Go's \<open>args[n]\<close>, and the type assertions of the arguments.\<close>

definition arg_at :: "abi_arg list \<Rightarrow> nat \<Rightarrow> abi_arg outcome" where
  "arg_at args n = (if n < length args then Done (args ! n) else Panic ''index out of range'')"

definition as_uint64 :: "abi_arg outcome \<Rightarrow> uint64 outcome" where
  "as_uint64 a = (case a of Panic p \<Rightarrow> Panic p | Done (AUint64 x) \<Rightarrow> Done x | Done _ \<Rightarrow> Panic ''interface conversion'')"

definition max_drift :: uint64 where "max_drift = 720"

definition recent_enough :: "uint64 \<Rightarrow> uint64 \<Rightarrow> goerr option" where
  "recent_enough timestamp time_now =
     (if timestamp > time_now then Some (Errorf ''timestamp is in the future'')
      else if timestamp < time_now - max_drift then Some (Errorf ''timestamp is too far in the past'')
      else None)"

text \<open>The signature as \<open>Ecrecover\<close> wants it: a recovery id of 27 or more is brought down.\<close>

definition normalise_v :: "bytes \<Rightarrow> bytes" where
  "normalise_v sig =
     (if length sig = 65 \<and> (of_char (sig ! 64) :: nat) \<ge> 27
      then sig[64 := char_of ((of_char (sig ! 64) :: nat) - 27)] else sig)"

definition check_binding_signer :: "('w, 'e) chain_env_scheme \<Rightarrow> bytes \<Rightarrow> bytes \<Rightarrow> bytes \<Rightarrow> goerr option" where
  "check_binding_signer E digest sig signerAddress =
     (case Ecrecover E digest (normalise_v sig) of
        Inl err \<Rightarrow> Some (Errorf ''Failed to ecrecover pubkey from signature'')
      | Inr pubKeyBytes \<Rightarrow>
          (case UnmarshalPubkey E pubKeyBytes of
             Inl err \<Rightarrow> Some (Errorf ''Failed to unmarshal pubkey'')
           | Inr pubKey \<Rightarrow>
               if PubkeyToAddress E pubKey \<noteq> signerAddress
               then Some (Errorf ''Signature does not match expected signer'') else None))"

text \<open>\<open>uint64(time.Now().Unix())\<close>.\<close>

definition unix_now :: "int \<Rightarrow> uint64" where
  "unix_now t = of_int (t div ns_per_sec)"

text \<open>The arguments of a call of the registry, as the code reads them one after the other.\<close>

definition binding_args :: "abi_arg list \<Rightarrow> (goerr + bytes \<times> bytes \<times> bytes \<times> uint64 \<times> uint64) outcome" where
  "binding_args args =
     (case arg_at args 0 of Panic p \<Rightarrow> Panic p | Done a0 \<Rightarrow>
      case arg_at args 4 of Panic p \<Rightarrow> Panic p | Done a4 \<Rightarrow>
      case (getBytesArg a0, getBytesArg a4) of
        (Some namehash, Some sig) \<Rightarrow>
          (case arg_at args 1 of
             Panic p \<Rightarrow> Panic p
           | Done (AAddress resolver) \<Rightarrow>
               (case as_uint64 (arg_at args 2) of Panic p \<Rightarrow> Panic p | Done expiresAt \<Rightarrow>
                case as_uint64 (arg_at args 3) of Panic p \<Rightarrow> Panic p | Done timestamp \<Rightarrow>
                Done (Inr (namehash, sig, resolver, expiresAt, timestamp)))
           | Done _ \<Rightarrow> Done (Inl (Errorf ''Failed to cast args[1] to common.Address'')))
      | _ \<Rightarrow> Done (Inl (Errorf ''Failed to cast args[0] or args[4] to []byte (signature)'')))"

definition validateTxData :: "('w, 'e) chain_env_scheme \<Rightarrow> txn \<Rightarrow> bytes \<Rightarrow> slice \<Rightarrow> bytes \<Rightarrow> (('w, 's) RecordStore_scheme, bool \<times> goerr option) go" where
  "validateTxData E tx contractAddr expectedNamehash signerAddress =
     (let txData = t_Data tx;
          chainID = (case t_ChainId tx of None \<Rightarrow> 0 | Some c \<Rightarrow> of_int c) in
      if length txData < 4 then gpanic ''slice bounds out of range''
      else case AbiMethodById E (take 4 txData) of
        Inl err \<Rightarrow> gret (False, Some (Errorf ''failed to get called method from ABI''))
      | Inr name \<Rightarrow>
      if name \<noteq> ''SubmitBinding''
      then gret (False, Some (Errorf ''Called method in SignedTx is not SubmitBinding''))
      else case AbiUnpack E name (drop 4 txData) of
        Inl err \<Rightarrow> gret (False, Some (Errorf ''failed to decode args''))
      | Inr args \<Rightarrow>
      gbind (glift (binding_args args)) (\<lambda>a.
      case a of
        Inl err \<Rightarrow> gret (False, Some err)
      | Inr (namehash, sig, resolver, expiresAt, timestamp) \<Rightarrow>
      if namehash \<noteq> sl_bytes expectedNamehash
      then gret (False, Some (Errorf ''Invalid namehash in signedTx''))
      else if expiresAt \<le> timestamp
      then gret (False, Some (Errorf ''args[2] is less than or equal to args[3] in signedTx''))
      else gbind (time_Now E) (\<lambda>now.
      case recent_enough timestamp (unix_now now) of
        Some err \<Rightarrow> gret (False, Some err)
      | None \<Rightarrow>
      (case GetDigest E (Some namehash) resolver expiresAt timestamp chainID contractAddr of
         Inl err \<Rightarrow> gret (False, Some (Errorf ''Cannot compute digest''))
       | Inr digest \<Rightarrow>
      (case check_binding_signer E digest sig signerAddress of
         Some err \<Rightarrow> gret (False, Some err)
       | None \<Rightarrow> simulateTx E (Some contractAddr) txData None)))))"

text \<open>The checks that need no chain: chain id, value, recipient and sender; the recipient is returned.\<close>

definition check_tx :: "('w, 'e) chain_env_scheme \<Rightarrow> txn \<Rightarrow> bytes \<Rightarrow> (goerr + bytes) outcome" where
  "check_tx E tx expectedFrom =
     (case ParseInt (Getenv E ''EVM_CHAIN_ID'') of
        Inl err \<Rightarrow> Done (Inl (Errorf ''Invalid ChainID''))
      | Inr chainID \<Rightarrow>
      let expectedTo = HexToAddress E (Getenv E ''EVM_ALTICA_REGISTRY_ADDRESS'') in
      if t_ChainId tx \<noteq> Some (sint chainID) then Done (Inl (Errorf ''unsupported chainID''))
      else case t_Value tx of
        None \<Rightarrow> Panic ''nil pointer dereference''
      | Some v \<Rightarrow>
      if v < min_value then Done (Inl (Errorf ''value mismatch''))
      else if t_To tx \<noteq> Some expectedTo then Done (Inl (Errorf ''to address mismatch''))
      else case getFromAddress E tx of
        Inl err \<Rightarrow> Done (Inl (Errorf ''Cannot get fromAddress''))
      | Inr fromAddress \<Rightarrow>
      if fromAddress \<noteq> expectedFrom then Done (Inl (Errorf ''fromAddress is not expected address''))
      else Done (Inr expectedTo))"

definition validate_decoded_tx :: "('w, 'e) chain_env_scheme \<Rightarrow> txn \<Rightarrow> bytes \<Rightarrow> slice \<Rightarrow> (('w, 's) RecordStore_scheme, bool \<times> goerr option) go" where
  "validate_decoded_tx E tx expectedFrom expectedNamehash =
     gbind (glift (check_tx E tx expectedFrom)) (\<lambda>c.
     case c of
       Inl err \<Rightarrow> gret (False, Some err)
     | Inr expectedTo \<Rightarrow>
     gbind (eth_Dial E (Getenv E ''EVM_RPC_URL'')) (\<lambda>dial.
     case dial of
       Some err \<Rightarrow> gret (False, Some (Wrapf ''failed to connect to Ethereum node'' err))
     | None \<Rightarrow>
     gbind (eth_CodeAt E expectedTo) (\<lambda>code.
     case code of
       Inl err \<Rightarrow> gret (False, Some (Wrapf ''failed to get code at contract address'' err))
     | Inr code \<Rightarrow>
     if length code = 0 then gret (False, Some (Errorf (''no code found at contract address '' @ AddrHex E expectedTo)))
     else gbind (eth_PendingNonceAt E expectedFrom) (\<lambda>n.
     case n of
       Inl err \<Rightarrow> gret (False, Some (Wrapf ''failed to fetch nonce'' err))
     | Inr nonce \<Rightarrow>
     if t_Nonce tx \<noteq> nonce then gret (False, Some (Errorf ''nonce mismatch''))
     else validateTxData E tx expectedTo expectedNamehash expectedFrom))))"

definition ValidateSignedTx :: "('w, 'e) chain_env_scheme \<Rightarrow> Record \<Rightarrow> (('w, 's) RecordStore_scheme, bool \<times> goerr option) go" where
  "ValidateSignedTx E record =
     gbind (glift (decodeSignedTx E (r_SignedTx record))) (\<lambda>d.
     case d of
       Inl err \<Rightarrow> gret (False, Some (Errorf ''Invalid signedTx''))
     | Inr tx \<Rightarrow>
     gbind (validate_decoded_tx E tx (r_Signer record) (r_Namehash record)) (\<lambda>(valid, err).
     if err \<noteq> None \<or> \<not> valid then gret (False, Some (Errorf ''signedTx validation failed''))
     else gret (valid, err)))"

end
