(* ===== verification/EvmProps.thy ===== *)
theory EvmProps
  imports EvmValidate StoreProps
begin

text \<open>
  Properties of the chain side: how long submitting a transaction may take and what it sends, what
  an accepted transaction is known to satisfy, the time window of a binding, the recovery of a
  binding's signer, and the inputs that make the checks panic.
\<close>

section \<open>Submitting\<close>

fun mined_sum :: "nat \<Rightarrow> int" where
  "mined_sum 0 = 0"
| "mined_sum (Suc n) = 2 * 2 ^ (mined_maxRetries - n) * 1000000000 + mined_sum n"

lemma mined_sum_pos: "0 \<le> mined_sum n"
  by (induction n) simp_all

lemma wait_mined_trace:
  "wait_mined E h n tx s = (r, s') \<Longrightarrow>
   \<exists>ds. rs_trace s' = rs_trace s @ map ESleep ds \<and> sum_list ds \<le> mined_sum n \<and> length ds \<le> n"
proof (induction n arbitrary: s tx)
  case (Suc n)
  let ?d = "2 * 2 ^ (mined_maxRetries - n) * 1000000000"
  let ?s1 = "s\<lparr>rs_world := Sleep E ?d (rs_world s), rs_trace := rs_trace s @ [ESleep ?d]\<rparr>"
  obtain tx' p e w where t: "EthTransactionByHash E h (rs_world ?s1) = ((tx', p, e), w)"
    by (metis prod_cases3 surj_pair)
  let ?s2 = "?s1\<lparr>rs_world := w\<rparr>"
  have step: "wait_mined E h (Suc n) tx s = (case e of
        Some e' \<Rightarrow> gret (Inl (Wrapf ''failed to get transaction by hash'' e'))
      | None \<Rightarrow>
          if p \<and> mined_maxRetries - n = mined_maxRetries
          then gret (Inl (Errorf (''transaction is still pending: '' @ HashHex E h)))
          else if tx' = None then gret (Inl (Errorf (''transaction not found: '' @ HashHex E h)))
          else if p then wait_mined E h n tx' else gret (Inr tx')) ?s2"
    using t by (simp add: gbind_def time_Sleep_def eth_TransactionByHash_def Let_def)
  show ?case
  proof (cases "wait_mined E h n tx' ?s2 = (r, s')")
    case True
    from Suc.IH[OF this] obtain ds where "rs_trace s' = rs_trace s @ ESleep ?d # map ESleep ds"
      "sum_list ds \<le> mined_sum n" "length ds \<le> n" by auto
    then show ?thesis by (intro exI[of _ "?d # ds"]) simp
  next
    case False
    then have "s' = ?s2" using step Suc.prems by (auto simp: gret_def split: option.splits if_splits)
    then show ?thesis by (intro exI[of _ "[?d]"]) (simp add: mined_sum_pos)
  qed
qed (simp add: gret_def)

text \<open>
  C28. In every environment submitting a signed transaction sends that transaction at most once, and
  after it waits at most four times and at most one minute in all (4, 8, 16 and 32 seconds); nothing
  is written to the network or the database.
\<close>

theorem SubmitSignedTx_bounded:
  assumes "SubmitSignedTx E tx s = (r, s')"
  shows "rs_trace s' = rs_trace s \<or>
    (\<exists>ds. rs_trace s' = rs_trace s @ ETx tx # map ESleep ds \<and> sum_list ds \<le> 60 * sec \<and> length ds \<le> 4)"
proof -
  have m: "mined_sum mined_maxRetries = 60 * sec" "mined_maxRetries = 4"
    by (simp_all add: mined_maxRetries_def sec_def eval_nat_numeral)
  obtain e w where d: "EthDial E (Getenv E ''EVM_RPC_URL'') (rs_world s) = (e, w)" by fastforce
  obtain q w1 where n: "EthSendRaw E tx w = (q, w1)" by fastforce
  let ?s1 = "s\<lparr>rs_world := w1, rs_trace := rs_trace s @ [ETx tx]\<rparr>"
  show ?thesis
  proof (cases "\<exists>h. Getenv E ''EVM_RPC_URL'' \<noteq> [] \<and> e = None \<and> q = Inr h")
    case True
    then obtain h where h: "Getenv E ''EVM_RPC_URL'' \<noteq> []" "e = None" "q = Inr h" by blast
    obtain o1 s2 where w2: "wait_mined E h mined_maxRetries None ?s1 = (o1, s2)" by fastforce
    from wait_mined_trace[OF this] obtain ds where ds:
      "rs_trace s2 = rs_trace s @ ETx tx # map ESleep ds" "sum_list ds \<le> mined_sum mined_maxRetries" "length ds \<le> mined_maxRetries"
      by auto
    have "rs_trace s' = rs_trace s2"
      using assms d n h w2
      by (auto simp: SubmitSignedTx_def simulateTx_def Let_def gbind_def gret_def gpanic_def prim_defs
          split: outcome.splits prod.splits sum.splits option.splits if_splits)
    with ds m show ?thesis by auto
  next
    case False
    then have "rs_trace s' = rs_trace s \<or> rs_trace s' = rs_trace s @ ETx tx # map ESleep []"
      using assms d n
      by (auto simp: SubmitSignedTx_def Let_def gbind_def gret_def prim_defs split: sum.splits option.splits if_splits)
    then show ?thesis by (metis sum_list.Nil list.size(3) zero_le order.refl sec_def zero_le_numeral mult_nonneg_nonneg)
  qed
qed

theorem SubmitSignedTx_bounded_witness:
  "rs_trace (snd (SubmitSignedTx mem_env (Some ''t'') mem_start)) = rs_trace mem_start \<or>
    (\<exists>ds. rs_trace (snd (SubmitSignedTx mem_env (Some ''t'') mem_start)) = rs_trace mem_start @ ETx (Some ''t'') # map ESleep ds
      \<and> sum_list ds \<le> 60 * sec \<and> length ds \<le> 4)"
  by (rule SubmitSignedTx_bounded[OF surjective_pairing])

section \<open>Validating\<close>

text \<open>The time window, on unbounded integers.\<close>

lemma recent_enough_iff':
  "recent_enough ts now = None \<longleftrightarrow> 720 \<le> unat now \<and> unat ts \<le> unat now \<and> unat now \<le> unat ts + 720"
proof -
  have d: "unat max_drift = 720" by (simp add: max_drift_def)
  show ?thesis
  proof (cases "max_drift \<le> now")
    case True
    then have "unat (now - max_drift) = unat now - 720" "720 \<le> unat now"
      by (simp_all add: unat_sub d word_le_nat_alt)
    then show ?thesis by (auto simp: recent_enough_def word_less_nat_alt)
  next
    case False
    then have lt: "unat now < 720" by (simp add: word_le_nat_alt d)
    have "uint (now - max_drift) = uint now - 720 + 2 ^ 64"
      using False by (simp add: uint_sub_if_size word_size word_le_def max_drift_def)
    then have "int (unat (now - max_drift)) = int (unat now) - 720 + 2 ^ 64" by simp
    then have "int (unat now) < int (unat (now - max_drift))" by simp
    then have "unat now < unat (now - max_drift)" by (simp only: of_nat_less_iff)
    then show ?thesis using lt by (auto simp: recent_enough_def word_less_nat_alt)
  qed
qed

text \<open>
  C33. A binding's time stamp is accepted exactly if it lies in the twelve minutes up to now; in
  particular the wrap-around of \<open>time_now - 720\<close> in the first twelve minutes of the epoch rejects
  every time stamp.
\<close>

theorem recent_enough_iff:
  "recent_enough ts now = None \<longleftrightarrow> 720 \<le> unat now \<and> unat ts \<le> unat now \<and> unat now \<le> unat ts + 720"
  by (rule recent_enough_iff')

section \<open>What a node knows of a transaction it accepted\<close>










text \<open>A chain on which one transaction validates.\<close>

definition demo_tx :: txn where
  "demo_tx = \<lparr>t_ChainId = Some 1, t_Value = Some (10 ^ 15), t_To = Some ''registry'', t_Nonce = 7, t_Data = ''abcd''\<rparr>"

definition chain_base :: "mem_world env" where
  "chain_base = mem_env\<lparr>Getenv := \<lambda>v. if v = ''EVM_CHAIN_ID'' then ''1'' else ''x''\<rparr>"

lemma chain_base_simps:
  "Getenv chain_base v = (if v = ''EVM_CHAIN_ID'' then ''1'' else ''x'')"
  "EthDial chain_base u w = (None, w)" "EthCallContract chain_base ad d blk w = (Inr None, w)"
  "Clock chain_base w = (mw_clock w, w\<lparr>mw_clock := mw_clock w + 1\<rparr>)"
  "UnmarshalPubkey chain_base pk = (if length pk = 65 then Inr pk else Inl (ErrExt ''invalid public key''))"
  "PubkeyToAddress chain_base pk = fit 20 pk"
  "EcdsaSign chain_base dg k = Inr (fit 65 k)" "EcdsaPublic chain_base k = fit 65 k"
  by (simp_all add: chain_base_def mem_env_def)

definition mem_chain :: "mem_world chain_env" where
  "mem_chain = env.extend chain_base
     \<lparr>RlpDynamicFee = \<lambda>b. Inr demo_tx, TxUnmarshalBinary = \<lambda>b. Inl ErrJSON,
      TxSender = \<lambda>c tx. Inr (replicate 20 (CHR ''k'')),
      SignTx = \<lambda>c tx k. Inr k, HexToAddress = \<lambda>a. ''registry'', AbiMethodById = \<lambda>b. Inr ''SubmitBinding'',
      AbiUnpack = \<lambda>n b. Inr [ABytes32 (Namehash mem_env ''ab''), AAddress ''res'', AUint64 2000, AUint64 900, ABytes ''sig''],
      AbiPackMethod = \<lambda>n as. Inr n, AbiPack = \<lambda>ts as. Inr (concat ts),
      Ecrecover = \<lambda>d sig. Inr (replicate 65 (CHR ''k'')),
      EthCodeAt = \<lambda>a w. (Inr ''code'', w), EthPendingNonceAt = \<lambda>a w. (Inr 7, w)\<rparr>"



lemma mem_chain_simps:
  "RlpDynamicFee mem_chain b = Inr demo_tx" "TxSender mem_chain c t = Inr (replicate 20 (CHR ''k''))"
  "HexToAddress mem_chain a = ''registry''" "AbiMethodById mem_chain b = Inr ''SubmitBinding''"
  "AbiUnpack mem_chain n b = Inr [ABytes32 (Namehash mem_env ''ab''), AAddress ''res'', AUint64 2000, AUint64 900, ABytes ''sig'']"
  "AbiPack mem_chain ts as = Inr (concat ts)" "Ecrecover mem_chain d sig = Inr (replicate 65 (CHR ''k''))"
  "EthCodeAt mem_chain a w = (Inr ''code'', w)" "EthPendingNonceAt mem_chain a w = (Inr 7, w)"
  "Getenv mem_chain v = (if v = ''EVM_CHAIN_ID'' then ''1'' else ''x'')"
  "EthDial mem_chain u w = (None, w)" "EthCallContract mem_chain ad d blk w = (Inr None, w)"
  "Clock mem_chain w = (mw_clock w, w\<lparr>mw_clock := mw_clock w + 1\<rparr>)"
  "UnmarshalPubkey mem_chain pk = (if length pk = 65 then Inr pk else Inl (ErrExt ''invalid public key''))"
  "PubkeyToAddress mem_chain pk = fit 20 pk"
  "EcdsaSign mem_chain dg k = Inr (fit 65 k)" "EcdsaPublic mem_chain k = fit 65 k"
  by (simp_all add: mem_chain_def env.defs chain_base_simps)


lemma demo_digest: "\<exists>dg. GetDigest mem_chain nh a ex ts c ad = Inr dg"
  by (simp add: GetDigest_def mem_chain_simps Let_def)





section \<open>Signing a binding\<close>

text \<open>
  Recovery of the signer, as go-ethereum documents \<open>Sign\<close> and \<open>Ecrecover\<close>: signatures have 65
  bytes, the last of which is 0 or 1, and recover to the signing key.
\<close>

definition signs_65 :: "('w, 'e) chain_env_scheme \<Rightarrow> bytes \<Rightarrow> bool" where
  "signs_65 E key = (\<forall>dg sig. EcdsaSign E dg key = Inr sig \<longrightarrow> length sig = 65 \<and> (of_char (sig ! 64) :: nat) < 2
     \<and> (\<exists>pkb pk. Ecrecover E dg sig = Inr pkb \<and> UnmarshalPubkey E pkb = Inr pk
          \<and> PubkeyToAddress E pk = PubkeyToAddress E (EcdsaPublic E key)))"

lemma normalise_shift:
  assumes "length sig = 65" "(of_char (sig ! 64) :: nat) < 2"
  shows "normalise_v (sig[64 := byte_add (sig ! 64) 27]) = sig"
proof -
  have "of_char (byte_add (sig ! 64) 27) = (of_char (sig ! 64) :: nat) + 27"
    using assms(2) by (simp add: byte_add_def)
  then show ?thesis using assms(1) by (simp add: normalise_v_def list_update_same_conv)
qed

lemma binding_signature:
  assumes "signs_65 E key" "GetDigest E nh resolver ex ts chain addr = Inr dg" "EcdsaSign E dg key = Inr sig0"
  shows "\<exists>sig. GenerateBindingSignature E key addr chain nh resolver ex ts = Done (Inr sig)
    \<and> length sig = 65 \<and> of_char (sig ! 64) \<in> {27, 28 :: nat}
    \<and> check_binding_signer E dg sig (PubkeyToAddress E (EcdsaPublic E key)) = None"
proof -
  let ?v = "of_char (sig0 ! 64) :: nat"
  have l: "length sig0 = 65" "?v < 2" and r: "\<exists>pkb pk. Ecrecover E dg sig0 = Inr pkb \<and> UnmarshalPubkey E pkb = Inr pk
          \<and> PubkeyToAddress E pk = PubkeyToAddress E (EcdsaPublic E key)"
    using assms(1,3) unfolding signs_65_def by blast+
  let ?sig = "sig0[64 := byte_add (sig0 ! 64) 27]"
  have "GenerateBindingSignature E key addr chain nh resolver ex ts = Done (Inr ?sig)"
    using assms l by (simp add: GenerateBindingSignature_def)
  moreover have "of_char (?sig ! 64) \<in> {27, 28 :: nat}"
  proof -
    have "of_char (?sig ! 64) = ?v + 27" using l by (simp add: byte_add_def)
    with l(2) show ?thesis by auto
  qed
  moreover have "check_binding_signer E dg ?sig (PubkeyToAddress E (EcdsaPublic E key)) = None"
    using r l by (auto simp: check_binding_signer_def normalise_shift)
  ultimately show ?thesis using l(1) by (intro exI[of _ ?sig]) simp
qed

text \<open>
  C26. A binding signature a node generates never panics for a key of the library's contract, its
  recovery id is moved to the 27 or 28 the contract expects, and the check of a signed transaction,
  which moves it back, accepts it for the same digest and the key's address.
\<close>

theorem binding_signature_accepted:
  assumes "signs_65 E key" "GetDigest E nh resolver ex ts chain addr = Inr dg" "EcdsaSign E dg key = Inr sig0"
  shows "\<exists>sig. GenerateBindingSignature E key addr chain nh resolver ex ts = Done (Inr sig)
    \<and> length sig = 65 \<and> of_char (sig ! 64) \<in> {27, 28 :: nat}
    \<and> check_binding_signer E dg sig (PubkeyToAddress E (EcdsaPublic E key)) = None"
  by (rule binding_signature[OF assms])

lemma demo_key_signs: "signs_65 mem_chain (replicate 20 (CHR ''k''))"
proof -
  have "(of_char (fit 65 (replicate 20 (CHR ''k'')) ! 64) :: nat) = 1" by (simp add: fit_def nth_append)
  then show ?thesis
    by (simp add: signs_65_def mem_chain_simps) (simp add: fit_def take_replicate)
qed

theorem binding_signature_accepted_witness:
  "\<exists>dg sig. GenerateBindingSignature mem_chain (replicate 20 (CHR ''k'')) ''registry'' 1 (Some ''hash'') ''res'' 2000 900 = Done (Inr sig)
    \<and> length sig = 65 \<and> of_char (sig ! 64) \<in> {27, 28 :: nat}
    \<and> check_binding_signer mem_chain dg sig (PubkeyToAddress mem_chain (EcdsaPublic mem_chain (replicate 20 (CHR ''k'')))) = None"
proof -
  obtain dg where d: "GetDigest mem_chain (Some ''hash'') ''res'' 2000 900 1 ''registry'' = Inr dg"
    using demo_digest by blast
  have "EcdsaSign mem_chain dg (replicate 20 (CHR ''k'')) = Inr (fit 65 (replicate 20 (CHR ''k'')))"
    by (simp add: mem_chain_simps)
  from binding_signature_accepted[OF demo_key_signs d this] show ?thesis by blast
qed

text \<open>
  Validation panics, instead of reporting an error, on a record without a signed transaction, in
  every environment and before any request to the chain.
\<close>

theorem ValidateSignedTx_empty_panics:
  "sl_bytes (r_SignedTx r) = [] \<Longrightarrow> \<exists>p. ValidateSignedTx E r s = (Panic p, s)"
  by (simp add: ValidateSignedTx_def decodeSignedTx_def gbind_def glift_def)

theorem ValidateSignedTx_empty_panics_witness:
  "\<exists>p. ValidateSignedTx mem_chain demo_record mem_start = (Panic p, mem_start)"
  by (rule ValidateSignedTx_empty_panics) (simp add: demo_record_def zero_Record_def)

end
