(* ===== verification/NodeEnv.thy ===== *)
theory NodeEnv
  imports EvmValidate Voting
begin

text \<open>
  The node around the store: the state of the gossip manager added to the store's, the libraries the
  node calls as further parameters (pubsub, contract bindings, the listener's
  own LevelDB, the local time zone), and the trace of what they do to the outside.
\<close>

section \<open>Parameters\<close>

text \<open>The fields of an event log the code reads.\<close>

record eth_log =
  lg_Topics :: "bytes list"
  lg_Data :: bytes
  lg_BlockNumber :: uint64

text \<open>An unpacked contract event: name hash, address (signer or resolver) and expiry.\<close>

record contract_event =
  ce_Namehash :: bytes
  ce_Address :: bytes
  ce_ExpiresAt :: uint64

record transact_opts =
  to_Key :: bytes
  to_ChainID :: int
  to_GasPrice :: int
  to_GasLimit :: uint64

record 'w node_env = "'w chain_env" +
  LocalTime :: "int \<Rightarrow> goerr + string"
  GossipPublish :: "string \<Rightarrow> bytes \<Rightarrow> 'w \<Rightarrow> goerr option \<times> 'w"
  UnpackLog :: "string \<Rightarrow> eth_log \<Rightarrow> goerr + contract_event"
  EthChainID :: "'w \<Rightarrow> (goerr + int) \<times> 'w"
  EthSuggestGasPrice :: "'w \<Rightarrow> (goerr + int) \<times> 'w"
  EthBlockNumber :: "'w \<Rightarrow> (goerr + uint64) \<times> 'w"
  EthFilterLogs :: "bytes \<Rightarrow> int \<Rightarrow> int \<Rightarrow> bytes list \<Rightarrow> 'w \<Rightarrow> (goerr option \<times> eth_log list) \<times> 'w"
  EthSubscribe :: "bytes \<Rightarrow> int \<Rightarrow> bytes list \<Rightarrow> 'w \<Rightarrow> goerr option \<times> 'w"
  HexToECDSA :: "string \<Rightarrow> goerr + bytes"
  NewTransactor :: "bytes \<Rightarrow> int \<Rightarrow> goerr option"
  ContractCall :: "string \<Rightarrow> bytes \<Rightarrow> 'w \<Rightarrow> (goerr + abi_arg list) \<times> 'w"
  ContractTransact :: "transact_opts \<Rightarrow> string \<Rightarrow> bytes \<Rightarrow> bytes \<Rightarrow> bool \<Rightarrow> 'w \<Rightarrow> (goerr + bytes) \<times> 'w"
  LevelOpen :: "'w \<Rightarrow> goerr option \<times> 'w"
  LevelGet :: "string \<Rightarrow> 'w \<Rightarrow> (goerr + bytes) \<times> 'w"
  LevelPut :: "string \<Rightarrow> bytes \<Rightarrow> 'w \<Rightarrow> goerr option \<times> 'w"

section \<open>State\<close>

datatype node_effect =
    NPublish string bytes
  | NDecideSigner bytes bytes bool
  | NLevel string bytes

record 'w node = "'w RecordStore" +
  gs_eventSeen :: "(string, unit) gomap"
  gs_messageSeen :: "(string, unit) gomap"
  nd_trace :: "node_effect list"

section \<open>Primitive operations\<close>

text \<open>A query of the outside, and an action that is also recorded.\<close>

definition ask :: "('w \<Rightarrow> 'a \<times> 'w) \<Rightarrow> (('w, 's) RecordStore_scheme, 'a) go" where
  "ask f = (\<lambda>s. case f (rs_world s) of (r, w) \<Rightarrow> (Done r, s\<lparr>rs_world := w\<rparr>))"

definition act :: "node_effect \<Rightarrow> ('w \<Rightarrow> 'a \<times> 'w) \<Rightarrow> (('w, 's) node_scheme, 'a) go" where
  "act e f = (\<lambda>s. case f (rs_world s) of (r, w) \<Rightarrow>
     (Done r, s\<lparr>rs_world := w, nd_trace := nd_trace s @ [e]\<rparr>))"

text \<open>The JSON form of a \<open>time.Time\<close>: its text in the local zone.\<close>

definition enc_time :: "('w, 'e) node_env_scheme \<Rightarrow> int \<Rightarrow> goerr + json" where
  "enc_time E t = (case LocalTime E t of Inl err \<Rightarrow> Inl err | Inr s \<Rightarrow> Inr (JStr s))"

definition dec_time :: "int decoder" where
  "dec_time j old = (case j of
     JNull \<Rightarrow> Inr old
   | JStr s \<Rightarrow> (case parse_rfc3339 s of None \<Rightarrow> Inl ErrJSON | Some t \<Rightarrow> Inr t)
   | _ \<Rightarrow> Inl ErrJSON)"

end
