(* ===== verification/Gossip.thy ===== *)
theory Gossip
  imports NodeEnv
begin

text \<open>
  Gossip (\<open>core/gossip.go\<close>, \<open>utils/interfaces.go\<close>) and the node's handlers of it
  (\<open>core/node.go\<close>): the messages with their JSON text, publishing, the two listeners with their
  duplicate caches, and what the node does with a name binding and a registration intent. A
  subscription is the list of the messages it delivers before it fails.
\<close>

section \<open>Name-bound events\<close>

record NameBoundMsg = NameBoundEvent +
  ev_Timestamp :: int

definition zero_NameBound :: NameBoundMsg where
  "zero_NameBound = \<lparr>ev_Namehash = replicate 32 (CHR 0x00), ev_Resolver = zero_address, ev_ExpiresAt = 0,
     ev_ChainID = 0, ev_EventID = [], ev_Timestamp = 0\<rparr>"

text \<open>A \<open>[n]byte\<close> is an array of numbers; missing elements are zeroed, surplus ones dropped.\<close>

definition enc_byte_array :: "bytes \<Rightarrow> json" where
  "enc_byte_array b = JArr (map (\<lambda>c. JNum (nat_str (of_char c))) b)"

definition dec_uint8 :: "json \<Rightarrow> char \<Rightarrow> goerr + char" where
  "dec_uint8 j old = (case j of
     JNull \<Rightarrow> Inr old
   | JNum l \<Rightarrow> (case ParseUint l of Inl e \<Rightarrow> Inl ErrJSON
                | Inr w \<Rightarrow> if unat w < 256 then Inr (char_of (unat w)) else Inl ErrJSON)
   | _ \<Rightarrow> Inl ErrJSON)"

fun dec_elems :: "json list \<Rightarrow> bytes \<Rightarrow> goerr + bytes" where
  "dec_elems js [] = Inr []"
| "dec_elems [] old = Inr (map (\<lambda>_. CHR 0x00) old)"
| "dec_elems (j # js) (c # old) =
     (case dec_uint8 j c of Inl e \<Rightarrow> Inl e
      | Inr x \<Rightarrow> (case dec_elems js old of Inl e \<Rightarrow> Inl e | Inr xs \<Rightarrow> Inr (x # xs)))"

definition dec_byte_array :: "bytes decoder" where
  "dec_byte_array j old = (case j of JNull \<Rightarrow> Inr old | JArr js \<Rightarrow> dec_elems js old | _ \<Rightarrow> Inl ErrJSON)"

definition dec_address :: "('e) crypto_scheme \<Rightarrow> bytes decoder" where
  "dec_address C j old = (if j = JNull then Inr old else AddrFromJSON C j)"

definition enc_NameBound :: "('e) crypto_scheme \<Rightarrow> ('x) NameBoundEvent_scheme \<Rightarrow> json \<Rightarrow> json" where
  "enc_NameBound C evt timestamp = JObj
     [(''namehash'', enc_byte_array (ev_Namehash evt)), (''resolver'', AddrToJSON C (ev_Resolver evt)),
      (''expires_at'', enc_uint64 (ev_ExpiresAt evt)), (''chain_id'', enc_uint64 (ev_ChainID evt)),
      (''event_id'', JStr (ev_EventID evt)), (''timestamp'', timestamp)]"

definition step_NameBound :: "('e) crypto_scheme \<Rightarrow> bytes \<Rightarrow> json \<Rightarrow> NameBoundMsg \<Rightarrow> goerr + NameBoundMsg" where
  "step_NameBound C k j v =
     (if EqualFold k ''namehash'' then field dec_byte_array ev_Namehash (\<lambda>x v. v\<lparr>ev_Namehash := x\<rparr>) j v
      else if EqualFold k ''resolver'' then field (dec_address C) ev_Resolver (\<lambda>x v. v\<lparr>ev_Resolver := x\<rparr>) j v
      else if EqualFold k ''expires_at'' then field dec_uint64 ev_ExpiresAt (\<lambda>x v. v\<lparr>ev_ExpiresAt := x\<rparr>) j v
      else if EqualFold k ''chain_id'' then field dec_uint64 ev_ChainID (\<lambda>x v. v\<lparr>ev_ChainID := x\<rparr>) j v
      else if EqualFold k ''event_id'' then field dec_string ev_EventID (\<lambda>x v. v\<lparr>ev_EventID := x\<rparr>) j v
      else if EqualFold k ''timestamp'' then field dec_time ev_Timestamp (\<lambda>x v. v\<lparr>ev_Timestamp := x\<rparr>) j v
      else Inr v)"

definition dec_NameBound :: "('e) crypto_scheme \<Rightarrow> bytes \<Rightarrow> goerr + NameBoundMsg" where
  "dec_NameBound C data = (case json_parse data of
     None \<Rightarrow> Inl ErrJSON | Some j \<Rightarrow> dec_struct (step_NameBound C) j zero_NameBound)"

section \<open>Record messages\<close>

text \<open>
  \<open>Records\<close> is a slice of interface values: \<open>None\<close> is a nil interface. On the sending side the
  entries are records; the decoder cannot build one (it does not know the concrete type), so it
  accepts null and reports an error for every other value.
\<close>

record RecordMessage =
  rm_Type :: string
  rm_Records :: "Record option list option"
  rm_StateRoot :: slice
  rm_Version :: int64
  rm_Filter :: slice
  rm_BatchRange :: "int64 \<times> int64"
  rm_PeerID :: string
  rm_Consensus :: "(string, bool) gomap option"
  rm_Timestamp :: int
  rm_MessageID :: string

definition zero_RecordMessage :: RecordMessage where
  "zero_RecordMessage = \<lparr>rm_Type = [], rm_Records = None, rm_StateRoot = None, rm_Version = 0,
     rm_Filter = None, rm_BatchRange = (0, 0), rm_PeerID = [], rm_Consensus = None, rm_Timestamp = 0,
     rm_MessageID = []\<rparr>"

definition opt_bytes :: "bytes \<Rightarrow> slice \<Rightarrow> (bytes \<times> json) list" where
  "opt_bytes k b = (if sl_bytes b = [] then [] else [(k, enc_bytes b)])"

definition enc_entry :: "('e) crypto_scheme \<Rightarrow> Record option \<Rightarrow> json" where
  "enc_entry C p = (case p of None \<Rightarrow> JNull | Some r \<Rightarrow> enc_Record C r)"

definition enc_RecordMessage :: "('e) crypto_scheme \<Rightarrow> RecordMessage \<Rightarrow> json \<Rightarrow> json" where
  "enc_RecordMessage C m timestamp = JObj
     ([(''type'', JStr (rm_Type m))]
      @ (case rm_Records m of None \<Rightarrow> [] | Some rs \<Rightarrow> if rs = [] then [] else [(''records'', JArr (map (enc_entry C) rs))])
      @ opt_bytes ''state_root'' (rm_StateRoot m)
      @ [(''version'', enc_int64 (rm_Version m))]
      @ opt_bytes ''filter'' (rm_Filter m)
      @ [(''batch_range'', JArr [enc_int64 (fst (rm_BatchRange m)), enc_int64 (snd (rm_BatchRange m))])]
      @ omitempty ''peer_id'' (rm_PeerID m)
      @ (case rm_Consensus m of None \<Rightarrow> [] | Some c \<Rightarrow> if c = [] then [] else [(''consensus'', enc_map id JBool (Some c))])
      @ [(''timestamp'', timestamp)]
      @ omitempty ''message_id'' (rm_MessageID m))"

text \<open>Null, an array of nulls, or an error.\<close>

definition dec_records :: "Record option list option decoder" where
  "dec_records j old = (case j of
     JNull \<Rightarrow> Inr None
   | JArr js \<Rightarrow> if list_all (\<lambda>x. x = JNull) js then Inr (Some (map (\<lambda>_. None) js)) else Inl ErrJSON
   | _ \<Rightarrow> Inl ErrJSON)"

definition dec_range :: "(int64 \<times> int64) decoder" where
  "dec_range j old = (case j of
     JNull \<Rightarrow> Inr old
   | JArr [] \<Rightarrow> Inr (0, 0)
   | JArr [a] \<Rightarrow> map_sum id (\<lambda>x. (x, 0)) (dec_int64 a (fst old))
   | JArr (a # b # js) \<Rightarrow> (case (dec_int64 a (fst old), dec_int64 b (snd old)) of
        (Inr x, Inr y) \<Rightarrow> Inr (x, y) | _ \<Rightarrow> Inl ErrJSON)
   | _ \<Rightarrow> Inl ErrJSON)"

definition step_RecordMessage :: "bytes \<Rightarrow> json \<Rightarrow> RecordMessage \<Rightarrow> goerr + RecordMessage" where
  "step_RecordMessage k j m =
     (if EqualFold k ''type'' then field dec_string rm_Type (\<lambda>x m. m\<lparr>rm_Type := x\<rparr>) j m
      else if EqualFold k ''records'' then field dec_records rm_Records (\<lambda>x m. m\<lparr>rm_Records := x\<rparr>) j m
      else if EqualFold k ''state_root'' then field dec_bytes rm_StateRoot (\<lambda>x m. m\<lparr>rm_StateRoot := x\<rparr>) j m
      else if EqualFold k ''version'' then field dec_int64 rm_Version (\<lambda>x m. m\<lparr>rm_Version := x\<rparr>) j m
      else if EqualFold k ''filter'' then field dec_bytes rm_Filter (\<lambda>x m. m\<lparr>rm_Filter := x\<rparr>) j m
      else if EqualFold k ''batch_range'' then field dec_range rm_BatchRange (\<lambda>x m. m\<lparr>rm_BatchRange := x\<rparr>) j m
      else if EqualFold k ''peer_id'' then field dec_string rm_PeerID (\<lambda>x m. m\<lparr>rm_PeerID := x\<rparr>) j m
      else if EqualFold k ''consensus'' then
        field (dec_map Inr (\<lambda>j. dec_bool j False)) rm_Consensus (\<lambda>x m. m\<lparr>rm_Consensus := x\<rparr>) j m
      else if EqualFold k ''timestamp'' then field dec_time rm_Timestamp (\<lambda>x m. m\<lparr>rm_Timestamp := x\<rparr>) j m
      else if EqualFold k ''message_id'' then field dec_string rm_MessageID (\<lambda>x m. m\<lparr>rm_MessageID := x\<rparr>) j m
      else Inr m)"

definition dec_RecordMessage :: "bytes \<Rightarrow> goerr + RecordMessage" where
  "dec_RecordMessage data = (case json_parse data of
     None \<Rightarrow> Inl ErrJSON | Some j \<Rightarrow> dec_struct step_RecordMessage j zero_RecordMessage)"

end
