(* ===== verification/NodeOps.thy ===== *)
theory NodeOps
  imports Gossip
begin

text \<open>
  The node's handlers (\<open>core/node.go\<close>) and the gossip manager's publishing and listening
  (\<open>core/gossip.go\<close>).
\<close>

definition GossipTopicNameBound :: string where "GossipTopicNameBound = ''altica-evm-namebound''"
definition GossipTopicRecords :: string where "GossipTopicRecords = ''altica-records''"

section \<open>Publishing\<close>

definition publish :: "('w, 'e) node_env_scheme \<Rightarrow> string \<Rightarrow> bytes \<Rightarrow> (('w, 's) node_scheme, goerr option) go" where
  "publish E topic data = act (NPublish topic data) (GossipPublish E topic data)"

definition PublishNameBound :: "('w, 'e) node_env_scheme \<Rightarrow> NameBoundEvent \<Rightarrow> (('w, 's) node_scheme, goerr option) go" where
  "PublishNameBound E evt =
     gbind (time_Now E) (\<lambda>now.
     case enc_time E now of
       Inl err \<Rightarrow> gret (Some err)
     | Inr timestamp \<Rightarrow> publish E GossipTopicNameBound (json_print (enc_NameBound E evt timestamp)))"

definition PublishRecordMessage :: "('w, 'e) node_env_scheme \<Rightarrow> RecordMessage \<Rightarrow> (('w, 's) node_scheme, goerr option) go" where
  "PublishRecordMessage E msg =
     gbind (time_Now E) (\<lambda>now.
     case enc_time E now of
       Inl err \<Rightarrow> gret (Some err)
     | Inr timestamp \<Rightarrow> publish E GossipTopicRecords (json_print (enc_RecordMessage E msg timestamp)))"

definition intent_message :: "Record \<Rightarrow> bytes \<Rightarrow> string \<Rightarrow> RecordMessage" where
  "intent_message record stateRoot peerID = zero_RecordMessage\<lparr>
     rm_Type := ''registration_intent'', rm_Records := Some [Some record], rm_Version := r_Version record,
     rm_StateRoot := Some stateRoot, rm_PeerID := peerID\<rparr>"

definition PublishRecord :: "('w, 'e) node_env_scheme \<Rightarrow> Record \<Rightarrow> (('w, 's) node_scheme, goerr option) go" where
  "PublishRecord E record =
     gbind (computeStateRoot E) (\<lambda>stateRoot.
     gbind (gread rs_hostID) (\<lambda>peerID.
     gbind (PublishRecordMessage E (intent_message record stateRoot peerID)) (\<lambda>err.
     case err of
       Some e \<Rightarrow>
         gbind (RejectRecord E (r_Domain record)) (\<lambda>_.
         gret (Some (Wrapf ''failed to publish record message'' e)))
     | None \<Rightarrow> gret None)))"

section \<open>Handling\<close>

definition handleNameBoundEvent :: "('w, 'e) env_scheme \<Rightarrow> NameBoundEvent \<Rightarrow> (('w, 's) RecordStore_scheme, unit) go" where
  "handleNameBoundEvent E evt = gbind (BindAddressResolver E evt) (\<lambda>_. gret ())"

text \<open>
  One record of a registration intent. The status and the signature of the stored record are looked
  at and only logged, so they do not appear; the vote is the result of validating the transaction.
\<close>

definition handle_intent :: "('w, 'e) chain_env_scheme \<Rightarrow> Record option \<Rightarrow> (('w, 's) RecordStore_scheme, unit) go" where
  "handle_intent E entry =
     (case entry of
        None \<Rightarrow> gpanic ''nil pointer dereference''
      | Some r \<Rightarrow>
     gbind (Get E (r_Domain r)) (\<lambda>found.
     case found of
       None \<Rightarrow> gret ()
     | Some record \<Rightarrow>
     gbind (ValidateSignedTx E record) (\<lambda>(valid, err).
     gbind (gread rs_voting) (\<lambda>vm.
     case vm of
       None \<Rightarrow> gret ()
     | Some v \<Rightarrow> gbind (SubmitVote E v (r_Domain record) valid) (\<lambda>_. gret ())))))"

fun handle_intents :: "('w, 'e) chain_env_scheme \<Rightarrow> Record option list \<Rightarrow> (('w, 's) RecordStore_scheme, unit) go" where
  "handle_intents E [] = gret ()"
| "handle_intents E (e # es) = gbind (handle_intent E e) (\<lambda>_. handle_intents E es)"

definition handleRegistrationIntent :: "('w, 'e) chain_env_scheme \<Rightarrow> RecordMessage \<Rightarrow> (('w, 's) RecordStore_scheme, unit) go" where
  "handleRegistrationIntent E msg = handle_intents E (case rm_Records msg of None \<Rightarrow> [] | Some es \<Rightarrow> es)"

definition handleRecordMessage :: "('w, 'e) chain_env_scheme \<Rightarrow> RecordMessage \<Rightarrow> (('w, 's) RecordStore_scheme, unit) go" where
  "handleRecordMessage E msg =
     (if rm_Type msg = ''registration_intent'' then handleRegistrationIntent E msg else gret ())"

section \<open>Listening\<close>

text \<open>One message of the name-bound topic: decode, drop duplicates, handle.\<close>

definition on_NameBound :: "('w, 'e) env_scheme \<Rightarrow> bytes \<Rightarrow> (('w, 's) node_scheme, unit) go" where
  "on_NameBound E data =
     (case dec_NameBound E data of
        Inl err \<Rightarrow> gret ()
      | Inr evt \<Rightarrow>
     gbind (gread gs_eventSeen) (\<lambda>seen.
     if gm_get seen (ev_EventID evt) \<noteq> None then gret ()
     else gbind (gmodify (\<lambda>s. s\<lparr>gs_eventSeen := gm_put (ev_EventID evt) () (gs_eventSeen s)\<rparr>)) (\<lambda>_.
          handleNameBoundEvent E (NameBoundEvent.truncate evt))))"

fun ListenNameBound :: "('w, 'e) env_scheme \<Rightarrow> bytes list \<Rightarrow> (('w, 's) node_scheme, unit) go" where
  "ListenNameBound E [] = gret ()"
| "ListenNameBound E (data # msgs) = gbind (on_NameBound E data) (\<lambda>_. ListenNameBound E msgs)"

definition on_RecordMessage :: "('w, 'e) chain_env_scheme \<Rightarrow> bytes \<Rightarrow> (('w, 's) node_scheme, unit) go" where
  "on_RecordMessage E data =
     (case dec_RecordMessage data of
        Inl err \<Rightarrow> gret ()
      | Inr msg \<Rightarrow>
     gbind (gread gs_messageSeen) (\<lambda>seen.
     if rm_MessageID msg \<noteq> [] \<and> gm_get seen (rm_MessageID msg) \<noteq> None then gret ()
     else gbind (gmodify (\<lambda>s. if rm_MessageID msg = [] then s
                              else s\<lparr>gs_messageSeen := gm_put (rm_MessageID msg) () (gs_messageSeen s)\<rparr>)) (\<lambda>_.
          handleRecordMessage E msg)))"

fun ListenRecordMessages :: "('w, 'e) chain_env_scheme \<Rightarrow> bytes list \<Rightarrow> (('w, 's) node_scheme, unit) go" where
  "ListenRecordMessages E [] = gret ()"
| "ListenRecordMessages E (data # msgs) = gbind (on_RecordMessage E data) (\<lambda>_. ListenRecordMessages E msgs)"

text \<open>
  The update loop of \<open>core/sync.go\<close>, which goes on after every failure of its subscription. The program
  does not start it.
\<close>

fun handleRecordUpdates :: "('w, 'e) chain_env_scheme \<Rightarrow> (goerr + bytes) list \<Rightarrow> (('w, 's) node_scheme, unit) go" where
  "handleRecordUpdates E [] = gret ()"
| "handleRecordUpdates E (Inl err # ms) = handleRecordUpdates E ms"
| "handleRecordUpdates E (Inr data # ms) =
     (case dec_RecordMessage data of
        Inl err \<Rightarrow> handleRecordUpdates E ms
      | Inr msg \<Rightarrow>
          gbind (if rm_Type msg = ''registration_intent'' then handleRegistrationIntent E msg else gret ()) (\<lambda>_.
          handleRecordUpdates E ms))"

end
