(* ===== verification/NodeProps.thy ===== *)
theory NodeProps
  imports NodeOps EvmProps StoreEdges
begin

text \<open>
  Properties of gossip and of the node's handlers: each name-bound event is handled once, an event
  is bound whoever gossips it, a published registration intent is dropped by every receiver, and
  the message that makes a receiver panic.
\<close>

section \<open>Duplicates\<close>

lemma more_node:
  "RecordStore.more s' = RecordStore.more s \<Longrightarrow> gs_eventSeen s' = gs_eventSeen s \<and> gs_messageSeen s' = gs_messageSeen s"
  by (cases s; cases s') simp

lemma handle_keeps_seen:
  assumes "handleNameBoundEvent E evt s = (r, s')"
  shows "gs_eventSeen s' = gs_eventSeen s"
proof -
  have "keeps (does (\<lambda>_. True)) (handleNameBoundEvent E evt)"
    unfolding handleNameBoundEvent_def by (intro does_rules does_BindAddressResolver) simp
  from more_node[of s' s] keepsD[OF this assms] show ?thesis by (simp add: does_def)
qed

definition seen_event :: "('e) crypto_scheme \<Rightarrow> ('w, 's) node_scheme \<Rightarrow> bytes \<Rightarrow> bool" where
  "seen_event C s data = (\<forall>evt. dec_NameBound C data = Inr evt \<longrightarrow> gm_get (gs_eventSeen s) (ev_EventID evt) \<noteq> None)"

lemma on_NameBound_seen: "seen_event E s data \<Longrightarrow> on_NameBound E data s = (Done (), s)"
  by (auto simp: seen_event_def on_NameBound_def gbind_def gread_def gret_def split: sum.split)

lemma on_NameBound_cache:
  assumes "on_NameBound E data s = (r, s')"
  shows "seen_event E s' data" "gm_get (gs_eventSeen s) x \<noteq> None \<Longrightarrow> gm_get (gs_eventSeen s') x \<noteq> None"
proof -
  have "seen_event E s' data \<and> (gm_get (gs_eventSeen s) x \<noteq> None \<longrightarrow> gm_get (gs_eventSeen s') x \<noteq> None)"
  proof (cases "dec_NameBound E data")
    case (Inl e)
    with assms show ?thesis by (auto simp: on_NameBound_def seen_event_def gret_def)
  next
    case (Inr evt)
    show ?thesis
    proof (cases "gm_get (gs_eventSeen s) (ev_EventID evt)")
      case None
      let ?s1 = "s\<lparr>gs_eventSeen := gm_put (ev_EventID evt) () (gs_eventSeen s)\<rparr>"
      have "handleNameBoundEvent E (NameBoundEvent.truncate evt) ?s1 = (r, s')"
        using assms Inr None by (simp add: on_NameBound_def gbind_def gread_def gmodify_def)
      from handle_keeps_seen[OF this] show ?thesis using Inr by (auto simp: seen_event_def)
    next
      case (Some u)
      with assms Inr show ?thesis by (auto simp: on_NameBound_def seen_event_def gbind_def gread_def gret_def)
    qed
  qed
  then show "seen_event E s' data" "gm_get (gs_eventSeen s) x \<noteq> None \<Longrightarrow> gm_get (gs_eventSeen s') x \<noteq> None"
    by auto
qed

lemma seen_mono: "on_NameBound E data s = (r, s') \<Longrightarrow> seen_event E s m \<Longrightarrow> seen_event E s' m"
  using on_NameBound_cache(2) unfolding seen_event_def by blast

lemma Listen_seen:
  "ListenNameBound E ms s = (Done (), s') \<Longrightarrow> seen_event E s m \<or> m \<in> set ms \<Longrightarrow> seen_event E s' m"
proof (induction ms arbitrary: s)
  case (Cons a ms)
  obtain r s1 where a: "on_NameBound E a s = (r, s1)" by fastforce
  with Cons.prems(1) have l: "ListenNameBound E ms s1 = (Done (), s')"
    by (auto simp: gbind_def split: outcome.splits)
  have "seen_event E s1 m \<or> m \<in> set ms"
    using Cons.prems(2) seen_mono[OF a] on_NameBound_cache(1)[OF a] by auto
  with Cons.IH[OF l] show ?case by blast
qed (simp add: gret_def)

lemma Listen_append:
  "ListenNameBound E (ms @ ns) = gbind (ListenNameBound E ms) (\<lambda>_. ListenNameBound E ns)"
  by (induction ms) (simp_all add: gbind_assoc)

text \<open>
  In every environment a gossiped name-bound event is handled once: after a run over any messages,
  delivering one of them again, or any other text with the event id of one of them, changes nothing.
\<close>

theorem name_bound_once:
  assumes "ListenNameBound E ms s = (Done (), s')" "m \<in> set ms"
    and "dec_NameBound E m = Inr evt" "dec_NameBound E m' = Inr evt'" "ev_EventID evt' = ev_EventID evt"
  shows "ListenNameBound E (ms @ [m']) s = (Done (), s')"
proof -
  have "seen_event E s' m'"
    using Listen_seen[OF assms(1), of m] assms(2-5) by (simp add: seen_event_def)
  then show ?thesis using assms(1) by (simp add: Listen_append gbind_def on_NameBound_seen gret_def)
qed

section \<open>Event texts\<close>

lemma dec_uint8_enc: "dec_uint8 (JNum (nat_str (of_char c))) x = Inr c"
proof -
  have b: "(of_char c :: nat) < 256" by simp
  have u: "unat (of_nat (of_char c) :: uint64) = of_char c"
    unfolding unat_of_nat by (rule mod_less, rule order_less_trans[OF b]) simp
  then have "ParseUint (nat_str (of_char c)) = Inr (of_nat (of_char c) :: uint64)"
    using ParseUint_roundtrip[of "of_nat (of_char c)"] u by simp
  then show ?thesis using b u by (simp add: dec_uint8_def)
qed

lemma dec_elems_enc: "length old = length b \<Longrightarrow> dec_elems (map (\<lambda>c. JNum (nat_str (of_char c))) b) old = Inr b"
  by (induction old b rule: list_induct2) (simp_all add: dec_uint8_enc)

lemma json_ok_byte_array: "json_ok (enc_byte_array b)"
proof -
  have "list_all json_ok (map (\<lambda>c. JNum (nat_str (of_char c))) b)"
    by (auto simp: list_all_iff nat_str_is_int_str)
  then show ?thesis by (simp add: enc_byte_array_def jsons_ok_list_all)
qed

definition event_ok :: "('e) crypto_scheme \<Rightarrow> NameBoundEvent \<Rightarrow> bool" where
  "event_ok C ev = (length (ev_Namehash ev) = 32 \<and> addr_codec_ok C (ev_Resolver ev)
     \<and> AddrToJSON C (ev_Resolver ev) \<noteq> JNull \<and> ascii (ev_EventID ev))"

lemma dec_NameBound_text:
  assumes "event_ok C ev" "ascii ts" "parse_rfc3339 ts = Some t"
  shows "dec_NameBound C (json_print (enc_NameBound C ev (JStr ts)))
    = Inr (NameBoundEvent.extend ev \<lparr>ev_Timestamp = t\<rparr>)"
proof -
  have ok: "json_ok (enc_NameBound C ev (JStr ts))"
    using assms by (simp add: enc_NameBound_def event_ok_def addr_codec_ok_def json_ok_byte_array)
  have a: "dec_byte_array (enc_byte_array (ev_Namehash ev)) (replicate 32 (CHR 0x00)) = Inr (ev_Namehash ev)"
    using assms(1) dec_elems_enc[of "replicate 32 (CHR 0x00)" "ev_Namehash ev"]
    by (simp add: dec_byte_array_def enc_byte_array_def event_ok_def)
  have t: "dec_time (JStr ts) 0 = Inr t" using assms(3) by (simp add: dec_time_def)
  show ?thesis
    using ok a t assms(1)
    by (simp add: dec_NameBound_def json_parse_print enc_NameBound_def dec_struct_def step_NameBound_def field_def
        fold_defs zero_NameBound_def dec_address_def event_ok_def addr_codec_ok_def NameBoundEvent.defs)
qed

definition node_start :: "mem_world node" where
  "node_start = RecordStore.extend mem_start \<lparr>gs_eventSeen = [], gs_messageSeen = [], nd_trace = []\<rparr>"

definition demo_event :: NameBoundEvent where
  "demo_event = \<lparr>ev_Namehash = Namehash mem_env ''ab'', ev_Resolver = ''r'', ev_ExpiresAt = 9, ev_ChainID = 1, ev_EventID = ''1:aa:7''\<rparr>"

definition demo_time :: string where "demo_time = ''2023-11-14T22:13:20Z''"

lemma demo_event_ok: "event_ok mem_env demo_event" "ascii demo_time" "\<exists>t. parse_rfc3339 demo_time = Some t"
proof -
  have n: "length (Namehash mem_env ''ab'') = 32"
    by (simp add: Namehash_labels keccak256_def mem_env_def fit_def)
  show "event_ok mem_env demo_event"
    using n by (simp add: event_ok_def demo_event_def addr_codec_ok_def)
      (simp add: mem_env_def ascii_def[of "''1:aa:7''"] del: hex_EncodeToString.simps hex_DecodeString.simps)
  show "ascii demo_time" by (simp add: demo_time_def ascii_def)
  show "\<exists>t. parse_rfc3339 demo_time = Some t"
    unfolding demo_time_def using parse_rfc3339_example by blast
qed

definition demo_event_text :: bytes where
  "demo_event_text = json_print (enc_NameBound mem_env demo_event (JStr demo_time))"

lemma dec_demo_event: "\<exists>t. dec_NameBound mem_env demo_event_text = Inr (NameBoundEvent.extend demo_event \<lparr>ev_Timestamp = t\<rparr>)"
  using demo_event_ok dec_NameBound_text unfolding demo_event_text_def by blast

lemma event_extend [simp]:
  "NameBoundEvent.truncate (NameBoundEvent.extend ev x) = ev" "ev_EventID (NameBoundEvent.extend ev x) = ev_EventID ev"
  by (cases ev; simp add: NameBoundEvent.defs)+

lemma mem_GetByNamehash_None:
  "mw_db (rs_world s) = [] \<Longrightarrow> mw_dht (rs_world s) = [] \<Longrightarrow> GetByNamehash mem_env h s = (Done None, s)"
  by (simp add: GetByNamehash_def gbind_def prim_defs mem_env_def gret_def)

lemma node_start_world: "mw_db (rs_world node_start) = []" "mw_dht (rs_world node_start) = []" "gs_eventSeen node_start = []"
  by (simp_all add: node_start_def RecordStore.defs mem_start_def NewRecordStore_def)

theorem name_bound_once_witness:
  "\<exists>s'. ListenNameBound mem_env [demo_event_text] node_start = (Done (), s')
    \<and> ListenNameBound mem_env ([demo_event_text] @ [demo_event_text]) node_start = (Done (), s')"
proof -
  obtain t where t: "dec_NameBound mem_env demo_event_text = Inr (NameBoundEvent.extend demo_event \<lparr>ev_Timestamp = t\<rparr>)"
    using dec_demo_event by blast
  have "\<exists>s'. ListenNameBound mem_env [demo_event_text] node_start = (Done (), s')"
    by (simp add: on_NameBound_def t gbind_def gread_def gmodify_def handleNameBoundEvent_def BindAddressResolver_def
        mem_GetByNamehash_None node_start_world gret_def)
  then obtain s' where s': "ListenNameBound mem_env [demo_event_text] node_start = (Done (), s')" by blast
  with name_bound_once[OF s' _ t t] show ?thesis by auto
qed

section \<open>Binding\<close>

text \<open>
  Whoever publishes it, a gossiped event whose id a node has not seen is bound. Nothing in the event is
  checked against the chain or against the sender.
\<close>

lemma gossip_binds:
  fixes s :: "('w, 's) node_scheme"
  assumes "quiet E dv bv" "clean_keys E" "record_ok E r" "valid_domain (r_Domain r)" "r_Status r \<noteq> ''pending''"
    and "b_Addresses (r_Bindings r) = Some m" "ev_Namehash ev = Namehash E (r_Domain r)"
    and "ascii (AddrHex E (ev_Resolver ev))"
    and "event_ok E ev" "ascii ts" "parse_rfc3339 ts = Some t" "gm_get (gs_eventSeen s) (ev_EventID ev) = None"
    and "view_of dv bv s = v_save E r V"
  shows "runs (gbind (on_NameBound E (json_print (enc_NameBound E ev (JStr ts)))) (\<lambda>_. Get E (r_Domain r))) s
    (\<lambda>f s'. f = Some (canon (bound_record E ev m r)))"
proof -
  let ?s1 = "s\<lparr>gs_eventSeen := gm_put (ev_EventID ev) () (gs_eventSeen s)\<rparr>"
  have step: "on_NameBound E (json_print (enc_NameBound E ev (JStr ts))) s = handleNameBoundEvent E ev ?s1"
    using dec_NameBound_text[OF assms(9-11)] assms(12)
    by (simp add: on_NameBound_def gbind_def gread_def gmodify_def)
  have "view_of dv bv ?s1 = v_save E r V" using assms(13) by (simp add: view_of_def)
  from runs_bind_Get[OF assms(1-8) this, where Q = "\<lambda>f s'. f = Some (canon (bound_record E ev m r))"]
  have "runs (handleNameBoundEvent E ev) ?s1 (\<lambda>_ s'. runs (Get E (r_Domain r)) s' (\<lambda>f s'. f = Some (canon (bound_record E ev m r))))"
    unfolding handleNameBoundEvent_def runs_gbind by (auto elim!: runs_mono)
  then show ?thesis unfolding runs_gbind by (simp add: runs_def step)
qed

lemma runs_keeps: "runs m s Q \<Longrightarrow> keeps R m \<Longrightarrow> runs m s (\<lambda>x s'. Q x s' \<and> R s s')"
  by (auto simp: runs_iff keeps_def) (metis snd_conv)

section \<open>Registration intents\<close>

text \<open>The text of an intent decodes to an error, whatever record it carries.\<close>

lemma dec_members_error:
  assumes "\<And>r. step k j r = Inl e"
  shows "\<exists>e. dec_members step (ms @ (k, j) # ns) r = Inl e"
proof (induction ms arbitrary: r)
  case (Cons m ms)
  obtain k' j' where "m = (k', j')" by fastforce
  with Cons show ?case by (cases "step k' j' r") auto
qed (simp add: assms)

lemma intent_text_error:
  assumes "record_ok C r" "ascii peer" "ascii ts"
  shows "\<exists>e. dec_RecordMessage (json_print (enc_RecordMessage C (intent_message r root peer) (JStr ts))) = Inl e"
proof -
  let ?j = "enc_RecordMessage C (intent_message r root peer) (JStr ts)"
  have "json_ok ?j"
    using assms json_ok_Record[OF assms(1)]
    by (simp add: enc_RecordMessage_def intent_message_def zero_RecordMessage_def opt_bytes_def omitempty_def enc_entry_def)
  moreover have "\<exists>ns. ?j = JObj ([(''type'', JStr ''registration_intent'')] @ (''records'', JArr [enc_Record C r]) # ns)"
    by (simp add: enc_RecordMessage_def intent_message_def zero_RecordMessage_def enc_entry_def)
  then obtain ns where "?j = JObj ([(''type'', JStr ''registration_intent'')] @ (''records'', JArr [enc_Record C r]) # ns)" ..
  moreover have "step_RecordMessage ''records'' (JArr [enc_Record C r]) m = Inl ErrJSON" for m
    by (simp add: step_RecordMessage_def field_def fold_defs dec_records_def)
  ultimately show ?thesis
    using dec_members_error[of step_RecordMessage "''records''" "JArr [enc_Record C r]" ErrJSON]
    by (simp only: dec_RecordMessage_def json_parse_print dec_struct_def option.case json.case)
qed

lemma more_trace: "RecordStore.more s' = RecordStore.more s \<Longrightarrow> nd_trace s' = nd_trace s"
  by (cases s; cases s') simp

lemma PublishRecordMessage_trace:
  assumes "PublishRecordMessage E msg s = (res, s')"
  shows "nd_trace s' = nd_trace s \<or> (\<exists>t ts. LocalTime E t = Inr ts
    \<and> nd_trace s' = nd_trace s @ [NPublish GossipTopicRecords (json_print (enc_RecordMessage E msg (JStr ts)))])"
proof -
  obtain t w where c: "Clock E (rs_world s) = (t, w)" by fastforce
  show ?thesis
  proof (cases "LocalTime E t")
    case (Inl e)
    with assms c show ?thesis by (auto simp: PublishRecordMessage_def gbind_def gret_def time_Now_def enc_time_def)
  next
    case (Inr ts)
    with assms c have "nd_trace s' = nd_trace s @ [NPublish GossipTopicRecords (json_print (enc_RecordMessage E msg (JStr ts)))]"
      by (auto simp: PublishRecordMessage_def publish_def act_def gbind_def time_Now_def enc_time_def split: prod.splits)
    with Inr show ?thesis by blast
  qed
qed

lemma does_trace: "does K s s' \<Longrightarrow> nd_trace s' = nd_trace s"
  unfolding does_def by (rule more_trace) simp

lemma does_computeStateRoot: "keeps (does K) (computeStateRoot E)"
  unfolding computeStateRoot_def by (intro does_rules does_ListRecords)

lemma PublishRecord_trace:
  assumes "PublishRecord E r s = (res, s')"
  shows "nd_trace s' = nd_trace s \<or> (\<exists>root t ts. LocalTime E t = Inr ts
    \<and> nd_trace s' = nd_trace s @ [NPublish GossipTopicRecords
         (json_print (enc_RecordMessage E (intent_message r root (rs_hostID s)) (JStr ts)))])"
proof -
  obtain o1 s1 where 1: "computeStateRoot E s = (o1, s1)" by fastforce
  from keepsD[OF does_computeStateRoot this, of "\<lambda>_. True"]
  have c: "nd_trace s1 = nd_trace s" "rs_hostID s1 = rs_hostID s" by (simp_all add: does_trace) (simp add: does_def)
  have rej: "nd_trace s3 = nd_trace s2" if "RejectRecord E d s2 = (y, s3)" for d y s2 s3
    by (rule does_trace, rule keepsD[OF does_RejectRecord that, of "\<lambda>_. True"]) simp_all
  show ?thesis
  proof (cases o1)
    case (Panic p)
    with assms 1 c show ?thesis by (simp add: PublishRecord_def gbind_def)
  next
    case (Done root)
    obtain o2 s2 where 2: "PublishRecordMessage E (intent_message r root (rs_hostID s)) s1 = (o2, s2)" by fastforce
    have "nd_trace s' = nd_trace s2"
      using assms 1 2 c Done rej
      by (auto simp: PublishRecord_def gbind_def gread_def gret_def split: outcome.splits option.splits prod.splits)
    with PublishRecordMessage_trace[OF 2] c show ?thesis by auto
  qed
qed

text \<open>
  C40. Every message \<open>PublishRecord\<close> puts on the network, in any environment, is dropped by every
  receiver: the record in it decodes to an error, so no receiver looks at the registration, none
  votes, and no state changes.
\<close>

theorem published_intent_dropped:
  assumes "PublishRecord E r s = (res, s')" "NPublish topic data \<in> set (nd_trace s')" "nd_trace s = []"
    and "record_ok E r" "ascii (rs_hostID s)" "\<And>t ts. LocalTime E t = Inr ts \<Longrightarrow> ascii ts"
  shows "topic = GossipTopicRecords \<and> on_RecordMessage E' data z = (Done (), z)"
proof -
  obtain root t ts where "LocalTime E t = Inr ts" "topic = GossipTopicRecords"
    "data = json_print (enc_RecordMessage E (intent_message r root (rs_hostID s)) (JStr ts))"
    using PublishRecord_trace[OF assms(1)] assms(2,3) by auto
  with intent_text_error[OF assms(4,5), of ts root] assms(6) show ?thesis
    by (auto simp: on_RecordMessage_def gret_def)
qed

text \<open>A node on the chain of the examples.\<close>

definition mem_node :: "mem_world node_env" where
  "mem_node = chain_env.extend mem_chain
     \<lparr>LocalTime = \<lambda>t. Inr demo_time, GossipPublish = \<lambda>topic data w. (None, w),
      UnpackLog = \<lambda>n l. if lg_Data l = [] then Inl (ErrExt ''abi: attempting to unmarshal an empty string'')
        else Inr \<lparr>ce_Namehash = lg_Data l, ce_Address = ''a'', ce_ExpiresAt = 9\<rparr>,
      EthChainID = \<lambda>w. (Inr 1, w), EthSuggestGasPrice = \<lambda>w. (Inr 5, w), EthBlockNumber = \<lambda>w. (Inr 7, w),
      EthFilterLogs = \<lambda>c a b t w. ((None, []), w), EthSubscribe = \<lambda>c a t w. (None, w),
      HexToECDSA = \<lambda>k. Inr k, NewTransactor = \<lambda>k c. None,
      ContractCall = \<lambda>m n w. (Inr [AAddress ''z''], w),
      ContractTransact = \<lambda>opts m n a b w. (Inr ''tx'', w),
      LevelOpen = \<lambda>w. (None, w), 
      LevelGet = \<lambda>k w. (case gm_get (mw_db w) (''listener:'' @ k) of None \<Rightarrow> Inl ErrDatastoreNotFound | Some b \<Rightarrow> Inr b, w),
      LevelPut = \<lambda>k v w. (None, w\<lparr>mw_db := gm_put (''listener:'' @ k) v (mw_db w)\<rparr>)\<rparr>"

lemma chain_base_more_simps:
  "AddrToJSON chain_base = AddrToJSON mem_env" "AddrFromJSON chain_base = AddrFromJSON mem_env"
  "DbQuery chain_base = DbQuery mem_env"
  by (simp_all add: chain_base_def)

lemma mem_node_simps:
  "LocalTime mem_node t = Inr demo_time" "GossipPublish mem_node topic data w = (None, w)"
  "AddrToJSON mem_node = AddrToJSON mem_env" "AddrFromJSON mem_node = AddrFromJSON mem_env"
  "DbQuery mem_node = DbQuery mem_env" "Clock mem_node w = (mw_clock w, w\<lparr>mw_clock := mw_clock w + 1\<rparr>)"
  by (simp_all add: mem_node_def mem_chain_def chain_env.defs env.defs chain_base_simps chain_base_more_simps)

lemma demo_ok_node: "record_ok mem_node demo_record"
  using demo_ok(1) by (simp add: record_ok_def addr_codec_ok_def mem_node_simps)

theorem published_intent_dropped_witness:
  "\<exists>data s'. PublishRecord mem_node demo_record node_start = (Done None, s')
    \<and> NPublish GossipTopicRecords data \<in> set (nd_trace s') \<and> on_RecordMessage mem_node data node_start = (Done (), node_start)"
proof -
  have root: "\<exists>root s1. computeStateRoot mem_node node_start = (Done root, s1) \<and> s1 = node_start"
    by (simp add: computeStateRoot_def ListRecords_def gbind_def gret_def db_Query_def mem_node_simps)
      (simp add: mem_env_def glift_def node_start_def RecordStore.defs mem_start_def NewRecordStore_def)
  have n: "nd_trace node_start = []" "ascii (rs_hostID node_start)"
    by (simp_all add: node_start_def RecordStore.defs mem_start_def NewRecordStore_def ascii_def)
  obtain data s' where p: "PublishRecord mem_node demo_record node_start = (Done None, s')"
    "NPublish GossipTopicRecords data \<in> set (nd_trace s')"
    using root n(1) by (auto simp: PublishRecord_def PublishRecordMessage_def publish_def act_def gbind_def gread_def
        gret_def time_Now_def enc_time_def mem_node_simps)
  have "on_RecordMessage mem_node data node_start = (Done (), node_start)"
    by (rule conjunct2[OF published_intent_dropped[OF p n(1) demo_ok_node n(2)]])
      (simp add: mem_node_simps demo_event_ok(2))
  with p show ?thesis by blast
qed

definition null_intent :: bytes where
  "null_intent = json_print (JObj [(''type'', JStr ''registration_intent''), (''records'', JArr [JNull])])"

lemma dec_null_intent:
  "dec_RecordMessage null_intent = Inr (zero_RecordMessage\<lparr>rm_Type := ''registration_intent'', rm_Records := Some [None]\<rparr>)"
proof -
  have "json_ok (JObj [(''type'', JStr ''registration_intent''), (''records'', JArr [JNull])])" by (simp add: ascii_def)
  then show ?thesis
    by (simp add: dec_RecordMessage_def null_intent_def json_parse_print dec_struct_def step_RecordMessage_def
        field_def fold_defs dec_records_def)
qed

text \<open>
  A message on the record topic whose record list holds a null, which any peer can send, makes the
  receiving node panic in every environment and every state.
\<close>

theorem null_intent_panics: "\<exists>p s'. on_RecordMessage E null_intent s = (Panic p, s')"
  by (simp add: on_RecordMessage_def dec_null_intent zero_RecordMessage_def gbind_def gread_def gmodify_def
      handleRecordMessage_def handleRegistrationIntent_def handle_intent_def gpanic_def)

end
