(* ===== verification/Rpc.thy ===== *)
theory Rpc
  imports NodeOps
begin

text \<open>
  The JSON-RPC server (\<open>rpc/server.go\<close>) and its handlers (\<open>rpc/records.go\<close>, \<open>rpc/dht.go\<close>,
  \<open>rpc/peers.go\<close>, \<open>rpc/node.go\<close>). A raw parameter document is its parse, absent when the request has
  none; an error reply keeps the error value instead of its text; goroutines a handler starts are
  returned as tasks.
\<close>

section \<open>Parameters and values\<close>

record 'w rpc_env = "'w node_env" +
  HostPeers :: "'w \<Rightarrow> json list \<times> 'w"
  HostAddrs :: json
  HostConnectedness :: "'w \<Rightarrow> json \<times> 'w"
  DhtFindPeer :: "string \<Rightarrow> 'w \<Rightarrow> (goerr + json) \<times> 'w"
  CidParse :: "string \<Rightarrow> goerr + string"
  DhtProvide :: "string \<Rightarrow> 'w \<Rightarrow> goerr option \<times> 'w"
  DhtFindProviders :: "string \<Rightarrow> 'w \<Rightarrow> (json list \<times> goerr option) \<times> 'w"

datatype rpc_value = VRecord Record | VVotes VoteResult | VJson json

datatype rpc_task = TVote string string | TPublish Record

type_synonym rpc_result = "(goerr + rpc_value) \<times> rpc_task list"

definition rfail :: "goerr \<Rightarrow> rpc_result" where "rfail e = (Inl e, [])"
definition rok :: "rpc_value \<Rightarrow> rpc_result" where "rok v = (Inr v, [])"

text \<open>\<open>json.Unmarshal(params, &p)\<close>.\<close>

definition unmarshal_params :: "(bytes \<Rightarrow> json \<Rightarrow> 'r \<Rightarrow> goerr + 'r) \<Rightarrow> 'r \<Rightarrow> json option \<Rightarrow> goerr + 'r" where
  "unmarshal_params step zero params = (case params of
     None \<Rightarrow> Inl (Wrapf ''invalid params'' ErrJSON)
   | Some j \<Rightarrow> (case dec_struct step j zero of
        Inl e \<Rightarrow> Inl (Wrapf ''invalid params'' e) | Inr p \<Rightarrow> Inr p))"

section \<open>Record handlers\<close>

definition step_domain :: "bytes \<Rightarrow> json \<Rightarrow> string \<Rightarrow> goerr + string" where
  "step_domain k j d = (if EqualFold k ''domain'' then field dec_string id (\<lambda>x d. x) j d else Inr d)"

record DomainRegisterParams =
  dp_Domain :: string
  dp_TTL :: int64
  dp_Signature :: string
  dp_PublicKey :: string
  dp_SignedTx :: string

definition step_register :: "bytes \<Rightarrow> json \<Rightarrow> DomainRegisterParams \<Rightarrow> goerr + DomainRegisterParams" where
  "step_register k j p =
     (if EqualFold k ''domain'' then field dec_string dp_Domain (\<lambda>x p. p\<lparr>dp_Domain := x\<rparr>) j p
      else if EqualFold k ''ttl'' then field dec_int64 dp_TTL (\<lambda>x p. p\<lparr>dp_TTL := x\<rparr>) j p
      else if EqualFold k ''signature'' then field dec_string dp_Signature (\<lambda>x p. p\<lparr>dp_Signature := x\<rparr>) j p
      else if EqualFold k ''public_key'' then field dec_string dp_PublicKey (\<lambda>x p. p\<lparr>dp_PublicKey := x\<rparr>) j p
      else if EqualFold k ''signed_tx'' then field dec_string dp_SignedTx (\<lambda>x p. p\<lparr>dp_SignedTx := x\<rparr>) j p
      else Inr p)"

record RecordAddParams =
  ap_Domain :: string
  ap_Type :: string
  ap_Value :: string

definition step_add :: "bytes \<Rightarrow> json \<Rightarrow> RecordAddParams \<Rightarrow> goerr + RecordAddParams" where
  "step_add k j p =
     (if EqualFold k ''domain'' then field dec_string ap_Domain (\<lambda>x p. p\<lparr>ap_Domain := x\<rparr>) j p
      else if EqualFold k ''type'' then field dec_string ap_Type (\<lambda>x p. p\<lparr>ap_Type := x\<rparr>) j p
      else if EqualFold k ''value'' then field dec_string ap_Value (\<lambda>x p. p\<lparr>ap_Value := x\<rparr>) j p
      else Inr p)"

text \<open>\<open>DomainRegisterParams.Validate\<close>.\<close>

definition ValidateParams :: "DomainRegisterParams \<Rightarrow> goerr option" where
  "ValidateParams p =
     (if dp_Domain p = [] then Some (Errorf ''missing required field: domain'')
      else if dp_Signature p = [] then Some (Errorf ''missing required field: signature'')
      else if dp_PublicKey p = [] then Some (Errorf ''missing required field: publicKey'')
      else if dp_SignedTx p = [] then Some (Errorf ''missing SignedTx'')
      else None)"

fun hex_each :: "string list \<Rightarrow> goerr + bytes list" where
  "hex_each [] = Inr []"
| "hex_each (s # ss) =
     (case hex_DecodeString (TrimPrefix s ''0x'') of
        Inl err \<Rightarrow> Inl (Wrapf (''invalid hex string '' @ s) err)
      | Inr b \<Rightarrow> (case hex_each ss of Inl e \<Rightarrow> Inl e | Inr bs \<Rightarrow> Inr (b # bs)))"

definition hex2Bytes :: "string list \<Rightarrow> goerr + bytes list" where
  "hex2Bytes s = (if s = [] then Inl (Errorf ''empty hex string'') else hex_each s)"

definition handleDomainGet :: "('w, 'e) env_scheme \<Rightarrow> json option \<Rightarrow> (('w, 's) RecordStore_scheme, rpc_result) go" where
  "handleDomainGet E params =
     (case unmarshal_params step_domain [] params of
        Inl err \<Rightarrow> gret (rfail err)
      | Inr domain \<Rightarrow>
          gbind (Get E domain) (\<lambda>found.
          gret (case found of None \<Rightarrow> rfail (Errorf ''not found'') | Some record \<Rightarrow> rok (VRecord record))))"

definition hour :: int64 where "hour = 3600 * 1000000000"

text \<open>The decoded signature, key and transaction of a registration, checked for length.\<close>

definition register_bytes :: "DomainRegisterParams \<Rightarrow> goerr + bytes \<times> bytes \<times> bytes" where
  "register_bytes p =
     (case hex2Bytes [dp_Signature p, dp_PublicKey p, dp_SignedTx p] of
        Inl err \<Rightarrow> Inl (Wrapf [] err)
      | Inr [sigBytes, pubKeyBytes, signedTxBytes] \<Rightarrow>
          if length sigBytes = 0 \<or> length pubKeyBytes = 0 \<or> length signedTxBytes = 0
          then Inl (Errorf ''signature, publicKey and signedTx must be provided in hex format'')
          else if length sigBytes \<noteq> 65 then Inl (Errorf ''signature must be 65 bytes long'')
          else Inr (sigBytes, pubKeyBytes, signedTxBytes)
      | Inr _ \<Rightarrow> Inl (Errorf []))"

text \<open>The end of a registration, after \<open>Add\<close>, after \<open>NewRecord\<close>, and after the name was found free.\<close>

definition register_added :: "goerr option \<times> Record \<times> string option \<Rightarrow> (('w, 's) RecordStore_scheme, rpc_result) go" where
  "register_added = (\<lambda>(err, record, vote). case err of
       Some e \<Rightarrow> gret (rfail (Wrapf ''failed to register domain'' e))
     | None \<Rightarrow> gret (Inr (VRecord record),
         (case vote of None \<Rightarrow> [] | Some lockID \<Rightarrow> [TVote (r_Domain record) lockID]) @ [TPublish record]))"

definition register_record :: "('w, 'e) chain_env_scheme \<Rightarrow> goerr + Record \<Rightarrow> (('w, 's) RecordStore_scheme, rpc_result) go" where
  "register_record E r = (case r of
       Inl err \<Rightarrow> gret (rfail err)
     | Inr record \<Rightarrow>
         gbind (ValidateSignedTx E record) (\<lambda>(valid, err).
         if err \<noteq> None \<or> \<not> valid
         then gret (rfail (case err of Some e \<Rightarrow> Wrapf ''signedTx validation failed'' e
                           | None \<Rightarrow> Errorf ''signedTx validation failed''))
         else gbind (Add E record True) register_added))"

definition register_new :: "('w, 'e) chain_env_scheme \<Rightarrow> DomainRegisterParams \<Rightarrow> int64 \<Rightarrow> (('w, 's) RecordStore_scheme, rpc_result) go" where
  "register_new E p ttl = (case register_bytes p of
        Inl err \<Rightarrow> gret (rfail err)
      | Inr (sigBytes, pubKeyBytes, signedTxBytes) \<Rightarrow>
          gbind (NewRecord E (dp_Domain p) ttl (Some sigBytes) (Some pubKeyBytes) (Some signedTxBytes))
            (register_record E))"

definition handleDomainRegister :: "('w, 'e) chain_env_scheme \<Rightarrow> json option \<Rightarrow> (('w, 's) RecordStore_scheme, rpc_result) go" where
  "handleDomainRegister E params =
     (case unmarshal_params step_register \<lparr>dp_Domain = [], dp_TTL = 0, dp_Signature = [], dp_PublicKey = [], dp_SignedTx = []\<rparr> params of
        Inl err \<Rightarrow> gret (rfail err)
      | Inr p \<Rightarrow>
     (case ValidateParams p of
        Some err \<Rightarrow> gret (rfail (Wrapf ''validation error'' err))
      | None \<Rightarrow>
     gbind (Get E (dp_Domain p)) (\<lambda>found.
     if found \<noteq> None then gret (rfail (Errorf ''domain is not available or locked for registration''))
     else register_new E p (if dp_TTL p = 0 then hour else dp_TTL p))))"

definition handleDomainVotes :: "('w, 'e) env_scheme \<Rightarrow> json option \<Rightarrow> (('w, 's) RecordStore_scheme, rpc_result) go" where
  "handleDomainVotes E params =
     (case unmarshal_params step_domain [] params of
        Inl err \<Rightarrow> gret (rfail err)
      | Inr domain \<Rightarrow>
     if domain = [] then gret (rfail (Errorf ''missing required field: domain''))
     else gbind (GetVoteResult E domain) (\<lambda>r.
          gret (case r of
                  Inl err \<Rightarrow> if errors_Is err ErrRoutingNotFound then rfail (Errorf ''no votes found for domain'')
                             else rfail (Wrapf ''failed to get votes'' err)
                | Inr result \<Rightarrow> rok (VVotes result))))"

text \<open>
  The switch over the binding type: the record with the new value and whether it changed. Types
  compare in lower case.
\<close>

definition update_binding :: "string \<Rightarrow> string \<Rightarrow> Binding \<Rightarrow> goerr + Binding \<times> bool" where
  "update_binding type value b =
     (let t = ToLower type in
      if t = ''a'' then Inr (if b_A b \<noteq> value then (b\<lparr>b_A := value\<rparr>, True) else (b, False))
      else if t = ''txt'' then Inr (if b_TXT b \<noteq> value then (b\<lparr>b_TXT := value\<rparr>, True) else (b, False))
      else if t = ''contenthash'' then
        Inr (if b_ContentHash b \<noteq> value then (b\<lparr>b_ContentHash := value\<rparr>, True) else (b, False))
      else if t = ''address'' then
        (case SplitN2 value (CHR '':'') of
           [chain, addr] \<Rightarrow>
             (case ParseUint chain of
                Inl err \<Rightarrow> Inl (Wrapf ''invalid chain_id'' err)
              | Inr chainID \<Rightarrow>
                  let m = (case b_Addresses b of None \<Rightarrow> [] | Some m \<Rightarrow> m);
                      old = (case gm_get m chainID of None \<Rightarrow> [] | Some a \<Rightarrow> a) in
                  Inr (if old \<noteq> addr then (b\<lparr>b_Addresses := Some (gm_put chainID addr m)\<rparr>, True)
                       else (b\<lparr>b_Addresses := Some m\<rparr>, False)))
         | _ \<Rightarrow> Inl (Errorf ''address binding value must be chain_id:address''))
      else Inl (Errorf (''unsupported binding type: '' @ type)))"

definition handleAddBinding :: "('w, 'e) env_scheme \<Rightarrow> json option \<Rightarrow> (('w, 's) RecordStore_scheme, rpc_result) go" where
  "handleAddBinding E params =
     (case unmarshal_params step_add \<lparr>ap_Domain = [], ap_Type = [], ap_Value = []\<rparr> params of
        Inl err \<Rightarrow> gret (rfail err)
      | Inr p \<Rightarrow>
     if ap_Domain p = [] then gret (rfail (Errorf ''missing required field: domain''))
     else if ap_Type p = [] \<or> ap_Value p = [] then gret (rfail (Errorf ''missing required field: type or value''))
     else
     gbind (Get E (ap_Domain p)) (\<lambda>found.
     case found of
       None \<Rightarrow> gret (rfail (Errorf ''domain not found''))
     | Some record \<Rightarrow>
     if r_Status record \<noteq> ''confirmed'' then gret (rfail (Errorf ''domain is not confirmed/active''))
     else
     (case update_binding (ap_Type p) (ap_Value p) (r_Bindings record) of
        Inl err \<Rightarrow> gret (rfail err)
      | Inr (b, updated) \<Rightarrow>
          let record1 = record\<lparr>r_Bindings := b\<rparr> in
          if \<not> updated then gret (rok (VRecord record1))
          else gbind (time_Now E) (\<lambda>now.
               gbind (glift (meta_put ''updated_at'' (MStr (rfc3339 now)) record1)) (\<lambda>record2.
               gbind (SaveRecord E record2) (\<lambda>err.
               gret (case err of
                       Some e \<Rightarrow> rfail (Wrapf ''failed to save updated record'' e)
                     | None \<Rightarrow> rok (VRecord record2))))))))"

section \<open>Peer, node and DHT handlers\<close>

definition handlePeersList :: "('w, 'e) rpc_env_scheme \<Rightarrow> json option \<Rightarrow> (('w, 's) RecordStore_scheme, rpc_result) go" where
  "handlePeersList E params = gbind (ask (HostPeers E)) (\<lambda>peers.
     gret (rok (VJson (if peers = [] then JNull else JArr peers))))"

definition handlePeersCount :: "('w, 'e) rpc_env_scheme \<Rightarrow> json option \<Rightarrow> (('w, 's) RecordStore_scheme, rpc_result) go" where
  "handlePeersCount E params = gbind (ask (HostPeers E)) (\<lambda>peers.
     gret (rok (VJson (JNum (nat_str (length peers))))))"

definition handleNodeInfo :: "('w, 'e) rpc_env_scheme \<Rightarrow> json option \<Rightarrow> (('w, 's) RecordStore_scheme, rpc_result) go" where
  "handleNodeInfo E params = gbind (gread rs_hostID) (\<lambda>hostID.
     gret (rok (VJson (JObj [(''addresses'', HostAddrs E), (''id'', JStr hostID)]))))"

definition handleNodeStatus :: "('w, 'e) rpc_env_scheme \<Rightarrow> json option \<Rightarrow> (('w, 's) RecordStore_scheme, rpc_result) go" where
  "handleNodeStatus E params =
     gbind (ask (HostPeers E)) (\<lambda>peers.
     gbind (ask (HostConnectedness E)) (\<lambda>connected.
     gret (rok (VJson (JObj [(''connected'', connected), (''peers'', JNum (nat_str (length peers)))])))))"

definition step_peer_id :: "bytes \<Rightarrow> json \<Rightarrow> string \<Rightarrow> goerr + string" where
  "step_peer_id k j d = (if EqualFold k ''peer_id'' then field dec_string id (\<lambda>x d. x) j d else Inr d)"

definition step_key :: "bytes \<Rightarrow> json \<Rightarrow> string \<Rightarrow> goerr + string" where
  "step_key k j d = (if EqualFold k ''key'' then field dec_string id (\<lambda>x d. x) j d else Inr d)"

definition handleDHTFindPeer :: "('w, 'e) rpc_env_scheme \<Rightarrow> json option \<Rightarrow> (('w, 's) RecordStore_scheme, rpc_result) go" where
  "handleDHTFindPeer E params =
     (case unmarshal_params step_peer_id [] params of
        Inl err \<Rightarrow> gret (rfail err)
      | Inr peerID \<Rightarrow>
     (case PeerDecode E peerID of
        Some err \<Rightarrow> gret (rfail (Wrapf ''invalid peer ID'' err))
      | None \<Rightarrow> gbind (ask (DhtFindPeer E peerID)) (\<lambda>r.
          gret (case r of Inl err \<Rightarrow> rfail (Wrapf ''peer not found'' err) | Inr info \<Rightarrow> rok (VJson info)))))"

definition handleDHTProvide :: "('w, 'e) rpc_env_scheme \<Rightarrow> json option \<Rightarrow> (('w, 's) RecordStore_scheme, rpc_result) go" where
  "handleDHTProvide E params =
     (case unmarshal_params step_key [] params of
        Inl err \<Rightarrow> gret (rfail err)
      | Inr key \<Rightarrow>
     (case CidParse E key of
        Inl err \<Rightarrow> gret (rfail (Wrapf ''invalid key (not a CID)'' err))
      | Inr c \<Rightarrow> gbind (ask (DhtProvide E c)) (\<lambda>r.
          gret (case r of Some err \<Rightarrow> rfail (Wrapf ''failed to provide'' err) | None \<Rightarrow> rok (VJson (JStr ''provided''))))))"

definition handleDHTFindProviders :: "('w, 'e) rpc_env_scheme \<Rightarrow> json option \<Rightarrow> (('w, 's) RecordStore_scheme, rpc_result) go" where
  "handleDHTFindProviders E params =
     (case unmarshal_params step_key [] params of
        Inl err \<Rightarrow> gret (rfail err)
      | Inr key \<Rightarrow>
     (case CidParse E key of
        Inl err \<Rightarrow> gret (rfail (Wrapf ''invalid key (not a CID)'' err))
      | Inr c \<Rightarrow> gbind (ask (DhtFindProviders E c)) (\<lambda>(infos, err).
          gret (rok (VJson (JArr infos))))))"

section \<open>The server\<close>

datatype rpc_method = PeersList | PeersCount | NodeInfo | NodeStatus | DomainRegister | DomainGet | DomainVotes
  | BindingAdd | DHTFindPeer | DHTProvide | DHTFindProviders

definition methods :: "(string \<times> rpc_method) list" where
  "methods = [(''peers.list'', PeersList), (''peers.count'', PeersCount), (''node.info'', NodeInfo),
     (''node.status'', NodeStatus), (''domain.register'', DomainRegister), (''domain.get'', DomainGet),
     (''domain.votes'', DomainVotes), (''binding.add'', BindingAdd), (''dht.findPeer'', DHTFindPeer),
     (''dht.provide'', DHTProvide), (''dht.findProviders'', DHTFindProviders)]"

fun call_method :: "('w, 'e) rpc_env_scheme \<Rightarrow> rpc_method \<Rightarrow> json option \<Rightarrow> (('w, 's) RecordStore_scheme, rpc_result) go" where
  "call_method E PeersList = handlePeersList E"
| "call_method E PeersCount = handlePeersCount E"
| "call_method E NodeInfo = handleNodeInfo E"
| "call_method E NodeStatus = handleNodeStatus E"
| "call_method E DomainRegister = handleDomainRegister E"
| "call_method E DomainGet = handleDomainGet E"
| "call_method E DomainVotes = handleDomainVotes E"
| "call_method E BindingAdd = handleAddBinding E"
| "call_method E DHTFindPeer = handleDHTFindPeer E"
| "call_method E DHTProvide = handleDHTProvide E"
| "call_method E DHTFindProviders = handleDHTFindProviders E"

record RPCRequest =
  rq_JsonRPC :: string
  rq_Method :: string
  rq_Params :: "json option"
  rq_ID :: json

definition step_request :: "bytes \<Rightarrow> json \<Rightarrow> RPCRequest \<Rightarrow> goerr + RPCRequest" where
  "step_request k j q =
     (if EqualFold k ''jsonrpc'' then field dec_string rq_JsonRPC (\<lambda>x q. q\<lparr>rq_JsonRPC := x\<rparr>) j q
      else if EqualFold k ''method'' then field dec_string rq_Method (\<lambda>x q. q\<lparr>rq_Method := x\<rparr>) j q
      else if EqualFold k ''params'' then Inr (q\<lparr>rq_Params := Some j\<rparr>)
      else if EqualFold k ''id'' then Inr (q\<lparr>rq_ID := j\<rparr>)
      else Inr q)"

text \<open>
  A decoder reads the first JSON value of a stream: the shortest prefix that parses. (A number may go
  on after such a prefix, but a request that is a number is refused either way.)
\<close>

fun first_value :: "nat \<Rightarrow> nat \<Rightarrow> bytes \<Rightarrow> json option" where
  "first_value 0 n b = None"
| "first_value (Suc k) n b = (case json_parse (take n b) of Some j \<Rightarrow> Some j | None \<Rightarrow> first_value k (Suc n) b)"

definition decode_request :: "bytes \<Rightarrow> goerr + RPCRequest" where
  "decode_request body = (case first_value (Suc (length body)) 0 body of
     None \<Rightarrow> Inl ErrJSON
   | Some j \<Rightarrow> dec_struct step_request j \<lparr>rq_JsonRPC = [], rq_Method = [], rq_Params = None, rq_ID = JNull\<rparr>)"

datatype rpc_reply = HttpError nat string | RpcError int goerr | RpcResponse json rpc_value

definition handleRPC :: "('w, 'e) rpc_env_scheme \<Rightarrow> string \<Rightarrow> bytes \<Rightarrow> (('w, 's) RecordStore_scheme, rpc_reply \<times> rpc_task list) go" where
  "handleRPC E httpMethod body =
     (if httpMethod \<noteq> ''POST'' then gret (HttpError 405 ''Method not allowed'', [])
      else case decode_request body of
        Inl err \<Rightarrow> gret (RpcError (- 32700) (Errorf ''Parse error''), [])
      | Inr req \<Rightarrow>
          if rq_JsonRPC req \<noteq> ''2.0'' then gret (RpcError (- 32600) (Errorf ''Invalid Request''), [])
          else case map_of methods (rq_Method req) of
            None \<Rightarrow> gret (RpcError (- 32601) (Errorf ''Method not found''), [])
          | Some m \<Rightarrow>
              gbind (call_method E m (rq_Params req)) (\<lambda>(result, tasks).
              gret (case result of
                      Inl err \<Rightarrow> (RpcError (- 32603) err, tasks)
                    | Inr v \<Rightarrow> (RpcResponse (rq_ID req) v, tasks))))"

end
