(* ===== verification/RpcProps.thy ===== *)
theory RpcProps
  imports Rpc NodeProps RecordProps
begin

text \<open>
  Properties of the JSON-RPC server: what a successful registration guarantees, that bindings can be
  changed by anybody, the request that makes a handler panic, and which methods can write.
\<close>

section \<open>Registration\<close>

















section \<open>Bindings\<close>

lemma ascii_pad [simp]: "ascii (pad n i)"
  by (simp add: pad_def Let_def) (simp add: ascii_def)

lemma ascii_rfc3339 [simp]: "ascii (rfc3339 t)"
  by (simp add: rfc3339_def rfc3339_date_def Let_def split: prod.split)

definition add_params :: "string \<Rightarrow> string \<Rightarrow> string \<Rightarrow> json" where
  "add_params d t v = JObj [(''domain'', JStr d), (''type'', JStr t), (''value'', JStr v)]"

lemma add_unmarshal:
  "unmarshal_params step_add \<lparr>ap_Domain = [], ap_Type = [], ap_Value = []\<rparr> (Some (add_params d t v))
    = Inr \<lparr>ap_Domain = d, ap_Type = t, ap_Value = v\<rparr>"
  by (simp add: unmarshal_params_def add_params_def dec_struct_def step_add_def field_def fold_defs)

text \<open>The record a change of the A binding leaves.\<close>

definition with_A :: "string \<Rightarrow> int \<Rightarrow> Record \<Rightarrow> Record" where
  "with_A v t r = r\<lparr>r_Bindings := (r_Bindings r)\<lparr>b_A := v\<rparr>,
     r_Metadata := map_option (gm_put ''updated_at'' (MStr (rfc3339 t))) (r_Metadata r)\<rparr>"

lemma with_A_ok:
  assumes "record_ok C r" "ascii v"
  shows "record_ok C (with_A v t r)"
  using assms map_all_put[of "\<lambda>k v. ascii k \<and> meta_ok v" _ "''updated_at''" "MStr (rfc3339 t)"]
  by (cases "r_Metadata r") (simp_all add: record_ok_def with_A_def binding_ok_def ascii_def[of "''updated_at''"])

text \<open>
  C34. On a quiet network anybody can change the address of a confirmed name: a request with the name,
  the type and a new value, and nothing else, succeeds, and a lookup then finds the record with that
  value. Neither the owner's key nor a signature is asked for.
\<close>

theorem add_binding_open:
  fixes s :: "('w, 's) RecordStore_scheme"
  assumes "quiet E dv bv" "clean_keys E" "record_ok E r" "valid_domain (r_Domain r)" "r_Status r = ''confirmed''"
    and "r_Metadata r \<noteq> None" "view_of dv bv s = v_save E r V"
    and "v \<noteq> []" "ascii v" "b_A (r_Bindings r) \<noteq> v"
  shows "runs (gbind (handleAddBinding E (Some (add_params (r_Domain r) ''A'' v))) (\<lambda>res.
      gbind (Get E (r_Domain r)) (\<lambda>f. gret (res, f)))) s
    (\<lambda>(res, f) s'. \<exists>t. res = rok (VRecord (with_A v t (canon r))) \<and> f = Some (canon (with_A v t (canon r))))"
proof -
  have d: "r_Domain r \<noteq> []" using assms(4) by (simp add: valid_domain_def)
  have ub: "update_binding ''A'' v (r_Bindings r) = Inr ((r_Bindings r)\<lparr>b_A := v\<rparr>, True)"
  proof -
    have "ToLower ''A'' = ''a''" by code_simp
    then show ?thesis using assms(10) by (simp add: update_binding_def)
  qed
  obtain m where m: "r_Metadata (canon r) = Some m" using assms(6) by (auto simp: canon_def)
  have mp: "meta_put ''updated_at'' (MStr (rfc3339 t)) ((canon r)\<lparr>r_Bindings := (r_Bindings r)\<lparr>b_A := v\<rparr>\<rparr>)
      = Done (with_A v t (canon r))" for t
    using m by (simp add: meta_put_def with_A_def)
  have get: "runs (Get E (r_Domain r)) s' (\<lambda>f s''. f = Some (canon (with_A v t (canon r))))"
    if "view_of dv bv s' = v_save E (with_A v t (canon r)) V'" for s' :: "('w, 's) RecordStore_scheme" and t V'
  proof -
    let ?r = "with_A v t (canon r)"
    have ok: "record_ok E ?r" using with_A_ok[OF record_ok_canon[OF assms(3)] assms(9)] .
    have f: "r_Domain ?r = r_Domain r" "r_Status ?r = ''confirmed''" using assms(5) by (simp_all add: with_A_def)
    show ?thesis
      by (rule runs_Get_local[OF assms(1), where r = "canon ?r" and b = "record_text E ?r"],
          use that assms(4) ok f db_after_save[OF assms(2), of ?r V'] in \<open>auto simp: DeserializeRecord_text\<close>)
  qed
  show ?thesis
    apply (simp add: handleAddBinding_def add_unmarshal d assms(8))
    apply (rule runs_Get_local[OF assms(1), where r = "canon r" and b = "record_text E r"])
       apply (use assms db_after_save[OF assms(2,4), of V] in \<open>simp_all add: DeserializeRecord_text\<close>)
    apply (simp add: ub)
    apply (rule runs_time_Now[OF assms(1)])
    apply (simp add: mp)
    apply (rule runs_SaveRecord'[OF assms(1)], simp)
    apply (auto intro!: runs_mono[OF get])
    done
qed

definition demo_confirmed :: "(string, meta) gomap option \<Rightarrow> Record" where
  "demo_confirmed m = demo_record\<lparr>r_Status := ''confirmed'', r_Metadata := m\<rparr>"

definition demo_saved :: "(string, meta) gomap option \<Rightarrow> mem_world RecordStore" where
  "demo_saved m = snd (SaveRecord mem_env (demo_confirmed m) mem_start)"

lemma view_demo_saved:
  "view_of mem_dht mem_db (demo_saved m) = v_save mem_env (demo_confirmed m) (view_of mem_dht mem_db mem_start)"
  using runs_SaveRecord'[OF quiet_mem, where s = mem_start and r = "demo_confirmed m"
      and Q = "\<lambda>x s'. view_of mem_dht mem_db s' = v_save mem_env (demo_confirmed m) (view_of mem_dht mem_db mem_start)"]
  by (auto simp: runs_iff demo_saved_def)

lemma demo_confirmed_facts:
  "m = None \<or> m = Some [] \<Longrightarrow> record_ok mem_env (demo_confirmed m)" "valid_domain (r_Domain (demo_confirmed m))"
  "r_Status (demo_confirmed m) = ''confirmed''" "r_Metadata (demo_confirmed m) = m" "b_A (r_Bindings (demo_confirmed m)) = []"
  using demo_ok
  by (auto simp: demo_confirmed_def record_ok_def map_all_def ascii_def[of "''confirmed''"])
    (simp add: demo_record_def zero_Record_def zero_Binding_def)

theorem add_binding_open_witness:
  "runs (gbind (handleAddBinding mem_env (Some (add_params (r_Domain (demo_confirmed (Some []))) ''A'' ''10.0.0.1''))) (\<lambda>res.
      gbind (Get mem_env (r_Domain (demo_confirmed (Some [])))) (\<lambda>f. gret (res, f)))) (demo_saved (Some []))
    (\<lambda>(res, f) s'. \<exists>t. res = rok (VRecord (with_A ''10.0.0.1'' t (canon (demo_confirmed (Some [])))))
      \<and> f = Some (canon (with_A ''10.0.0.1'' t (canon (demo_confirmed (Some []))))))"
  by (rule add_binding_open[OF quiet_mem clean_mem _ _ _ _ view_demo_saved])
    (simp_all add: demo_confirmed_facts ascii_def)

text \<open>
  On a quiet network a request for a new value of the A binding of a confirmed record that has no
  metadata panics the handler, and nothing has been written.
\<close>

theorem add_binding_nil_metadata_panics:
  fixes s :: "('w, 's) RecordStore_scheme"
  assumes "quiet E dv bv" "clean_keys E" "record_ok E r" "valid_domain (r_Domain r)" "r_Status r = ''confirmed''"
    and "r_Metadata r = None" "view_of dv bv s = v_save E r V"
    and "v \<noteq> []" "b_A (r_Bindings r) \<noteq> v"
  shows "\<exists>s'. handleAddBinding E (Some (add_params (r_Domain r) ''A'' v)) s = (Panic ''assignment to entry in nil map'', s')
    \<and> rs_trace s' = rs_trace s"
proof -
  have d: "r_Domain r \<noteq> []" using assms(4) by (simp add: valid_domain_def)
  have "ToLower ''A'' = ''a''" by code_simp
  then have ub: "update_binding ''A'' v (r_Bindings r) = Inr ((r_Bindings r)\<lparr>b_A := v\<rparr>, True)"
    using assms(9) by (simp add: update_binding_def)
  have m: "r_Metadata (canon r) = None" using assms(6) by (simp add: canon_def)
  have st: "r_Status r \<noteq> ''pending''" using assms(5) by simp
  have db: "vw_db (view_of dv bv s) (NewKey E (makeRecordKey (r_Domain r))) = Some (record_text E r)"
    using db_after_save(1)[OF assms(2,4), of V] by (simp add: assms(7))
  obtain a w where b: "DbGet E (NewKey E (makeRecordKey (r_Domain r))) (rs_world s) = (a, w)" by fastforce
  with quietD(3)[OF assms(1) b] db have "a = Inr (Some (record_text E r))" by (simp add: view_of_def)
  with b have g: "Get E (r_Domain r) s = (Done (Some (canon r)), s\<lparr>rs_world := w\<rparr>)"
    using assms(3) st by (simp add: Get_def gbind_def db_Get_def glift_def gret_def DeserializeRecord_text)
  obtain t w' where c: "Clock E w = (t, w')" by fastforce
  show ?thesis
    using d assms(5,8) ub m c
    by (simp add: handleAddBinding_def add_unmarshal gbind_def g time_Now_def glift_def meta_put_def Let_def)
qed

theorem add_binding_nil_metadata_panics_witness:
  "\<exists>s'. handleAddBinding mem_env (Some (add_params (r_Domain (demo_confirmed None)) ''A'' ''10.0.0.1'')) (demo_saved None)
      = (Panic ''assignment to entry in nil map'', s')
    \<and> rs_trace s' = rs_trace (demo_saved None)"
  by (rule add_binding_nil_metadata_panics[OF quiet_mem clean_mem _ _ _ _ view_demo_saved])
    (simp_all add: demo_confirmed_facts)

section \<open>Which requests write\<close>













end
