(* ===== verification/Listener.thy ===== *)
theory Listener
  imports NodeOps
begin

text \<open>
  The listener for events of the registry contract (\<open>contracts/evm/listener.go\<close>): its set-up, the
  replay of the history since the last synchronised block, the loop over fresh events, the two
  event handlers and the persistent block number. The listener's LevelDB, the contract bindings and
  the Ethereum client are parameters; the contract's ABI, which \<open>LoadABI\<close> reads from a build
  artefact, is part of what \<open>UnpackLog\<close>, \<open>ContractCall\<close> and \<open>ContractTransact\<close> stand for.
\<close>

section \<open>Set-up\<close>

record EventListener =
  el_contractAddr :: bytes
  el_fromBlock :: uint64
  el_logTopics :: "(string, bytes) gomap"

text \<open>A missing key of a map of hashes reads as the zero hash.\<close>

definition topic :: "EventListener \<Rightarrow> string \<Rightarrow> bytes" where
  "topic l k = (case gm_get (el_logTopics l) k of None \<Rightarrow> replicate 32 (CHR 0x00) | Some h \<Rightarrow> h)"

definition NewEventListener :: "('w, 'e) node_env_scheme \<Rightarrow> (('w, 's) RecordStore_scheme, goerr + EventListener) go" where
  "NewEventListener E =
     (let rpcURL = Getenv E ''EVM_RPC_URL'';
          contractAddr = Getenv E ''EVM_ALTICA_REGISTRY_ADDRESS'';
          deploymentBlockStr = Getenv E ''EVM_DEPLOYMENT_BLOCK'' in
      if rpcURL = [] then gret (Inl (Errorf ''EVM_RPC_URL environment variable is required''))
      else if contractAddr = [] then gret (Inl (Errorf ''EVM_ALTICA_REGISTRY_ADDRESS environment variable is required''))
      else if deploymentBlockStr = [] then gret (Inl (Errorf ''EVM_DEPLOYMENT_BLOCK environment variable is required''))
      else case ParseUint deploymentBlockStr of
        Inl err \<Rightarrow> gret (Inl (Wrapf ''invalid EVM_DEPLOYMENT_BLOCK'' err))
      | Inr deploymentBlock \<Rightarrow>
      gbind (eth_Dial E rpcURL) (\<lambda>dial.
      case dial of
        Some err \<Rightarrow> gret (Inl (Wrapf ''failed to connect to Ethereum client'' err))
      | None \<Rightarrow> gret (Inr \<lparr>
          el_contractAddr = HexToAddress E contractAddr,
          el_fromBlock = deploymentBlock,
          el_logTopics =
            [(''submittedBinding'', Keccak E ''SubmittedBinding(bytes32,address,uint64)''),
             (''nameBound'', Keccak E ''NameBound(bytes32,address,uint64)'')]\<rparr>)))"

section \<open>The last synchronised block\<close>

definition getLastSyncedBlock :: "('w, 'e) node_env_scheme \<Rightarrow> EventListener \<Rightarrow> (('w, 's) node_scheme, goerr + uint64) go" where
  "getLastSyncedBlock E l =
     gbind (ask (LevelOpen E)) (\<lambda>opened.
     case opened of
       Some err \<Rightarrow> gret (Inl err)
     | None \<Rightarrow>
     gbind (ask (LevelGet E ''last_synced_block'')) (\<lambda>val.
     gret (Inr (case val of
        Inl err \<Rightarrow> el_fromBlock l
      | Inr v \<Rightarrow> (case ParseUint v of Inl err \<Rightarrow> el_fromBlock l | Inr block \<Rightarrow> block)))))"

definition setLastSyncedBlock :: "('w, 'e) node_env_scheme \<Rightarrow> uint64 \<Rightarrow> (('w, 's) node_scheme, goerr option) go" where
  "setLastSyncedBlock E block =
     gbind (ask (LevelOpen E)) (\<lambda>opened.
     case opened of
       Some err \<Rightarrow> gret (Some err)
     | None \<Rightarrow> act (NLevel ''last_synced_block'' (nat_str (unat block)))
                  (LevelPut E ''last_synced_block'' (nat_str (unat block))))"

section \<open>Transaction options\<close>

definition getTransactOpts :: "('w, 'e) node_env_scheme \<Rightarrow> (('w, 's) node_scheme, goerr + transact_opts) go" where
  "getTransactOpts E =
     (case HexToECDSA E (TrimPrefix (TrimSpace (Getenv E ''EVM_PRIVATE_KEY'')) ''0x'') of
        Inl err \<Rightarrow> gret (Inl (Wrapf ''failed to load private key'' err))
      | Inr privateKey \<Rightarrow>
     gbind (ask (EthChainID E)) (\<lambda>r1.
     case r1 of
       Inl err \<Rightarrow> gret (Inl (Wrapf ''failed to get chain ID'' err))
     | Inr chainID \<Rightarrow>
     (case NewTransactor E privateKey chainID of
        Some err \<Rightarrow> gret (Inl (Wrapf ''failed to create transactor'' err))
      | None \<Rightarrow>
     gbind (ask (EthSuggestGasPrice E)) (\<lambda>r2.
     case r2 of
       Inl err \<Rightarrow> gret (Inl (Wrapf ''failed to get gas price'' err))
     | Inr gasPrice \<Rightarrow>
       gret (Inr \<lparr>to_Key = privateKey, to_ChainID = chainID, to_GasPrice = gasPrice, to_GasLimit = 300000\<rparr>)))))"

section \<open>Events\<close>

definition binding_maxRetries :: nat where "binding_maxRetries = 4"

text \<open>The loop that waits for the record; it sleeps after every attempt, the successful one included.\<close>

fun await_record :: "('w, 'e) env_scheme \<Rightarrow> bytes \<Rightarrow> nat \<Rightarrow> (('w, 's) RecordStore_scheme, Record option) go" where
  "await_record E namehash 0 = gret None"
| "await_record E namehash (Suc n) =
     (let attempt = binding_maxRetries - n in
      gbind (GetByNamehash E namehash) (\<lambda>found.
      gbind (time_Sleep E (2 * 2 ^ attempt * 1000000000)) (\<lambda>_.
      if found \<noteq> None then gret found else await_record E namehash n)))"

text \<open>What the oracle does for an event whose record it has found.\<close>

definition decide_signer :: "('w, 'e) node_env_scheme \<Rightarrow> contract_event \<Rightarrow> Record \<Rightarrow> (('w, 's) node_scheme, goerr option) go" where
  "decide_signer E event record =
     (let recordSigner = GetSigner record;
          accepted = EqualFold (AddrHex E recordSigner) (AddrHex E (ce_Address event)) in
      gbind (getTransactOpts E) (\<lambda>r.
      case r of
        Inl err \<Rightarrow> gret (Some (Wrapf ''failed to get transaction options'' err))
      | Inr auth \<Rightarrow>
      gbind (ask (ContractCall E ''bindingSigner'' (ce_Namehash event))) (\<lambda>r.
      case r of
        Inl err \<Rightarrow> gret (Some (Wrapf ''failed to read bindingSigner from contract'' err))
      | Inr output \<Rightarrow>
      (case output of
         [] \<Rightarrow> gpanic ''index out of range''
       | AAddress onChainSigner # _ \<Rightarrow>
           if EqualFold (AddrHex E onChainSigner) (AddrHex E recordSigner) then gret None
           else gbind (act (NDecideSigner (ce_Namehash event) recordSigner accepted)
                  (ContractTransact E auth ''oracleDecideSigner'' (ce_Namehash event) recordSigner accepted)) (\<lambda>tx.
                gret (case tx of Inl err \<Rightarrow> Some (Wrapf ''failed to call oracleDecideSigner'' err) | Inr h \<Rightarrow> None))
       | _ \<Rightarrow> gpanic ''interface conversion''))))"

definition handleSubmittedBinding :: "('w, 'e) node_env_scheme \<Rightarrow> eth_log \<Rightarrow> (('w, 's) node_scheme, goerr option) go" where
  "handleSubmittedBinding E log =
     (case UnpackLog E ''SubmittedBinding'' log of
        Inl err \<Rightarrow> gret (Some (Wrapf ''failed to unpack event'' err))
      | Inr event \<Rightarrow>
     gbind (await_record E (ce_Namehash event) binding_maxRetries) (\<lambda>found.
     case found of None \<Rightarrow> gret None | Some record \<Rightarrow> decide_signer E event record))"

text \<open>The gossiped form of a \<open>NameBound\<close> event.\<close>

definition name_bound_event :: "contract_event \<Rightarrow> int \<Rightarrow> uint64 \<Rightarrow> NameBoundEvent" where
  "name_bound_event event chainID block =
     (let chain = of_int chainID :: uint64 in
      \<lparr>ev_Namehash = ce_Namehash event, ev_Resolver = ce_Address event, ev_ExpiresAt = ce_ExpiresAt event,
       ev_ChainID = chain,
       ev_EventID = nat_str (unat chain) @ '':'' @ hex_EncodeToString (ce_Namehash event) @ '':'' @ nat_str (unat block)\<rparr>)"

definition handleNameBound :: "('w, 'e) node_env_scheme \<Rightarrow> eth_log \<Rightarrow> (('w, 's) node_scheme, goerr option) go" where
  "handleNameBound E log =
     (case UnpackLog E ''NameBound'' log of
        Inl err \<Rightarrow> gret (Some (Wrapf ''failed to unpack NameBound event'' err))
      | Inr event \<Rightarrow>
     gbind (ask (EthChainID E)) (\<lambda>r.
     case r of
       Inl err \<Rightarrow> gret (Some (Wrapf ''failed to get chain ID'' err))
     | Inr chainID \<Rightarrow> PublishNameBound E (name_bound_event event chainID (lg_BlockNumber log))))"

definition handleLogEvent :: "('w, 'e) node_env_scheme \<Rightarrow> EventListener \<Rightarrow> eth_log \<Rightarrow> (('w, 's) node_scheme, goerr option) go" where
  "handleLogEvent E l log =
     (case lg_Topics log of
        [] \<Rightarrow> gpanic ''index out of range''
      | t # _ \<Rightarrow>
          gbind (if t = topic l ''submittedBinding'' then handleSubmittedBinding E log
                 else if t = topic l ''nameBound'' then handleNameBound E log
                 else gret None) (\<lambda>_.
          gbind (setLastSyncedBlock E (lg_BlockNumber log)) (\<lambda>_. gret None)))"

section \<open>Start and the loop\<close>

fun handle_history :: "('w, 'e) node_env_scheme \<Rightarrow> EventListener \<Rightarrow> eth_log list \<Rightarrow> (('w, 's) node_scheme, unit) go" where
  "handle_history E l [] = gret ()"
| "handle_history E l (log # logs) = gbind (handleLogEvent E l log) (\<lambda>_. handle_history E l logs)"

definition query_topics :: "EventListener \<Rightarrow> bytes list" where
  "query_topics l = [topic l ''submittedBinding'', topic l ''nameBound'']"

text \<open>The result is the error of \<open>Start\<close>, or the first block of the query the loop is started with.\<close>

definition Start :: "('w, 'e) node_env_scheme \<Rightarrow> EventListener \<Rightarrow> (('w, 's) node_scheme, goerr + int) go" where
  "Start E l =
     gbind (ask (EthBlockNumber E)) (\<lambda>r1.
     case r1 of
       Inl err \<Rightarrow> gret (Inl (Wrapf ''failed to get latest block'' err))
     | Inr latestBlock \<Rightarrow>
     gbind (getLastSyncedBlock E l) (\<lambda>r2.
     case r2 of
       Inl err \<Rightarrow> gret (Inl (Wrapf ''failed to get last synced block'' err))
     | Inr lastSyncedBlock \<Rightarrow>
     gbind (if lastSyncedBlock < latestBlock
            then gbind (ask (EthFilterLogs E (el_contractAddr l) (big_int64 lastSyncedBlock) (big_int64 latestBlock) (query_topics l)))
                   (\<lambda>(err, historyLogs). handle_history E l historyLogs)
            else gret ()) (\<lambda>_.
     gbind (ask (EthSubscribe E (el_contractAddr l) (big_int64 latestBlock) (query_topics l))) (\<lambda>err.
     case err of
       Some e \<Rightarrow> gret (Inl (Wrapf ''failed to subscribe to logs'' e))
     | None \<Rightarrow> gret (Inr (big_int64 latestBlock))))))"

text \<open>
  What the loop's \<open>select\<close> receives: an error of the subscription, a log, or the end of the context.
  A subscription that failed to be renewed is the nil interface (\<open>sub = False\<close>), on which the next
  round calls \<open>Err\<close>. The list is what is received before the process is left alone.
\<close>

datatype sub_event = SubError | FreshLog eth_log | CtxDone

fun listen :: "('w, 'e) node_env_scheme \<Rightarrow> EventListener \<Rightarrow> int \<Rightarrow> bool \<Rightarrow> sub_event list \<Rightarrow> (('w, 's) node_scheme, unit) go" where
  "listen E l from sub [] = (if sub then gret () else gpanic ''nil pointer dereference'')"
| "listen E l from sub (ev # evs) =
     (if \<not> sub then gpanic ''nil pointer dereference''
      else case ev of
        SubError \<Rightarrow>
          gbind (time_Sleep E (5 * 1000000000)) (\<lambda>_.
          gbind (ask (EthSubscribe E (el_contractAddr l) from (query_topics l))) (\<lambda>err.
          listen E l from (err = None) evs))
      | FreshLog log \<Rightarrow> gbind (handleLogEvent E l log) (\<lambda>_. listen E l from sub evs)
      | CtxDone \<Rightarrow> gret ())"

end
