(* ===== verification/ListenerProps.thy ===== *)
theory ListenerProps
  imports Listener NodeProps
begin

text \<open>
  Properties of the contract listener: where it resumes, what one \<open>SubmittedBinding\<close> event can cost
  and do, the way of a \<open>NameBound\<close> event from the chain through gossip into another node's store, the
  events that way loses, and the end of the loop when a subscription cannot be renewed.
\<close>

section \<open>Resuming\<close>

text \<open>The listener's LevelDB, as documented: what was put is found.\<close>

definition level_store :: "('w, 'e) node_env_scheme \<Rightarrow> ('w \<Rightarrow> string \<Rightarrow> bytes option) \<Rightarrow> bool" where
  "level_store E lv =
     ((\<forall>w r w'. LevelOpen E w = (r, w') \<longrightarrow> r = None \<and> lv w' = lv w)
    \<and> (\<forall>k v w r w'. LevelPut E k v w = (r, w') \<longrightarrow> r = None \<and> lv w' = (lv w)(k \<mapsto> v))
    \<and> (\<forall>k w r w'. LevelGet E k w = (r, w') \<longrightarrow> lv w' = lv w
         \<and> (case lv w k of None \<Rightarrow> \<exists>e. r = Inl e | Some b \<Rightarrow> r = Inr b)))"

interpretation block_codec: codec "\<lambda>w. nat_str (unat (w :: uint64))" "\<lambda>b. Done (ParseUint b)" "\<lambda>w. w" "\<lambda>_. True"
  by unfold_locales (simp, simp, simp add: ParseUint_def)

lemma setLastSyncedBlock_stores:
  assumes "level_store E lv" "setLastSyncedBlock E b s = (r, s')"
  shows "lv (rs_world s') ''last_synced_block'' = Some (nat_str (unat b))"
proof -
  obtain o1 w1 where o: "LevelOpen E (rs_world s) = (o1, w1)" by fastforce
  obtain o2 w2 where p: "LevelPut E ''last_synced_block'' (nat_str (unat b)) w1 = (o2, w2)" by fastforce
  have "o1 = None" "lv w2 = (lv w1)(''last_synced_block'' \<mapsto> nat_str (unat b))"
    using assms(1) o p unfolding level_store_def by blast+
  with assms(2) o p show ?thesis by (auto simp: setLastSyncedBlock_def gbind_def ask_def act_def)
qed

lemma getLastSyncedBlock_reads:
  assumes "level_store E lv"
  shows "\<exists>s'. getLastSyncedBlock E l s = (Done (Inr (case lv (rs_world s) ''last_synced_block'' of
      None \<Rightarrow> el_fromBlock l
    | Some v \<Rightarrow> (case ParseUint v of Inl e \<Rightarrow> el_fromBlock l | Inr b \<Rightarrow> b))), s')"
proof -
  obtain o1 w1 where o: "LevelOpen E (rs_world s) = (o1, w1)" by fastforce
  obtain o2 w2 where p: "LevelGet E ''last_synced_block'' w1 = (o2, w2)" by fastforce
  have 1: "o1 = None" "lv w1 = lv (rs_world s)"
    using assms o unfolding level_store_def by blast+
  have 2: "case lv w1 ''last_synced_block'' of None \<Rightarrow> \<exists>e. o2 = Inl e | Some b \<Rightarrow> o2 = Inr b"
    using assms p unfolding level_store_def by blast
  show ?thesis
    using o p 1 2 by (auto simp: getLastSyncedBlock_def gbind_def ask_def gret_def split: option.splits)
qed

lemma handleLogEvent_stores:
  assumes "level_store E lv" "handleLogEvent E l log s = (Done e, s')"
  shows "lv (rs_world s') ''last_synced_block'' = Some (nat_str (unat (lg_BlockNumber log)))"
  using assms(2) setLastSyncedBlock_stores[OF assms(1)]
  by (auto simp: handleLogEvent_def gbind_def gret_def gpanic_def split: list.splits outcome.splits prod.splits if_splits)

lemma handle_history_stores:
  assumes "level_store E lv" "handle_history E l logs s = (Done (), s')" "logs \<noteq> []"
  shows "lv (rs_world s') ''last_synced_block'' = Some (nat_str (unat (lg_BlockNumber (last logs))))"
  using assms(2,3)
proof (induction logs arbitrary: s)
  case (Cons log logs)
  then obtain x s1 where h: "handleLogEvent E l log s = (Done x, s1)" and t: "handle_history E l logs s1 = (Done (), s')"
    by (auto simp: gbind_def split: outcome.splits prod.splits)
  show ?case
  proof (cases "logs = []")
    case True
    with t have "s' = s1" by (simp add: gret_def)
    with handleLogEvent_stores[OF assms(1) h] True show ?thesis by simp
  next
    case False
    with Cons.IH[OF t] show ?thesis by simp
  qed
qed simp

text \<open>
  C29. On a LevelDB that keeps what is put, a listener that has replayed its history resumes at the
  block of the last log it was given, whether or not the handlers of the logs succeeded; one that was
  given no log and has never stored a block resumes at its deployment block.
\<close>

theorem listener_resumes:
  assumes "level_store E lv" "lv (rs_world s) ''last_synced_block'' = None"
    and "handle_history E l logs s = (Done (), s')"
  shows "\<exists>s''. getLastSyncedBlock E l s' =
    (Done (Inr (if logs = [] then el_fromBlock l else lg_BlockNumber (last logs))), s'')"
proof (cases "logs = []")
  case True
  with assms(3) have "s' = s" by (simp add: gret_def)
  with True assms(2) getLastSyncedBlock_reads[OF assms(1), of l s] show ?thesis by simp
next
  case False
  with handle_history_stores[OF assms(1,3)] getLastSyncedBlock_reads[OF assms(1), of l s'] show ?thesis by simp
qed

section \<open>A submitted binding\<close>

definition sleeps :: "effect list \<Rightarrow> int list" where
  "sleeps es = concat (map (\<lambda>e. case e of ESleep d \<Rightarrow> [d] | _ \<Rightarrow> []) es)"

lemma sleeps_simps [simp]: "sleeps [] = []" "sleeps (es @ fs) = sleeps es @ sleeps fs" "sleeps (ESleep d # es) = d # sleeps es"
  by (simp_all add: sleeps_def)

lemma sleeps_saves: "list_all (saves E) es \<Longrightarrow> sleeps es = []"
  by (induction es) (auto simp: sleeps_def saves_def split: effect.splits)

definition binding_effect :: "('w, 'e) env_scheme \<Rightarrow> effect \<Rightarrow> bool" where
  "binding_effect E e = (saves E e \<or> (\<exists>d. e = ESleep d))"

lemma trace_more: "does K s s' \<Longrightarrow> RecordStore.more s' = RecordStore.more s"
  by (simp add: does_def)

lemma await_record_trace:
  fixes s :: "('w, 's) RecordStore_scheme"
  shows "await_record E h n s = (r, s') \<Longrightarrow> n \<le> binding_maxRetries \<Longrightarrow>
   (\<exists>es. rs_trace s' = rs_trace s @ es \<and> list_all (binding_effect E) es
      \<and> sum_list (sleeps es) \<le> mined_sum n \<and> length (sleeps es) \<le> n)
   \<and> RecordStore.more s' = RecordStore.more s
   \<and> (\<forall>rec. r = Done (Some rec) \<longrightarrow> (\<exists>s1 s2 :: ('w, 's) RecordStore_scheme. GetByNamehash E h s1 = (Done (Some rec), s2)))"
proof (induction n arbitrary: s)
  case 0
  then show ?case by (auto simp: gret_def)
next
  case (Suc n)
  let ?d = "2 * 2 ^ (binding_maxRetries - n) * 1000000000 :: int"
  obtain o1 s1 where g: "GetByNamehash E h s = (o1, s1)" by fastforce
  from keepsD[OF does_GetByNamehash this, of "saves E"] obtain es where
    es: "rs_trace s1 = rs_trace s @ es" "list_all (saves E) es" and m: "RecordStore.more s1 = RecordStore.more s"
    by (auto simp: does_def)
  have b: "list_all (binding_effect E) es" using es(2) by (auto simp: list_all_iff binding_effect_def)
  let ?s2 = "s1\<lparr>rs_world := Sleep E ?d (rs_world s1), rs_trace := rs_trace s1 @ [ESleep ?d]\<rparr>"
  have d: "?d + mined_sum n = mined_sum (Suc n)" by (simp add: binding_maxRetries_def mined_maxRetries_def)
  consider (panic) p where "o1 = Panic p" | (found) rec where "o1 = Done (Some rec)" | (none) "o1 = Done None"
    by (cases o1) auto
  then show ?case
  proof cases
    case panic
    with Suc.prems g have "s' = s1" "r = Panic p" by (auto simp: gbind_def Let_def)
    with es b m sleeps_saves[OF es(2)] show ?thesis using mined_sum_pos[of "Suc n"] by auto
  next
    case found
    with Suc.prems g have s': "s' = ?s2" "r = Done (Some rec)" by (auto simp: gbind_def time_Sleep_def gret_def Let_def)
    have "rs_trace s' = rs_trace s @ (es @ [ESleep ?d])" "list_all (binding_effect E) (es @ [ESleep ?d])"
      "sum_list (sleeps (es @ [ESleep ?d])) \<le> mined_sum (Suc n)" "length (sleeps (es @ [ESleep ?d])) \<le> Suc n"
      using s' es b d mined_sum_pos[of n] by (simp_all add: sleeps_saves[OF es(2)] binding_effect_def)
    moreover have "RecordStore.more s' = RecordStore.more s" using s' m by simp
    ultimately show ?thesis using g found s' by blast
  next
    case none
    with Suc.prems g have w: "await_record E h n ?s2 = (r, s')" by (auto simp: gbind_def time_Sleep_def gret_def Let_def)
    have "n \<le> binding_maxRetries" using Suc.prems by simp
    from Suc.IH[OF w this] obtain fs where fs: "rs_trace s' = rs_trace s @ (es @ [ESleep ?d] @ fs)"
      "list_all (binding_effect E) fs" "sum_list (sleeps fs) \<le> mined_sum n" "length (sleeps fs) \<le> n"
      and rest: "RecordStore.more s' = RecordStore.more s"
        "\<forall>rec. r = Done (Some rec) \<longrightarrow> (\<exists>s1 s2 :: ('w, 's) RecordStore_scheme. GetByNamehash E h s1 = (Done (Some rec), s2))"
      using es(1) m by auto
    have "list_all (binding_effect E) (es @ [ESleep ?d] @ fs)"
      "sum_list (sleeps (es @ [ESleep ?d] @ fs)) \<le> mined_sum (Suc n)" "length (sleeps (es @ [ESleep ?d] @ fs)) \<le> Suc n"
      using fs b d by (simp_all add: sleeps_saves[OF es(2)] binding_effect_def)
    with fs(1) rest show ?thesis by blast
  qed
qed

lemma getTransactOpts_frame: "getTransactOpts E s = (r, s') \<Longrightarrow> rs_trace s' = rs_trace s \<and> RecordStore.more s' = RecordStore.more s"
  by (auto simp: getTransactOpts_def gbind_def gret_def ask_def split: sum.splits option.splits prod.splits outcome.splits)

lemma more_nd: "RecordStore.more s' = RecordStore.more s \<Longrightarrow> nd_trace s' = nd_trace s"
  by (cases s; cases s') simp

lemma decide_signer_trace:
  assumes "decide_signer E event record s = (r, s')"
  shows "rs_trace s' = rs_trace s \<and> (nd_trace s' = nd_trace s \<or> nd_trace s' = nd_trace s @
    [NDecideSigner (ce_Namehash event) (r_Signer record) (EqualFold (AddrHex E (r_Signer record)) (AddrHex E (ce_Address event)))])"
proof -
  obtain o1 s1 where 1: "getTransactOpts E s = (o1, s1)" by fastforce
  from getTransactOpts_frame[OF 1] more_nd have f: "rs_trace s1 = rs_trace s" "nd_trace s1 = nd_trace s" by blast+
  obtain out w where c: "ContractCall E ''bindingSigner'' (ce_Namehash event) (rs_world s1) = (out, w)" by fastforce
  let ?s2 = "s1\<lparr>rs_world := w\<rparr>"
  show ?thesis
  proof (cases "\<exists>auth a as. o1 = Done (Inr auth) \<and> out = Inr (AAddress a # as)")
    case True
    then obtain auth a as where "o1 = Done (Inr auth)" "out = Inr (AAddress a # as)" by blast
    with assms 1 c f show ?thesis
      by (auto simp: decide_signer_def Let_def gbind_def ask_def act_def gret_def GetSigner_def split: if_splits prod.splits)
  next
    case False
    then have "s' = s1 \<or> s' = ?s2"
      using assms 1 c
      by (cases o1) (auto simp: decide_signer_def Let_def gbind_def ask_def gret_def gpanic_def split: sum.splits list.splits abi_arg.splits)
    with f show ?thesis by auto
  qed
qed

text \<open>
  C27. In every environment a \<open>SubmittedBinding\<close> event costs at most four waits of one minute in all,
  writes nothing but what a lookup saves, and leads to at most one call of \<open>oracleDecideSigner\<close>:
  for the event's name hash, with the signer of a record found under that hash, and accepting exactly
  if this signer and the event's are the same address in hexadecimal, in either case.
\<close>

theorem submitted_binding_bounded:
  fixes s :: "('w, 's) node_scheme"
  assumes "handleSubmittedBinding E log s = (r, s')"
  shows "(\<exists>es. rs_trace s' = rs_trace s @ es \<and> list_all (binding_effect E) es
      \<and> sum_list (sleeps es) \<le> 60 * sec \<and> length (sleeps es) \<le> 4)
    \<and> (nd_trace s' = nd_trace s \<or> (\<exists>event record (s1 :: ('w, 's) node_scheme) s2. UnpackLog E ''SubmittedBinding'' log = Inr event
        \<and> GetByNamehash E (ce_Namehash event) s1 = (Done (Some record), s2)
        \<and> nd_trace s' = nd_trace s @ [NDecideSigner (ce_Namehash event) (r_Signer record)
             (EqualFold (AddrHex E (r_Signer record)) (AddrHex E (ce_Address event)))]))"
proof (cases "UnpackLog E ''SubmittedBinding'' log")
  case (Inl e)
  with assms have "s' = s" by (simp add: handleSubmittedBinding_def gret_def)
  then show ?thesis by (auto simp: sec_def intro!: exI[of _ "[]"])
next
  case (Inr event)
  obtain o1 s1 where 1: "await_record E (ce_Namehash event) binding_maxRetries s = (o1, s1)" by fastforce
  have m: "mined_sum binding_maxRetries = 60 * sec" "binding_maxRetries = 4"
    by (simp_all add: binding_maxRetries_def mined_maxRetries_def sec_def eval_nat_numeral)
  from await_record_trace[OF 1] obtain es where es: "rs_trace s1 = rs_trace s @ es" "list_all (binding_effect E) es"
    "sum_list (sleeps es) \<le> 60 * sec" "length (sleeps es) \<le> 4" and nd: "nd_trace s1 = nd_trace s"
    and found: "\<And>rec. o1 = Done (Some rec) \<Longrightarrow> \<exists>(s1 :: ('w, 's) node_scheme) s2. GetByNamehash E (ce_Namehash event) s1 = (Done (Some rec), s2)"
    using m more_nd by auto
  show ?thesis
  proof (cases "\<exists>rec. o1 = Done (Some rec)")
    case True
    then obtain rec where rec: "o1 = Done (Some rec)" by blast
    with assms Inr 1 have "decide_signer E event rec s1 = (r, s')" by (simp add: handleSubmittedBinding_def gbind_def)
    from decide_signer_trace[OF this] es nd Inr found[OF rec] show ?thesis by metis
  next
    case False
    with assms Inr 1 have "s' = s1"
      by (auto simp: handleSubmittedBinding_def gbind_def gret_def split: outcome.splits option.splits)
    with es nd show ?thesis by blast
  qed
qed

section \<open>From the chain into another node's store\<close>

text \<open>\<open>time.Time\<close> marshals to RFC 3339 text, as its documentation says.\<close>

definition rfc_times :: "('w, 'e) node_env_scheme \<Rightarrow> bool" where
  "rfc_times E = (\<forall>t ts. LocalTime E t = Inr ts \<longrightarrow> ascii ts \<and> parse_rfc3339 ts \<noteq> None)"

lemma PublishNameBound_trace:
  assumes "PublishNameBound E evt s = (r, s')"
  shows "(nd_trace s' = nd_trace s \<and> r \<noteq> Done None) \<or> (\<exists>t ts. LocalTime E t = Inr ts
    \<and> nd_trace s' = nd_trace s @ [NPublish GossipTopicNameBound (json_print (enc_NameBound E evt (JStr ts)))])"
proof -
  obtain t w where c: "Clock E (rs_world s) = (t, w)" by fastforce
  show ?thesis
  proof (cases "LocalTime E t")
    case (Inl e)
    with assms c show ?thesis by (auto simp: PublishNameBound_def enc_time_def gbind_def gret_def time_Now_def)
  next
    case (Inr ts)
    with assms c have "nd_trace s' = nd_trace s @ [NPublish GossipTopicNameBound (json_print (enc_NameBound E evt (JStr ts)))]"
      by (auto simp: PublishNameBound_def enc_time_def publish_def gbind_def act_def time_Now_def split: prod.splits)
    with Inr show ?thesis by blast
  qed
qed

lemma handleNameBound_trace:
  assumes "handleNameBound E log s = (r, s')" "\<And>w. fst (EthChainID E w) = Inr c"
  shows "(nd_trace s' = nd_trace s \<and> r \<noteq> Done None) \<or> (\<exists>event t ts. UnpackLog E ''NameBound'' log = Inr event \<and> LocalTime E t = Inr ts
    \<and> nd_trace s' = nd_trace s @ [NPublish GossipTopicNameBound
         (json_print (enc_NameBound E (name_bound_event event c (lg_BlockNumber log)) (JStr ts)))])"
proof (cases "UnpackLog E ''NameBound'' log")
  case (Inl e)
  with assms(1) show ?thesis by (auto simp: handleNameBound_def gret_def)
next
  case (Inr event)
  obtain o1 w where c: "EthChainID E (rs_world s) = (o1, w)" by fastforce
  with assms(2) have "o1 = Inr c" by (metis fst_conv)
  with assms(1) c Inr have "PublishNameBound E (name_bound_event event c (lg_BlockNumber log)) (s\<lparr>rs_world := w\<rparr>) = (r, s')"
    by (simp add: handleNameBound_def gbind_def ask_def)
  from PublishNameBound_trace[OF this] Inr show ?thesis by auto
qed

lemma name_bound_event_ok:
  assumes "length (ce_Namehash event) = 32" "addr_codec_ok C (ce_Address event)" "AddrToJSON C (ce_Address event) \<noteq> JNull"
  shows "event_ok C (name_bound_event event c b)"
  using assms by (simp add: event_ok_def name_bound_event_def Let_def ascii_def[of "'':''"])

text \<open>
  C11. A name binding observed on the chain by one node reaches the store of another: if the handler of
  a \<open>NameBound\<close> log succeeds, it has published exactly one message, and a node that holds the record of
  the name hash and has not seen the event finds, after receiving this message, the record with the
  event's resolver as its address on the connected chain, and otherwise unchanged.
\<close>

theorem bound_event_propagates:
  fixes sA sB :: "('w, 's) node_scheme"
  assumes "handleNameBound E log sA = (Done None, sA')" "UnpackLog E ''NameBound'' log = Inr event"
    and "\<And>w. fst (EthChainID E w) = Inr c" "rfc_times E"
    and "quiet E dv bv" "clean_keys E" "record_ok E r" "valid_domain (r_Domain r)" "r_Status r \<noteq> ''pending''"
    and "b_Addresses (r_Bindings r) = Some m" "ce_Namehash event = Namehash E (r_Domain r)" "length (ce_Namehash event) = 32"
    and "addr_codec_ok E (ce_Address event)" "AddrToJSON E (ce_Address event) \<noteq> JNull" "ascii (AddrHex E (ce_Address event))"
    and "gm_get (gs_eventSeen sB) (ev_EventID (name_bound_event event c (lg_BlockNumber log))) = None"
    and "view_of dv bv sB = v_save E r V"
  shows "\<exists>msg. nd_trace sA' = nd_trace sA @ [NPublish GossipTopicNameBound msg]
    \<and> runs (gbind (on_NameBound E msg) (\<lambda>_. Get E (r_Domain r))) sB
        (\<lambda>f s'. f = Some (canon (bound_record E (name_bound_event event c (lg_BlockNumber log)) m r)))"
proof -
  from handleNameBound_trace[OF assms(1,3)] assms(2) obtain t ts where l: "LocalTime E t = Inr ts"
    and tr: "nd_trace sA' = nd_trace sA @ [NPublish GossipTopicNameBound
         (json_print (enc_NameBound E (name_bound_event event c (lg_BlockNumber log)) (JStr ts)))]" by auto
  from l assms(4) obtain t' where ts: "ascii ts" "parse_rfc3339 ts = Some t'" unfolding rfc_times_def by blast
  have "runs (gbind (on_NameBound E (json_print (enc_NameBound E (name_bound_event event c (lg_BlockNumber log)) (JStr ts))))
      (\<lambda>_. Get E (r_Domain r))) sB
      (\<lambda>f s'. f = Some (canon (bound_record E (name_bound_event event c (lg_BlockNumber log)) m r)))"
    by (rule gossip_binds[OF assms(5-10) _ _ name_bound_event_ok[OF assms(12-14)] ts assms(16,17)])
      (use assms(11,15) in \<open>simp_all add: name_bound_event_def Let_def\<close>)
  with tr show ?thesis by blast
qed

section \<open>What the way loses\<close>



text \<open>
  The listener does not survive a failed renewal of its subscription: after an error of the
  subscription it sleeps five seconds and subscribes again, and if that fails the next round calls
  a method of the nil subscription and panics.
\<close>

theorem resubscribe_panics:
  assumes "\<And>w. fst (EthSubscribe E (el_contractAddr l) from (query_topics l) w) \<noteq> None"
  shows "\<exists>s'. listen E l from True (SubError # evs) s = (Panic ''nil pointer dereference'', s')
    \<and> rs_trace s' = rs_trace s @ [ESleep (5 * 1000000000)]"
proof -
  obtain e w where c: "EthSubscribe E (el_contractAddr l) from (query_topics l) (Sleep E (5 * 1000000000) (rs_world s)) = (e, w)"
    by fastforce
  with assms have "e \<noteq> None" by (metis fst_conv)
  then obtain x where e: "e = Some x" by blast
  with c e show ?thesis by (cases evs) (simp_all add: gbind_def time_Sleep_def ask_def gpanic_def)
qed

section \<open>Examples\<close>

definition demo_listener :: EventListener where
  "demo_listener = \<lparr>el_contractAddr = ''registry'', el_fromBlock = 3, el_logTopics = [(''submittedBinding'', ''s''), (''nameBound'', ''n'')]\<rparr>"

definition demo_log :: eth_log where
  "demo_log = \<lparr>lg_Topics = [''n''], lg_Data = Namehash mem_env ''ab'', lg_BlockNumber = 7\<rparr>"

definition demo_contract_event :: contract_event where
  "demo_contract_event = \<lparr>ce_Namehash = Namehash mem_env ''ab'', ce_Address = ''a'', ce_ExpiresAt = 9\<rparr>"

definition mem_level :: "mem_world \<Rightarrow> string \<Rightarrow> bytes option" where
  "mem_level w k = gm_get (mw_db w) (''listener:'' @ k)"

lemma mem_node_listener:
  "EthChainID mem_node w = (Inr 1, w)" "LevelOpen mem_node w = (None, w)"
  "LevelGet mem_node k w = (case gm_get (mw_db w) (''listener:'' @ k) of None \<Rightarrow> Inl ErrDatastoreNotFound | Some b \<Rightarrow> Inr b, w)"
  "LevelPut mem_node k v w = (None, w\<lparr>mw_db := gm_put (''listener:'' @ k) v (mw_db w)\<rparr>)"
  by (simp_all add: mem_node_def chain_env.defs)

lemma demo_unpack: "UnpackLog mem_node n demo_log = Inr demo_contract_event"
proof -
  have "Namehash mem_env ''ab'' \<noteq> []" using demo_event_ok(1) by (auto simp: event_ok_def demo_event_def)
  then show ?thesis by (simp add: mem_node_def chain_env.defs demo_log_def demo_contract_event_def)
qed

lemma mem_level_store: "level_store mem_node mem_level"
  by (auto simp: level_store_def mem_node_listener mem_level_def fun_eq_iff split: option.split)

lemma mem_rfc_times: "rfc_times mem_node"
  using demo_event_ok(2,3) by (auto simp: rfc_times_def mem_node_simps)

lemma demo_handleNameBound:
  "\<exists>msg w. handleNameBound mem_node demo_log s = (Done None, s\<lparr>rs_world := w, nd_trace := nd_trace s @ [NPublish GossipTopicNameBound msg]\<rparr>)
     \<and> mw_db w = mw_db (rs_world s)"
  by (intro exI[of _ "json_print (enc_NameBound mem_node (name_bound_event demo_contract_event 1 (lg_BlockNumber demo_log)) (JStr demo_time))"]
        exI[of _ "(rs_world s)\<lparr>mw_clock := mw_clock (rs_world s) + 1\<rparr>"])
    (simp add: handleNameBound_def demo_unpack gbind_def ask_def mem_node_listener PublishNameBound_def time_Now_def
      mem_node_simps enc_time_def publish_def act_def)

lemma demo_topics: "lg_Topics demo_log = [''n'']" "topic demo_listener ''submittedBinding'' = ''s''" "topic demo_listener ''nameBound'' = ''n''"
  by (simp_all add: topic_def demo_listener_def demo_log_def)

theorem listener_resumes_witness:
  "\<exists>s' s''. handle_history mem_node demo_listener [demo_log] node_start = (Done (), s')
    \<and> getLastSyncedBlock mem_node demo_listener s' = (Done (Inr 7), s'')"
proof -
  obtain msg w where h: "handleNameBound mem_node demo_log node_start
      = (Done None, node_start\<lparr>rs_world := w, nd_trace := nd_trace node_start @ [NPublish GossipTopicNameBound msg]\<rparr>)"
    using demo_handleNameBound by blast
  have "\<exists>s'. handle_history mem_node demo_listener [demo_log] node_start = (Done (), s')"
    using h by (simp add: handleLogEvent_def demo_topics gbind_def gret_def setLastSyncedBlock_def
        ask_def act_def mem_node_listener)
  then obtain s' where s': "handle_history mem_node demo_listener [demo_log] node_start = (Done (), s')" by blast
  have "mem_level (rs_world node_start) ''last_synced_block'' = None" by (simp add: mem_level_def node_start_world)
  from listener_resumes[OF mem_level_store this s'] s' show ?thesis by (auto simp: demo_log_def)
qed

theorem submitted_binding_bounded_witness:
  "\<exists>es. rs_trace (snd (handleSubmittedBinding mem_node demo_log node_start)) = rs_trace node_start @ es
     \<and> list_all (binding_effect mem_node) es \<and> sum_list (sleeps es) \<le> 60 * sec \<and> length (sleeps es) \<le> 4"
  using submitted_binding_bounded[OF surjective_pairing, of mem_node demo_log node_start] by blast

lemma mem_node_env:
  "DhtGet mem_node = DhtGet mem_env" "DhtPut mem_node = DhtPut mem_env" "DbGet mem_node = DbGet mem_env"
  "DbPut mem_node = DbPut mem_env" "DbQuery mem_node = DbQuery mem_env" "RoutingPeers mem_node = RoutingPeers mem_env"
  "Clock mem_node = Clock mem_env" "Sleep mem_node = Sleep mem_env" "NewKey mem_node = NewKey mem_env"
  "Keccak mem_node = Keccak mem_env" "AddrHex mem_node = AddrHex mem_env"
  by (simp_all add: mem_node_def mem_chain_def chain_base_def chain_env.defs env.defs)

lemma quiet_node: "quiet mem_node mem_dht mem_db"
  using quiet_mem by (simp add: quiet_def quiet_dht_def quiet_db_def quiet_time_def mem_node_env)

lemma clean_node: "clean_keys mem_node"
  using clean_mem by (simp add: clean_keys_def mem_node_env) (simp add: mem_env_def)

lemma Namehash_node: "Namehash mem_node ''ab'' = Namehash mem_env ''ab''"
  by (simp add: Namehash_labels keccak256_def mem_node_env)

definition demo_holder :: "mem_world node" where
  "demo_holder = snd (SaveRecord mem_node demo_record node_start)"

lemma demo_holder_facts:
  "view_of mem_dht mem_db demo_holder = v_save mem_node demo_record (view_of mem_dht mem_db node_start)"
  "gs_eventSeen demo_holder = []"
proof -
  have k: "keeps (does (\<lambda>_. True)) (SaveRecord mem_node demo_record)" by (rule does_SaveRecord) simp
  have "runs (SaveRecord mem_node demo_record) node_start
      (\<lambda>e s'. view_of mem_dht mem_db s' = v_save mem_node demo_record (view_of mem_dht mem_db node_start))"
    by (rule runs_SaveRecord'[OF quiet_node])
  from runs_keeps[OF this k] obtain e s' where "SaveRecord mem_node demo_record node_start = (Done e, s')"
    "view_of mem_dht mem_db s' = v_save mem_node demo_record (view_of mem_dht mem_db node_start)" "does (\<lambda>_. True) node_start s'"
    by (auto simp: runs_iff)
  then show "view_of mem_dht mem_db demo_holder = v_save mem_node demo_record (view_of mem_dht mem_db node_start)"
    "gs_eventSeen demo_holder = []"
    using more_node[of s' node_start] by (simp_all add: demo_holder_def does_def node_start_world)
qed

lemma demo_contract_event_facts:
  "length (ce_Namehash demo_contract_event) = 32" "addr_codec_ok mem_node (ce_Address demo_contract_event)"
  "AddrToJSON mem_node (ce_Address demo_contract_event) \<noteq> JNull" "ascii (AddrHex mem_node (ce_Address demo_contract_event))"
proof -
  show "length (ce_Namehash demo_contract_event) = 32"
    using demo_event_ok(1) by (simp add: event_ok_def demo_event_def demo_contract_event_def)
  show "addr_codec_ok mem_node (ce_Address demo_contract_event)"
    "AddrToJSON mem_node (ce_Address demo_contract_event) \<noteq> JNull" "ascii (AddrHex mem_node (ce_Address demo_contract_event))"
    by (simp_all add: addr_codec_ok_def mem_node_simps mem_node_env demo_contract_event_def mem_env_def
        del: hex_EncodeToString.simps hex_DecodeString.simps)
qed

theorem bound_event_propagates_witness:
  "\<exists>sA' msg. handleNameBound mem_node demo_log node_start = (Done None, sA')
    \<and> nd_trace sA' = nd_trace node_start @ [NPublish GossipTopicNameBound msg]
    \<and> runs (gbind (on_NameBound mem_node msg) (\<lambda>_. Get mem_node (r_Domain demo_record))) demo_holder
        (\<lambda>f s'. f = Some (canon (bound_record mem_node (name_bound_event demo_contract_event 1 (lg_BlockNumber demo_log)) [] demo_record)))"
proof -
  obtain sA' where a: "handleNameBound mem_node demo_log node_start = (Done None, sA')"
    using demo_handleNameBound by blast
  have "b_Addresses (r_Bindings demo_record) = Some []" "r_Status demo_record \<noteq> ''pending''"
    by (simp_all add: demo_record_def zero_Record_def zero_Binding_def)
  moreover have "ce_Namehash demo_contract_event = Namehash mem_node (r_Domain demo_record)"
    by (simp add: demo_contract_event_def Namehash_node demo_ok)
  ultimately show ?thesis
    using bound_event_propagates[OF a demo_unpack _ mem_rfc_times quiet_node clean_node demo_ok_node _ _ _ _
        demo_contract_event_facts _ demo_holder_facts(1), of 1] a
    by (simp add: mem_node_listener demo_ok demo_holder_facts(2))
qed


definition mem_node_cut :: "mem_world node_env" where
  "mem_node_cut = mem_node\<lparr>EthSubscribe := \<lambda>c a t w. (Some ErrJSON, w)\<rparr>"

theorem resubscribe_panics_witness:
  "\<exists>s'. listen mem_node_cut demo_listener 7 True [SubError] node_start = (Panic ''nil pointer dereference'', s')
    \<and> rs_trace s' = rs_trace node_start @ [ESleep (5 * 1000000000)]"
  by (rule resubscribe_panics) (simp add: mem_node_cut_def)

end
