(* ===== verification/LockRace.thy ===== *)
theory LockRace
  imports LockFacts StoreProps
begin

text \<open>
  Several nodes on one lock. \<open>TryAcquireLock\<close> reads the lock key and then writes it, and
  \<open>ReleaseLock\<close> reads it and then clears it, with nothing in the network that joins the two
  (\<open>core/store.go\<close>). Here the two halves are steps of their own, and any number of nodes take them
  in any order on one shared world; two lemmas say that the halves in sequence are the operations
  of \<open>Locks\<close>.
\<close>

section \<open>The halves of the operations\<close>

definition lock_look :: "('w, 'e) env_scheme \<Rightarrow> string \<Rightarrow> (('w, 's) RecordStore_scheme, string option) go" where
  "lock_look E domain =
     gbind (gread rs_hostID) (\<lambda>hostID.
     gbind (time_Now E) (\<lambda>t.
     gbind (dht_GetValue E (makeLockKey domain)) (\<lambda>existing.
     gret (if (case existing of Inl e \<Rightarrow> False | Inr existingValue \<Rightarrow> 0 < length (sl_bytes existingValue))
           then None else Some (make_lockID hostID t)))))"

definition lock_claim :: "('w, 'e) env_scheme \<Rightarrow> string \<Rightarrow> string \<Rightarrow> (('w, 's) RecordStore_scheme, string \<times> bool) go" where
  "lock_claim E domain lockID =
     gbind (dht_PutValue E (makeLockKey domain) lockID) (\<lambda>err.
     case err of
       Some e \<Rightarrow> gret ([], False)
     | None \<Rightarrow>
         gbind (gmodify (\<lambda>s. s\<lparr>rs_pendingLocks := gm_put domain lockID (rs_pendingLocks s)\<rparr>)) (\<lambda>_.
         gret (lockID, True)))"

definition lock_clear :: "('w, 'e) env_scheme \<Rightarrow> string \<Rightarrow> string \<Rightarrow> (('w, 's) RecordStore_scheme, bool) go" where
  "lock_clear E domain lockID =
     gbind (dht_PutValue E (makeLockKey domain) []) (\<lambda>_.
     gbind (gread rs_pendingLocks) (\<lambda>locks.
     if gm_get locks domain = Some lockID
     then gbind (gmodify (\<lambda>s. s\<lparr>rs_pendingLocks := gm_del domain (rs_pendingLocks s)\<rparr>)) (\<lambda>_. gret True)
     else gret False))"

lemma TryAcquireLock_split:
  "TryAcquireLock E d = gbind (lock_look E d) (\<lambda>r. case r of None \<Rightarrow> gret ([], False) | Some i \<Rightarrow> lock_claim E d i)"
  unfolding TryAcquireLock_def lock_look_def gbind_assoc gbind_gret Let_def lock_claim_def
  by (intro arg_cong2[where f = gbind] refl ext) simp

lemma ReleaseLock_split:
  "ReleaseLock E d i = gbind (IsLockValid E d i) (\<lambda>valid. if \<not> valid then gret False else lock_clear E d i)"
  by (simp only: ReleaseLock_def lock_clear_def)

section \<open>The nodes and their steps\<close>

datatype phase = Idle | Looked string | Holds string | Clearing string

record 'w race =
  rc_world :: 'w
  rc_node :: "nat \<Rightarrow> 'w RecordStore"
  rc_phase :: "nat \<Rightarrow> phase"

definition enter :: "'w race \<Rightarrow> nat \<Rightarrow> 'w RecordStore" where
  "enter R i = (rc_node R i)\<lparr>rs_world := rc_world R\<rparr>"

definition leave :: "'w race \<Rightarrow> nat \<Rightarrow> 'w RecordStore \<Rightarrow> phase \<Rightarrow> 'w race" where
  "leave R i s p = \<lparr>rc_world = rs_world s, rc_node = (rc_node R)(i := s), rc_phase = (rc_phase R)(i := p)\<rparr>"

lemma leave_simps [simp]:
  "rc_world (leave R i s p) = rs_world s" "rc_phase (leave R i s p) j = (if j = i then p else rc_phase R j)"
  "rs_world (enter R i) = rc_world R"
  by (simp_all add: leave_def enter_def)

inductive race_step :: "('w, 'e) env_scheme \<Rightarrow> string \<Rightarrow> 'w race \<Rightarrow> 'w race \<Rightarrow> bool" for E d where
  refused: "rc_phase R i = Idle \<Longrightarrow> lock_look E d (enter R i) = (Done None, s) \<Longrightarrow> race_step E d R (leave R i s Idle)"
| looked: "rc_phase R i = Idle \<Longrightarrow> lock_look E d (enter R i) = (Done (Some l), s) \<Longrightarrow> race_step E d R (leave R i s (Looked l))"
| failed: "rc_phase R i = Looked l \<Longrightarrow> lock_claim E d l (enter R i) = (Done (l', False), s) \<Longrightarrow> race_step E d R (leave R i s Idle)"
| claimed: "rc_phase R i = Looked l \<Longrightarrow> lock_claim E d l (enter R i) = (Done (l', True), s) \<Longrightarrow> race_step E d R (leave R i s (Holds l'))"
| stale: "rc_phase R i = Holds l \<Longrightarrow> IsLockValid E d l (enter R i) = (Done False, s) \<Longrightarrow> race_step E d R (leave R i s Idle)"
| valid: "rc_phase R i = Holds l \<Longrightarrow> IsLockValid E d l (enter R i) = (Done True, s) \<Longrightarrow> race_step E d R (leave R i s (Clearing l))"
| cleared: "rc_phase R i = Clearing l \<Longrightarrow> lock_clear E d l (enter R i) = (Done b, s) \<Longrightarrow> race_step E d R (leave R i s Idle)"

inductive_cases race_step_elim: "race_step E d R R'"

inductive race_reach :: "('w, 'e) env_scheme \<Rightarrow> string \<Rightarrow> 'w race \<Rightarrow> 'w race \<Rightarrow> bool" for E d R0 where
  start: "race_reach E d R0 R0"
| step: "race_reach E d R0 R \<Longrightarrow> race_step E d R R' \<Longrightarrow> race_reach E d R0 R'"

section \<open>The halves on a quiet network\<close>

lemma world_view: "dv (rs_world s) = vw_dht (view_of dv bv s)"
  by (simp add: view_of_def)

lemma runs_lock_look:
  assumes "quiet E dv bv"
  shows "runs (lock_look E d) s (\<lambda>r s'. dv (rs_world s') = dv (rs_world s)
    \<and> (case r of None \<Rightarrow> dv (rs_world s) (makeLockKey d) \<noteq> None
        | Some l \<Rightarrow> l \<noteq> [] \<and> dv (rs_world s) (makeLockKey d) = None))"
proof -
  have "vw_dht (view_of dv bv s) (makeLockKey d) \<noteq> Some []"
    using quietD(8)[OF assms] by (simp add: view_of_def)
  then show ?thesis
    unfolding lock_look_def runs_gbind
    by (intro runs_read_host[OF assms] runs_time_Now[OF assms] runs_dht_GetValue[OF assms])
      (cases "vw_dht (view_of dv bv s) (makeLockKey d)"; auto simp: world_view[of dv _ bv])
qed

lemma runs_lock_claim:
  assumes "quiet E dv bv" "l \<noteq> []"
  shows "runs (lock_claim E d l) s (\<lambda>x s'. x = (l, True) \<and> dv (rs_world s') = (dv (rs_world s))(makeLockKey d \<mapsto> l))"
  unfolding lock_claim_def runs_gbind
  by (rule runs_dht_PutValue[OF assms(1)]) (use assms(2) in \<open>simp add: runs_gmodify view_of_def\<close>)

lemma runs_lock_clear:
  assumes "quiet E dv bv"
  shows "runs (lock_clear E d l) s (\<lambda>x s'. dv (rs_world s') = (dv (rs_world s))(makeLockKey d := None))"
  unfolding lock_clear_def runs_gbind
  by (rule runs_dht_PutValue[OF assms(1)]) (simp add: runs_gread runs_gmodify view_of_def)

lemma runs_lock_valid:
  assumes "quiet E dv bv"
  shows "runs (IsLockValid E d l) s (\<lambda>b s'. dv (rs_world s') = dv (rs_world s)
    \<and> (\<not> b \<longrightarrow> dv (rs_world s) (makeLockKey d) \<noteq> Some l)
    \<and> (dv (rs_world s) (makeLockKey d) = Some l \<longrightarrow> b))"
  by (rule runs_IsLockValid[OF assms]) (auto simp: world_view[of dv _ bv])

section \<open>What holds and what does not\<close>

definition held :: "'w race \<Rightarrow> string \<Rightarrow> bool" where
  "held R l = (\<exists>i. rc_phase R i = Holds l \<or> rc_phase R i = Clearing l)"

definition race_inv :: "('w \<Rightarrow> string \<Rightarrow> bytes option) \<Rightarrow> string \<Rightarrow> 'w race \<Rightarrow> bool" where
  "race_inv dv d R = ((\<forall>l. dv (rc_world R) (makeLockKey d) = Some l \<longrightarrow> held R l)
     \<and> (\<forall>i l. rc_phase R i = Looked l \<longrightarrow> l \<noteq> []))"

lemma held_keep:
  assumes "held R l" "rc_phase R i = Holds l \<or> rc_phase R i = Clearing l \<Longrightarrow> p = Holds l \<or> p = Clearing l"
  shows "held (leave R i s p) l"
proof -
  obtain j where "rc_phase R j = Holds l \<or> rc_phase R j = Clearing l" using assms(1) by (auto simp: held_def)
  with assms(2) show ?thesis unfolding held_def by (intro exI[of _ j]) auto
qed

lemma race_inv_leave:
  assumes "race_inv dv d R" "\<And>l. p = Looked l \<Longrightarrow> l \<noteq> []"
    and "\<And>l. dv (rs_world s) (makeLockKey d) = Some l \<Longrightarrow> held (leave R i s p) l"
  shows "race_inv dv d (leave R i s p)"
  using assms by (auto simp: race_inv_def)

lemma race_step_inv:
  assumes q: "quiet E dv bv" and "race_step E d R R'" and inv: "race_inv dv d R"
  shows "race_inv dv d R'"
  using assms(2)
proof cases
  case (refused i s)
  from runsD[OF runs_lock_look[OF q] refused(3)] inv refused(2) show ?thesis
    unfolding refused(1) by (intro race_inv_leave[OF inv] held_keep) (auto simp: race_inv_def)
next
  case (looked i l s)
  from runsD[OF runs_lock_look[OF q] looked(3)] inv looked(2) show ?thesis
    unfolding looked(1) by (intro race_inv_leave[OF inv]) (auto simp: race_inv_def)
next
  case (failed i l l' s)
  from inv failed(2) have "l \<noteq> []" by (simp add: race_inv_def)
  from runsD[OF runs_lock_claim[OF q this] failed(3)] show ?thesis by simp
next
  case (claimed i l l' s)
  from inv claimed(2) have "l \<noteq> []" by (simp add: race_inv_def)
  from runsD[OF runs_lock_claim[OF q this] claimed(3)] show ?thesis
    unfolding claimed(1) by (intro race_inv_leave[OF inv]) (auto simp: held_def)
next
  case (stale i l s)
  from runsD[OF runs_lock_valid[OF q] stale(3)] inv stale(2) show ?thesis
    unfolding stale(1) by (intro race_inv_leave[OF inv] held_keep) (auto simp: race_inv_def)
next
  case (valid i l s)
  from runsD[OF runs_lock_valid[OF q] valid(3)] inv valid(2) show ?thesis
    unfolding valid(1) by (intro race_inv_leave[OF inv] held_keep) (auto simp: race_inv_def)
next
  case (cleared i l b s)
  from runsD[OF runs_lock_clear[OF q] cleared(3)] show ?thesis
    unfolding cleared(1) by (intro race_inv_leave[OF inv]) auto
qed

lemma race_inv_reach:
  assumes "quiet E dv bv" "race_reach E d R0 R" "race_inv dv d R0"
  shows "race_inv dv d R"
  using assms(2) by induction (use assms(3) race_step_inv[OF assms(1)] in blast)+


lemma look_step:
  assumes "quiet E dv bv" "dv (rc_world R) (makeLockKey d) = None" "rc_phase R i = Idle"
  shows "\<exists>s l. race_step E d R (leave R i s (Looked l)) \<and> l \<noteq> [] \<and> dv (rs_world s) = dv (rc_world R)"
proof -
  from runs_lock_look[OF assms(1), of d "enter R i"] obtain r s where
    "lock_look E d (enter R i) = (Done r, s)" "dv (rs_world s) = dv (rc_world R)"
    "case r of None \<Rightarrow> False | Some l \<Rightarrow> l \<noteq> []"
    using assms(2) by (auto simp: runs_iff split: option.splits)
  then obtain l where "lock_look E d (enter R i) = (Done (Some l), s)" "l \<noteq> []" by (auto split: option.splits)
  from race_step.looked[OF assms(3) this(1)] this(2) show ?thesis
    using \<open>dv (rs_world s) = dv (rc_world R)\<close> by blast
qed

lemma claim_step:
  assumes "quiet E dv bv" "rc_phase R i = Looked l" "l \<noteq> []"
  shows "\<exists>s. race_step E d R (leave R i s (Holds l)) \<and> dv (rs_world s) (makeLockKey d) = Some l"
proof -
  from runs_lock_claim[OF assms(1,3), of d "enter R i"] obtain s where
    "lock_claim E d l (enter R i) = (Done (l, True), s)" "dv (rs_world s) (makeLockKey d) = Some l"
    by (auto simp: runs_iff)
  from race_step.claimed[OF assms(2) this(1)] this(2) show ?thesis by blast
qed

text \<open>
  C16. The lock does not exclude concurrent nodes: from every state with a free lock and two idle nodes
  a state can be reached in which both hold it, on a network that answers every request. Only the
  second one's id is in the network.
\<close>

theorem lock_race:
  assumes "quiet E dv bv" "dv (rc_world R) (makeLockKey d) = None" "rc_phase R i = Idle" "rc_phase R j = Idle" "i \<noteq> j"
  shows "\<exists>R' a b. race_reach E d R R' \<and> rc_phase R' i = Holds a \<and> rc_phase R' j = Holds b
    \<and> dv (rc_world R') (makeLockKey d) = Some b"
proof -
  obtain s1 a where 1: "race_step E d R (leave R i s1 (Looked a))" "a \<noteq> []" "dv (rs_world s1) = dv (rc_world R)"
    using look_step[OF assms(1-3)] by blast
  let ?R1 = "leave R i s1 (Looked a)"
  obtain s2 b where 2: "race_step E d ?R1 (leave ?R1 j s2 (Looked b))" "b \<noteq> []" "dv (rs_world s2) = dv (rc_world ?R1)"
    using look_step[OF assms(1), of ?R1 d j] assms 1 by auto
  let ?R2 = "leave ?R1 j s2 (Looked b)"
  obtain s3 where 3: "race_step E d ?R2 (leave ?R2 i s3 (Holds a))"
    using claim_step[OF assms(1), of ?R2 i a d] assms(5) 1(2) by auto
  let ?R3 = "leave ?R2 i s3 (Holds a)"
  obtain s4 where 4: "race_step E d ?R3 (leave ?R3 j s4 (Holds b))" "dv (rs_world s4) (makeLockKey d) = Some b"
    using claim_step[OF assms(1), of ?R3 j b d] assms(5) 2(2) by auto
  have "race_reach E d R (leave ?R3 j s4 (Holds b))"
    using 1(1) 2(1) 3 4(1) by (meson race_reach.start race_reach.step)
  with assms(5) 4(2) show ?thesis by (intro exI[of _ "leave ?R3 j s4 (Holds b)"]) simp
qed

section \<open>Progress\<close>

lemma valid_step:
  assumes "quiet E dv bv" "rc_phase R i = Holds l" "dv (rc_world R) (makeLockKey d) = Some l"
  shows "\<exists>s. race_step E d R (leave R i s (Clearing l)) \<and> dv (rs_world s) = dv (rc_world R)"
proof -
  from runs_lock_valid[OF assms(1), of d l "enter R i"] assms(3) obtain s where
    "IsLockValid E d l (enter R i) = (Done True, s)" "dv (rs_world s) = dv (rc_world R)"
    by (auto simp: runs_iff)
  from race_step.valid[OF assms(2) this(1)] this(2) show ?thesis by blast
qed

lemma clear_step:
  assumes "quiet E dv bv" "rc_phase R i = Clearing l"
  shows "\<exists>s. race_step E d R (leave R i s Idle) \<and> dv (rs_world s) (makeLockKey d) = None"
proof -
  from runs_lock_clear[OF assms(1), of d l "enter R i"] obtain b s where
    "lock_clear E d l (enter R i) = (Done b, s)" "dv (rs_world s) (makeLockKey d) = None"
    by (auto simp: runs_iff)
  from race_step.cleared[OF assms(2) this(1)] this(2) show ?thesis by blast
qed

lemma race_reach_trans: "race_reach E d R R' \<Longrightarrow> race_reach E d R' R'' \<Longrightarrow> race_reach E d R R''"
  by (rotate_tac, induction rule: race_reach.induct) (auto intro: race_reach.step)

lemma race_reach1: "race_step E d R R' \<Longrightarrow> race_reach E d R R'"
  by (rule race_reach.step[OF race_reach.start])

text \<open>A node that has looked claims; an idle one looks first, if the lock is free.\<close>

lemma looked_holds:
  assumes "quiet E dv bv" "race_inv dv d R" "rc_phase R i = Looked l"
  shows "\<exists>R' a. race_reach E d R R' \<and> rc_phase R' i = Holds a"
proof -
  have "l \<noteq> []" using assms(2,3) by (simp add: race_inv_def)
  from claim_step[OF assms(1,3) this] obtain s where "race_step E d R (leave R i s (Holds l))" by blast
  from race_reach1[OF this] show ?thesis by (intro exI[of _ "leave R i s (Holds l)"] exI[of _ l]) simp
qed

lemma free_holds:
  assumes "quiet E dv bv" "race_inv dv d R" "dv (rc_world R) (makeLockKey d) = None" "rc_phase R i = Idle"
  shows "\<exists>R' a. race_reach E d R R' \<and> rc_phase R' i = Holds a"
proof -
  obtain s l where l: "race_step E d R (leave R i s (Looked l))" using look_step[OF assms(1,3,4)] by blast
  have "race_inv dv d (leave R i s (Looked l))" by (rule race_step_inv[OF assms(1) l assms(2)])
  from looked_holds[OF assms(1) this, of i l] obtain R' a where
    "race_reach E d (leave R i s (Looked l)) R'" "rc_phase R' i = Holds a" by auto
  with race_reach_trans[OF race_reach1[OF l]] show ?thesis by blast
qed

text \<open>A node that is clearing, and one that holds the lock of the network, make it free.\<close>

lemma clearing_frees:
  assumes "quiet E dv bv" "rc_phase R j = Clearing l"
  shows "\<exists>R'. race_reach E d R R' \<and> dv (rc_world R') (makeLockKey d) = None \<and> rc_phase R' j = Idle
    \<and> (\<forall>i. i \<noteq> j \<longrightarrow> rc_phase R' i = rc_phase R i)"
proof -
  obtain s where s: "race_step E d R (leave R j s Idle)" "dv (rs_world s) (makeLockKey d) = None"
    using clear_step[OF assms] by blast
  from race_reach1[OF s(1)] s(2) show ?thesis by (intro exI[of _ "leave R j s Idle"]) simp
qed

lemma holder_frees:
  assumes "quiet E dv bv" "rc_phase R j = Holds l" "dv (rc_world R) (makeLockKey d) = Some l"
  shows "\<exists>R'. race_reach E d R R' \<and> dv (rc_world R') (makeLockKey d) = None \<and> rc_phase R' j = Idle
    \<and> (\<forall>i. i \<noteq> j \<longrightarrow> rc_phase R' i = rc_phase R i)"
proof -
  obtain s where s: "race_step E d R (leave R j s (Clearing l))" using valid_step[OF assms] by blast
  from clearing_frees[OF assms(1), of "leave R j s (Clearing l)" j l d] obtain R' where
    "race_reach E d (leave R j s (Clearing l)) R'" "dv (rc_world R') (makeLockKey d) = None" "rc_phase R' j = Idle"
    "\<forall>i. i \<noteq> j \<longrightarrow> rc_phase R' i = rc_phase R i" by auto
  with race_reach_trans[OF race_reach1[OF s]] show ?thesis by blast
qed

text \<open>
  C15. No interleaving blocks a node for good: on a quiet network, from every state that any number of
  nodes can reach from a free lock, the steps of the nodes can go on so that a given node holds the
  lock.
\<close>

theorem lock_progress:
  assumes "quiet E dv bv" "race_reach E d R0 R"
    and "dv (rc_world R0) (makeLockKey d) = None" "\<And>j. rc_phase R0 j = Idle"
  shows "\<exists>R' a. race_reach E d R R' \<and> rc_phase R' i = Holds a"
proof -
  have "race_inv dv d R0" using assms(3,4) by (simp add: race_inv_def)
  note inv = race_inv_reach[OF assms(1,2) this]
  have idle: ?thesis if "race_reach E d R R1" "dv (rc_world R1) (makeLockKey d) = None" "rc_phase R1 i = Idle" for R1
    using free_holds[OF assms(1) race_inv_reach[OF assms(1) that(1) inv] that(2,3)] race_reach_trans[OF that(1)] by blast
  show ?thesis
  proof (cases "rc_phase R i")
    case (Looked l)
    with looked_holds[OF assms(1) inv] show ?thesis by blast
  next
    case (Holds l)
    with race_reach.start show ?thesis by blast
  next
    case (Clearing l)
    with clearing_frees[OF assms(1)] idle show ?thesis by blast
  next
    case Idle
    show ?thesis
    proof (cases "dv (rc_world R) (makeLockKey d)")
      case None
      with idle[OF race_reach.start] Idle show ?thesis by blast
    next
      case (Some l)
      with inv have "held R l" by (simp add: race_inv_def)
      then obtain j where j: "rc_phase R j = Holds l \<or> rc_phase R j = Clearing l" by (auto simp: held_def)
      with Idle have "i \<noteq> j" by auto
      from j holder_frees[OF assms(1) _ Some, of j] clearing_frees[OF assms(1), of R j l d] obtain R1 where
        "race_reach E d R R1" "dv (rc_world R1) (makeLockKey d) = None" "\<forall>k. k \<noteq> j \<longrightarrow> rc_phase R1 k = rc_phase R k"
        by blast
      with idle Idle \<open>i \<noteq> j\<close> show ?thesis by metis
    qed
  qed
qed

section \<open>Examples\<close>

definition race_start :: "mem_world race" where
  "race_start = \<lparr>rc_world = rs_world mem_start, rc_node = (\<lambda>i. mem_start), rc_phase = (\<lambda>i. Idle)\<rparr>"

lemma race_start_facts: "mem_dht (rc_world race_start) k = None" "rc_phase race_start i = Idle"
  by (simp_all add: race_start_def mem_start_def NewRecordStore_def mem_dht_def)

theorem lock_race_witness:
  "\<exists>R' a b. race_reach mem_env ''ab'' race_start R' \<and> rc_phase R' 0 = Holds a \<and> rc_phase R' 1 = Holds b
    \<and> mem_dht (rc_world R') (makeLockKey ''ab'') = Some b"
  by (rule lock_race[OF quiet_mem]) (simp_all add: race_start_facts)


theorem lock_progress_witness:
  "\<exists>R' a. race_reach mem_env ''ab'' race_start R' \<and> rc_phase R' 2 = Holds a"
  by (rule lock_progress[OF quiet_mem race_reach.start]) (simp_all add: race_start_facts)

end
