(* ===== verification/RecordTypes.thy ===== *)
theory RecordTypes
  imports RecordFacts StoreEdges
begin

text \<open>
  The type of decoded data: whatever text a peer or the database delivers, a record that decodes from
  it is a value the rest of the code may rely on. Its maps have each key once, its byte fields are
  absent or non-empty, and its metadata holds no \<open>time.Time\<close>, which JSON cannot deliver.
\<close>

section \<open>Decoders keep an invariant\<close>

lemma dec_members_inv:
  assumes "\<And>k j r r'. step k j r = Inr r' \<Longrightarrow> P r \<Longrightarrow> P r'"
  shows "dec_members step ms r = Inr r' \<Longrightarrow> P r \<Longrightarrow> P r'"
proof (induction ms arbitrary: r)
  case (Cons m ms)
  obtain k j where "m = (k, j)" by fastforce
  with Cons show ?case by (cases "step k j r") (auto dest: assms)
qed simp

lemma dec_struct_inv:
  assumes "dec_struct step j r = Inr r'" "P r" "\<And>k j r r'. step k j r = Inr r' \<Longrightarrow> P r \<Longrightarrow> P r'"
  shows "P r'"
  using assms(1,2) dec_members_inv[of step P, OF assms(3)] by (auto simp: dec_struct_def split: json.splits)

lemma dec_entries_inv:
  assumes "\<And>j v. dec j = Inr v \<Longrightarrow> P v"
  shows "dec_entries key dec ms m = Inr m' \<Longrightarrow> map_all (\<lambda>_. P) (Some m) \<Longrightarrow> map_all (\<lambda>_. P) (Some m')"
proof (induction ms arbitrary: m)
  case (Cons e ms)
  obtain k j where "e = (k, j)" by fastforce
  with Cons.prems obtain k' v where "dec j = Inr v" "dec_entries key dec ms (gm_put k' v m) = Inr m'"
    by (auto split: sum.splits)
  with Cons.IH map_all_put[of "\<lambda>_. P" m k' v] assms Cons.prems(2) show ?case by blast
qed simp

lemma dec_map_inv:
  assumes "dec_map key dec j old = Inr m" "map_all (\<lambda>_. P) old" "\<And>j v. dec j = Inr v \<Longrightarrow> P v"
  shows "map_all (\<lambda>_. P) m"
proof -
  have none: "map_all (\<lambda>_. P) None" "map_all (\<lambda>_. P) (Some [])" by (simp_all add: map_all_def)
  show ?thesis
    using assms none dec_entries_inv[of dec P key, OF assms(3)]
    by (auto simp: dec_map_def map_sum_def split: json.splits sum.splits option.splits)
qed

lemma field_inv:
  assumes "field dec get upd j r = Inr r'" "P r" "\<And>v. dec j (get r) = Inr v \<Longrightarrow> P (upd v r)"
  shows "P r'"
  using assms by (auto simp: field_def split: sum.splits)

section \<open>Well-formed records\<close>

definition stored_meta :: "meta \<Rightarrow> bool" where
  "stored_meta v = (\<forall>t. v \<noteq> MTime t)"

definition wf_Binding :: "Binding \<Rightarrow> bool" where
  "wf_Binding b = map_all (\<lambda>_ _. True) (b_Addresses b)"

definition wf_maps :: "Record \<Rightarrow> bool" where
  "wf_maps r = (wf_Binding (r_Bindings r) \<and> map_all (\<lambda>_. stored_meta) (r_Metadata r) \<and> map_all (\<lambda>_ _. True) (r_Versions r))"

definition wf_slices :: "Record \<Rightarrow> bool" where
  "wf_slices r = (\<forall>b \<in> {r_Signature r, r_PublicKey r, r_Namehash r, r_SignedTx r}. b \<noteq> Some [])"

definition wf_Record :: "Record \<Rightarrow> bool" where
  "wf_Record r = (wf_maps r \<and> wf_slices r)"

lemma wf_zero: "wf_Record zero_Record"
  by (simp add: wf_Record_def wf_maps_def wf_slices_def wf_Binding_def zero_Record_def zero_Binding_def map_all_def)

lemma step_Binding_wf: "step_Binding k j b = Inr b' \<Longrightarrow> wf_Binding b \<Longrightarrow> wf_Binding b'"
  by (auto simp: step_Binding_def field_def wf_Binding_def split: if_splits sum.splits
      intro: dec_map_inv[where P = "\<lambda>_. True"])

lemma dec_Binding_wf: "dec_Binding j b = Inr b' \<Longrightarrow> wf_Binding b \<Longrightarrow> wf_Binding b'"
  unfolding dec_Binding_def by (rule dec_struct_inv[where P = wf_Binding]) (auto intro: step_Binding_wf)

lemma dec_meta_stored: "dec_meta j = Inr v \<Longrightarrow> stored_meta v"
  by (auto simp: dec_meta_def stored_meta_def split: json.splits)

lemma step_Record_maps: "step_Record C k j t = Inr t' \<Longrightarrow> wf_Record (rt_Alias t) \<Longrightarrow> wf_Record (rt_Alias t')"
  by (auto simp: step_Record_def alias_field_def field_def wf_Record_def wf_maps_def wf_slices_def
      split: if_splits sum.splits
      intro: dec_Binding_wf dec_map_inv[where P = stored_meta] dec_map_inv[where P = "\<lambda>_. True"] dec_meta_stored)

lemma hex_Decode_nonempty: "hex_DecodeString s = Inr b \<Longrightarrow> s \<noteq> [] \<Longrightarrow> b \<noteq> []"
  by (induction s rule: hex_DecodeString.induct) (auto split: option.splits sum.splits)

lemma hex_into_wf:
  assumes "hex_into s upd r = Inr r'" "wf_Record r" "\<And>b. b \<noteq> [] \<Longrightarrow> wf_Record (upd (Some b) r)"
  shows "wf_Record r'"
  using assms hex_Decode_nonempty[of s] by (auto simp: hex_into_def split: if_splits sum.splits)

lemma wf_slice_updates:
  "wf_Record r \<Longrightarrow> b \<noteq> [] \<Longrightarrow> wf_Record (r\<lparr>r_Signature := Some b\<rparr>)"
  "wf_Record r \<Longrightarrow> b \<noteq> [] \<Longrightarrow> wf_Record (r\<lparr>r_PublicKey := Some b\<rparr>)"
  "wf_Record r \<Longrightarrow> b \<noteq> [] \<Longrightarrow> wf_Record (r\<lparr>r_Namehash := Some b\<rparr>)"
  "wf_Record r \<Longrightarrow> b \<noteq> [] \<Longrightarrow> wf_Record (r\<lparr>r_SignedTx := Some b\<rparr>)"
  by (auto simp: wf_Record_def wf_maps_def wf_slices_def)

lemma dec_Record_wf:
  assumes "dec_Record C j r = Inr r'" "wf_Record r"
  shows "wf_Record r'"
proof -
  let ?t0 = "\<lparr>rt_Signature = [], rt_PublicKey = [], rt_Namehash = [], rt_SignedTx = [], rt_Alias = r\<rparr>"
  obtain t r1 r2 r3 where t: "dec_struct (step_Record C) j ?t0 = Inr t"
    and 1: "hex_into (rt_Signature t) (\<lambda>b r. r\<lparr>r_Signature := b\<rparr>) (rt_Alias t) = Inr r1"
    and 2: "hex_into (rt_PublicKey t) (\<lambda>b r. r\<lparr>r_PublicKey := b\<rparr>) r1 = Inr r2"
    and 3: "hex_into (rt_Namehash t) (\<lambda>b r. r\<lparr>r_Namehash := b\<rparr>) r2 = Inr r3"
    and 4: "hex_into (rt_SignedTx t) (\<lambda>b r. r\<lparr>r_SignedTx := b\<rparr>) r3 = Inr r'"
    using assms(1) by (auto simp: dec_Record_def sum_bind_def split: sum.splits)
  have "wf_Record (rt_Alias t)"
    by (rule dec_struct_inv[OF t, where P = "\<lambda>t. wf_Record (rt_Alias t)"]) (auto simp: assms(2) intro: step_Record_maps)
  then have "wf_Record r1" by (rule hex_into_wf[OF 1]) (auto intro: wf_slice_updates step_Record_maps \<open>wf_Record (rt_Alias t)\<close>)
  then have "wf_Record r2" by (intro hex_into_wf[OF 2]) (auto intro: wf_slice_updates)
  then have "wf_Record r3" by (intro hex_into_wf[OF 3]) (auto intro: wf_slice_updates)
  then show ?thesis by (intro hex_into_wf[OF 4]) (auto intro: wf_slice_updates)
qed

lemma DeserializeRecord_wf: "DeserializeRecord C data = Done (Inr r) \<Longrightarrow> wf_Record r"
  using dec_Record_wf[OF _ wf_zero]
  by (auto simp: DeserializeRecord_def UnmarshalJSON_def split: option.splits outcome.splits sum.splits if_splits)

lemma dec_Pending_wf:
  assumes "dec_Pending C data = Inr (Some r)"
  shows "wf_Record r"
proof -
  have step: "case p' of None \<Rightarrow> True | Some r \<Rightarrow> wf_Record r"
    if "step_Pending C k j p = Inr p'" "case p of None \<Rightarrow> True | Some r \<Rightarrow> wf_Record r" for k j p p'
    using that wf_zero dec_Record_wf
    by (auto simp: step_Pending_def map_sum_def split: if_splits sum.splits option.splits)
  obtain j where "dec_struct (step_Pending C) j None = Inr (Some r)"
    using assms by (auto simp: dec_Pending_def split: option.splits)
  from dec_struct_inv[OF this, of "\<lambda>p. case p of None \<Rightarrow> True | Some r \<Rightarrow> wf_Record r"] step show ?thesis by auto
qed

section \<open>The records of the store\<close>

lemma getLatestVersion_wf: "getLatestVersion E d s = (Done (Some r), s') \<Longrightarrow> wf_Record r"
  by (auto simp: getLatestVersion_def GetLatestRecord_def gret_def split: sum.splits
      elim!: gbind_DoneE dest!: glift_DoneE DeserializeRecord_wf)

lemma Get_wf:
  assumes "Get E d s = (Done (Some r), s')"
  shows "wf_Record r"
proof -
  from assms have "(\<exists>data. DeserializeRecord E data = Done (Inr r)) \<or> (\<exists>data. dec_Pending E data = Inr (Some r))
      \<or> (\<exists>s1. getLatestVersion E d s1 = (Done (Some r), s'))"
    by (auto simp: Get_def GetPendingRecordFromDHT_def gret_def split: sum.splits option.splits if_splits
        elim!: gbind_DoneE dest!: glift_DoneE) blast+
  then show ?thesis using DeserializeRecord_wf dec_Pending_wf getLatestVersion_wf by blast
qed

lemma GetByNamehash_wf:
  assumes "GetByNamehash E h s = (Done (Some r), s')"
  shows "wf_Record r"
proof -
  from assms obtain d s1 where "Get E d s1 = (Done (Some r), s')"
    by (auto simp: GetByNamehash_def gret_def split: sum.splits option.splits elim!: gbind_DoneE)
  then show ?thesis by (rule Get_wf)
qed

text \<open>
  C21. In every environment, whatever texts the network and the database deliver, a record that \<open>Get\<close> or
  \<open>GetByNamehash\<close> returns is well formed: the chains of its addresses and the keys of its metadata and
  versions are distinct, no metadata value is a \<open>time.Time\<close>, and its signature, key, name hash and
  transaction are each absent or non-empty.
\<close>

theorem found_records_wf:
  assumes "Get E d s = (Done (Some r), s') \<or> GetByNamehash E h s = (Done (Some r), s')"
  shows "wf_Record r"
  using assms Get_wf GetByNamehash_wf by blast

theorem found_records_wf_witness:
  "\<exists>r. fst (Get mem_env ''ab'' (snd (SaveRecord mem_env demo_record mem_start))) = Done (Some r) \<and> wf_Record r"
proof -
  let ?s = "snd (SaveRecord mem_env demo_record mem_start)"
  have v: "view_of mem_dht mem_db ?s = v_save mem_env demo_record (view_of mem_dht mem_db mem_start)"
    using runs_SaveRecord'[OF quiet_mem, where s = mem_start and r = demo_record and Q =
        "\<lambda>e s'. view_of mem_dht mem_db s' = v_save mem_env demo_record (view_of mem_dht mem_db mem_start)"]
    by (auto simp: runs_iff)
  have "runs (Get mem_env ''ab'') ?s (\<lambda>f s'. f \<noteq> None)"
    by (rule runs_Get_local[OF quiet_mem, where r = "canon demo_record" and b = "record_text mem_env demo_record"])
      (use v demo_ok db_after_save[OF clean_mem, of demo_record] in \<open>simp_all add: DeserializeRecord_text\<close>,
       simp add: demo_record_def zero_Record_def)
  then obtain r s' where r: "Get mem_env ''ab'' ?s = (Done (Some r), s')" by (auto simp: runs_iff)
  with found_records_wf[of mem_env "''ab''" ?s r s'] show ?thesis by auto
qed

end
