(* ===== verification/GoTimeFacts.thy ===== *)
theory GoTimeFacts
  imports GoTime
begin

text \<open>
  The calendar and its text: days and civil dates are inverse, formatting an instant of the years
  0 to 9999 and parsing it again gives the instant without its fraction of a second.
\<close>

section \<open>The years of an era\<close>

text \<open>Day of era at which a year of the era begins (years begin in March), and the estimate of the year.\<close>

definition year_start :: "int \<Rightarrow> int" where
  "year_start y = 365 * y + y div 4 - y div 100"

definition year_end :: "int \<Rightarrow> int" where
  "year_end y = (if y = 399 then 146096 else year_start (y + 1) - 1)"

definition year_est :: "int \<Rightarrow> int" where
  "year_est x = x - x div 1460 + x div 36524 - x div 146096"

lemma div_step: "0 < n \<Longrightarrow> (x + 1) div n \<le> x div n + 1" for x n :: int
proof -
  assume n: "0 < n"
  then have "(x + 1) div n \<le> (x + n) div n" by (intro zdiv_mono1) auto
  also have "(x + n) div n = x div n + 1" using n by (intro div_add_self2) simp
  finally show ?thesis .
qed

lemma year_est_step:
  assumes "0 \<le> x" "x < 146096"
  shows "year_est x \<le> year_est (x + 1)"
proof (cases "x = 146095")
  case True
  then show ?thesis by (simp add: year_est_def)
next
  case False
  then have "x div 146096 = 0" "(x + 1) div 146096 = 0" using assms by auto
  moreover have "(x + 1) div 1460 \<le> x div 1460 + 1" by (rule div_step) simp
  moreover have "x div 36524 \<le> (x + 1) div 36524" by (rule zdiv_mono1) simp_all
  ultimately show ?thesis unfolding year_est_def by linarith
qed

lemma year_est_mono:
  assumes "x \<le> z" "0 \<le> x" "z \<le> 146096"
  shows "year_est x \<le> year_est z"
  using assms(1,3)
proof (induction rule: int_ge_induct)
  case (step i)
  then show ?case using year_est_step[of i] assms(2) by linarith
qed simp

lemma year_table: "\<forall>y \<in> set (map int [0..<400]). 365 * y \<le> year_est (year_start y) \<and> year_est (year_end y) < 365 * (y + 1)
    \<and> 0 \<le> year_start y \<and> year_end y \<le> 146096 \<and> year_end y - year_start y \<le> (if leap (y + 1) then 365 else 364)"
  by code_simp

lemma year_table':
  assumes "0 \<le> y" "y < 400"
  shows "365 * y \<le> year_est (year_start y)" "year_est (year_end y) < 365 * (y + 1)"
    "0 \<le> year_start y" "year_end y \<le> 146096" "year_end y - year_start y \<le> (if leap (y + 1) then 365 else 364)"
proof -
  have "y \<in> set (map int [0..<400])"
    using assms by (auto intro!: image_eqI[of _ _ "nat y"])
  with year_table show "365 * y \<le> year_est (year_start y)" "year_est (year_end y) < 365 * (y + 1)"
    "0 \<le> year_start y" "year_end y \<le> 146096" "year_end y - year_start y \<le> (if leap (y + 1) then 365 else 364)" by blast+
qed

lemma year_of_day: "0 \<le> x \<Longrightarrow> x < year_start (int n) \<Longrightarrow> n \<le> 399 \<Longrightarrow> \<exists>y. 0 \<le> y \<and> y < int n \<and> year_start y \<le> x \<and> x \<le> year_end y"
proof (induction n)
  case (Suc n)
  show ?case
  proof (cases "x < year_start (int n)")
    case True
    with Suc show ?thesis by fastforce
  next
    case False
    with Suc.prems show ?thesis by (intro exI[of _ "int n"]) (auto simp: year_end_def add.commute)
  qed
qed (simp add: year_start_def)

lemma year_est_div:
  assumes "0 \<le> x" "x \<le> 146096"
  shows "0 \<le> year_est x div 365 \<and> year_est x div 365 < 400
    \<and> year_start (year_est x div 365) \<le> x \<and> x \<le> year_end (year_est x div 365)"
proof -
  obtain y where y: "0 \<le> y" "y < 400" "year_start y \<le> x" "x \<le> year_end y"
  proof (cases "x < year_start 399")
    case True
    with year_of_day[of x 399] assms that show ?thesis by auto
  next
    case False
    with assms that[of 399] show ?thesis by (simp add: year_end_def)
  qed
  note s = year_table'(3)[OF y(1,2)] and e = year_table'(4)[OF y(1,2)]
  have "365 * y \<le> year_est x" using year_table'(1)[OF y(1,2)] year_est_mono[OF y(3) s] assms by simp
  moreover have "year_est x < 365 * (y + 1)" using year_table'(2)[OF y(1,2)] year_est_mono[OF y(4) assms(1) e] by simp
  ultimately have "year_est x div 365 = y" by (intro int_div_pos_eq[of _ _ _ "year_est x - 365 * y"]) auto
  with y show ?thesis by simp
qed

section \<open>The months of a year\<close>

definition month_of :: "int \<Rightarrow> int" where "month_of mp = (if mp < 10 then mp + 3 else mp - 9)"

lemma month_table: "\<forall>doy \<in> set (map int [0..<366]). let mp = (5 * doy + 2) div 153; d = doy - (153 * mp + 2) div 5 + 1 in
    0 \<le> mp \<and> mp \<le> 11 \<and> 1 \<le> d \<and> d \<le> (if mp = 11 then if doy = 365 then 29 else 28 else days_in 1 (month_of mp))"
  by code_simp

lemma month_table':
  assumes "0 \<le> doy" "doy \<le> 365" "mp = (5 * doy + 2) div 153" "d = doy - (153 * mp + 2) div 5 + 1"
  shows "0 \<le> mp \<and> mp \<le> 11 \<and> 1 \<le> d \<and> d \<le> (if mp = 11 then if doy = 365 then 29 else 28 else days_in 1 (month_of mp))"
proof -
  have "doy \<in> set (map int [0..<366])" using assms(1,2) by (auto intro!: image_eqI[of _ _ "nat doy"])
  from bspec[OF month_table this] show ?thesis unfolding assms(3,4) Let_def .
qed

section \<open>Days and dates\<close>

lemma leap_era: "leap (400 * e + y) = leap y"
proof -
  have "(400 * e + y) mod 4 = y mod 4" "(400 * e + y) mod 100 = y mod 100"
    using mod_mult_self4[of 4 "100 * e" y] mod_mult_self4[of 100 "4 * e" y] by (simp_all add: mult.assoc[symmetric])
  then show ?thesis by (simp add: leap_def)
qed

lemma civil_days:
  assumes "civil_from_days z = (y, m, d)"
  shows "days_from_civil y m d = z \<and> 1 \<le> m \<and> m \<le> 12 \<and> 1 \<le> d \<and> d \<le> days_in y m"
proof -
  define era where "era = (z + 719468) div 146097"
  define doe where "doe = (z + 719468) mod 146097"
  define yoe where "yoe = year_est doe div 365"
  define doy where "doy = doe - year_start yoe"
  define mp where "mp = (5 * doy + 2) div 153"
  have doe: "0 \<le> doe" "doe \<le> 146096" by (simp_all add: doe_def)
  have yoe: "0 \<le> yoe" "yoe < 400" "year_start yoe \<le> doe" "doe \<le> year_end yoe"
    using year_est_div[OF doe] by (simp_all add: yoe_def)
  have doy: "0 \<le> doy" "doy \<le> (if leap (yoe + 1) then 365 else 364)"
    using yoe year_table'(5)[OF yoe(1,2)] by (simp_all add: doy_def split: if_splits)
  have "civil_from_days z = (if month_of mp \<le> 2 then yoe + era * 400 + 1 else yoe + era * 400, month_of mp,
      doy - (153 * mp + 2) div 5 + 1)"
    unfolding civil_from_days_def Let_def era_def doe_def yoe_def doy_def mp_def year_est_def year_start_def month_of_def
    by (rule refl)
  with assms have d: "d = doy - (153 * mp + 2) div 5 + 1" and m: "m = month_of mp"
    and y: "y = (if m \<le> 2 then yoe + era * 400 + 1 else yoe + era * 400)"
    by auto
  have mt: "0 \<le> mp" "mp \<le> 11" "1 \<le> d" "d \<le> (if mp = 11 then if doy = 365 then 29 else 28 else days_in 1 (month_of mp))"
    using month_table'[OF doy(1) _ mp_def d] doy(2) by (auto split: if_splits)
  have mp': "(if m > 2 then m - 3 else m + 9) = mp" "m \<le> 2 \<longleftrightarrow> 10 \<le> mp" "1 \<le> m" "m \<le> 12"
    using mt(1,2) by (auto simp: m month_of_def)
  have y': "(if m \<le> 2 then y - 1 else y) = yoe + era * 400" by (simp add: y)
  have z: "era * 146097 + doe - 719468 = z" by (simp add: era_def doe_def)
  have "days_from_civil y m d = era * 146097 + (yoe * 365 + yoe div 4 - yoe div 100 + ((153 * mp + 2) div 5 + d - 1)) - 719468"
    using yoe(1,2) by (simp only: days_from_civil_def Let_def y' mp'(1)) simp
  also have "\<dots> = z" using z d by (simp add: doy_def year_start_def)
  finally have 1: "days_from_civil y m d = z" .
  have "d \<le> days_in y m"
  proof (cases "mp = 11")
    case True
    then have "m = 2" "y = 400 * era + (yoe + 1)" by (simp_all add: m month_of_def y)
    then show ?thesis using mt(4) doy(2) True leap_era[of era "yoe + 1"] by (auto simp: days_in_def split: if_splits)
  next
    case False
    then have "m \<noteq> 2" using mt(1,2) by (auto simp: m month_of_def)
    then show ?thesis using mt(4) False by (simp add: m days_in_def)
  qed
  with 1 mp' mt(3) show ?thesis by blast
qed

section \<open>Fields of digits\<close>

lemma nat_str_length: "i < 10 ^ Suc n \<Longrightarrow> length (nat_str i) \<le> Suc n"
proof (induction n arbitrary: i)
  case 0
  then show ?case by (subst nat_str.simps) simp
next
  case (Suc n)
  show ?case
  proof (cases "i < 10")
    case True
    then show ?thesis by (subst nat_str.simps) simp
  next
    case False
    have "i div 10 < 10 ^ Suc n" using Suc.prems by (simp add: less_mult_imp_div_less)
    with Suc.IH False show ?thesis by (subst nat_str.simps) simp
  qed
qed

lemma digits_val_zeros: "digits_val 0 (replicate k (CHR ''0'') @ s) = digits_val 0 s"
  by (induction k) (simp_all add: is_digit_def digit_val_def)

lemma pad_length: "0 \<le> i \<Longrightarrow> i < 10 ^ Suc n \<Longrightarrow> length (pad (Suc n) i) = Suc n"
  using nat_str_length[of "nat i" n] by (simp add: pad_def Let_def nat_less_iff)

lemma pad_val: "0 \<le> i \<Longrightarrow> digits_val 0 (pad n i) = Some (nat i)"
  by (simp add: pad_def Let_def digits_val_zeros digits_val_nat_str)

lemma num_field_pad: "length p = n \<Longrightarrow> p = pad n i \<Longrightarrow> 0 \<le> i \<Longrightarrow> lo \<le> i \<Longrightarrow> i \<le> hi \<Longrightarrow> num_field n lo hi (p @ rest) = Some i"
  by (simp add: num_field_def pad_val)

section \<open>The text of an instant\<close>

definition year_of :: "int \<Rightarrow> int" where
  "year_of t = fst (civil_from_days (t div ns_per_sec div 86400))"

lemma parse_text:
  assumes "length Y = 4" "length M = 2" "length D = 2" "length H = 2" "length I = 2" "length S = 2"
  assumes "num_field 4 0 9999 (Y @ ''-'' @ M @ ''-'' @ D @ ''T'' @ H @ '':'' @ I @ '':'' @ S @ ''Z'') = Some y"
    and "num_field 2 1 12 (M @ ''-'' @ D @ ''T'' @ H @ '':'' @ I @ '':'' @ S @ ''Z'') = Some m"
    and "num_field 2 1 (days_in y m) (D @ ''T'' @ H @ '':'' @ I @ '':'' @ S @ ''Z'') = Some d"
    and "num_field 2 0 23 (H @ '':'' @ I @ '':'' @ S @ ''Z'') = Some h"
    and "num_field 2 0 59 (I @ '':'' @ S @ ''Z'') = Some i" "num_field 2 0 59 (S @ ''Z'') = Some s"
  shows "parse_rfc3339 (Y @ ''-'' @ M @ ''-'' @ D @ ''T'' @ H @ '':'' @ I @ '':'' @ S @ ''Z'')
    = Some ((days_from_civil y m d * 86400 + h * 3600 + i * 60 + s) * ns_per_sec)"
proof -
  let ?s = "Y @ ''-'' @ M @ ''-'' @ D @ ''T'' @ H @ '':'' @ I @ '':'' @ S @ ''Z''"
  have drops: "drop 5 ?s = M @ ''-'' @ D @ ''T'' @ H @ '':'' @ I @ '':'' @ S @ ''Z''"
    "drop 8 ?s = D @ ''T'' @ H @ '':'' @ I @ '':'' @ S @ ''Z''" "drop 11 ?s = H @ '':'' @ I @ '':'' @ S @ ''Z''"
    "drop 14 ?s = I @ '':'' @ S @ ''Z''" "drop 17 ?s = S @ ''Z''" "drop 19 ?s = ''Z''"
    using assms(1-6) by simp_all
  have nths: "?s ! 4 = CHR ''-''" "?s ! 7 = CHR ''-''" "?s ! 10 = CHR ''T''" "?s ! 13 = CHR '':''" "?s ! 16 = CHR '':''"
    and len: "length ?s = 20"
    using assms(1-6) by (simp_all add: nth_append)
  have z: "parse_zone ''Z'' = Some 0" "frac_nanos [] = 0" by code_simp+
  show ?thesis
    unfolding parse_rfc3339_def drops nths len assms(7,8,10-12) option.case prod.case assms(9) by (simp add: z)
qed

lemma rfc3339_roundtrip:
  assumes "0 \<le> year_of t" "year_of t \<le> 9999"
  shows "parse_rfc3339 (rfc3339 t) = Some (t div ns_per_sec * ns_per_sec)"
proof -
  define secs where "secs = t div ns_per_sec"
  define s where "s = secs mod 86400"
  obtain y m d where c: "civil_from_days (secs div 86400) = (y, m, d)" by (metis prod_cases3)
  from civil_days[OF c] have days: "days_from_civil y m d = secs div 86400" and m: "1 \<le> m" "m \<le> 12"
    and d: "1 \<le> d" "d \<le> days_in y m" by auto
  have y: "0 \<le> y" "y \<le> 9999" using assms c by (simp_all add: year_of_def secs_def)
  have "days_in y m \<le> 31" by (simp add: days_in_def)
  with d have d': "d \<le> 31" by simp
  have s: "0 \<le> s" "s < 86400" by (simp_all add: s_def)
  have h: "0 \<le> s div 3600" "s div 3600 \<le> 23" using s by auto
  have i: "0 \<le> s mod 3600 div 60" "s mod 3600 div 60 \<le> 59" using s by auto
  have e: "0 \<le> s mod 60" "s mod 60 \<le> 59" using s by auto
  let ?Y = "pad 4 y" and ?M = "pad 2 m" and ?D = "pad 2 d" and ?H = "pad 2 (s div 3600)"
    and ?I = "pad 2 (s mod 3600 div 60)" and ?S = "pad 2 (s mod 60)"
  have form: "rfc3339 t = ?Y @ ''-'' @ ?M @ ''-'' @ ?D @ ''T'' @ ?H @ '':'' @ ?I @ '':'' @ ?S @ ''Z''"
    by (simp add: rfc3339_def rfc3339_date_def Let_def c secs_def[symmetric] s_def[symmetric])
  have two: "length (pad 2 x) = 2" if "0 \<le> x" "x < 100" for x
    using pad_length[OF that(1), of 1] that(2) by (simp add: numeral_2_eq_2)
  have four: "length ?Y = 4" using pad_length[OF y(1), of 3] y(2) by (simp add: eval_nat_numeral)
  have lens: "length ?M = 2" "length ?D = 2" "length ?H = 2" "length ?I = 2" "length ?S = 2"
    using two m d d' h i e by auto
  have "s mod 60 = s mod 3600 mod 60" by (simp add: mod_mod_cancel)
  then have "s div 3600 * 3600 + s mod 3600 div 60 * 60 + s mod 60 = s"
    by (metis add.assoc div_mult_mod_eq mult.commute)
  then have sum: "days_from_civil y m d * 86400 + s div 3600 * 3600 + s mod 3600 div 60 * 60 + s mod 60 = secs"
    using days div_mult_mod_eq[of secs 86400] unfolding s_def[symmetric] by linarith
  have fy: "num_field 4 0 9999 (?Y @ rest) = Some y" for rest using num_field_pad[OF four refl y(1,1,2)] .
  have fm: "num_field 2 1 12 (?M @ rest) = Some m" for rest using num_field_pad[OF lens(1) refl _ m] m(1) by simp
  have fd: "num_field 2 1 (days_in y m) (?D @ rest) = Some d" for rest using num_field_pad[OF lens(2) refl _ d] d(1) by simp
  have fh: "num_field 2 0 23 (?H @ rest) = Some (s div 3600)" for rest using num_field_pad[OF lens(3) refl h(1,1,2)] .
  have fi: "num_field 2 0 59 (?I @ rest) = Some (s mod 3600 div 60)" for rest using num_field_pad[OF lens(4) refl i(1,1,2)] .
  have fe: "num_field 2 0 59 (?S @ rest) = Some (s mod 60)" for rest using num_field_pad[OF lens(5) refl e(1,1,2)] .
  have "parse_rfc3339 (rfc3339 t) = Some ((days_from_civil y m d * 86400 + s div 3600 * 3600 + s mod 3600 div 60 * 60 + s mod 60) * ns_per_sec)"
    unfolding form by (rule parse_text[OF four lens fy fm fd fh fi fe])
  with sum show ?thesis by (simp add: secs_def)
qed

end
