(* ===== verification/Expiry.thy ===== *)
theory Expiry
  imports GoTimeFacts RecordProps
begin







end
