(* ===== verification/Cli.thy ===== *)
theory Cli
  imports EvmValidate Store
begin

text \<open>
  The command-line tool that signs a name and prepares the transaction of a binding
  (\<open>cmd/main.go\<close>, \<open>cmd/signer.go\<close>, \<open>cmd/binding.go\<close>) and the loading of its key
  (\<open>utils/helper.go\<close>). Where the tool prints a message and exits with status 1 the result is an error;
  otherwise it is what the tool prints. Parsed flags and the file system are parameters.
\<close>

section \<open>Loading the key\<close>

definition LoadPrivateKey :: "(string \<Rightarrow> goerr + bytes) \<Rightarrow> (bytes \<Rightarrow> goerr + bytes) \<Rightarrow> string \<Rightarrow> goerr + bytes" where
  "LoadPrivateKey ReadFile ToECDSA privateKeyPath =
     (case ReadFile privateKeyPath of
        Inl err \<Rightarrow> Inl (Wrapf ''Error reading private key'' err)
      | Inr keyBytes \<Rightarrow>
     (case hex_DecodeString (TrimSpace keyBytes) of
        Inl err \<Rightarrow> Inl (Wrapf ''Error decoding private key'' err)
      | Inr privateKeyBytes \<Rightarrow>
     (case ToECDSA privateKeyBytes of
        Inl err \<Rightarrow> Inl (Wrapf ''Error converting private key'' err)
      | Inr privateKey \<Rightarrow> Inr privateKey)))"

section \<open>Signing a name\<close>

text \<open>\<open>time.Duration(expiresIn) * 24 * time.Hour\<close>, in 64 bits.\<close>

definition ttl_of_days :: "int64 \<Rightarrow> int64" where
  "ttl_of_days expiresIn = expiresIn * 24 * (3600 * 1000000000)"

definition SignDomain :: "('e) crypto_scheme \<Rightarrow> string \<Rightarrow> int64 \<Rightarrow> bytes \<Rightarrow> goerr + Record \<times> bytes" where
  "SignDomain C domain expiresIn pk =
     (case Sign C pk (zero_Record\<lparr>r_Domain := domain, r_TTL := ttl_of_days expiresIn\<rparr>) of
        (Some err, record) \<Rightarrow> Inl (Wrapf ''Failed to sign record'' err)
      | (None, record) \<Rightarrow>
          (case GetSignerAddress C record of
             Inl err \<Rightarrow> Inl (Wrapf ''Failed to get signer address'' err)
           | Inr signerAddr \<Rightarrow> Inr (record, signerAddr)))"

section \<open>Preparing a binding\<close>

record binding_output =
  bo_Record :: Record
  bo_ExpiresAt :: uint64
  bo_Timestamp :: uint64
  bo_Signature :: bytes
  bo_SignedTx :: bytes

definition bind_gasLimit :: uint64 where "bind_gasLimit = 250000"
definition bind_priorityFee :: int where "bind_priorityFee = 2000000000"
definition bind_maxFee :: int where "bind_maxFee = 15000000000 * 2 + bind_priorityFee"
definition bind_value :: int where "bind_value = 1000000000000000"

definition BindDomain :: "('w, 'e) chain_env_scheme \<Rightarrow> string \<Rightarrow> string \<Rightarrow> int64 \<Rightarrow> int64 \<Rightarrow> bytes \<Rightarrow> uint64
    \<Rightarrow> (('w, 's) RecordStore_scheme, goerr + binding_output) go" where
  "BindDomain E domain resolver chainID expiresIn pk nonce =
     (let record = zero_Record\<lparr>r_Domain := domain, r_Namehash := Some (Namehash E domain), r_TTL := ttl_of_days expiresIn\<rparr>;
          resolverAddr = HexToAddress E resolver in
      gbind (time_Now E) (\<lambda>t.
      let now = unix_now t;
          expiresAt = now + of_int (sint (expiresIn * 24 * 60 * 60));
          contract = Getenv E ''EVM_ALTICA_REGISTRY_ADDRESS'' in
      if contract = [] then gret (Inl (Errorf ''EVM_ALTICA_REGISTRY_ADDRESS environment variable is required''))
      else let contractAddr = HexToAddress E contract in
      (case Sign E pk record of
         (Some err, record) \<Rightarrow> gret (Inl (Wrapf ''Failed to sign record'' err))
       | (None, record) \<Rightarrow>
      gbind (glift (GenerateBindingSignature E pk contractAddr chainID (r_Namehash record) resolverAddr expiresAt now)) (\<lambda>s.
      case s of
        Inl err \<Rightarrow> gret (Inl (Wrapf ''Error generating signature'' err))
      | Inr signature \<Rightarrow>
      if length signature \<le> 64 then gpanic ''index out of range''
      else (case PreSignSubmitBindingTxEIP1559 E pk contractAddr chainID (r_Namehash record) resolverAddr expiresAt now
             signature nonce bind_gasLimit (Some bind_maxFee) (Some bind_priorityFee) (Some bind_value) of
        Inl err \<Rightarrow> gret (Inl (Wrapf ''Error pre-signing tx'' err))
      | Inr signedTx \<Rightarrow> gret (Inr \<lparr>bo_Record = record, bo_ExpiresAt = expiresAt, bo_Timestamp = now,
            bo_Signature = signature, bo_SignedTx = signedTx\<rparr>))))))"

section \<open>The tool\<close>

record cli_flags =
  fl_domain :: string
  fl_expiresIn :: int64
  fl_key :: string
  fl_chain :: int64
  fl_resolver :: string
  fl_action :: string
  fl_nonce :: uint64

text \<open>What the tool prints: nothing for an unknown action.\<close>

datatype cli_output = Signed Record bytes | Bound binding_output | NoOutput

definition cli_main :: "('w, 'e) chain_env_scheme \<Rightarrow> (string \<Rightarrow> goerr + bytes) \<Rightarrow> (bytes \<Rightarrow> goerr + bytes) \<Rightarrow> cli_flags
    \<Rightarrow> (('w, 's) RecordStore_scheme, goerr + cli_output) go" where
  "cli_main E ReadFile ToECDSA f =
     (if fl_domain f = [] \<or> fl_key f = [] then gret (Inl (Errorf ''Error: domain, and key are required''))
      else if fl_action f = ''bind'' \<and> fl_resolver f = []
      then gret (Inl (Errorf ''Error: resolver require when action is bind''))
      else case LoadPrivateKey ReadFile ToECDSA (fl_key f) of
        Inl err \<Rightarrow> gret (Inl err)
      | Inr privateKey \<Rightarrow>
          if fl_action f = ''bind''
          then gbind (BindDomain E (fl_domain f) (fl_resolver f) (fl_chain f) (fl_expiresIn f) privateKey (fl_nonce f)) (\<lambda>r.
               gret (map_sum id Bound r))
          else if fl_action f = ''sign''
          then gret (map_sum id (\<lambda>(record, a). Signed record a) (SignDomain E (fl_domain f) (fl_expiresIn f) privateKey))
          else gret (Inr NoOutput))"

end
