(* ===== verification/CliProps.thy ===== *)
theory CliProps
  imports Cli EvmProps RecordProps
begin

text \<open>
  What the command-line tool prepares is what a node accepts: the signed name makes a record, and the
  transaction passes every check of its validation.
\<close>

section \<open>Laws of the chain libraries\<close>

text \<open>
  As documented: a signed dynamic-fee transaction encodes to its type byte and an RLP payload that
  decodes to its fields and to its signer; packing the arguments of a method and unpacking them
  behind the method's four-byte id gives the arguments; the encoding of a public key decodes.
\<close>

definition tx_laws :: "('w, 'e) chain_env_scheme \<Rightarrow> bytes \<Rightarrow> bool" where
  "tx_laws E key = (\<forall>c tx b. SignTx E c tx key = Inr b \<and> c = df_ChainID tx \<longrightarrow>
     (\<exists>rest t. b = CHR 0x02 # rest \<and> RlpDynamicFee E rest = Inr t \<and> t_ChainId t = Some c \<and> t_Value t = df_Value tx
       \<and> t_To t = Some (df_To tx) \<and> t_Nonce t = df_Nonce tx \<and> t_Data t = df_Data tx
       \<and> TxSender E (Some c) t = Inr (PubkeyToAddress E (EcdsaPublic E key))))"

definition abi_laws :: "('w, 'e) chain_env_scheme \<Rightarrow> bool" where
  "abi_laws E = (\<forall>as d. AbiPackMethod E ''SubmitBinding'' as = Inr d \<longrightarrow>
     4 \<le> length d \<and> AbiMethodById E (take 4 d) = Inr ''SubmitBinding'' \<and> AbiUnpack E ''SubmitBinding'' (drop 4 d) = Inr as)"

definition key_laws :: "('w, 'e) chain_env_scheme \<Rightarrow> bytes \<Rightarrow> bool" where
  "key_laws E key = (signs_65 E key \<and> recovers E key
     \<and> UnmarshalPubkey E (FromECDSAPub E (EcdsaPublic E key)) = Inr (EcdsaPublic E key))"

text \<open>A chain of the given id that answers, holds the registry, and would not revert the call.\<close>

definition chain_ready :: "('w, 'e) chain_env_scheme \<Rightarrow> int64 \<Rightarrow> uint64 \<Rightarrow> bool" where
  "chain_ready E c nonce = (ParseInt (Getenv E ''EVM_CHAIN_ID'') = Inr c
     \<and> (\<forall>u w. fst (EthDial E u w) = None)
     \<and> (\<forall>a w. \<exists>code. fst (EthCodeAt E a w) = Inr code \<and> code \<noteq> [])
     \<and> (\<forall>a w. fst (EthPendingNonceAt E a w) = Inr nonce)
     \<and> (\<forall>a d b w. \<exists>r. fst (EthCallContract E a d b w) = Inr r \<and> sl_bytes r = []))"

text \<open>Every later reading of the clock is within twelve minutes of the time stamp.\<close>

definition clock_within :: "('w, 'e) env_scheme \<Rightarrow> uint64 \<Rightarrow> bool" where
  "clock_within E ts = (\<forall>w. recent_enough ts (unix_now (fst (Clock E w))) = None)"

section \<open>The outputs of the tool\<close>

lemma BindDomain_out:
  assumes "BindDomain E d resolver chain days key nonce s = (Done (Inr out), s1)"
  shows "\<exists>rec sig addr. addr = HexToAddress E (Getenv E ''EVM_ALTICA_REGISTRY_ADDRESS'')
    \<and> Sign E key (zero_Record\<lparr>r_Domain := d, r_Namehash := Some (Namehash E d), r_TTL := ttl_of_days days\<rparr>) = (None, rec)
    \<and> bo_Record out = rec
    \<and> GenerateBindingSignature E key addr chain (r_Namehash rec) (HexToAddress E resolver) (bo_ExpiresAt out) (bo_Timestamp out) = Done (Inr sig)
    \<and> PreSignSubmitBindingTxEIP1559 E key addr chain (r_Namehash rec) (HexToAddress E resolver) (bo_ExpiresAt out) (bo_Timestamp out)
        sig nonce bind_gasLimit (Some bind_maxFee) (Some bind_priorityFee) (Some bind_value) = Inr (bo_SignedTx out)"
  using assms
  by (auto simp: BindDomain_def Let_def gret_def gpanic_def split: if_splits prod.splits option.splits sum.splits
      elim!: gbind_DoneE dest!: glift_DoneE)

section \<open>Acceptance\<close>

text \<open>A client that answers: the requests of the validation succeed.\<close>

lemma ready_dial: "chain_ready E c n \<Longrightarrow> \<exists>s'. eth_Dial E u s = (Done None, s')"
  unfolding chain_ready_def eth_Dial_def by (auto split: prod.splits) (metis fst_conv)

lemma ready_code: "chain_ready E c n \<Longrightarrow> \<exists>code s'. eth_CodeAt E a s = (Done (Inr code), s') \<and> code \<noteq> []"
  unfolding chain_ready_def eth_CodeAt_def by (auto split: prod.splits) (metis fst_conv)

lemma ready_nonce: "chain_ready E c n \<Longrightarrow> \<exists>s'. eth_PendingNonceAt E a s = (Done (Inr n), s')"
  unfolding chain_ready_def eth_PendingNonceAt_def by (auto split: prod.splits) (metis fst_conv)

lemma ready_simulate:
  assumes "chain_ready E c n"
  shows "\<exists>s'. simulateTx E a d b s = (Done (True, None), s')"
proof -
  obtain r w where w: "EthCallContract E a d b (rs_world s) = (r, w)" by fastforce
  with assms obtain x where "r = Inr x" "sl_bytes x = []" unfolding chain_ready_def by (metis fst_conv)
  with w show ?thesis by (simp add: simulateTx_def eth_CallContract_def gbind_def gret_def)
qed

lemma within_now: "clock_within E ts \<Longrightarrow> \<exists>now s'. time_Now E s = (Done now, s') \<and> recent_enough ts (unix_now now) = None"
  unfolding clock_within_def time_Now_def by (auto split: prod.splits) (metis fst_conv)

lemma data_validates:
  assumes ready: "chain_ready E c n" and within: "clock_within E ts" and "ts < ex" "length nh = 32"
    and tx: "t_ChainId tx = Some (sint c)" "4 \<le> length (t_Data tx)" "AbiMethodById E (take 4 (t_Data tx)) = Inr ''SubmitBinding''"
    and args: "AbiUnpack E ''SubmitBinding'' (drop 4 (t_Data tx)) = Inr [ABytes32 nh, AAddress res, AUint64 ex, AUint64 ts, ABytes sig]"
    and dg: "GetDigest E (Some nh) res ex ts c addr = Inr dg" and signer: "check_binding_signer E dg sig a = None"
  shows "\<exists>s'. validateTxData E tx addr (Some nh) a s = (Done (True, None), s')"
proof -
  obtain now s1 where now: "time_Now E s = (Done now, s1)" "recent_enough ts (unix_now now) = None"
    using within_now[OF within] by blast
  have args': "binding_args [ABytes32 nh, AAddress res, AUint64 ex, AUint64 ts, ABytes sig] = Done (Inr (nh, sig, res, ex, ts))"
    by (simp add: binding_args_def arg_at_def as_uint64_def getBytesArg_def)
  have live: "\<not> ex \<le> ts" using \<open>ts < ex\<close> by simp
  have "validateTxData E tx addr (Some nh) a s = simulateTx E (Some addr) (t_Data tx) None s1"
    using live assms(4) tx args dg signer now
    by (simp add: validateTxData_def Let_def args' glift_def gbind_def)
  then show ?thesis using ready_simulate[OF ready] by simp
qed

lemma decoded_validates:
  assumes ready: "chain_ready E c n" and addr: "addr = HexToAddress E (Getenv E ''EVM_ALTICA_REGISTRY_ADDRESS'')"
    and tx: "t_ChainId tx = Some (sint c)" "t_Value tx = Some v" "min_value \<le> v" "t_To tx = Some addr" "t_Nonce tx = n"
      "TxSender E (Some (sint c)) tx = Inr a"
    and data: "\<And>s :: ('w, 's) RecordStore_scheme. \<exists>s'. validateTxData E tx addr nh a s = (Done (True, None), s')"
  shows "\<exists>s'. validate_decoded_tx E tx a nh (s :: ('w, 's) RecordStore_scheme) = (Done (True, None), s')"
proof -
  have c: "ParseInt (Getenv E ''EVM_CHAIN_ID'') = Inr c" using ready by (simp add: chain_ready_def)
  have check: "check_tx E tx a = Done (Inr addr)"
    using tx by (simp add: check_tx_def c addr Let_def getFromAddress_def)
  obtain s1 where 1: "eth_Dial E (Getenv E ''EVM_RPC_URL'') s = (Done None, s1)" using ready_dial[OF ready] by blast
  obtain code s2 where 2: "eth_CodeAt E addr s1 = (Done (Inr code), s2)" "code \<noteq> []" using ready_code[OF ready] by blast
  obtain s3 where 3: "eth_PendingNonceAt E a s2 = (Done (Inr n), s3)" using ready_nonce[OF ready] by blast
  have "validate_decoded_tx E tx a nh s = validateTxData E tx addr nh a s3"
    using 1 2 3 tx(5) by (simp add: validate_decoded_tx_def check glift_def gbind_def)
  then show ?thesis using data by simp
qed

lemma copy32_id: "length b = 32 \<Longrightarrow> copy32 b = b"
  by (simp add: copy32_def)

text \<open>The transaction of the tool validates for a record with its name hash and the key's address.\<close>

lemma tool_tx_validates:
  fixes s :: "('w, 's) RecordStore_scheme"
  assumes "key_laws E key" "tx_laws E key" "abi_laws E" "chain_ready E chain nonce" "clock_within E ts" "ts < ex" "length nh = 32"
    and addr: "addr = HexToAddress E (Getenv E ''EVM_ALTICA_REGISTRY_ADDRESS'')"
    and sig: "GenerateBindingSignature E key addr chain (Some nh) res ex ts = Done (Inr sig)"
    and pre: "PreSignSubmitBindingTxEIP1559 E key addr chain (Some nh) res ex ts sig nonce gas fee prio (Some v) = Inr b"
    and "min_value \<le> v" "r_SignedTx r = Some b" "r_Namehash r = Some nh"
    and signer: "r_Signer r = PubkeyToAddress E (EcdsaPublic E key)"
  shows "\<exists>s'. ValidateSignedTx E r s = (Done (True, None), s')"
proof -
  from sig obtain dg sig0 where dg: "GetDigest E (Some nh) res ex ts chain addr = Inr dg" and s0: "EcdsaSign E dg key = Inr sig0"
    by (auto simp: GenerateBindingSignature_def split: sum.splits)
  have "signs_65 E key" using assms(1) by (simp add: key_laws_def)
  from binding_signature[OF this dg s0] sig have check: "check_binding_signer E dg sig (r_Signer r) = None"
    by (auto simp: signer)
  from pre obtain data where pack: "AbiPackMethod E ''SubmitBinding''
      [ABytes32 (copy32 nh), AAddress res, AUint64 ex, AUint64 ts, ABytes sig] = Inr data"
    and st: "SignTx E (sint chain) \<lparr>df_ChainID = sint chain, df_Nonce = nonce, df_GasTipCap = prio, df_GasFeeCap = fee,
      df_Gas = gas, df_To = addr, df_Value = Some v, df_Data = data\<rparr> key = Inr b"
    by (auto simp: PreSignSubmitBindingTxEIP1559_def split: sum.splits)
  from st assms(2) obtain rest t where b: "b = CHR 0x02 # rest" "RlpDynamicFee E rest = Inr t" and t: "t_ChainId t = Some (sint chain)"
    "t_Value t = Some v" "t_To t = Some addr" "t_Nonce t = nonce" "t_Data t = data"
    "TxSender E (Some (sint chain)) t = Inr (r_Signer r)"
    unfolding tx_laws_def signer by fastforce
  from pack assms(3) have abi: "4 \<le> length data" "AbiMethodById E (take 4 data) = Inr ''SubmitBinding''"
    "AbiUnpack E ''SubmitBinding'' (drop 4 data) = Inr [ABytes32 nh, AAddress res, AUint64 ex, AUint64 ts, ABytes sig]"
    unfolding abi_laws_def copy32_id[OF assms(7)] by blast+
  have data: "\<exists>s'. validateTxData E t addr (Some nh) (r_Signer r) s = (Done (True, None), s')" for s :: "('w, 's) RecordStore_scheme"
    by (rule data_validates[OF assms(4,5,6,7) t(1)]) (use abi t(5) dg check in simp_all)
  obtain s' where "validate_decoded_tx E t (r_Signer r) (Some nh) s = (Done (True, None), s')"
    using decoded_validates[OF assms(4) addr t(1,2) assms(11) t(3,4,6) data] by blast
  then show ?thesis
    by (auto simp: ValidateSignedTx_def decodeSignedTx_def assms(12,13) b glift_def gbind_def gret_def)
qed

lemma Sign_keeps:
  assumes "recovers C key" "Sign C key r = (None, r')"
  shows "r_Domain r' = r_Domain r" "r_Namehash r' = r_Namehash r"
proof -
  have eq: "r' = r\<lparr>r_Signature := r_Signature r', r_PublicKey := r_PublicKey r', r_Signer := r_Signer r'\<rparr>"
    using Sign_run[OF assms] by blast
  show "r_Domain r' = r_Domain r" using arg_cong[OF eq, of r_Domain] by simp
  show "r_Namehash r' = r_Namehash r" using arg_cong[OF eq, of r_Namehash] by simp
qed

text \<open>What the tool prints for a record: its signature, and a transaction of at least the accepted value.\<close>

lemma NewRecord_of_signed:
  assumes "recovers E key" "UnmarshalPubkey E (FromECDSAPub E (EcdsaPublic E key)) = Inr (EcdsaPublic E key)"
    and "Sign E key (zero_Record\<lparr>r_Domain := d, r_Namehash := nh, r_TTL := t\<rparr>) = (None, rec)"
  shows "\<exists>r s'. NewRecord E d ttl (r_Signature rec) (r_PublicKey rec) tx s = (Done (Inr r), s')
    \<and> r_SignedTx r = tx \<and> r_Namehash r = Some (Namehash E d) \<and> r_Signer r = PubkeyToAddress E (EcdsaPublic E key)"
proof -
  have rec: "Verify E rec" "r_Domain rec = d" "r_PublicKey rec = Some (FromECDSAPub E (EcdsaPublic E key))"
    using Sign_run[OF assms(1,3)] Sign_keeps[OF assms(1,3)] by simp_all
  obtain t1 w1 where 1: "Clock E (rs_world s) = (t1, w1)" by fastforce
  obtain t2 w2 where 2: "Clock E w1 = (t2, w2)" by fastforce
  have "verify_fields E d (r_Signature rec) (r_PublicKey rec)" using rec(1,2) by (simp add: Verify_fields)
  then show ?thesis
    using rec(3) assms(2) 1 2
    by (auto simp: NewRecord_def gbind_def gret_def glift_def time_Now_def meta_put_def Let_def Verify_fields
        zero_Record_def zero_Binding_def GetSignerAddress_def)
qed

lemma BindDomain_accepted:
  fixes s2 :: "('w, 's) RecordStore_scheme"
  assumes "key_laws E key" "tx_laws E key" "abi_laws E" "chain_ready E chain nonce" "length (Namehash E d) = 32"
    and run: "BindDomain E d resolver chain days key nonce s = (Done (Inr out), s1)"
    and "clock_within E (bo_Timestamp out)" "bo_Timestamp out < bo_ExpiresAt out"
  shows "\<exists>r s3 s4. NewRecord E d ttl (r_Signature (bo_Record out)) (r_PublicKey (bo_Record out)) (Some (bo_SignedTx out)) s2 = (Done (Inr r), s3)
    \<and> Verify E r \<and> ValidateSignedTx E r s3 = (Done (True, None), s4)"
proof -
  have key: "recovers E key" "UnmarshalPubkey E (FromECDSAPub E (EcdsaPublic E key)) = Inr (EcdsaPublic E key)"
    using assms(1) by (simp_all add: key_laws_def)
  from BindDomain_out[OF run] obtain rec sig addr where addr: "addr = HexToAddress E (Getenv E ''EVM_ALTICA_REGISTRY_ADDRESS'')"
    and sign: "Sign E key (zero_Record\<lparr>r_Domain := d, r_Namehash := Some (Namehash E d), r_TTL := ttl_of_days days\<rparr>) = (None, rec)"
    and rec: "bo_Record out = rec"
    and sig: "GenerateBindingSignature E key addr chain (r_Namehash rec) (HexToAddress E resolver) (bo_ExpiresAt out) (bo_Timestamp out) = Done (Inr sig)"
    and pre: "PreSignSubmitBindingTxEIP1559 E key addr chain (r_Namehash rec) (HexToAddress E resolver) (bo_ExpiresAt out) (bo_Timestamp out)
        sig nonce bind_gasLimit (Some bind_maxFee) (Some bind_priorityFee) (Some bind_value) = Inr (bo_SignedTx out)"
    by blast
  have nh: "r_Namehash rec = Some (Namehash E d)"
    using Sign_keeps[OF key(1) sign] by simp
  obtain r s3 where r: "NewRecord E d ttl (r_Signature rec) (r_PublicKey rec) (Some (bo_SignedTx out)) s2 = (Done (Inr r), s3)"
    "r_SignedTx r = Some (bo_SignedTx out)" "r_Namehash r = Some (Namehash E d)" "r_Signer r = PubkeyToAddress E (EcdsaPublic E key)"
    using NewRecord_of_signed[OF key sign] by blast
  obtain s4 where "ValidateSignedTx E r s3 = (Done (True, None), s4)"
    using tool_tx_validates[OF assms(1-4,7,8,5) addr sig[unfolded nh] pre[unfolded nh] _ r(2-4)]
    by (auto simp: bind_value_def min_value_def)
  then show ?thesis using r(1) NewRecord_run[OF r(1)] rec by auto
qed

text \<open>
  What the tool prints for a binding is what a node accepts: in every environment whose libraries keep their laws,
  a node on the same chain makes a record of the printed signature and key that verifies, and its
  validation of the printed transaction succeeds while the time stamp is fresh and the key's next
  nonce is the one given.
\<close>

theorem cli_binding_validates:
  fixes s2 :: "('w, 's) RecordStore_scheme"
  assumes "key_laws E key" "tx_laws E key" "abi_laws E" "chain_ready E chain nonce" "length (Namehash E d) = 32"
    and "BindDomain E d resolver chain days key nonce s = (Done (Inr out), s1)"
    and "clock_within E (bo_Timestamp out)" "bo_Timestamp out < bo_ExpiresAt out"
  shows "\<exists>r s3 s4. NewRecord E d ttl (r_Signature (bo_Record out)) (r_PublicKey (bo_Record out)) (Some (bo_SignedTx out)) s2 = (Done (Inr r), s3)
    \<and> Verify E r \<and> ValidateSignedTx E r s3 = (Done (True, None), s4)"
  by (rule BindDomain_accepted[OF assms])

text \<open>A chain whose libraries know the one transaction of the example.\<close>

definition cli_key :: bytes where "cli_key = replicate 20 (CHR ''k'')"

definition cli_sig :: bytes where "cli_sig = (fit 65 cli_key)[64 := byte_add (fit 65 cli_key ! 64) 27]"

definition cli_args :: "abi_arg list" where
  "cli_args = [ABytes32 (Namehash mem_env ''ab''), AAddress ''registry'', AUint64 87400, AUint64 1000, ABytes cli_sig]"

definition cli_df :: dynamic_fee_tx where
  "cli_df = \<lparr>df_ChainID = 1, df_Nonce = 7, df_GasTipCap = Some bind_priorityFee, df_GasFeeCap = Some bind_maxFee,
     df_Gas = bind_gasLimit, df_To = ''registry'', df_Value = Some bind_value, df_Data = ''pack''\<rparr>"

definition cli_tx :: txn where
  "cli_tx = \<lparr>t_ChainId = Some 1, t_Value = Some bind_value, t_To = Some ''registry'', t_Nonce = 7, t_Data = ''pack''\<rparr>"

definition cli_chain :: "mem_world chain_env" where
  "cli_chain = mem_chain
     \<lparr>Clock := \<lambda>w. (1000 * ns_per_sec, w), RlpDynamicFee := \<lambda>b. Inr cli_tx,
      SignTx := \<lambda>c tx k. if tx = cli_df then Inr [CHR 0x02] else Inl ErrJSON,
      AbiUnpack := \<lambda>n b. Inr cli_args,
      AbiPackMethod := \<lambda>n as. if as = cli_args then Inr ''pack'' else Inl ErrJSON\<rparr>"

lemma cli_chain_simps:
  "RlpDynamicFee cli_chain b = Inr cli_tx" "TxSender cli_chain c t = Inr cli_key"
  "HexToAddress cli_chain a = ''registry''" "AbiMethodById cli_chain b = Inr ''SubmitBinding''"
  "AbiUnpack cli_chain n b = Inr cli_args" "AbiPack cli_chain ts as = Inr (concat ts)"
  "AbiPackMethod cli_chain n as = (if as = cli_args then Inr ''pack'' else Inl ErrJSON)"
  "SignTx cli_chain ch df k = (if df = cli_df then Inr [CHR 0x02] else Inl ErrJSON)"
  "Ecrecover cli_chain dg sig = Inr (replicate 65 (CHR ''k''))" "Getenv cli_chain v = (if v = ''EVM_CHAIN_ID'' then ''1'' else ''x'')"
  "EthCodeAt cli_chain a w = (Inr ''code'', w)" "EthPendingNonceAt cli_chain a w = (Inr 7, w)"
  "EthDial cli_chain u w = (None, w)" "EthCallContract cli_chain ad d blk w = (Inr None, w)"
  "Clock cli_chain w = (1000 * ns_per_sec, w)"
  "UnmarshalPubkey cli_chain pk = (if length pk = 65 then Inr pk else Inl (ErrExt ''invalid public key''))"
  "PubkeyToAddress cli_chain pk = fit 20 pk" "EcdsaSign cli_chain dg k = Inr (fit 65 k)" "EcdsaPublic cli_chain k = fit 65 k"
  by (simp_all add: cli_chain_def mem_chain_simps cli_key_def)

lemma cli_chain_env:
  "Keccak cli_chain = fit 32" "FromECDSAPub cli_chain = (\<lambda>pk. pk)"
  "SigToPub cli_chain = (\<lambda>h sig. if length sig = 65 then Inr sig else Inl (ErrExt ''invalid signature length''))"
  by (simp_all add: cli_chain_def mem_chain_def chain_base_def env.defs mem_env_def)

lemma cli_fit: "fit 20 (fit 65 cli_key) = cli_key" "length (fit 65 cli_key) = 65" "(of_char (fit 65 cli_key ! 64) :: nat) = 1"
  by (simp_all add: fit_def cli_key_def nth_append)

lemma cli_laws: "key_laws cli_chain cli_key" "tx_laws cli_chain cli_key" "abi_laws cli_chain" "chain_ready cli_chain 1 7"
  "clock_within cli_chain 1000"
proof -
  have k: "fit 20 (replicate 65 (CHR ''k'')) = cli_key" by (simp add: fit_def cli_key_def take_replicate)
  have "signs_65 cli_chain cli_key" by (simp add: signs_65_def cli_chain_simps cli_fit k)
  moreover have "recovers cli_chain cli_key" by (simp add: recovers_def cli_chain_simps cli_chain_env cli_fit)
  ultimately show "key_laws cli_chain cli_key" by (simp add: key_laws_def cli_chain_simps cli_chain_env cli_fit)
  show "tx_laws cli_chain cli_key" by (auto simp: tx_laws_def cli_chain_simps cli_fit cli_df_def cli_tx_def)
  show "abi_laws cli_chain" by (simp add: abi_laws_def cli_chain_simps)
  have "ParseInt ''1'' = Inr 1" by (simp add: ParseInt_def digit_val_def is_digit_def)
  then show "chain_ready cli_chain 1 7" by (simp add: chain_ready_def cli_chain_simps)
  show "clock_within cli_chain 1000" by (simp add: clock_within_def cli_chain_simps unix_now_def ns_per_sec_def recent_enough_iff')
qed

lemma Namehash_cli: "Namehash cli_chain ''ab'' = Namehash mem_env ''ab''" "length (Namehash mem_env ''ab'') = 32"
  by (simp_all add: Namehash_labels keccak256_def cli_chain_env mem_env_def fit_def)

lemma cli_run: "\<exists>out s1. BindDomain cli_chain ''ab'' ''res'' 1 1 cli_key 7 mem_start = (Done (Inr out), s1)
    \<and> bo_Timestamp out = 1000 \<and> bo_ExpiresAt out = 87400"
proof -
  have now: "unix_now (1000 * ns_per_sec) = 1000" by (simp add: unix_now_def ns_per_sec_def)
  obtain rec where sign: "Sign cli_chain cli_key (zero_Record\<lparr>r_Domain := ''ab'', r_Namehash := Some (Namehash mem_env ''ab''),
      r_TTL := ttl_of_days 1\<rparr>) = (None, rec)"
    by (auto simp: Sign_def serializeForSigning_def GetSignerAddress_def zero_Record_def Let_def cli_chain_simps cli_chain_env cli_fit)
  have nh: "r_Namehash rec = Some (Namehash mem_env ''ab'')"
    using Sign_keeps[OF _ sign] cli_laws(1) by (simp add: key_laws_def)
  obtain dg where "GetDigest cli_chain (Some (Namehash mem_env ''ab'')) ''registry'' 87400 1000 1 ''registry'' = Inr dg"
    by (simp add: GetDigest_def cli_chain_simps Let_def)
  then have sig: "GenerateBindingSignature cli_chain cli_key ''registry'' 1 (Some (Namehash mem_env ''ab'')) ''registry'' 87400 1000 = Done (Inr cli_sig)"
    by (simp add: GenerateBindingSignature_def cli_chain_simps cli_fit cli_sig_def)
  have pre: "PreSignSubmitBindingTxEIP1559 cli_chain cli_key ''registry'' 1 (Some (Namehash mem_env ''ab'')) ''registry'' 87400 1000
      cli_sig 7 bind_gasLimit (Some bind_maxFee) (Some bind_priorityFee) (Some bind_value) = Inr [CHR 0x02]"
    by (simp add: PreSignSubmitBindingTxEIP1559_def cli_chain_simps copy32_id Namehash_cli cli_args_def cli_df_def)
  have len: "length cli_sig = 65" by (simp add: cli_sig_def cli_fit)
  show ?thesis
    by (simp add: BindDomain_def gbind_def time_Now_def gret_def glift_def Let_def cli_chain_simps Namehash_cli now sign nh sig pre len)
qed

theorem cli_binding_validates_witness:
  "\<exists>out s1 r s3 s4. BindDomain cli_chain ''ab'' ''res'' 1 1 cli_key 7 mem_start = (Done (Inr out), s1)
    \<and> NewRecord cli_chain ''ab'' 5 (r_Signature (bo_Record out)) (r_PublicKey (bo_Record out)) (Some (bo_SignedTx out)) late_start = (Done (Inr r), s3)
    \<and> ValidateSignedTx cli_chain r s3 = (Done (True, None), s4)"
proof -
  obtain out s1 where run: "BindDomain cli_chain ''ab'' ''res'' 1 1 cli_key 7 mem_start = (Done (Inr out), s1)"
    and out: "bo_Timestamp out = 1000" "bo_ExpiresAt out = 87400"
    using cli_run by blast
  have n: "length (Namehash cli_chain ''ab'') = 32" by (simp add: Namehash_cli)
  have w: "clock_within cli_chain (bo_Timestamp out)" "bo_Timestamp out < bo_ExpiresAt out"
    using cli_laws(5) out by simp_all
  from cli_binding_validates[OF cli_laws(1-4) n run w, of 5 late_start] run show ?thesis by blast
qed

end
