(* ===== verification/EndToEnd.thy ===== *)
theory EndToEnd
  imports CliProps RpcProps
begin

text \<open>
  From the command line to the store: what the tool prints, sent to a node as a registration request,
  is answered with a pending record that is put to the vote and gossiped.
\<close>

section \<open>The request\<close>

text \<open>The fields of the request are the values as printed, with their prefix; without a time to live.\<close>

definition printed :: "bytes \<Rightarrow> string" where "printed b = ''0x'' @ hex_EncodeToString b"




lemma printed_decodes [simp]: "hex_DecodeString (TrimPrefix (printed b) ''0x'') = Inr b" "printed b \<noteq> []"
  by (simp_all add: printed_def TrimPrefix_def HasPrefix_iff)


section \<open>What leaves the store alone\<close>








section \<open>Registration\<close>







end
