(* ===== verification/SyncTime.thy ===== *)
theory SyncTime
  imports StoreFacts "HOL-Library.Signed_Division"
begin

text \<open>
  The time of the last synchronisation (\<open>core/store.go\<close>), kept in the database in the binary form of
  \<open>time.Time\<close>: a version, the seconds since year 1, the nanoseconds and the zone offset, big-endian.
  A zone is \<open>None\<close> for UTC or its offset in seconds; the zone of a decoded time is only displayed, so
  decoding gives the instant.
\<close>

section \<open>The binary form of a time\<close>

definition be_bytes :: "nat \<Rightarrow> int \<Rightarrow> bytes" where
  "be_bytes k n = map (\<lambda>i. char_of (n div 256 ^ (k - 1 - i))) [0..<k]"

lemma be_bytes_length [simp]: "length (be_bytes k n) = k"
  by (simp add: be_bytes_def)

lemma be_bytes_value [simp]: "be_value (be_bytes k n) = n mod 256 ^ k"
  unfolding be_value_def be_bytes_def by (rule be_fold_digits)

definition unixToInternal :: int where "unixToInternal = 62135596800"
definition wallToInternal :: int where "wallToInternal = (1884 * 365 + 1884 div 4 - 1884 div 100 + 1884 div 400) * 86400"

definition zero_time :: int where "zero_time = - unixToInternal * ns_per_sec"

definition MarshalBinary :: "int option \<Rightarrow> int \<Rightarrow> goerr + bytes" where
  "MarshalBinary zone t =
     (let body = be_bytes 8 (t div ns_per_sec + unixToInternal) @ be_bytes 4 (t mod ns_per_sec) in
      case zone of
        None \<Rightarrow> Inr (CHR 0x01 # body @ be_bytes 2 (-1))
      | Some offset \<Rightarrow>
          (let offsetMin = offset sdiv 60 in
           if offsetMin < - 32768 \<or> offsetMin = -1 \<or> 32767 < offsetMin
           then Inl (ErrExt ''Time.MarshalBinary: unexpected zone offset'')
           else if offset smod 60 \<noteq> 0
           then Inr (CHR 0x02 # body @ be_bytes 2 offsetMin @ be_bytes 1 (offset smod 60))
           else Inr (CHR 0x01 # body @ be_bytes 2 offsetMin)))"

text \<open>
  Nanoseconds with the top bit set are sign-extended into the monotonic flag and its seconds, which
  \<open>setLoc\<close> then strips; otherwise the low thirty bits count.
\<close>

definition UnmarshalBinary :: "bytes \<Rightarrow> goerr + int" where
  "UnmarshalBinary data =
     (case data of
        [] \<Rightarrow> Inl (ErrExt ''Time.UnmarshalBinary: no data'')
      | version # buf \<Rightarrow>
          if version \<noteq> CHR 0x01 \<and> version \<noteq> CHR 0x02 then Inl (ErrExt ''Time.UnmarshalBinary: unsupported version'')
          else if length data \<noteq> (if version = CHR 0x02 then 16 else 15)
          then Inl (ErrExt ''Time.UnmarshalBinary: invalid length'')
          else let sec = sint (of_int (be_value (take 8 buf)) :: int64);
                   nsec = be_value (take 4 (drop 8 buf));
                   sec' = (if nsec < 2 ^ 31 then sec else wallToInternal + (2 ^ 33 - 2) + nsec div 2 ^ 30 mod 2)
               in Inr ((sec' - unixToInternal) * ns_per_sec + nsec mod 2 ^ 30))"

lemma sint_be64:
  assumes "- (2 ^ 63) \<le> k" "k < 2 ^ 63"
  shows "sint (of_int (k mod 256 ^ 8) :: int64) = k"
proof -
  have "(of_int (k mod 256 ^ 8) :: int64) = of_int k"
    by transfer (simp add: take_bit_eq_mod)
  moreover have "sint (of_int k :: int64) = k"
    using assms by transfer (simp add: signed_take_bit_int_eq_self)
  ultimately show ?thesis by simp
qed

lemma time_binary_roundtrip:
  assumes "MarshalBinary zone t = Inr data"
    and "- (2 ^ 63) \<le> t div ns_per_sec + unixToInternal" "t div ns_per_sec + unixToInternal < 2 ^ 63"
  shows "UnmarshalBinary data = Inr t"
proof -
  have ns: "0 \<le> t mod ns_per_sec" "t mod ns_per_sec < 1000000000" by (simp_all add: ns_per_sec_def)
  have read: "UnmarshalBinary (v # be_bytes 8 (t div ns_per_sec + unixToInternal) @ be_bytes 4 (t mod ns_per_sec) @ zone) = Inr t"
    if "v = CHR 0x01 \<and> length zone = 2 \<or> v = CHR 0x02 \<and> length zone = 3" for v zone
    using that ns sint_be64[OF assms(2,3)] by (auto simp: UnmarshalBinary_def Let_def)
  show ?thesis
    using assms(1) by (auto simp: MarshalBinary_def Let_def intro!: read split: option.splits if_splits)
qed

section \<open>The last synchronisation\<close>

definition lastSyncKey :: string where "lastSyncKey = ''/sync/last_sync_time''"

definition GetLastSyncTime :: "('w, 'e) env_scheme \<Rightarrow> (('w, 's) RecordStore_scheme, goerr + int) go" where
  "GetLastSyncTime E =
     gbind (db_Get E (NewKey E lastSyncKey)) (\<lambda>r.
     case r of
       Inl err \<Rightarrow> gret (if err = ErrDatastoreNotFound then Inr zero_time else Inl err)
     | Inr data \<Rightarrow> gret (UnmarshalBinary (sl_bytes data)))"

definition SetLastSyncTime :: "('w, 'e) env_scheme \<Rightarrow> int option \<Rightarrow> int \<Rightarrow> (('w, 's) RecordStore_scheme, goerr option) go" where
  "SetLastSyncTime E zone t =
     (case MarshalBinary zone t of
        Inl err \<Rightarrow> gret (Some err)
      | Inr data \<Rightarrow> db_Put E (NewKey E lastSyncKey) data)"

lemma does_SyncTime:
  "keeps (does K) (GetLastSyncTime E)"
  "(\<And>v. K (EDb (NewKey E lastSyncKey) v)) \<Longrightarrow> keeps (does K) (SetLastSyncTime E zone t)"
  unfolding GetLastSyncTime_def SetLastSyncTime_def by (intro does_rules does_write; simp)+

lemma runs_GetLastSyncTime:
  assumes "quiet E dv bv"
    and "\<And>s'. view_of dv bv s' = view_of dv bv s \<Longrightarrow>
      Q (case vw_db (view_of dv bv s) (NewKey E lastSyncKey) of None \<Rightarrow> Inr zero_time | Some b \<Rightarrow> UnmarshalBinary b) s'"
  shows "runs (GetLastSyncTime E) s Q"
  unfolding GetLastSyncTime_def runs_gbind
  by (rule runs_db_Get[OF assms(1)]) (use assms(2) in \<open>auto split: option.splits\<close>)

lemma runs_SetLastSyncTime:
  assumes "quiet E dv bv" "MarshalBinary zone t = Inr data"
    and "\<And>s'. view_of dv bv s' = (view_of dv bv s)\<lparr>vw_db := (vw_db (view_of dv bv s))(NewKey E lastSyncKey \<mapsto> data)\<rparr> \<Longrightarrow> Q None s'"
  shows "runs (SetLastSyncTime E zone t) s Q"
  unfolding SetLastSyncTime_def assms(2) sum.case by (rule runs_db_Put[OF assms(1)]) (rule assms(3))

end
