(* ===== verification/Boot.thy ===== *)
theory Boot
  imports Listener SyncTime
begin

text \<open>
  Starting a node: its key, its construction, the connections it makes and the order in which the
  program brings its parts up (\<open>main.go\<close>, \<open>core/node.go\<close>, \<open>core/gossip.go\<close>, and the conversion of the
  key in \<open>core/store.go\<close>). The LevelDB, libp2p and key libraries and the file system are parameters. Before a
  node exists an operation acts on the world alone.
\<close>

section \<open>Parameters and state\<close>

text \<open>Peers are their ids, keys their encodings, multiaddresses the library's values.\<close>

record 'w boot_env = "'w node_env" +
  NewDatastore :: "string \<Rightarrow> 'w \<Rightarrow> goerr option \<times> 'w"
  NewPeerstore :: "'w \<Rightarrow> goerr option \<times> 'w"
  Libp2pNew :: "bytes \<Rightarrow> 'w \<Rightarrow> (goerr + string) \<times> 'w"
  DhtNew :: "'w \<Rightarrow> goerr option \<times> 'w"
  NewGossipSub :: "'w \<Rightarrow> goerr option \<times> 'w"
  JoinTopic :: "string \<Rightarrow> 'w \<Rightarrow> goerr option \<times> 'w"
  SubscribeTopic :: "string \<Rightarrow> 'w \<Rightarrow> goerr option \<times> 'w"
  PrivKeyRaw :: "bytes \<Rightarrow> goerr + bytes"
  ScalarSize :: nat
  ScalarUnmarshal :: "bytes \<Rightarrow> goerr + bytes"
  Scanln :: "'w \<Rightarrow> string \<times> 'w"
  NewMultiaddr :: "string \<Rightarrow> goerr + bytes"
  AddrInfoFromP2pAddr :: "bytes \<Rightarrow> goerr + string"
  DhtBootstrap :: "'w \<Rightarrow> goerr option \<times> 'w"
  HostConnect :: "string \<Rightarrow> 'w \<Rightarrow> goerr option \<times> 'w"
  DiscoveryAdvertise :: "string \<Rightarrow> 'w \<Rightarrow> unit \<times> 'w"
  FindPeers :: "string \<Rightarrow> 'w \<Rightarrow> (goerr + string list) \<times> 'w"
  NetworkPeers :: "'w \<Rightarrow> string list \<times> 'w"
  PeerstoreAddrs :: "string \<Rightarrow> 'w \<Rightarrow> bytes list \<times> 'w"
  SubCancel :: "string \<Rightarrow> 'w \<Rightarrow> unit \<times> 'w"
  TopicClose :: "string \<Rightarrow> 'w \<Rightarrow> goerr option \<times> 'w"
  HostClose :: "'w \<Rightarrow> goerr option \<times> 'w"
  DhtClose :: "'w \<Rightarrow> goerr option \<times> 'w"
  UnmarshalPrivateKey :: "bytes \<Rightarrow> goerr + bytes"
  MarshalPrivateKey :: "bytes \<Rightarrow> goerr + bytes"
  GenerateEd25519Key :: "'w \<Rightarrow> (goerr + bytes) \<times> 'w"
  ReadFile :: "string \<Rightarrow> 'w \<Rightarrow> (goerr + bytes) \<times> 'w"
  WriteFile :: "string \<Rightarrow> bytes \<Rightarrow> 'w \<Rightarrow> goerr option \<times> 'w"

text \<open>The node after construction; \<open>bn_dialed\<close> lists the peers it has connected to, or tried to.\<close>

record 'w booted = "'w node" +
  bn_lastSync :: int
  bn_dialed :: "string list"

section \<open>The voting key\<close>

definition convertCryptoPrivKeyToKyber :: "('w, 'e) boot_env_scheme \<Rightarrow> bytes option \<Rightarrow> goerr + bytes" where
  "convertCryptoPrivKeyToKyber E privKey =
     (case privKey of
        None \<Rightarrow> Inl (Errorf ''private key is nil'')
      | Some k \<Rightarrow>
     (case PrivKeyRaw E k of
        Inl err \<Rightarrow> Inl (Wrapf ''failed to get raw private key'' err)
      | Inr rawKey \<Rightarrow>
     (case ScalarUnmarshal E (take (ScalarSize E) (rawKey @ replicate (ScalarSize E) (CHR 0x00))) of
        Inl err \<Rightarrow> Inl (Wrapf ''failed to unmarshal private key'' err)
      | Inr scalar \<Rightarrow> Inr scalar)))"

section \<open>Construction\<close>

text \<open>A call on the world, and one that may fail with an error, before the steps \<open>k\<close>.\<close>

definition wcall :: "('w \<Rightarrow> 'a \<times> 'w) \<Rightarrow> ('w, 'a) go" where
  "wcall f = (\<lambda>w. case f w of (x, w') \<Rightarrow> (Done x, w'))"

definition wtry :: "(goerr \<Rightarrow> goerr) \<Rightarrow> ('w \<Rightarrow> goerr option \<times> 'w) \<Rightarrow> ('w, goerr + 'a) go \<Rightarrow> ('w, goerr + 'a) go" where
  "wtry wrap f k = gbind (wcall f) (\<lambda>r. case r of Some err \<Rightarrow> gret (Inl (wrap err)) | None \<Rightarrow> k)"

definition wneed :: "(goerr \<Rightarrow> goerr) \<Rightarrow> ('w \<Rightarrow> (goerr + 'b) \<times> 'w) \<Rightarrow> ('b \<Rightarrow> ('w, goerr + 'a) go) \<Rightarrow> ('w, goerr + 'a) go" where
  "wneed wrap f k = gbind (wcall f) (\<lambda>r. case r of Inl err \<Rightarrow> gret (Inl (wrap err)) | Inr x \<Rightarrow> k x)"

text \<open>An operation of the node, run from a state that is then part of the result.\<close>

definition on_node :: "(('w, 's) RecordStore_scheme, goerr option) go \<Rightarrow> ('w, 's) RecordStore_scheme \<Rightarrow> ('w, goerr + ('w, 's) RecordStore_scheme) go" where
  "on_node m s = (\<lambda>w. case m (s\<lparr>rs_world := w\<rparr>) of
     (Done None, s') \<Rightarrow> (Done (Inr s'), rs_world s')
   | (Done (Some err), s') \<Rightarrow> (Done (Inl err), rs_world s')
   | (Panic p, s') \<Rightarrow> (Panic p, rs_world s'))"

definition NewGossipManager :: "('w, 'e) boot_env_scheme \<Rightarrow> ('w, goerr + unit) go" where
  "NewGossipManager E =
     wtry id (NewGossipSub E) (
     wtry id (JoinTopic E GossipTopicNameBound) (
     wtry id (JoinTopic E GossipTopicRecords) (
     wtry id (SubscribeTopic E GossipTopicNameBound) (
     wtry id (SubscribeTopic E GossipTopicRecords) (
     gret (Inr ()))))))"

text \<open>
  Whether \<open>results.Rest()\<close> delivers an entry; it fails when one of the results is an error.
\<close>

definition has_records :: "(goerr + string \<times> slice) list \<Rightarrow> bool" where
  "has_records rs = (rs \<noteq> [] \<and> list_all (\<lambda>r. case r of Inl err \<Rightarrow> False | Inr e \<Rightarrow> True) rs)"

definition promptUserConfirmation :: "('w, 'e) boot_env_scheme \<Rightarrow> (('w, 's) RecordStore_scheme, bool) go" where
  "promptUserConfirmation E =
     gbind (ask (Scanln E)) (\<lambda>response. gret (response = [] \<or> response = ''Y'' \<or> response = ''y''))"

definition set_lastSync :: "int \<Rightarrow> (('w, 's) booted_scheme, goerr option) go" where
  "set_lastSync t = gbind (gmodify (\<lambda>s. s\<lparr>bn_lastSync := t\<rparr>)) (\<lambda>_. gret None)"

definition resume_sync :: "('w, 'e) boot_env_scheme \<Rightarrow> bool \<Rightarrow> (('w, 's) booted_scheme, goerr option) go" where
  "resume_sync E hasRecords =
     (if \<not> hasRecords then set_lastSync zero_time
      else gbind (GetLastSyncTime E) (\<lambda>r.
      case r of
        Inl err \<Rightarrow>
          gbind (promptUserConfirmation E) (\<lambda>restart.
          if \<not> restart then gret (Some (Errorf ''cannot continue without sync time confirmation, please fix the storage or confirm fresh sync''))
          else set_lastSync zero_time)
      | Inr lastSync \<Rightarrow> set_lastSync lastSync))"

definition fresh_node :: "('w, 'e) boot_env_scheme \<Rightarrow> bytes \<Rightarrow> string \<Rightarrow> 'w \<Rightarrow> 'w booted" where
  "fresh_node E privKey hostID w = RecordStore.extend
     (NewRecordStore w hostID (case convertCryptoPrivKeyToKyber E (Some privKey) of Inl err \<Rightarrow> None | Inr k \<Rightarrow> Some k))
     \<lparr>gs_eventSeen = [], gs_messageSeen = [], nd_trace = [], bn_lastSync = zero_time, bn_dialed = []\<rparr>"

definition NewNode :: "('w, 'e) boot_env_scheme \<Rightarrow> bytes \<Rightarrow> string \<Rightarrow> ('w, goerr + 'w booted) go" where
  "NewNode E privKey dataDir =
     wtry (Wrapf ''failed to create peers datastore'') (NewDatastore E (dataDir @ ''/peerstore'')) (
     wtry (Wrapf ''failed to create records datastore'') (NewDatastore E (dataDir @ ''/records'')) (
     wneed (Wrapf ''failed to query records'') (DbQuery E []) (\<lambda>results.
     wtry (Wrapf ''failed to create peerstore'') (NewPeerstore E) (
     wneed (Wrapf ''failed to create libp2p host'') (Libp2pNew E privKey) (\<lambda>hostID.
     wtry (Wrapf ''failed to create altica DHT'') (DhtNew E) (
     gbind (NewGossipManager E) (\<lambda>g.
     case g of
       Inl err \<Rightarrow> gret (Inl (Wrapf ''failed to create gossip manager'' err))
     | Inr _ \<Rightarrow> (\<lambda>w. on_node (resume_sync E (has_records results)) (fresh_node E privKey hostID w) w))))))))"

section \<open>Connections\<close>

definition dial :: "('w, 'e) boot_env_scheme \<Rightarrow> string \<Rightarrow> (('w, 's) booted_scheme, goerr option) go" where
  "dial E p = (\<lambda>s. case HostConnect E p (rs_world s) of (r, w) \<Rightarrow>
     (Done r, s\<lparr>rs_world := w, bn_dialed := bn_dialed s @ [p]\<rparr>))"

fun parse_bootstrap :: "('w, 'e) boot_env_scheme \<Rightarrow> string list \<Rightarrow> goerr + bytes list" where
  "parse_bootstrap E [] = Inr []"
| "parse_bootstrap E (addr # addrs) =
     (case NewMultiaddr E addr of
        Inl err \<Rightarrow> Inl (Wrapf ''invalid bootstrap address'' err)
      | Inr ma \<Rightarrow> (case parse_bootstrap E addrs of Inl err \<Rightarrow> Inl err | Inr mas \<Rightarrow> Inr (ma # mas)))"

text \<open>The connections to the bootstrap peers, one goroutine each; all of them have ended before \<open>Bootstrap\<close> goes on.\<close>

fun dial_bootstrap :: "('w, 'e) boot_env_scheme \<Rightarrow> bytes list \<Rightarrow> (('w, 's) booted_scheme, unit) go" where
  "dial_bootstrap E [] = gret ()"
| "dial_bootstrap E (ma # mas) =
     (case AddrInfoFromP2pAddr E ma of
        Inl err \<Rightarrow> dial_bootstrap E mas
      | Inr p \<Rightarrow> gbind (dial E p) (\<lambda>_. dial_bootstrap E mas))"

text \<open>The host's own id is skipped, in discovery and for a peer found by mDNS.\<close>

definition HandlePeerFound :: "('w, 'e) boot_env_scheme \<Rightarrow> string \<Rightarrow> (('w, 's) booted_scheme, unit) go" where
  "HandlePeerFound E p =
     gbind (gread rs_hostID) (\<lambda>self. if p = self then gret () else gbind (dial E p) (\<lambda>_. gret ()))"

fun dial_found :: "('w, 'e) boot_env_scheme \<Rightarrow> string list \<Rightarrow> (('w, 's) booted_scheme, unit) go" where
  "dial_found E [] = gret ()"
| "dial_found E (p # ps) =
     gbind (gread rs_hostID) (\<lambda>self.
     if p = self then dial_found E ps else gbind (dial E p) (\<lambda>_. dial_found E ps))"

definition minute :: int where "minute = 60 * 1000000000"

text \<open>One round of the discovery loop.\<close>

definition discover_round :: "('w, 'e) boot_env_scheme \<Rightarrow> (('w, 's) booted_scheme, unit) go" where
  "discover_round E =
     gbind (ask (FindPeers E ''altica-dns-discovery'')) (\<lambda>r.
     case r of
       Inl err \<Rightarrow> time_Sleep E minute
     | Inr peers \<Rightarrow> gbind (dial_found E peers) (\<lambda>_. time_Sleep E minute))"

text \<open>Discovery and the gossip listeners go on as goroutines after \<open>Bootstrap\<close> has returned.\<close>

definition Bootstrap :: "('w, 'e) boot_env_scheme \<Rightarrow> (('w, 's) booted_scheme, goerr option) go" where
  "Bootstrap E =
     (case parse_bootstrap E bootstrapPeers of
        Inl err \<Rightarrow> gret (Some err)
      | Inr addrs \<Rightarrow>
     gbind (ask (DhtBootstrap E)) (\<lambda>r.
     case r of
       Some err \<Rightarrow> gret (Some (Wrapf ''failed to bootstrap DHT'' err))
     | None \<Rightarrow>
     gbind (dial_bootstrap E addrs) (\<lambda>_.
     gbind (ask (DiscoveryAdvertise E ''altica-dns-discovery'')) (\<lambda>_. gret None))))"

fun peer_infos :: "('w, 'e) boot_env_scheme \<Rightarrow> string list \<Rightarrow> (('w, 's) RecordStore_scheme, (string \<times> bytes list) list) go" where
  "peer_infos E [] = gret []"
| "peer_infos E (p # ps) =
     gbind (ask (PeerstoreAddrs E p)) (\<lambda>addrs. gbind (peer_infos E ps) (\<lambda>infos. gret ((p, addrs) # infos)))"

definition ListPeers :: "('w, 'e) boot_env_scheme \<Rightarrow> (('w, 's) RecordStore_scheme, (string \<times> bytes list) list) go" where
  "ListPeers E = gbind (ask (NetworkPeers E)) (peer_infos E)"

text \<open>Closing the gossip manager and the node: errors are logged and the result is always nil.\<close>

definition GossipClose :: "('w, 'e) boot_env_scheme \<Rightarrow> (('w, 's) RecordStore_scheme, goerr option) go" where
  "GossipClose E =
     gbind (ask (SubCancel E GossipTopicNameBound)) (\<lambda>_.
     gbind (ask (SubCancel E GossipTopicRecords)) (\<lambda>_.
     gbind (ask (TopicClose E GossipTopicNameBound)) (\<lambda>_.
     gbind (ask (TopicClose E GossipTopicRecords)) (\<lambda>_. gret None))))"

definition NodeClose :: "('w, 'e) boot_env_scheme \<Rightarrow> (('w, 's) RecordStore_scheme, goerr option) go" where
  "NodeClose E =
     gbind (GossipClose E) (\<lambda>_.
     gbind (ask (HostClose E)) (\<lambda>_.
     gbind (ask (DhtClose E)) (\<lambda>_. gret None)))"

section \<open>The program\<close>

definition dataDir :: string where "dataDir = ''.altica''"
definition privKeyFile :: string where "privKeyFile = dataDir @ ''/node.key''"

text \<open>A key file that cannot be read is taken for a missing one.\<close>

definition load_node_key :: "('w, 'e) boot_env_scheme \<Rightarrow> ('w, goerr + bytes) go" where
  "load_node_key E =
     gbind (wcall (ReadFile E privKeyFile)) (\<lambda>file.
     case file of
       Inr keyData \<Rightarrow>
         (case UnmarshalPrivateKey E keyData of
            Inl err \<Rightarrow> gret (Inl (Wrapf ''Error reading private key'' err)) | Inr priv \<Rightarrow> gret (Inr priv))
     | Inl _ \<Rightarrow>
         wneed (Wrapf ''Error generating private key'') (GenerateEd25519Key E) (\<lambda>priv.
         case MarshalPrivateKey E priv of
           Inl err \<Rightarrow> gret (Inl (Wrapf ''Error marshaling private key'' err))
         | Inr keyBytes \<Rightarrow>
             wtry (Wrapf ''Error saving private key'') (WriteFile E privKeyFile keyBytes) (gret (Inr priv))))"

definition start_listener :: "('w, 'e) boot_env_scheme \<Rightarrow> (('w, 's) booted_scheme, goerr option) go" where
  "start_listener E =
     (if Getenv E ''EVM_ENABLE_SMART_CONTRACT_LISTENER'' \<noteq> ''true'' then gret None
      else gbind (NewEventListener E) (\<lambda>r.
      case r of
        Inl err \<Rightarrow> gret (Some (Wrapf ''Cannot start EVM Listener'' err))
      | Inr l \<Rightarrow> gbind (Start E l) (\<lambda>r.
      case r of
        Inl err \<Rightarrow> gret (Some (Wrapf ''Failed to start EVM Listener'' err))
      | Inr _ \<Rightarrow> gret None)))"

text \<open>
  The program up to the start of the RPC server: an error is an exit with status 1, otherwise the
  result is the running node.
\<close>

definition node_main :: "('w, 'e) boot_env_scheme \<Rightarrow> ('w, goerr + 'w booted) go" where
  "node_main E =
     gbind (load_node_key E) (\<lambda>key.
     case key of
       Inl err \<Rightarrow> gret (Inl err)
     | Inr priv \<Rightarrow>
     gbind (NewNode E priv dataDir) (\<lambda>node.
     case node of
       Inl err \<Rightarrow> gret (Inl (Wrapf ''Error creating node'' err))
     | Inr n \<Rightarrow>
     on_node (gbind (Bootstrap E) (\<lambda>err.
       case err of
         Some e \<Rightarrow> gret (Some (Wrapf ''Error bootstrapping'' e))
       | None \<Rightarrow> start_listener E)) n))"

end
