(* ===== verification/DatastoreKeys.thy ===== *)
theory DatastoreKeys
  imports StoreProps
begin

text \<open>
  The keys of the local database (\<open>datastore.NewKey\<close>): the package documents that a key is cleaned
  like a rooted path, so empty, \<open>.\<close> and \<open>..\<close> components are resolved. Names without a slash keep their
  own keys; a name with \<open>..\<close> components leaves the record namespace.
\<close>

section \<open>Cleaning\<close>

text \<open>\<open>path.Clean\<close> of a rooted path, the components read so far on a stack.\<close>

fun clean_parts :: "string list \<Rightarrow> string list \<Rightarrow> string list" where
  "clean_parts st [] = rev st"
| "clean_parts st (c # cs) =
     (if c = [] \<or> c = ''.'' then clean_parts st cs
      else if c = ''..'' then clean_parts (tl st) cs
      else clean_parts (c # st) cs)"

definition join_path :: "string list \<Rightarrow> string" where
  "join_path ps = concat (map ((#) (CHR ''/'')) ps)"

definition path_Clean :: "string \<Rightarrow> string" where
  "path_Clean s = (case clean_parts [] (Split s (CHR ''/'')) of
     [] \<Rightarrow> ''/'' | ps \<Rightarrow> join_path ps)"

definition plain_part :: "string \<Rightarrow> bool" where
  "plain_part p = (p \<noteq> [] \<and> p \<noteq> ''.'' \<and> p \<noteq> ''..'' \<and> CHR ''/'' \<notin> set p)"

lemma clean_plain: "list_all plain_part ps \<Longrightarrow> clean_parts st ps = rev st @ ps"
  by (induction ps arbitrary: st) (auto simp: plain_part_def)

lemma Split_path:
  assumes "list_all (\<lambda>p. CHR ''/'' \<notin> set p) ps" "CHR ''/'' \<notin> set p"
  shows "Split (p @ join_path ps) (CHR ''/'') = p # ps"
  using assms
proof (induction ps arbitrary: p)
  case (Cons q ps)
  then show ?case by (simp add: join_path_def Split_join)
qed (simp add: join_path_def Split_no_sep)

lemma path_Clean_parts:
  "list_all (\<lambda>p. CHR ''/'' \<notin> set p) ps \<Longrightarrow>
   path_Clean (join_path ps) = (case clean_parts [] ps of [] \<Rightarrow> ''/'' | qs \<Rightarrow> join_path qs)"
  using Split_path[of ps "[]"] by (simp add: path_Clean_def)

lemma path_Clean_plain:
  assumes "list_all plain_part ps" "ps \<noteq> []"
  shows "path_Clean (join_path ps) = join_path ps"
proof -
  have "list_all (\<lambda>p. CHR ''/'' \<notin> set p) ps"
    using assms(1) by (simp add: list_all_iff plain_part_def)
  then show ?thesis
    using assms clean_plain[of ps "[]"] by (cases ps) (simp_all add: path_Clean_parts)
qed

section \<open>The keys of the store\<close>

lemma hex_digit_plain: "n < 16 \<Longrightarrow> hex_digit n \<noteq> CHR ''/'' \<and> hex_digit n \<noteq> CHR ''.''"
  using hex_val_digit[of n] by (auto simp: hex_val_def)

lemma hex_no_slash: "CHR ''/'' \<notin> set (hex_EncodeToString h)" "CHR ''.'' \<notin> set (hex_EncodeToString h)"
proof (induction h)
  case (Cons c h)
  have "(of_char c :: nat) div 16 < 16" using of_char_bound[of c] by linarith
  from hex_digit_plain[OF this] hex_digit_plain[of "of_char c mod 16"] Cons
  show "CHR ''/'' \<notin> set (hex_EncodeToString (c # h))" "CHR ''.'' \<notin> set (hex_EncodeToString (c # h))"
    by (auto simp: eq_commute[of "CHR ''/''"] eq_commute[of "CHR ''.''"])
qed simp_all

lemma plain_hex: "h \<noteq> [] \<Longrightarrow> plain_part (hex_EncodeToString h)"
  using hex_no_slash[of h] by (auto simp: plain_part_def)

lemma key_paths:
  "makeRecordKey d = join_path [''altica'', ''records'', d]"
  "makeNamehashKey h = join_path [''altica'', ''records'', ''namehash'', hex_EncodeToString h]"
  "versionKey = join_path [''store'', ''version'']"
  by (simp_all add: join_path_def key_defs versionKey_def)

text \<open>So the store's assumption on keys holds of cleaned keys.\<close>

lemma clean_namehash: "h \<noteq> [] \<Longrightarrow> path_Clean (makeNamehashKey h) = makeNamehashKey h"
  unfolding key_paths using plain_hex by (intro path_Clean_plain) (simp_all add: plain_part_def)

lemma Namehash_length:
  assumes "\<And>b. length (Keccak C b) = 32"
  shows "length (Namehash C d) = 32"
proof -
  have "length (namehash_labels C ls) = 32" for ls
    by (cases ls) (simp_all add: assms keccak256_def zero_hash_def)
  then show ?thesis by (cases "d = []") (simp_all add: Namehash_labels, simp add: Namehash_def zero_hash_def)
qed

lemma clean_keys_path:
  assumes "NewKey E = path_Clean" "\<And>b. length (Keccak E b) = 32"
  shows "clean_keys E"
proof -
  have v: "path_Clean (makeRecordKey d) = makeRecordKey d" if "valid_domain d" for d
    unfolding key_paths using that by (intro path_Clean_plain) (auto simp: valid_domain_def plain_part_def)
  have "path_Clean versionKey = versionKey"
    unfolding key_paths by (intro path_Clean_plain) (simp_all add: plain_part_def)
  moreover have "Namehash E d \<noteq> []" for d using Namehash_length[of E d] assms(2) by force
  ultimately show ?thesis
    using v clean_namehash by (simp add: clean_keys_def assms(1))
qed

section \<open>A name that leaves its namespace\<close>

definition escaping_name :: string where "escaping_name = ''../../store/version''"

lemma escaping_key: "path_Clean (makeRecordKey escaping_name) = versionKey"
proof -
  have "makeRecordKey escaping_name = join_path [''altica'', ''records'', ''..'', ''..'', ''store'', ''version'']"
    by (simp add: join_path_def key_defs escaping_name_def)
  then show ?thesis by (simp add: path_Clean_parts key_paths)
qed

text \<open>What is read as a version there is the beginning of a JSON object.\<close>

lemma be_fold: "foldl (\<lambda>a c. 256 * a + of_char c) n bs = n * 256 ^ length bs + be_value bs" for n :: int
proof (induction bs arbitrary: n)
  case (Cons b bs)
  have "be_value (b # bs) = of_char b * 256 ^ length bs + be_value bs"
    using Cons[of "of_char b"] by (simp add: be_value_def)
  then show ?case using Cons[of "256 * n + of_char b"] by (simp add: distrib_right)
qed (simp add: be_value_def)

lemma be_value_bounds: "0 \<le> be_value bs \<and> be_value bs < 256 ^ length bs"
proof (induction bs)
  case (Cons b bs)
  have eq: "be_value (b # bs) = of_char b * 256 ^ length bs + be_value bs"
    using be_fold[of "of_char b" bs] by (simp add: be_value_def)
  have b: "(0 :: int) \<le> of_char b" "(of_char b :: int) \<le> 255"
  proof -
    have "(of_char b :: int) = int (of_char b)" by (rule of_nat_of_char[symmetric])
    then show "(0 :: int) \<le> of_char b" "(of_char b :: int) \<le> 255" using of_char_bound[of b] by linarith+
  qed
  have "0 \<le> c * n + v \<and> c * n + v < 256 * n" if "0 \<le> c" "c \<le> 255" "0 \<le> v" "v < n" for c n v :: int
    using that mult_right_mono[of c 255 n] mult_nonneg_nonneg[of c n] by linarith
  from this[OF b, of "be_value bs" "256 ^ length bs"] Cons eq show ?case
    by (simp only: list.size power_Suc add_0_right add_Suc_right)
qed (simp add: be_value_def)

lemma length_escape: "ascii s \<Longrightarrow> length s \<le> length (json_escape s)"
proof (induction s)
  case (Cons c s)
  have "1 \<le> length (esc_char c)" by (simp add: esc_char_def u_escape_def)
  with Cons show ?case by (simp add: json_escape.simps(2))
qed simp

lemma omitempty_head:
  assumes "k \<in> K" "\<exists>k j ms'. ms = (k, j) # ms' \<and> k \<in> K"
  shows "\<exists>k' j ms'. omitempty k v @ ms = (k', j) # ms' \<and> k' \<in> K"
  using assms by (cases v) (auto simp: omitempty_def)

lemma enc_Record_head:
  "\<exists>k j ms. enc_Record C r = JObj ((k, j) # ms) \<and> k \<in> {''signature'', ''public_key'', ''namehash'', ''signed_tx'', ''domain''}"
  unfolding enc_Record_def json.inject by (intro omitempty_head) simp_all

lemma record_text_start:
  "\<exists>rest. record_text C r = CHR 0x7B # CHR 0x22 # rest \<and> 6 \<le> length rest"
proof -
  obtain k j ms where e: "enc_Record C r = JObj ((k, j) # ms)"
    and k: "k \<in> {''signature'', ''public_key'', ''namehash'', ''signed_tx'', ''domain''}"
    using enc_Record_head[of C r] by (elim exE conjE)
  have "6 \<le> length (json_escape k)"
    using k length_escape[of k] by auto
  then show ?thesis
    by (simp add: record_text_def e json_print_def toks_text_def tok_text_def quote_def)
qed

lemma record_text_version: "\<exists>x. be_Uint64 (record_text C r) = Done x \<and> 0x7B22000000000000 \<le> sint x"
proof -
  obtain rest where t: "record_text C r = CHR 0x7B # CHR 0x22 # rest" "6 \<le> length rest"
    using record_text_start by blast
  let ?n = "be_value (take 8 (record_text C r))"
  have "?n = 0x7B22 * 256 ^ 6 + be_value (take 6 rest)"
    using be_fold[of "0x7B22" "take 6 rest"] t by (simp add: be_value_def)
  with be_value_bounds[of "take 6 rest"] t(2) have n: "0x7B22000000000000 \<le> ?n" "?n < 2 ^ 63" by simp_all
  then have "sint (of_int ?n :: int64) = ?n"
    by transfer (simp add: signed_take_bit_int_eq_self)
  then show ?thesis using n(1) t by (simp add: be_Uint64_def)
qed

text \<open>The runs: reading a stored text as the version, and a synchronisation with a peer that is behind.\<close>

lemma runs_GetStoreVersion:
  assumes "quiet E dv bv" "vw_db (view_of dv bv s) (NewKey E versionKey) = Some b" "be_Uint64 b = Done x"
    and "\<And>s'. view_of dv bv s' = view_of dv bv s \<Longrightarrow> Q (Inr x) s'"
  shows "runs (GetStoreVersion E) s Q"
  unfolding GetStoreVersion_def runs_gbind by (rule runs_db_Get[OF assms(1)]) (simp add: assms(2-4))

lemma runs_SyncFromPeer_behind:
  assumes q: "quiet E dv bv" and "vw_dht (view_of dv bv s) versionKey = Some (be_PutUint64 v)"
    and "vw_db (view_of dv bv s) (NewKey E versionKey) = Some b" "be_Uint64 b = Done x" "sint v \<le> sint x"
    and "\<And>s'. view_of dv bv s' = view_of dv bv s \<Longrightarrow> Q None s'"
  shows "runs (SyncFromPeer E p) s Q"
  unfolding SyncFromPeer_def runs_gbind
  by (rule runs_dht_GetValue[OF q], simp add: assms(2), rule runs_GetStoreVersion[OF q, of _ b x])
    (use assms(3-6) in simp_all)

lemma runs_Get_network:
  assumes q: "quiet E dv bv" and "record_ok E r"
    and db: "\<And>b. vw_db (view_of dv bv s) (NewKey E (makeRecordKey d)) = Some b \<Longrightarrow> \<exists>e. DeserializeRecord E b = Done (Inl e)"
    and "vw_dht (view_of dv bv s) (makePendingKey d) = None"
    and "vw_dht (view_of dv bv s) (makeRecordKey d) = Some (record_text E r)"
    and "\<And>s'. view_of dv bv s' = v_save E (canon r) (view_of dv bv s) \<Longrightarrow> Q (Some (canon r)) s'"
  shows "runs (Get E d) s Q"
proof -
  have latest: "runs (getLatestVersion E d) s' Q" if "view_of dv bv s' = view_of dv bv s" for s'
    unfolding getLatestVersion_def GetLatestRecord_def runs_gbind
    by (rule runs_dht_GetValue[OF q])
      (use assms(2,5,6) that in \<open>auto simp: DeserializeRecord_text intro!: runs_SaveRecord'[OF q]\<close>)
  have pend: "runs (GetPendingRecordFromDHT E d) s' (\<lambda>pending s''. runs (case pending of
      Inr (Some record) \<Rightarrow> gret (Some record) | _ \<Rightarrow> getLatestVersion E d) s'' Q)" if "view_of dv bv s' = view_of dv bv s" for s'
    by (rule runs_GetPending_None[OF q]) (use assms(4) that latest in simp_all)
  show ?thesis
    unfolding Get_def runs_gbind
    by (rule runs_db_Get[OF q], cases "vw_db (view_of dv bv s) (NewKey E (makeRecordKey d))")
      (use db pend in \<open>auto dest!: db\<close>)
qed

lemma escaping_save:
  assumes "NewKey E = path_Clean" "r_Domain r = escaping_name" "Namehash E escaping_name \<noteq> []"
  shows "vw_db (v_save E r V) (NewKey E versionKey) = Some (record_text E r)"
    "vw_dht (v_save E r V) versionKey = vw_dht V versionKey"
proof -
  have "path_Clean versionKey = versionKey"
    unfolding key_paths by (intro path_Clean_plain) (simp_all add: plain_part_def)
  then show "vw_db (v_save E r V) (NewKey E versionKey) = Some (record_text E r)"
    "vw_dht (v_save E r V) versionKey = vw_dht V versionKey"
    using assms by (simp_all add: v_save_def escaping_key clean_namehash set_dht_def)
qed

text \<open>
  C12. The name \<open>../../store/version\<close> has the version of the store as the database key of its record. A
  lookup of it on any node that finds it in the network overwrites the node's version with the beginning
  of a JSON text, read as a number above \<open>2^62\<close>; from then on the node synchronises with no peer whose
  version is smaller.
\<close>

theorem lookup_overwrites_version:
  assumes q: "quiet E dv bv" and keys: "NewKey E = path_Clean" and ok: "record_ok E r" "r_Domain r = escaping_name"
    and net: "vw_dht (view_of dv bv s) (makeRecordKey escaping_name) = Some (record_text E r)"
      "vw_dht (view_of dv bv s) (makePendingKey escaping_name) = None"
    and db: "\<And>b. vw_db (view_of dv bv s) versionKey = Some b \<Longrightarrow> \<exists>e. DeserializeRecord E b = Done (Inl e)"
    and hash: "Namehash E escaping_name \<noteq> []"
    and peer: "vw_dht (view_of dv bv s) versionKey = Some (be_PutUint64 v)" "sint v \<le> 0x7B22000000000000"
  shows "runs (Get E escaping_name) s (\<lambda>found s1. found = Some (canon r)
    \<and> runs (GetStoreVersion E) s1 (\<lambda>res _. \<exists>x. res = Inr x \<and> 0x7B22000000000000 \<le> sint x)
    \<and> runs (SyncFromPeer E p) s1 (\<lambda>err s2. err = None \<and> view_of dv bv s2 = view_of dv bv s1))"
proof (rule runs_Get_network[OF q ok(1) _ net(2,1)])
  show "\<exists>e. DeserializeRecord E b = Done (Inl e)"
    if "vw_db (view_of dv bv s) (NewKey E (makeRecordKey escaping_name)) = Some b" for b
    using that db by (simp add: keys escaping_key)
  fix s1 assume v1: "view_of dv bv s1 = v_save E (canon r) (view_of dv bv s)"
  obtain x where x: "be_Uint64 (record_text E (canon r)) = Done x" "0x7B22000000000000 \<le> sint x"
    using record_text_version by blast
  note saved = escaping_save[OF keys _ hash, of "canon r" "view_of dv bv s", folded v1]
  have "runs (GetStoreVersion E) s1 (\<lambda>res _. \<exists>x. res = Inr x \<and> 0x7B22000000000000 \<le> sint x)"
    by (rule runs_GetStoreVersion[OF q _ x(1)]) (use saved ok x(2) in auto)
  moreover have "runs (SyncFromPeer E p) s1 (\<lambda>err s2. err = None \<and> view_of dv bv s2 = view_of dv bv s1)"
    by (rule runs_SyncFromPeer_behind[OF q _ _ x(1)]) (use saved ok peer order_trans[OF peer(2) x(2)] in simp_all)
  ultimately show "Some (canon r) = Some (canon r)
    \<and> runs (GetStoreVersion E) s1 (\<lambda>res _. \<exists>x. res = Inr x \<and> 0x7B22000000000000 \<le> sint x)
    \<and> runs (SyncFromPeer E p) s1 (\<lambda>err s2. err = None \<and> view_of dv bv s2 = view_of dv bv s1)"
    by simp
qed

text \<open>The in-memory environment with cleaned keys, where the network has the record and the version 5.\<close>

definition path_env :: "mem_world env" where "path_env = mem_env\<lparr>NewKey := path_Clean\<rparr>"

definition escaping_record :: Record where "escaping_record = demo_record\<lparr>r_Domain := escaping_name\<rparr>"

definition escaping_start :: "mem_world RecordStore" where
  "escaping_start = mem_start\<lparr>rs_world := (rs_world mem_start)\<lparr>mw_dht :=
     [(makeRecordKey escaping_name, record_text path_env escaping_record), (versionKey, be_PutUint64 5)]\<rparr>\<rparr>"

lemma quiet_path: "quiet path_env mem_dht mem_db"
  using quiet_mem by (simp add: quiet_def quiet_dht_def quiet_db_def quiet_time_def path_env_def)

lemma escaping_ok: "record_ok path_env escaping_record" "Namehash path_env escaping_name \<noteq> []"
proof -
  show "record_ok path_env escaping_record"
    using demo_ok(1) by (simp add: record_ok_def escaping_record_def escaping_name_def addr_codec_ok_def path_env_def)
  have "length (Namehash path_env escaping_name) = 32"
    by (rule Namehash_length) (simp add: path_env_def mem_env_def fit_def)
  then show "Namehash path_env escaping_name \<noteq> []" by auto
qed

theorem lookup_overwrites_version_witness:
  "runs (Get path_env escaping_name) escaping_start (\<lambda>found s1. found = Some (canon escaping_record)
    \<and> runs (GetStoreVersion path_env) s1 (\<lambda>res _. \<exists>x. res = Inr x \<and> 0x7B22000000000000 \<le> sint x)
    \<and> runs (SyncFromPeer path_env ''p'') s1 (\<lambda>err s2. err = None \<and> view_of mem_dht mem_db s2 = view_of mem_dht mem_db s1))"
proof -
  have five: "be_PutUint64 5 \<noteq> []" using be_PutUint64_length[of 5] by force
  show ?thesis
  proof (rule lookup_overwrites_version[OF quiet_path _ escaping_ok(1) _ _ _ _ escaping_ok(2), of _ 5])
    have ne: "record_text path_env escaping_record \<noteq> []" by (rule record_text_nonempty[OF escaping_ok(1)])
    show "vw_dht (view_of mem_dht mem_db escaping_start) (makeRecordKey escaping_name) = Some (record_text path_env escaping_record)"
      using ne by (simp add: view_of_def escaping_start_def mem_dht_def)
  qed (simp_all add: path_env_def escaping_record_def view_of_def escaping_start_def mem_dht_def mem_db_def mem_start_def NewRecordStore_def
    five versionKey_def key_defs)
qed

end
