(* ===== verification/BootProps.thy ===== *)
theory BootProps
  imports Boot ListenerProps DatastoreKeys
begin

text \<open>
  Properties of a start: where a restarted node resumes and what keeps it from starting, the key it
  runs under, and that it never connects to itself.
\<close>

section \<open>The key\<close>

text \<open>
  Files as the operating system documents them, \<open>fv w p\<close> the contents of a file: a read gives them, a
  write that succeeds replaces them, and generating a key leaves them alone.
\<close>

definition file_laws :: "('w, 'e) boot_env_scheme \<Rightarrow> ('w \<Rightarrow> string \<Rightarrow> bytes option) \<Rightarrow> bool" where
  "file_laws E fv =
     ((\<forall>p w r w'. ReadFile E p w = (r, w') \<longrightarrow> fv w' = fv w \<and> (case fv w p of None \<Rightarrow> \<exists>e. r = Inl e | Some b \<Rightarrow> r = Inr b))
    \<and> (\<forall>p b w w'. WriteFile E p b w = (None, w') \<longrightarrow> fv w' = (fv w)(p \<mapsto> b))
    \<and> (\<forall>w r w'. GenerateEd25519Key E w = (r, w') \<longrightarrow> fv w' = fv w))"

definition key_codec :: "('w, 'e) boot_env_scheme \<Rightarrow> bool" where
  "key_codec E = (\<forall>k b. MarshalPrivateKey E k = Inr b \<longrightarrow> UnmarshalPrivateKey E b = Inr k)"

lemma load_node_key_stores:
  assumes "file_laws E fv" "key_codec E" "load_node_key E w = (Done (Inr priv), w')"
  shows "\<exists>b. fv w' privKeyFile = Some b \<and> UnmarshalPrivateKey E b = Inr priv"
proof -
  obtain r w1 where read: "ReadFile E privKeyFile w = (r, w1)" by fastforce
  then have r: "fv w1 = fv w" "case fv w privKeyFile of None \<Rightarrow> \<exists>e. r = Inl e | Some b \<Rightarrow> r = Inr b"
    using assms(1) unfolding file_laws_def by blast+
  show ?thesis
  proof (cases r)
    case (Inr b)
    then have "UnmarshalPrivateKey E b = Inr priv" "w' = w1"
      using assms(3) read by (auto simp: load_node_key_def gbind_def wcall_def gret_def split: sum.splits)
    with Inr r show ?thesis by (auto split: option.splits)
  next
    case (Inl e)
    then obtain w2 b where "GenerateEd25519Key E w1 = (Inr priv, w2)" "MarshalPrivateKey E priv = Inr b"
      "WriteFile E privKeyFile b w2 = (None, w')"
      using assms(3) read by (auto simp: load_node_key_def wneed_def wtry_def gbind_def wcall_def gret_def
          split: sum.splits prod.splits option.splits)
    with assms(1,2) show ?thesis unfolding file_laws_def key_codec_def by fastforce
  qed
qed

lemma load_node_key_reads:
  assumes "file_laws E fv" "fv w privKeyFile = Some b" "UnmarshalPrivateKey E b = Inr priv"
  shows "\<exists>w'. load_node_key E w = (Done (Inr priv), w')"
proof -
  obtain r w1 where "ReadFile E privKeyFile w = (r, w1)" by fastforce
  moreover from this assms(1,2) have "r = Inr b" unfolding file_laws_def by fastforce
  ultimately show ?thesis using assms(3) by (simp add: load_node_key_def gbind_def wcall_def gret_def)
qed

text \<open>
  A node keeps its key: as long as nobody changes the key file, every start after the first one runs under
  the key of the first, whether that start generated the key or found it.
\<close>

theorem key_persists:
  assumes "file_laws E fv" "key_codec E" "load_node_key E w = (Done (Inr priv), w1)"
    and "fv w2 privKeyFile = fv w1 privKeyFile"
  shows "\<exists>w3. load_node_key E w2 = (Done (Inr priv), w3)"
  using load_node_key_stores[OF assms(1-3)] load_node_key_reads[OF assms(1)] assms(4) by metis

section \<open>Construction\<close>

lemma runs_wcall [simp]: "runs (wcall f) w Q = (case f w of (x, w') \<Rightarrow> Q x w')"
  by (simp add: runs_def wcall_def split: prod.splits)

lemma runs_on_node:
  "runs m (s\<lparr>rs_world := w\<rparr>) (\<lambda>e s'. case e of None \<Rightarrow> Q (Inr s') (rs_world s') | Some err \<Rightarrow> Q (Inl err) (rs_world s'))
   \<Longrightarrow> runs (on_node m s) w Q"
  by (auto simp: runs_def on_node_def split: prod.splits outcome.splits option.splits)

text \<open>The libraries of a start succeed and leave the network and the database as they are.\<close>

definition calm :: "('w \<Rightarrow> string \<Rightarrow> bytes option) \<Rightarrow> ('w \<Rightarrow> string \<Rightarrow> bytes option) \<Rightarrow> ('w \<Rightarrow> goerr option \<times> 'w) \<Rightarrow> bool" where
  "calm dv bv f = (\<forall>w. fst (f w) = None \<and> keeps_world dv bv w (snd (f w)))"

definition quiet_boot :: "('w, 'e) boot_env_scheme \<Rightarrow> ('w \<Rightarrow> string \<Rightarrow> bytes option) \<Rightarrow> ('w \<Rightarrow> string \<Rightarrow> bytes option) \<Rightarrow> bool" where
  "quiet_boot E dv bv = ((\<forall>p. calm dv bv (NewDatastore E p)) \<and> calm dv bv (NewPeerstore E) \<and> calm dv bv (DhtNew E)
     \<and> calm dv bv (NewGossipSub E) \<and> (\<forall>t. calm dv bv (JoinTopic E t)) \<and> (\<forall>t. calm dv bv (SubscribeTopic E t))
     \<and> (\<forall>k w. \<exists>id. fst (Libp2pNew E k w) = Inr id \<and> keeps_world dv bv w (snd (Libp2pNew E k w)))
     \<and> (\<forall>w. keeps_world dv bv w (snd (Scanln E w))))"

lemma runs_wtry:
  assumes "calm dv bv f" "bv w = B" "\<And>w'. bv w' = B \<Longrightarrow> runs k w' Q"
  shows "runs (wtry wrap f k) w Q"
proof -
  obtain r w' where f: "f w = (r, w')" by fastforce
  with assms(1,2) have "r = None" "bv w' = B" unfolding calm_def keeps_world_def by (metis fst_conv snd_conv)+
  then show ?thesis using f assms(3) by (simp add: wtry_def)
qed

lemma runs_NewGossipManager:
  assumes "quiet_boot E dv bv" "bv w = B" "\<And>w'. bv w' = B \<Longrightarrow> Q (Inr ()) w'"
  shows "runs (NewGossipManager E) w Q"
  unfolding NewGossipManager_def
  by (intro runs_wtry[where dv = dv and bv = bv and B = B]) (use assms in \<open>simp_all add: quiet_boot_def\<close>)

lemma fresh_view: "vw_db (view_of dv bv ((fresh_node E k host w0)\<lparr>rs_world := w\<rparr>)) = bv w"
  by (simp add: view_of_def)

text \<open>
  A node starts once the rest of its construction, which sees the database as it was found, does; the
  entries of the query tell whether there is a record.
\<close>

lemma runs_NewNode:
  assumes q: "quiet E dv bv" and b: "quiet_boot E dv bv"
    and rest: "\<And>n hasRecords. vw_db (view_of dv bv n) = bv w \<Longrightarrow> (hasRecords \<Longrightarrow> bv w \<noteq> Map.empty)
        \<Longrightarrow> (\<forall>k. bv w k \<noteq> None \<and> HasPrefix k ''/'' \<longrightarrow> hasRecords)
        \<Longrightarrow> runs (resume_sync E hasRecords) n (\<lambda>e s'. case e of None \<Rightarrow> Q (Inr s') (rs_world s') | Some err \<Rightarrow> Q (Inl err) (rs_world s'))"
  shows "runs (NewNode E key dir) w Q"
proof -
  let ?B = "bv w"
  note step = runs_wtry[where dv = dv and bv = bv and B = ?B]
  have tail: "runs (gbind (NewGossipManager E) (\<lambda>g. case g of
       Inl err \<Rightarrow> gret (Inl (Wrapf ''failed to create gossip manager'' err))
     | Inr _ \<Rightarrow> (\<lambda>w. on_node (resume_sync E has) (fresh_node E key host w) w))) w' Q"
    if w': "bv w' = ?B" and has: "has \<Longrightarrow> ?B \<noteq> Map.empty" "\<forall>k. ?B k \<noteq> None \<and> HasPrefix k ''/'' \<longrightarrow> has" for has host w'
  proof -
    have "runs (on_node (resume_sync E has) (fresh_node E key host w'')) w'' Q" if "bv w'' = ?B" for w''
      by (rule runs_on_node, rule rest) (use that has in \<open>simp_all add: fresh_view\<close>)
    then have "runs (\<lambda>w. on_node (resume_sync E has) (fresh_node E key host w) w) w'' Q" if "bv w'' = ?B" for w''
      using that by (simp add: runs_def)
    then show ?thesis
      unfolding runs_gbind by (intro runs_NewGossipManager[OF b, where B = ?B]) (use w' in simp_all)
  qed
  have host: "runs (wneed wrap (Libp2pNew E key) f) w' Q" if "bv w' = ?B" "\<And>host w''. bv w'' = ?B \<Longrightarrow> runs (f host) w'' Q" for wrap f w'
  proof -
    obtain r w'' where l: "Libp2pNew E key w' = (r, w'')" by fastforce
    with b obtain host where "r = Inr host" "bv w'' = bv w'" unfolding quiet_boot_def keeps_world_def by (metis fst_conv snd_conv)
    with l that show ?thesis by (simp add: wneed_def)
  qed
  have query: "runs (wneed wrap (DbQuery E []) f) w' Q"
    if "bv w' = ?B" "\<And>rs w''. bv w'' = ?B \<Longrightarrow> (has_records rs \<Longrightarrow> ?B \<noteq> Map.empty)
        \<Longrightarrow> \<forall>k. ?B k \<noteq> None \<and> HasPrefix k ''/'' \<longrightarrow> has_records rs \<Longrightarrow> runs (f rs) w'' Q" for wrap f w'
  proof -
    obtain r w'' where d: "DbQuery E [] w' = (r, w'')" by fastforce
    from q d obtain ks where k: "keeps_world dv bv w' w''" "r = Inr (map (\<lambda>k. Inr (k, bv w' k)) ks)"
      "\<And>k. k \<in> set ks \<Longrightarrow> bv w' k \<noteq> None \<and> HasPrefix k []" "\<And>k. bv w' k \<noteq> None \<Longrightarrow> HasPrefix k ([] @ ''/'') \<Longrightarrow> k \<in> set ks"
      by (rule quiet_QueryD) blast
    let ?rs = "map (\<lambda>k. Inr (k, bv w' k)) ks :: (goerr + string \<times> bytes option) list"
    have has: "has_records ?rs \<longleftrightarrow> ks \<noteq> []" by (simp add: has_records_def list_all_iff)
    have some: "ks \<noteq> [] \<Longrightarrow> ?B \<noteq> Map.empty"
      using k(3)[of "hd ks"] that(1) hd_in_set[of ks] by auto
    have all: "\<forall>k. ?B k \<noteq> None \<and> HasPrefix k ''/'' \<longrightarrow> ks \<noteq> []" 
    proof (intro allI impI notI)
      fix k assume a: "?B k \<noteq> None \<and> HasPrefix k ''/''" and "ks = []"
      from a k(4)[of k] that(1) have "k \<in> set ks" by simp
      with \<open>ks = []\<close> show False by simp
    qed
    have "bv w'' = ?B" using k(1) that(1) by (simp add: keeps_world_def)
    then have "runs (f ?rs) w'' Q"
      using some all unfolding has[symmetric] by (rule that(2))
    then show ?thesis using d k(2) by (simp add: wneed_def)
  qed
  show ?thesis
    unfolding NewNode_def
    by (intro step query host tail) (use b in \<open>simp_all add: quiet_boot_def\<close>)
qed

section \<open>Where a node resumes\<close>

lemma runs_resume:
  assumes q: "quiet E dv bv" and "vw_db (view_of dv bv s) (NewKey E lastSyncKey) = Some b" "UnmarshalBinary b = Inr t"
    and "\<And>s'. bn_lastSync s' = t \<Longrightarrow> Q None s'"
  shows "runs (resume_sync E True) s Q"
  unfolding resume_sync_def set_lastSync_def
  by (simp, rule runs_GetLastSyncTime[OF q]) (use assms(2-4) in \<open>simp add: runs_gmodify\<close>)

lemma runs_fresh: "(\<And>s'. bn_lastSync s' = zero_time \<Longrightarrow> Q None s') \<Longrightarrow> runs (resume_sync E False) s Q"
  by (simp add: resume_sync_def set_lastSync_def runs_gmodify)

lemma NewNode_resumes:
  assumes q: "quiet E dv bv" and b: "quiet_boot E dv bv" and key: "NewKey E lastSyncKey = lastSyncKey"
    and data: "bv w lastSyncKey = Some data" "UnmarshalBinary data = Inr t"
  shows "runs (NewNode E priv dir) w (\<lambda>r w'. \<exists>n. r = Inr n \<and> bn_lastSync n = t)"
proof (rule runs_NewNode[OF q b])
  fix n :: "'a booted" and hasRecords
  assume v: "vw_db (view_of dv bv n) = bv w" and has: "\<forall>k. bv w k \<noteq> None \<and> HasPrefix k ''/'' \<longrightarrow> hasRecords"
  have "HasPrefix lastSyncKey ''/''" by (simp add: lastSyncKey_def HasPrefix_iff)
  with has data have "hasRecords" by auto
  moreover have "runs (resume_sync E True) n (\<lambda>e s'. case e of None \<Rightarrow> \<exists>n. Inr s' = (Inr n :: goerr + _) \<and> bn_lastSync n = t
      | Some err \<Rightarrow> False)"
    by (rule runs_resume[OF q _ data(2)]) (use v data(1) key in simp_all)
  ultimately show "runs (resume_sync E hasRecords) n (\<lambda>e s'. case e of None \<Rightarrow> \<exists>n. Inr s' = Inr n \<and> bn_lastSync n = t
      | Some err \<Rightarrow> \<exists>n. Inl err = Inr n \<and> bn_lastSync n = t)"
    by (auto elim!: runs_mono split: option.splits)
qed

text \<open>
  C24. A node that is started over a database in which a synchronisation time was set, in any zone whose
  offset has a binary form, resumes from that instant, to the nanosecond.
\<close>

theorem restart_resumes:
  assumes "quiet E dv bv" "quiet_boot E dv bv" "NewKey E lastSyncKey = lastSyncKey"
    and "- (2 ^ 63) \<le> t div ns_per_sec + unixToInternal" "t div ns_per_sec + unixToInternal < 2 ^ 63"
    and set: "SetLastSyncTime E zone t s = (Done None, s1)"
  shows "\<exists>n w. NewNode E priv dir (rs_world s1) = (Done (Inr n), w) \<and> bn_lastSync n = t"
proof -
  obtain data where m: "MarshalBinary zone t = Inr data"
    using set by (cases "MarshalBinary zone t") (simp_all add: SetLastSyncTime_def gret_def)
  have "runs (SetLastSyncTime E zone t) s (\<lambda>e s'. bv (rs_world s') lastSyncKey = Some data)"
    by (rule runs_SetLastSyncTime[OF assms(1) m]) (simp add: view_of_def assms(3))
  then have "bv (rs_world s1) lastSyncKey = Some data" by (simp add: runs_def set)
  from NewNode_resumes[OF assms(1-3) this time_binary_roundtrip[OF m assms(4,5)], of priv dir]
  show ?thesis unfolding runs_iff by blast
qed

section \<open>A name that keeps a node from starting\<close>

lemma runs_resume_error:
  assumes q: "quiet E dv bv" and "vw_db (view_of dv bv s) (NewKey E lastSyncKey) = Some b" "UnmarshalBinary b = Inl err"
    and "\<And>w. \<exists>a. fst (Scanln E w) = a \<and> a \<noteq> [] \<and> a \<noteq> ''Y'' \<and> a \<noteq> ''y''" and "\<And>e s'. Q (Some e) s'"
  shows "runs (resume_sync E True) s Q"
proof -
  have "runs (promptUserConfirmation E) s' (\<lambda>restart s''. \<not> restart)" for s'
    using assms(4)[of "rs_world s'"] by (auto simp: promptUserConfirmation_def ask_def runs_def gbind_def gret_def split: prod.splits)
  then have "runs (promptUserConfirmation E) s' (\<lambda>restart s''. runs (if \<not> restart then gret (Some e) else set_lastSync zero_time) s'' Q)" for s' e
    by (rule runs_mono) (simp add: assms(5))
  then show ?thesis
    unfolding resume_sync_def by (simp, intro runs_GetLastSyncTime[OF q]) (simp add: assms(2,3))
qed

definition blocking_name :: string where "blocking_name = ''../../sync/last_sync_time''"

lemma blocking_key: "path_Clean (makeRecordKey blocking_name) = lastSyncKey"
proof -
  have "makeRecordKey blocking_name = join_path [''altica'', ''records'', ''..'', ''..'', ''sync'', ''last_sync_time'']"
    by (simp add: join_path_def key_defs blocking_name_def)
  then show ?thesis by (simp add: path_Clean_parts) (simp add: join_path_def lastSyncKey_def)
qed

lemma record_text_no_time: "\<exists>e. UnmarshalBinary (record_text C r) = Inl e"
  using record_text_start[of C r] by (auto simp: UnmarshalBinary_def)

text \<open>
  The name \<open>../../sync/last_sync_time\<close> has the synchronisation time as the database key of its record: a
  node that has saved such a record asks its user at the next start, and does not start unless the
  user confirms a fresh synchronisation.
\<close>

theorem restart_blocked:
  assumes q: "quiet E dv bv" and b: "quiet_boot E dv bv" and keys: "NewKey E = path_Clean"
    and r: "r_Domain r = blocking_name" "Namehash E blocking_name \<noteq> []" "SaveRecord E r s = (Done None, s1)"
    and "\<And>w. \<exists>a. fst (Scanln E w) = a \<and> a \<noteq> [] \<and> a \<noteq> ''Y'' \<and> a \<noteq> ''y''"
  shows "\<exists>err w. NewNode E priv dir (rs_world s1) = (Done (Inl err), w)"
proof -
  have k: "NewKey E lastSyncKey = lastSyncKey"
    using path_Clean_plain[of "[''sync'', ''last_sync_time'']"] by (simp add: keys join_path_def lastSyncKey_def plain_part_def)
  have "lastSyncKey \<noteq> makeNamehashKey h" for h by (simp add: lastSyncKey_def key_defs)
  then have "runs (SaveRecord E r) s (\<lambda>e s'. bv (rs_world s') lastSyncKey = Some (record_text E r))"
    using r(1,2) by (intro runs_SaveRecord'[OF q]) (simp add: view_of_def v_save_def keys blocking_key clean_namehash set_db_def set_dht_def)
  then have stored: "bv (rs_world s1) lastSyncKey = Some (record_text E r)" by (simp add: runs_def r(3))
  obtain e where e: "UnmarshalBinary (record_text E r) = Inl e" using record_text_no_time by blast
  have "runs (NewNode E priv dir) (rs_world s1) (\<lambda>r w'. \<exists>err. r = Inl err)"
  proof (rule runs_NewNode[OF q b])
    fix n :: "'a booted" and hasRecords
    assume v: "vw_db (view_of dv bv n) = bv (rs_world s1)"
      and has: "\<forall>k. bv (rs_world s1) k \<noteq> None \<and> HasPrefix k ''/'' \<longrightarrow> hasRecords"
    have "HasPrefix lastSyncKey ''/''" by (simp add: lastSyncKey_def HasPrefix_iff)
    with has stored have h: "hasRecords" by auto
    show "runs (resume_sync E hasRecords) n (\<lambda>e s'. case e of None \<Rightarrow> \<exists>err. Inr s' = Inl err | Some err \<Rightarrow> \<exists>err'. Inl err = Inl err')"
      unfolding h eq_True[THEN iffD2, OF h] by (rule runs_resume_error[OF q _ e assms(7)]) (use v stored k in simp_all)
  qed
  then show ?thesis unfolding runs_iff by blast
qed

section \<open>Connections\<close>

text \<open>Peers that are found are dialed unless they are the node itself, on every exit.\<close>

definition shuns_self :: "('w, 's) booted_scheme \<Rightarrow> ('w, 's) booted_scheme \<Rightarrow> bool" where
  "shuns_self s s' = (rs_hostID s' = rs_hostID s \<and> (\<exists>ps. bn_dialed s' = bn_dialed s @ ps \<and> rs_hostID s \<notin> set ps))"

interpretation sf: frame shuns_self
  by unfold_locales (auto simp: shuns_self_def)

lemma shuns_prims:
  "keeps shuns_self (ask f)" "keeps shuns_self (time_Sleep E d)"
  by (auto simp: keeps_def shuns_self_def ask_def time_Sleep_def split: prod.splits)

lemma shuns_dial:
  assumes "keeps shuns_self m"
  shows "keeps shuns_self (gbind (gread rs_hostID) (\<lambda>self. if p = self then m else gbind (dial E p) (\<lambda>_. m)))"
proof (rule keepsI)
  fix s r s' assume run: "gbind (gread rs_hostID) (\<lambda>self. if p = self then m else gbind (dial E p) (\<lambda>_. m)) s = (r, s')"
  show "shuns_self s s'"
  proof (cases "p = rs_hostID s")
    case True
    with run have "m s = (r, s')" by (simp add: gbind_def gread_def)
    with assms show ?thesis by (rule keepsD)
  next
    case False
    then obtain e w where "HostConnect E p (rs_world s) = (e, w)" and m: "m (s\<lparr>rs_world := w, bn_dialed := bn_dialed s @ [p]\<rparr>) = (r, s')"
      using run by (auto simp: gbind_def gread_def dial_def split: prod.splits)
    have "shuns_self s (s\<lparr>rs_world := w, bn_dialed := bn_dialed s @ [p]\<rparr>)" using False by (simp add: shuns_self_def)
    then show ?thesis using keepsD[OF assms m] by (rule sf.frame_trans)
  qed
qed

lemma shuns_found: "keeps shuns_self (dial_found E ps)"
  by (induction ps) (simp_all only: dial_found.simps sf.keeps_gret shuns_dial)

theorem never_dials_itself:
  "keeps shuns_self (HandlePeerFound E p) \<and> keeps shuns_self (discover_round E)"
  unfolding HandlePeerFound_def discover_round_def
  by (intro conjI shuns_dial sf.keeps_rules shuns_prims shuns_found)

section \<open>An example\<close>

definition mem_boot :: "mem_world boot_env" where
  "mem_boot = node_env.extend (mem_node\<lparr>NewKey := path_Clean\<rparr>)
     \<lparr>NewDatastore = \<lambda>p w. (None, w), NewPeerstore = \<lambda>w. (None, w), Libp2pNew = \<lambda>k w. (Inr ''n1'', w), DhtNew = \<lambda>w. (None, w),
      NewGossipSub = \<lambda>w. (None, w), JoinTopic = \<lambda>t w. (None, w), SubscribeTopic = \<lambda>t w. (None, w),
      PrivKeyRaw = \<lambda>k. Inr k, ScalarSize = 32, ScalarUnmarshal = \<lambda>b. Inr b, Scanln = \<lambda>w. (''n'', w),
      NewMultiaddr = \<lambda>a. Inr a, AddrInfoFromP2pAddr = \<lambda>a. Inr a, DhtBootstrap = \<lambda>w. (None, w),
      HostConnect = \<lambda>p w. (None, w), DiscoveryAdvertise = \<lambda>n w. ((), w), FindPeers = \<lambda>n w. (Inr [], w),
      NetworkPeers = \<lambda>w. ([], w), PeerstoreAddrs = \<lambda>p w. ([], w),
      SubCancel = \<lambda>t w. ((), w), TopicClose = \<lambda>t w. (None, w), HostClose = \<lambda>w. (None, w), DhtClose = \<lambda>w. (None, w),
      UnmarshalPrivateKey = \<lambda>b. Inr b, MarshalPrivateKey = \<lambda>k. Inr k, GenerateEd25519Key = \<lambda>w. (Inr ''k'', w),
      ReadFile = \<lambda>p w. (case gm_get (mw_db w) (''file:'' @ p) of None \<Rightarrow> Inl (ErrExt ''no such file'') | Some b \<Rightarrow> Inr b, w),
      WriteFile = \<lambda>p b w. (None, w\<lparr>mw_db := gm_put (''file:'' @ p) b (mw_db w)\<rparr>)\<rparr>"

lemma mem_boot_env:
  "DhtGet mem_boot = DhtGet mem_env" "DhtPut mem_boot = DhtPut mem_env" "DbGet mem_boot = DbGet mem_env"
  "DbPut mem_boot = DbPut mem_env" "DbQuery mem_boot = DbQuery mem_env" "RoutingPeers mem_boot = RoutingPeers mem_env"
  "Clock mem_boot = Clock mem_env" "Sleep mem_boot = Sleep mem_env" "NewKey mem_boot = path_Clean" "Keccak mem_boot = Keccak mem_env"
  by (simp_all add: mem_boot_def node_env.defs mem_node_env)

lemma quiet_mem_boot: "quiet mem_boot mem_dht mem_db" "quiet_boot mem_boot mem_dht mem_db"
proof -
  show "quiet mem_boot mem_dht mem_db"
    using quiet_mem by (simp add: quiet_def quiet_dht_def quiet_db_def quiet_time_def mem_boot_env)
  show "quiet_boot mem_boot mem_dht mem_db"
    by (simp add: quiet_boot_def calm_def keeps_world_def mem_boot_def node_env.defs)
qed

lemma boot_sync_key: "NewKey mem_boot lastSyncKey = lastSyncKey"
  using path_Clean_plain[of "[''sync'', ''last_sync_time'']"]
  by (simp add: mem_boot_env join_path_def lastSyncKey_def plain_part_def)

theorem restart_resumes_witness:
  "\<exists>s1 n w. SetLastSyncTime mem_boot None 1700000000123456789 mem_start = (Done None, s1)
    \<and> NewNode mem_boot ''k'' ''d'' (rs_world s1) = (Done (Inr n), w) \<and> bn_lastSync n = 1700000000123456789"
proof -
  obtain s1 where set: "SetLastSyncTime mem_boot None 1700000000123456789 mem_start = (Done None, s1)"
    by (simp add: SetLastSyncTime_def MarshalBinary_def Let_def db_Put_def mem_boot_env mem_env_def)
  show ?thesis
    using restart_resumes[OF quiet_mem_boot boot_sync_key _ _ set] set
    by (simp add: ns_per_sec_def unixToInternal_def)
qed

theorem restart_blocked_witness:
  "\<exists>r s1 err w. SaveRecord mem_boot r mem_start = (Done None, s1) \<and> NewNode mem_boot ''k'' ''d'' (rs_world s1) = (Done (Inl err), w)"
proof -
  let ?r = "demo_record\<lparr>r_Domain := blocking_name\<rparr>"
  have "runs (SaveRecord mem_boot ?r) mem_start (\<lambda>e s'. e = None)"
    by (rule runs_SaveRecord'[OF quiet_mem_boot(1)]) simp
  then obtain s1 where s1: "SaveRecord mem_boot ?r mem_start = (Done None, s1)" by (auto simp: runs_iff)
  have "length (Namehash mem_boot blocking_name) = 32"
    by (rule Namehash_length) (simp add: mem_boot_env mem_env_def fit_def)
  then have h: "Namehash mem_boot blocking_name \<noteq> []" by auto
  have "\<exists>err w. NewNode mem_boot ''k'' ''d'' (rs_world s1) = (Done (Inl err), w)"
    by (rule restart_blocked[OF quiet_mem_boot mem_boot_env(9) _ h s1]) (simp_all add: mem_boot_def node_env.defs)
  with s1 show ?thesis by blast
qed

theorem key_persists_witness:
  "\<exists>w1 w3. load_node_key mem_boot (rs_world mem_start) = (Done (Inr ''k''), w1) \<and> load_node_key mem_boot w1 = (Done (Inr ''k''), w3)"
proof -
  have f: "file_laws mem_boot (\<lambda>w p. gm_get (mw_db w) (''file:'' @ p))" and k: "key_codec mem_boot"
    by (auto simp: file_laws_def key_codec_def mem_boot_def node_env.defs fun_eq_iff split: option.splits)
  have "gm_get (mw_db (rs_world mem_start)) (''file:'' @ privKeyFile) = None" by (simp add: mem_start_def NewRecordStore_def)
  then obtain w1 where w1: "load_node_key mem_boot (rs_world mem_start) = (Done (Inr ''k''), w1)"
    by (simp add: load_node_key_def gbind_def wcall_def wneed_def wtry_def gret_def mem_boot_def node_env.defs)
  from key_persists[OF f k w1 refl] w1 show ?thesis by blast
qed

end
