(* ===== verification/Spec2Isabelle.thy ===== *)
theory Spec2Isabelle
  imports StoreEdges RecordProps VotingProps EvmProps NodeProps RpcProps ListenerProps LockRace RecordTypes Expiry EndToEnd BootProps
begin

text \<open>
  A verification library of the Altica node, a peer-to-peer name service: names are registered by a
  vote of the nodes, the records are kept in a distributed hash table and in each node's database, and
  a registry contract on an EVM chain binds names to addresses. This theory imports the whole library;
  the paths below are those of the repository's \<open>src/\<close>.

  \<^bold>\<open>The program.\<close> A client signs a name and prepares the transaction of its binding with the command-line
  tool (\<open>cmd/\<close>) and sends both to a node's JSON-RPC server (\<open>rpc/\<close>). The handler makes a record of them
  (\<open>core/record.go\<close>), validates the transaction against the chain (\<open>contracts/evm/utils.go\<close>), and adds the
  record to the store (\<open>core/store.go\<close>), which takes the distributed lock of the name, writes the pending
  record and the index of pending names to the network, and waits for a vote. The record is gossiped
  (\<open>core/gossip.go\<close>); each receiver validates it and casts a signed vote (\<open>core/voting.go\<close>). The decision
  maker of the name closes the ballot at its threshold, aggregates the signatures, submits the
  transaction and confirms or rejects the registration. A listener for the contract's events
  (\<open>contracts/evm/listener.go\<close>) tells the chain which signer a name has and gossips bindings, which
  every node writes into its records. A starting node copies the records of a peer that is ahead.

  \<^bold>\<open>How code is modelled.\<close> An operation of a method set is a value of type \<open>('s, 'a) go\<close> (\<open>Prelude\<close>): a
  function from the state to an outcome, which is a result or a panic, and the next state; deferred
  calls run on both. Go errors are values of \<open>goerr\<close>, compared as the code compares them; their texts
  are kept up to the values they print. A nil slice, map or pointer is \<open>None\<close>. Go maps are association
  lists with distinct keys, iterated in the order of the list; results that could depend on the order
  are stated for every list. Machine integers are words of their width and wrap. Third-party libraries
  are fields of the records \<open>crypto\<close>, \<open>env\<close>, \<open>chain_env\<close>, \<open>node_env\<close> and \<open>boot_env\<close>: pure functions, or
  transformers of an abstract world that other nodes, time and failures may change at will. A theorem
  that needs a library's documented behaviour has it as a named hypothesis, such as \<open>quiet\<close> (a network, a
  database and a clock without failures and without other writers), \<open>recovers\<close> and \<open>signs_65\<close> (ECDSA
  recovery), or \<open>clean_keys\<close> and \<open>path_Clean\<close> (database keys); every other theorem holds in every environment.

  \<^bold>\<open>Theories.\<close>
  \<^item> The Go platform. \<open>Prelude\<close>: outcomes, state, frames and the interface \<open>go_map\<close> of maps. \<open>GoStd\<close>: hex,
    base64, big-endian words, number and string functions. \<open>GoJson\<close>, \<open>GoCodec\<close>, \<open>JsonRoundtrip\<close>: \<open>encoding/json\<close>
    on bytes, the mapping of Go values, the interface \<open>codec\<close>, and reading back what was written. \<open>GoTime\<close>,
    \<open>GoTimeFacts\<close>: RFC 3339 and the civil calendar. \<open>Sha256\<close>: the hash the decision maker is chosen with.
    \<open>Env\<close>: the libraries and the state of a store.
  \<^item> Names and records. \<open>Naming\<close> (\<open>core/resolver.go\<close>), \<open>RecordModel\<close> (\<open>core/record.go\<close>, \<open>core/bindings.go\<close>),
    \<open>RecordFacts\<close>; \<open>RecordProps\<close> shows the round trip of a record's text, that signing verifies, what
    \<open>NewRecord\<close> guarantees and the recursion of the name hash; \<open>RecordTypes\<close> the type of decoded data;
    \<open>Expiry\<close> when a record expires.
  \<^item> The store. \<open>Locks\<close> and \<open>Store\<close> (\<open>core/store.go\<close>), \<open>SyncTime\<close> and \<open>DatastoreKeys\<close> (the time of the last
    synchronisation and the cleaning of database keys). \<open>QuietNet\<close> has the rules of total correctness,
    \<open>Frames\<close> what each operation may write in any environment. \<open>StoreFacts\<close> states an abstract registry and
    \<open>StoreProps\<close> that submission, confirmation and rejection refine it, the invariant of all reachable
    states and a registration from start to end; \<open>StoreEdges\<close> lookups, listing and synchronisation;
    \<open>LockFacts\<close> the lock as a service (\<open>lock_service\<close>) and the bound of the index lock; \<open>LockRace\<close> several
    nodes whose reads and writes of one lock interleave.
  \<^item> Voting. \<open>Voting\<close> (\<open>core/voting.go\<close>, and the store's operations that vote), \<open>VotingFacts\<close>, \<open>VotingProps\<close>:
    what a vote changes, what a decision does, who writes, who decides, and what a consensus proves.
  \<^item> The chain. \<open>EvmSubmit\<close> and \<open>EvmValidate\<close> (\<open>contracts/evm/utils.go\<close>), \<open>EvmProps\<close>: what an accepted
    transaction satisfies, the time window, the signature of a binding, the bound of a submission.
    \<open>Listener\<close> (\<open>contracts/evm/listener.go\<close>), \<open>ListenerProps\<close>: where it resumes, what an event costs, and how
    a binding travels to another node.
  \<^item> The node. \<open>NodeEnv\<close>, \<open>Gossip\<close>, \<open>NodeOps\<close> (\<open>core/gossip.go\<close>, \<open>core/node.go\<close>, \<open>core/sync.go\<close>,
    \<open>utils/interfaces.go\<close>), \<open>NodeProps\<close>. \<open>Boot\<close> (\<open>main.go\<close>, \<open>core/node.go\<close>) and \<open>BootProps\<close>: the key and the
    construction of a node, the connections it makes and where it resumes.
  \<^item> The interfaces to users. \<open>Rpc\<close> (\<open>rpc/\<close>) and \<open>RpcProps\<close>: what a registration guarantees and which requests
    write. \<open>Cli\<close> (\<open>cmd/\<close>, \<open>utils/helper.go\<close>) and \<open>CliProps\<close>: what the tool prints is what a node accepts;
    \<open>EndToEnd\<close>: sent to a node as a request, it registers the name.

  \<^bold>\<open>Interfaces.\<close> \<open>frame\<close> (a relation every step keeps) is interpreted by \<open>does\<close> and \<open>keeps_version\<close>; \<open>go_map\<close> by
  the association lists; \<open>codec\<close> by records, pending records, the index, ballots, big-endian words and the
  listener's block number; \<open>lock_service\<close> by the lock of a domain and by the lock of the index.

  \<^bold>\<open>Bounds and fuel.\<close> The index lock tries five times, the wait for a receipt and the wait for a record of
  an event four times, as in the code; these loops are recursions on the number of attempts left, and
  the theorems bound the whole run. The JSON parser spends one unit of fuel per call and starts with
  more than the text has tokens; \<open>parse_fuel_enough\<close> shows that it never runs out. Every other
  loop is a structural recursion over the data it walks. Loops that serve forever (gossip, the update
  loop, the listener) recurse over the list of messages they receive. Times of four-digit years
  have an RFC 3339 text.

  \<^bold>\<open>Not modelled.\<close> Log output and printed decoration; the in-process mutexes (an operation runs without
  another one of the same process in between; nodes do interleave, in \<open>LockRace\<close>); the scheduling of
  goroutines, which are separate operations; the nesting limit of JSON texts; case folding and
  trimming beyond ASCII; the request id of an error reply; the setter of the voting interval,
  which the running ticker never reads; the closing of the listener's client, which ends its loop; the loading of the contract's ABI file, whose packing and
  unpacking are parameters; flag parsing, signals and the profiling server of \<open>main.go\<close>; the
  bloom filters and the snapshot types of \<open>core/sync.go\<close>, which no code uses; and the Solidity contracts.
\<close>

end
